(* ===== verification/Prelude.thy ===== *)
theory Prelude
  imports Main "HOL-Library.State_Monad" "HOL-Library.Word"
begin

unbundle bit_operations_syntax

text \<open>
  The vocabulary the development shares: sequential effects as programs of the library's state
  monad, the composition rules for the relation such a program establishes between its first and
  its last state, and the collections of rewrite rules the component theories extend.

  A function of the code that reads or changes anything outside its arguments is a value of type
  \<open>('w, 'a) state\<close>: it takes the world \<open>'w\<close> and returns its result with the next world. The world
  is a type variable throughout, because most of it (the two databases, the memory service, the
  clock) lives in code that is not part of this repository.
\<close>

section \<open>Collections\<close>

named_theorems run_simps \<open>evaluation of one step of a program\<close>
named_theorems buffer_simps \<open>sizes and contents of bounded character buffers\<close>

section \<open>Running a program\<close>

abbreviation ret :: "'a \<Rightarrow> ('s, 'a) state" where
  "ret \<equiv> State_Monad.return"

definition final :: "('s, 'a) state \<Rightarrow> 's \<Rightarrow> 's" where
  "final m s = snd (run_state m s)"

definition outcome :: "('s, 'a) state \<Rightarrow> 's \<Rightarrow> 'a" where
  "outcome m s = fst (run_state m s)"

text \<open>Reading and updating the world as a whole.\<close>

definition gets :: "('s \<Rightarrow> 'a) \<Rightarrow> ('s, 'a) state" where
  "gets f = State (\<lambda>s. (f s, s))"

definition modify :: "('s \<Rightarrow> 's) \<Rightarrow> ('s, unit) state" where
  "modify f = State (\<lambda>s. ((), f s))"

text \<open>A program over one part of a larger state.\<close>

definition zoom :: "('t \<Rightarrow> 's) \<Rightarrow> ('s \<Rightarrow> 't \<Rightarrow> 't) \<Rightarrow> ('s, 'a) state \<Rightarrow> ('t, 'a) state" where
  "zoom rd wr m = State (\<lambda>t. (outcome m (rd t), wr (final m (rd t)) t))"

lemma run_gets [simp, run_simps]: "run_state (gets f) s = (f s, s)"
  by (simp add: gets_def)

lemma run_modify [simp, run_simps]: "run_state (modify f) s = ((), f s)"
  by (simp add: modify_def)

lemma run_zoom [run_simps]:
  "run_state (zoom rd wr m) t = (outcome m (rd t), wr (final m (rd t)) t)"
  by (simp add: zoom_def)

lemma run_state_split: "run_state m s = (outcome m s, final m s)"
  by (simp add: outcome_def final_def)

lemma run_bind [run_simps]:
  "run_state (m \<bind> f) s = run_state (f (outcome m s)) (final m s)"
  by (simp add: outcome_def final_def split: prod.splits)

lemma final_bind [run_simps]:
  "final (m \<bind> f) s = final (f (outcome m s)) (final m s)"
  by (simp add: outcome_def final_def split: prod.splits)

lemma outcome_bind [run_simps]:
  "outcome (m \<bind> f) s = outcome (f (outcome m s)) (final m s)"
  by (simp add: outcome_def final_def split: prod.splits)

lemma final_ret [simp, run_simps]: "final (ret x) s = s"
  by (simp add: final_def)

lemma outcome_ret [simp, run_simps]: "outcome (ret x) s = x"
  by (simp add: outcome_def)

lemma final_gets [simp, run_simps]: "final (gets f) s = s"
  by (simp add: final_def)

lemma outcome_gets [simp, run_simps]: "outcome (gets f) s = f s"
  by (simp add: outcome_def)

lemma final_modify [simp, run_simps]: "final (modify f) s = f s"
  by (simp add: final_def)

lemma final_zoom [run_simps]: "final (zoom rd wr m) t = wr (final m (rd t)) t"
  by (simp add: final_def zoom_def)

lemma outcome_zoom [run_simps]: "outcome (zoom rd wr m) t = outcome m (rd t)"
  by (simp add: outcome_def zoom_def)

section \<open>What a program does to the world\<close>

text \<open>
  The library's \<open>state_io_rel R m\<close> says that \<open>m\<close> relates every first state to its last state by
  \<open>R\<close>. For a reflexive and transitive \<open>R\<close> that is a compositional property: the locale collects
  the rules, and a component interprets it for each relation it is interested in (the world is
  untouched, settled rows stay as they are, the audit log only grows, and so on).
\<close>

locale effects =
  fixes R :: "'s \<Rightarrow> 's \<Rightarrow> bool"
  assumes eff_refl: "R s s"
    and eff_trans: "R s t \<Longrightarrow> R t u \<Longrightarrow> R s u"
begin

lemma eff_ret: "state_io_rel R (ret x)"
  by (simp add: state_io_rel_def eff_refl)

lemma eff_gets: "state_io_rel R (gets f)"
  by (simp add: state_io_rel_def eff_refl)

lemma eff_bind:
  assumes "state_io_rel R m" and "\<And>x. state_io_rel R (f x)"
  shows "state_io_rel R (m \<bind> f)"
  unfolding state_io_rel_def
proof
  fix s
  have "R s (final m s)" and "R (final m s) (final (f (outcome m s)) (final m s))"
    using assms by (auto simp: state_io_rel_def final_def)
  then show "R s (snd (run_state (m \<bind> f) s))"
    by (metis eff_trans final_bind final_def)
qed

lemma eff_if:
  "state_io_rel R m \<Longrightarrow> state_io_rel R n \<Longrightarrow> state_io_rel R (if b then m else n)"
  by simp

lemma eff_if_cond:
  "(b \<Longrightarrow> state_io_rel R m) \<Longrightarrow> (\<not> b \<Longrightarrow> state_io_rel R n) \<Longrightarrow>
   state_io_rel R (if b then m else n)"
  by simp

lemma eff_option:
  "state_io_rel R m \<Longrightarrow> (\<And>x. state_io_rel R (f x)) \<Longrightarrow>
   state_io_rel R (case z of None \<Rightarrow> m | Some x \<Rightarrow> f x)"
  by (cases z) simp_all

lemma eff_prod:
  "(\<And>x y. state_io_rel R (f x y)) \<Longrightarrow> state_io_rel R (case z of (x, y) \<Rightarrow> f x y)"
  by (cases z) simp

lemma eff_let: "(\<And>x. state_io_rel R (f x)) \<Longrightarrow> state_io_rel R (let x = z in f x)"
  by simp

lemmas eff_rules = eff_ret eff_gets eff_bind eff_if eff_option eff_prod eff_let

lemma eff_after: "state_io_rel R m \<Longrightarrow> R s t \<Longrightarrow> R s (final m t)"
  by (auto simp: state_io_rel_def final_def intro: eff_trans)

lemma eff_final: "state_io_rel R m \<Longrightarrow> R s (final m s)"
  by (auto simp: state_io_rel_def final_def)

end

lemma state_io_rel_final: "state_io_rel R m \<longleftrightarrow> (\<forall>s. R s (final m s))"
  by (simp add: state_io_rel_def final_def)

text \<open>\<open>reads\<close>: a call that leaves what \<open>view\<close> shows of the world as it is.\<close>

definition reads :: "('w \<Rightarrow> 's) \<Rightarrow> ('w, 'a) state \<Rightarrow> bool" where
  "reads view m \<longleftrightarrow> (\<forall>w. view (final m w) = view w)"

lemma readsD: "reads view m \<Longrightarrow> view (final m w) = view w"
  by (simp add: reads_def)

section \<open>Hoare triples\<close>

text \<open>
  Where a step is only right in some worlds (a row that is pending, a counter below its limit)
  the relation is established from a precondition.
\<close>

definition triple :: "('s \<Rightarrow> bool) \<Rightarrow> ('s, 'a) state \<Rightarrow> ('a \<Rightarrow> 's \<Rightarrow> bool) \<Rightarrow> bool" where
  "triple P m Q \<longleftrightarrow> (\<forall>s. P s \<longrightarrow> Q (outcome m s) (final m s))"

lemma tripleI: "(\<And>s. P s \<Longrightarrow> Q (outcome m s) (final m s)) \<Longrightarrow> triple P m Q"
  by (simp add: triple_def)

lemma tripleD: "triple P m Q \<Longrightarrow> P s \<Longrightarrow> Q (outcome m s) (final m s)"
  by (simp add: triple_def)

lemma triple_ret: "(\<And>s. P s \<Longrightarrow> Q x s) \<Longrightarrow> triple P (ret x) Q"
  by (simp add: triple_def)

lemma triple_gets: "(\<And>s. P s \<Longrightarrow> Q (f s) s) \<Longrightarrow> triple P (gets f) Q"
  by (simp add: triple_def)

lemma triple_bind:
  "triple P m M \<Longrightarrow> (\<And>x. triple (M x) (f x) Q) \<Longrightarrow> triple P (m \<bind> f) Q"
  by (simp add: triple_def outcome_bind final_bind)

lemma triple_if:
  "(b \<Longrightarrow> triple P m Q) \<Longrightarrow> (\<not> b \<Longrightarrow> triple P n Q) \<Longrightarrow> triple P (if b then m else n) Q"
  by simp

lemma triple_pre: "triple P' m Q \<Longrightarrow> (\<And>s. P s \<Longrightarrow> P' s) \<Longrightarrow> triple P m Q"
  by (simp add: triple_def)

lemma triple_post:
  "triple P m Q' \<Longrightarrow> (\<And>x s. Q' x s \<Longrightarrow> Q x s) \<Longrightarrow> triple P m Q"
  by (simp add: triple_def)

section \<open>Lists\<close>

lemma take_update_append:
  "n < length xs \<Longrightarrow> take (Suc n) (xs[n := x]) = take n xs @ [x]"
  by (simp add: take_Suc_conv_app_nth)

lemma takeWhile_all: "\<forall>x \<in> set xs. P x \<Longrightarrow> takeWhile P xs = xs"
  by (induction xs) auto

end
