(* ===== verification/C_Runtime.thy ===== *)
theory C_Runtime
  imports Complex_Main Prelude
begin

text \<open>
  The part of C and its library that the sources use: NUL-terminated strings and the fixed-size
  \<open>char\<close> arrays they are copied into, the integer conversions of \<open>printf\<close>, the widths of the
  integer types, and \<open>double\<close>.

  A C string is the list of its characters up to the terminator, so it has no NUL in it, and a
  pointer that may be NULL is an option. A \<open>char buf[cap]\<close> that holds a string is that string: its
  length is below \<open>cap\<close>.
\<close>

section \<open>Strings and buffers\<close>

abbreviation NUL :: char where
  "NUL \<equiv> CHR 0x00"

text \<open>What a reader of a \<open>char\<close> array sees: the characters before the first NUL.\<close>

definition c_str :: "char list \<Rightarrow> string" where
  "c_str cs = takeWhile (\<lambda>c. c \<noteq> NUL) cs"

text \<open>A string that fits a buffer of \<open>cap\<close> bytes with its terminator.\<close>

definition fits :: "nat \<Rightarrow> string \<Rightarrow> bool" where
  "fits cap s \<longleftrightarrow> length s < cap \<and> NUL \<notin> set s"

text \<open>\<open>snprintf(buf, cap, "%s", s)\<close>, and any other format that produced the text \<open>s\<close>: at most
  \<open>cap - 1\<close> characters and a terminator.\<close>

definition snprintf :: "nat \<Rightarrow> string \<Rightarrow> string" where
  "snprintf cap s = take (cap - 1) s"

lemma c_str_no_nul [simp]: "NUL \<notin> set (c_str cs)"
  unfolding c_str_def by (induction cs) auto

lemma c_str_id [simp]: "NUL \<notin> set s \<Longrightarrow> c_str s = s"
  by (simp add: c_str_def takeWhile_eq_all_conv) blast

lemma snprintf_length [buffer_simps]: "length (snprintf cap s) = min (length s) (cap - 1)"
  by (simp add: snprintf_def)

lemma snprintf_id [buffer_simps]: "length s < cap \<Longrightarrow> snprintf cap s = s"
  by (simp add: snprintf_def)

lemma snprintf_below: "0 < cap \<Longrightarrow> length (snprintf cap s) < cap"
  by (auto simp: snprintf_def)

lemma snprintf_fits: "0 < cap \<Longrightarrow> NUL \<notin> set s \<Longrightarrow> fits cap (snprintf cap s)"
  by (auto simp: snprintf_def fits_def dest: in_set_takeD)

lemma snprintf_Nil [simp]: "snprintf cap [] = []"
  by (simp add: snprintf_def)

lemma snprintf_eq_Nil: "2 \<le> cap \<Longrightarrow> snprintf cap s = [] \<longleftrightarrow> s = []"
  by (auto simp: snprintf_def)

lemma snprintf_prefix: "\<exists>t. s = snprintf cap s @ t"
  by (metis append_take_drop_id snprintf_def)

text \<open>A string pointer printed with a default for NULL.\<close>

definition or_str :: "string option \<Rightarrow> string \<Rightarrow> string" where
  "or_str s d = (case s of None \<Rightarrow> d | Some t \<Rightarrow> t)"

lemma or_str_simps [simp]: "or_str None d = d" "or_str (Some t) d = t"
  by (simp_all add: or_str_def)

section \<open>Number formatting\<close>

text \<open>\<open>%d\<close> and \<open>%lld\<close>: decimal digits with a leading minus for negative values.\<close>

definition dec_digit :: "nat \<Rightarrow> char" where
  "dec_digit d = ''0123456789'' ! d"

fun dec_nat :: "nat \<Rightarrow> string" where
  "dec_nat n = (if n < 10 then [dec_digit n] else dec_nat (n div 10) @ [dec_digit (n mod 10)])"

declare dec_nat.simps [simp del]

definition dec_int :: "int \<Rightarrow> string" where
  "dec_int i = (if i < 0 then CHR ''-'' # dec_nat (nat (- i)) else dec_nat (nat i))"

text \<open>One hexadecimal digit, and \<open>%0nx\<close>: \<open>n\<close> digits, most significant first (the values the
  sources print never need more).\<close>

definition hex_digit :: "nat \<Rightarrow> char" where
  "hex_digit d = ''0123456789abcdef'' ! d"

definition hex_fixed :: "nat \<Rightarrow> nat \<Rightarrow> string" where
  "hex_fixed n v = map (\<lambda>i. hex_digit (v div 16 ^ (n - 1 - i) mod 16)) [0..<n]"

lemma hex_fixed_length [simp]: "length (hex_fixed n v) = n"
  by (simp add: hex_fixed_def)

lemma hex_digit_range: "d < 16 \<Longrightarrow> hex_digit d \<in> set ''0123456789abcdef''"
  unfolding hex_digit_def by (rule nth_mem) simp

lemma dec_digit_range: "d < 10 \<Longrightarrow> dec_digit d \<in> set ''0123456789''"
  unfolding dec_digit_def by (rule nth_mem) simp

lemma hex_fixed_digits: "set (hex_fixed n v) \<subseteq> set ''0123456789abcdef''"
proof -
  have "hex_digit (w mod 16) \<in> set ''0123456789abcdef''" for w
    by (rule hex_digit_range) simp
  then show ?thesis
    unfolding hex_fixed_def set_map by (intro image_subsetI)
qed

lemma dec_nat_digits: "set (dec_nat n) \<subseteq> set ''0123456789''"
proof (induction n rule: dec_nat.induct)
  case (1 n)
  show ?case
  proof (cases "n < 10")
    case True
    then show ?thesis
      using dec_digit_range [of n] by (subst dec_nat.simps) simp
  next
    case False
    then show ?thesis
      using 1 dec_digit_range [of "n mod 10"] by (subst dec_nat.simps) simp
  qed
qed

lemma dec_nat_length: "n < 10 ^ k \<Longrightarrow> 0 < k \<Longrightarrow> length (dec_nat n) \<le> k"
proof (induction k arbitrary: n)
  case 0
  then show ?case by simp
next
  case (Suc k)
  show ?case
  proof (cases "n < 10")
    case True
    then show ?thesis by (subst dec_nat.simps) simp
  next
    case False
    then have "0 < k" using Suc.prems(1) by (cases k) auto
    moreover have "n div 10 < 10 ^ k"
      using Suc.prems(1) by (simp add: div_less_iff_less_mult mult.commute)
    ultimately have "length (dec_nat (n div 10)) \<le> k"
      by (rule Suc.IH [rotated])
    with False show ?thesis by (subst dec_nat.simps) simp
  qed
qed

section \<open>Integer widths\<close>

text \<open>\<open>int\<close> is 32 and \<open>int64_t\<close> 64 bits wide; both are modelled by \<open>int\<close> with their range, and a
  conversion that can leave the range goes through the platform below.\<close>

definition in_i32 :: "int \<Rightarrow> bool" where
  "in_i32 i \<longleftrightarrow> - (2 ^ 31) \<le> i \<and> i < 2 ^ 31"

definition in_i64 :: "int \<Rightarrow> bool" where
  "in_i64 i \<longleftrightarrow> - (2 ^ 63) \<le> i \<and> i < 2 ^ 63"

section \<open>Doubles\<close>

text \<open>
  A \<open>double\<close> is a real number, an infinity or a NaN; the sign of zero is not represented (no code
  here divides by a zero or prints one). Every arithmetic operation computes the exact result and
  rounds it with the platform's rounding, which is a parameter: IEEE 754 binary64 with the current
  rounding mode, or the identity to speak of exact arithmetic. Converting a value that an integer
  type cannot hold is undefined in C, so its result is the platform's too.
\<close>

datatype dbl = NaN | PInf | NInf | Fin real

record platform =
  round_dbl :: "real \<Rightarrow> dbl"
  i32_of_wild :: "dbl \<Rightarrow> int"
  i64_of_wild :: "dbl \<Rightarrow> int"

fun fadd :: "platform \<Rightarrow> dbl \<Rightarrow> dbl \<Rightarrow> dbl" where
  "fadd P (Fin a) (Fin b) = round_dbl P (a + b)"
| "fadd P NaN y = NaN"
| "fadd P x NaN = NaN"
| "fadd P PInf NInf = NaN"
| "fadd P NInf PInf = NaN"
| "fadd P PInf y = PInf"
| "fadd P NInf y = NInf"
| "fadd P x PInf = PInf"
| "fadd P x NInf = NInf"

fun fneg :: "dbl \<Rightarrow> dbl" where
  "fneg (Fin a) = Fin (- a)"
| "fneg NaN = NaN"
| "fneg PInf = NInf"
| "fneg NInf = PInf"

definition fsub :: "platform \<Rightarrow> dbl \<Rightarrow> dbl \<Rightarrow> dbl" where
  "fsub P x y = fadd P x (fneg y)"

text \<open>An infinity carrying the sign of a non-zero factor.\<close>

definition inf_times :: "real \<Rightarrow> dbl \<Rightarrow> dbl" where
  "inf_times a i = (if a = 0 then NaN else if a > 0 then i else fneg i)"

fun fmul :: "platform \<Rightarrow> dbl \<Rightarrow> dbl \<Rightarrow> dbl" where
  "fmul P (Fin a) (Fin b) = round_dbl P (a * b)"
| "fmul P NaN y = NaN"
| "fmul P x NaN = NaN"
| "fmul P (Fin a) y = inf_times a y"
| "fmul P x (Fin b) = inf_times b x"
| "fmul P x y = (if x = y then PInf else NInf)"

fun fdiv :: "platform \<Rightarrow> dbl \<Rightarrow> dbl \<Rightarrow> dbl" where
  "fdiv P (Fin a) (Fin b) =
     (if b = 0 then (if a = 0 then NaN else if a > 0 then PInf else NInf) else round_dbl P (a / b))"
| "fdiv P NaN y = NaN"
| "fdiv P x NaN = NaN"
| "fdiv P (Fin a) y = Fin 0"
| "fdiv P x (Fin b) = (if b < 0 then fneg x else x)"
| "fdiv P x y = NaN"

fun fsqrt :: "platform \<Rightarrow> dbl \<Rightarrow> dbl" where
  "fsqrt P (Fin a) = (if a < 0 then NaN else round_dbl P (sqrt a))"
| "fsqrt P NaN = NaN"
| "fsqrt P PInf = PInf"
| "fsqrt P NInf = NaN"

text \<open>Comparison: false as soon as one side is a NaN.\<close>

fun flt :: "dbl \<Rightarrow> dbl \<Rightarrow> bool" where
  "flt (Fin a) (Fin b) = (a < b)"
| "flt NaN y = False"
| "flt x NaN = False"
| "flt NInf y = (y \<noteq> NInf)"
| "flt x PInf = (x \<noteq> PInf)"
| "flt x y = False"

definition dbl_of_int :: "platform \<Rightarrow> int \<Rightarrow> dbl" where
  "dbl_of_int P i = round_dbl P (of_int i)"

text \<open>Conversion to an integer type truncates towards zero.\<close>

definition trunc_real :: "real \<Rightarrow> int" where
  "trunc_real x = (if x < 0 then \<lceil>x\<rceil> else \<lfloor>x\<rfloor>)"

fun i32_of_dbl :: "platform \<Rightarrow> dbl \<Rightarrow> int" where
  "i32_of_dbl P (Fin x) = (if in_i32 (trunc_real x) then trunc_real x else i32_of_wild P (Fin x))"
| "i32_of_dbl P d = i32_of_wild P d"

fun i64_of_dbl :: "platform \<Rightarrow> dbl \<Rightarrow> int" where
  "i64_of_dbl P (Fin x) = (if in_i64 (trunc_real x) then trunc_real x else i64_of_wild P (Fin x))"
| "i64_of_dbl P d = i64_of_wild P d"

lemma trunc_real_of_int [simp]: "trunc_real (of_int i) = i"
  by (simp add: trunc_real_def)

text \<open>
  Documented facts of binary64 that some properties need: every integer of at most 53 bits is
  represented exactly, rounding is monotone on what stays finite, and zero is exact.
\<close>

definition exact_ints :: "platform \<Rightarrow> bool" where
  "exact_ints P \<longleftrightarrow> (\<forall>i. \<bar>i\<bar> \<le> 2 ^ 53 \<longrightarrow> round_dbl P (of_int i) = Fin (of_int i))"

text \<open>Exact arithmetic, for the statements that are about the formula and not its rounding.\<close>

definition exact_platform :: platform where
  "exact_platform = \<lparr>round_dbl = Fin, i32_of_wild = (\<lambda>_. - (2 ^ 31)), i64_of_wild = (\<lambda>_. - (2 ^ 63))\<rparr>"

lemma exact_platform_round [simp]: "round_dbl exact_platform x = Fin x"
  by (simp add: exact_platform_def)

lemma exact_platform_ints [simp]: "exact_ints exact_platform"
  by (simp add: exact_ints_def)

lemma i32_of_dbl_of_int:
  assumes "exact_ints P" and "in_i32 i"
  shows "i32_of_dbl P (dbl_of_int P i) = i"
proof -
  have "round_dbl P (of_int i) = Fin (of_int i)"
    using assms by (auto simp: exact_ints_def in_i32_def)
  then show ?thesis
    using assms(2) by (simp add: dbl_of_int_def)
qed

lemma i64_of_dbl_of_int:
  assumes "exact_ints P" and "\<bar>i\<bar> \<le> 2 ^ 53"
  shows "i64_of_dbl P (dbl_of_int P i) = i"
proof -
  have "round_dbl P (of_int i) = Fin (of_int i)" and "in_i64 i"
    using assms by (auto simp: exact_ints_def in_i64_def)
  then show ?thesis
    by (simp add: dbl_of_int_def)
qed

lemma flt_irrefl [simp]: "\<not> flt x x"
  by (cases x) auto

lemma flt_NaN [simp]: "\<not> flt x NaN" "\<not> flt NaN x"
  by (cases x; simp)+

lemma flt_trans: "flt x y \<Longrightarrow> flt y z \<Longrightarrow> flt x z"
  by (cases x; cases y; cases z) auto

lemma flt_asym: "flt x y \<Longrightarrow> \<not> flt y x"
  using flt_trans [of x y x] by auto

lemma flt_total: "x \<noteq> NaN \<Longrightarrow> y \<noteq> NaN \<Longrightarrow> flt x y \<or> x = y \<or> flt y x"
  by (cases x; cases y) auto

end
