(* ===== verification/Wire_Protocol.thy ===== *)
theory Wire_Protocol
  imports C_Runtime
begin

text \<open>
  The wire contract of the observation stage, \<open>include/aimee/learning/module_api.h\<close>: a request of
  40 bytes that carries one signal name and a response of 8 bytes that carries its sink mask.

  A byte buffer is the list of its bytes and its length is the C \<open>len\<close> or \<open>cap\<close> argument; a pointer
  that may be NULL is an option, and so is the result of a codec, with \<open>None\<close> for the return value
  \<open>-1\<close>.
\<close>

type_synonym byte = "8 word"
type_synonym u32 = "32 word"
type_synonym u64 = "64 word"

section \<open>Constants\<close>

definition AIMEE_LEARNING_STAGE_OBSERVE :: u32 where "AIMEE_LEARNING_STAGE_OBSERVE = 1"
definition AIMEE_LEARNING_REQUEST_MAGIC :: u32 where "AIMEE_LEARNING_REQUEST_MAGIC = 0x53424f4c"
definition AIMEE_LEARNING_RESPONSE_MAGIC :: u32 where "AIMEE_LEARNING_RESPONSE_MAGIC = 0x4b53414c"
definition AIMEE_LEARNING_WIRE_VERSION :: byte where "AIMEE_LEARNING_WIRE_VERSION = 1"
definition AIMEE_LEARNING_SIGNAL_MAX :: nat where "AIMEE_LEARNING_SIGNAL_MAX = 31"
definition AIMEE_LEARNING_REQUEST_LEN :: nat where "AIMEE_LEARNING_REQUEST_LEN = 40"
definition AIMEE_LEARNING_RESPONSE_LEN :: nat where "AIMEE_LEARNING_RESPONSE_LEN = 8"

definition AIMEE_LEARNING_SINK_RERANKER :: u32 where "AIMEE_LEARNING_SINK_RERANKER = 1"
definition AIMEE_LEARNING_SINK_SUPERSEDE :: u32 where "AIMEE_LEARNING_SINK_SUPERSEDE = 2"
definition AIMEE_LEARNING_SINK_RULE :: u32 where "AIMEE_LEARNING_SINK_RULE = 4"
definition AIMEE_LEARNING_SINK_WORKFLOW :: u32 where "AIMEE_LEARNING_SINK_WORKFLOW = 8"

lemmas wire_consts =
  AIMEE_LEARNING_STAGE_OBSERVE_def AIMEE_LEARNING_REQUEST_MAGIC_def
  AIMEE_LEARNING_RESPONSE_MAGIC_def AIMEE_LEARNING_WIRE_VERSION_def
  AIMEE_LEARNING_SIGNAL_MAX_def AIMEE_LEARNING_REQUEST_LEN_def AIMEE_LEARNING_RESPONSE_LEN_def

lemmas sink_consts =
  AIMEE_LEARNING_SINK_RERANKER_def AIMEE_LEARNING_SINK_SUPERSEDE_def
  AIMEE_LEARNING_SINK_RULE_def AIMEE_LEARNING_SINK_WORKFLOW_def

section \<open>Little-endian words\<close>

text \<open>\<open>put_u32(p + off, v)\<close> and \<open>get_u32(p + off)\<close>, loop by loop.\<close>

definition aimee_learning_put_u32 :: "byte list \<Rightarrow> nat \<Rightarrow> u32 \<Rightarrow> byte list" where
  "aimee_learning_put_u32 p off v =
     fold (\<lambda>i b. b[off + i := ucast (drop_bit (8 * i) v)]) [0..<4] p"

definition aimee_learning_get_u32 :: "byte list \<Rightarrow> nat \<Rightarrow> u32" where
  "aimee_learning_get_u32 p off =
     fold (\<lambda>i v. v OR push_bit (8 * i) (ucast (p ! (off + i)))) [0..<4] 0"

lemma upt_four: "[0..<4] = [0, 1, 2, 3 :: nat]"
  by (simp add: upt_rec)

lemma put_u32_unfold:
  "aimee_learning_put_u32 p off v =
     p[off := ucast v, off + 1 := ucast (drop_bit 8 v), off + 2 := ucast (drop_bit 16 v),
       off + 3 := ucast (drop_bit 24 v)]"
  by (simp add: aimee_learning_put_u32_def upt_four)

lemma get_u32_unfold:
  "aimee_learning_get_u32 p off =
     ucast (p ! off) OR push_bit 8 (ucast (p ! (off + 1))) OR push_bit 16 (ucast (p ! (off + 2)))
       OR push_bit 24 (ucast (p ! (off + 3)))"
  by (simp add: aimee_learning_get_u32_def upt_four or.assoc)

lemma put_u32_length [simp]: "length (aimee_learning_put_u32 p off v) = length p"
  by (simp add: put_u32_unfold)

lemma put_u32_elsewhere:
  "i < off \<or> off + 4 \<le> i \<Longrightarrow> aimee_learning_put_u32 p off v ! i = p ! i"
  by (auto simp: put_u32_unfold nth_list_update)

lemma u32_from_bytes:
  "ucast (ucast v :: byte) OR push_bit 8 (ucast (ucast (drop_bit 8 v) :: byte))
     OR push_bit 16 (ucast (ucast (drop_bit 16 v) :: byte))
     OR push_bit 24 (ucast (ucast (drop_bit 24 v) :: byte)) = (v :: u32)"
proof (rule bit_word_eqI)
  fix n
  assume "n < LENGTH(32)"
  then consider "n < 8" | "8 \<le> n" "n < 16" | "16 \<le> n" "n < 24" | "24 \<le> n" "n < 32"
    by fastforce
  then show "bit (ucast (ucast v :: byte) OR push_bit 8 (ucast (ucast (drop_bit 8 v) :: byte))
     OR push_bit 16 (ucast (ucast (drop_bit 16 v) :: byte))
     OR push_bit 24 (ucast (ucast (drop_bit 24 v) :: byte)) :: u32) n = bit v n"
    by cases (auto simp: bit_simps)
qed

lemma get_put_u32:
  assumes "off + 4 \<le> length p"
  shows "aimee_learning_get_u32 (aimee_learning_put_u32 p off v) off = v"
  using assms by (simp add: get_u32_unfold put_u32_unfold nth_list_update u32_from_bytes)

lemma get_u32_cong:
  "(\<And>i. off \<le> i \<Longrightarrow> i < off + 4 \<Longrightarrow> p ! i = q ! i) \<Longrightarrow>
   aimee_learning_get_u32 p off = aimee_learning_get_u32 q off"
  by (simp add: get_u32_unfold)

section \<open>Characters and bytes\<close>

definition byte_of_char :: "char \<Rightarrow> byte" where
  "byte_of_char c = word_of_nat (of_char c)"

definition char_of_byte :: "byte \<Rightarrow> char" where
  "char_of_byte b = char_of (unat b)"

lemma char_of_byte_of_char [simp]: "char_of_byte (byte_of_char c) = c"
proof -
  have "(of_char c :: nat) < 256"
    by simp
  then have "unat (byte_of_char c) = of_char c"
    by (simp add: byte_of_char_def unat_of_nat)
  then show ?thesis
    by (simp add: char_of_byte_def)
qed

lemma char_of_byte_comp [simp]: "char_of_byte \<circ> byte_of_char = id"
  by (simp add: fun_eq_iff)

lemma byte_of_char_of_byte [simp]: "byte_of_char (char_of_byte b) = b"
proof -
  have "unat b < 2 ^ LENGTH(8)"
    by (rule unsigned_less)
  then show ?thesis
    by (simp add: byte_of_char_def char_of_byte_def)
qed

section \<open>Request\<close>

text \<open>\<open>memcpy(out + off, src, n)\<close>.\<close>

definition copy_at :: "nat \<Rightarrow> 'a list \<Rightarrow> 'a list \<Rightarrow> 'a list" where
  "copy_at off src out = take off out @ src @ drop (off + length src) out"

lemma copy_at_length: "off + length src \<le> length out \<Longrightarrow> length (copy_at off src out) = length out"
  by (simp add: copy_at_def)

lemma copy_at_nth_inside:
  "off \<le> length out \<Longrightarrow> off \<le> i \<Longrightarrow> i < off + length src \<Longrightarrow> copy_at off src out ! i = src ! (i - off)"
  by (simp add: copy_at_def nth_append) linarith

lemma copy_at_nth_before: "off \<le> length out \<Longrightarrow> i < off \<Longrightarrow> copy_at off src out ! i = out ! i"
  by (simp add: copy_at_def nth_append)

lemma copy_at_take_drop:
  "off \<le> length out \<Longrightarrow> take (length src) (drop off (copy_at off src out)) = src"
  by (simp add: copy_at_def)

text \<open>\<open>memset(out, 0, n)\<close>.\<close>

definition zero_first :: "nat \<Rightarrow> byte list \<Rightarrow> byte list" where
  "zero_first n out = replicate n 0 @ drop n out"

definition aimee_learning_request_encode ::
    "string option \<Rightarrow> byte list option \<Rightarrow> byte list option" where
  "aimee_learning_request_encode signal out =
     (let len = (case signal of None \<Rightarrow> 0 | Some s \<Rightarrow> length s) in
      case out of
        None \<Rightarrow> None
      | Some buf \<Rightarrow>
          if length buf < AIMEE_LEARNING_REQUEST_LEN \<or> len = 0 \<or> AIMEE_LEARNING_SIGNAL_MAX < len
          then None
          else
            (let b0 = zero_first AIMEE_LEARNING_REQUEST_LEN buf;
                 b1 = aimee_learning_put_u32 b0 0 AIMEE_LEARNING_REQUEST_MAGIC;
                 b2 = b1[4 := AIMEE_LEARNING_WIRE_VERSION];
                 b3 = b2[6 := word_of_nat len]
             in Some (copy_at 8 (map byte_of_char (or_str signal [])) b3)))"

text \<open>
  The \<open>cap\<close> of the receiving buffer is \<open>None\<close> for a NULL buffer. The result is what the buffer holds
  before the terminator the decoder writes at \<open>signal[in[6]]\<close>; the bytes come from the wire, so a
  NUL may be among them.
\<close>

definition aimee_learning_request_decode ::
    "byte list option \<Rightarrow> nat option \<Rightarrow> char list option" where
  "aimee_learning_request_decode inp signal_cap =
     (case inp of
        None \<Rightarrow> None
      | Some b \<Rightarrow>
          if length b \<noteq> AIMEE_LEARNING_REQUEST_LEN then None
          else (case signal_cap of
            None \<Rightarrow> None
          | Some cap \<Rightarrow>
              if cap = 0 \<or> aimee_learning_get_u32 b 0 \<noteq> AIMEE_LEARNING_REQUEST_MAGIC \<or>
                 b ! 4 \<noteq> AIMEE_LEARNING_WIRE_VERSION \<or> b ! 5 \<noteq> 0 \<or> b ! 7 \<noteq> 0 \<or> b ! 6 = 0 \<or>
                 AIMEE_LEARNING_SIGNAL_MAX < unat (b ! 6) \<or> cap \<le> unat (b ! 6)
              then None
              else Some (map char_of_byte (take (unat (b ! 6)) (drop 8 b)))))"

section \<open>Response\<close>

definition sink_bits :: u32 where
  "sink_bits = AIMEE_LEARNING_SINK_RERANKER OR AIMEE_LEARNING_SINK_SUPERSEDE OR
               AIMEE_LEARNING_SINK_RULE OR AIMEE_LEARNING_SINK_WORKFLOW"

text \<open>The two writes with which a handler fills a response.\<close>

definition response_encode :: "byte list \<Rightarrow> u32 \<Rightarrow> byte list" where
  "response_encode body m =
     aimee_learning_put_u32 (aimee_learning_put_u32 body 0 AIMEE_LEARNING_RESPONSE_MAGIC) 4 m"

definition aimee_learning_response_decode :: "byte list option \<Rightarrow> u32 option" where
  "aimee_learning_response_decode inp =
     (case inp of
        None \<Rightarrow> None
      | Some b \<Rightarrow>
          if length b \<noteq> AIMEE_LEARNING_RESPONSE_LEN \<or>
             aimee_learning_get_u32 b 0 \<noteq> AIMEE_LEARNING_RESPONSE_MAGIC then None
          else (let m = aimee_learning_get_u32 b 4 in
                if m AND NOT sink_bits \<noteq> 0 then None else Some m))"

section \<open>Lemmas\<close>

lemma sink_bits_value: "sink_bits = 15"
  by (simp add: sink_bits_def sink_consts)

text \<open>The request a valid signal is encoded to, byte by byte.\<close>

lemma request_encode_Some:
  assumes "0 < length s" "length s \<le> 31" "40 \<le> length buf"
  shows "aimee_learning_request_encode (Some s) (Some buf) =
           Some (copy_at 8 (map byte_of_char s)
             ((aimee_learning_put_u32 (zero_first 40 buf) 0 0x53424f4c)
                [4 := 1, 6 := word_of_nat (length s)]))"
  using assms by (simp add: aimee_learning_request_encode_def wire_consts)

lemma request_encode_length:
  assumes "aimee_learning_request_encode (Some s) (Some buf) = Some out"
  shows "length out = length buf"
  using assms
  by (auto simp: aimee_learning_request_encode_def wire_consts copy_at_length zero_first_def Let_def
      split: if_splits)

lemma unat_word_of_small: "n \<le> 31 \<Longrightarrow> unat (word_of_nat n :: byte) = n"
  by (simp add: unat_of_nat)

text \<open>The header bytes of an encoded request, as the decoder reads them.\<close>

lemma encoded_header:
  fixes buf s
  defines "b \<equiv> copy_at 8 (map byte_of_char s)
             ((aimee_learning_put_u32 (zero_first 40 buf) 0 0x53424f4c)
                [4 := 1, 6 := word_of_nat (length s)])"
  assumes "length s \<le> 31" "length buf = 40"
  shows "length b = 40" "aimee_learning_get_u32 b 0 = 0x53424f4c" "b ! 4 = 1" "b ! 5 = 0"
    "b ! 6 = word_of_nat (length s)" "b ! 7 = 0"
    "take (length s) (drop 8 b) = map byte_of_char s"
proof -
  let ?z = "zero_first 40 buf"
  let ?p = "aimee_learning_put_u32 ?z 0 0x53424f4c"
  let ?h = "?p[4 := 1, 6 := word_of_nat (length s)]"
  have zl: "length ?z = 40"
    using assms(3) by (simp add: zero_first_def)
  have hl: "length ?h = 40"
    using zl by simp
  show "length b = 40"
    unfolding b_def using hl assms(2) by (simp add: copy_at_length)
  have bef: "b ! i = ?h ! i" if "i < 8" for i
    unfolding b_def using that hl by (simp add: copy_at_nth_before)
  have z0: "?p ! i = 0" if "4 \<le> i" "i < 40" for i
    using that by (simp add: put_u32_elsewhere zero_first_def nth_append)
  have "aimee_learning_get_u32 b 0 = aimee_learning_get_u32 ?h 0"
    by (rule get_u32_cong) (simp add: bef)
  also have "\<dots> = aimee_learning_get_u32 ?p 0"
    by (rule get_u32_cong) simp
  also have "\<dots> = 0x53424f4c"
    by (rule get_put_u32) (simp add: zl)
  finally show "aimee_learning_get_u32 b 0 = 0x53424f4c" .
  show "b ! 4 = 1" "b ! 5 = 0" "b ! 6 = word_of_nat (length s)" "b ! 7 = 0"
    using bef [of 4] bef [of 5] bef [of 6] bef [of 7] z0 [of 5] z0 [of 7] zl by simp_all
  show "take (length s) (drop 8 b) = map byte_of_char s"
    unfolding b_def using copy_at_take_drop [of 8 ?h "map byte_of_char s"] hl by simp
qed

text \<open>When exactly the decoder accepts.\<close>

lemma request_decode_Some_iff:
  "aimee_learning_request_decode (Some b) (Some cap) = Some cs \<longleftrightarrow>
     length b = 40 \<and> aimee_learning_get_u32 b 0 = 0x53424f4c \<and> b ! 4 = 1 \<and> b ! 5 = 0 \<and> b ! 7 = 0 \<and>
     0 < unat (b ! 6) \<and> unat (b ! 6) \<le> 31 \<and> unat (b ! 6) < cap \<and>
     cs = map char_of_byte (take (unat (b ! 6)) (drop 8 b))"
  by (auto simp: aimee_learning_request_decode_def wire_consts unat_gt_0)

lemma response_encode_length [simp]: "length (response_encode body m) = length body"
  by (simp add: response_encode_def)

lemma response_encode_fields:
  assumes "8 \<le> length body"
  shows "aimee_learning_get_u32 (response_encode body m) 0 = 0x4b53414c"
    "aimee_learning_get_u32 (response_encode body m) 4 = m"
proof -
  let ?p = "aimee_learning_put_u32 body 0 0x4b53414c"
  have "aimee_learning_get_u32 (aimee_learning_put_u32 ?p 4 m) 0 = aimee_learning_get_u32 ?p 0"
    by (rule get_u32_cong) (simp add: put_u32_elsewhere)
  then show "aimee_learning_get_u32 (response_encode body m) 0 = 0x4b53414c"
    using assms by (simp add: response_encode_def wire_consts get_put_u32)
  show "aimee_learning_get_u32 (response_encode body m) 4 = m"
    using assms by (simp add: response_encode_def get_put_u32)
qed

lemma response_decode_encode:
  assumes "length body = 8"
  shows "aimee_learning_response_decode (Some (response_encode body m)) =
           (if m AND NOT sink_bits = 0 then Some m else None)"
  using assms
  by (simp add: aimee_learning_response_decode_def wire_consts response_encode_fields)

end
