(* ===== verification/Learning_Types.thy ===== *)
theory Learning_Types
  imports Wire_Protocol
begin

text \<open>
  The data of \<open>include/aimee/learning/learning.h\<close> and the interfaces of the code the module calls
  but does not own: cJSON, the learning tables of DB2, the configuration, the memory service and
  the clock. Each interface is a record with one field per function, under the function's own
  name; a development over it holds for every implementation, and what a property needs to know
  about one is a named hypothesis.

  A function that may read or change its side of the world is a program over the world \<open>'w\<close>; the
  configuration getters and the clock's unit conversions only read. Diagnostic logging
  (\<open>LOG_WARN\<close>, \<open>aimee_log\<close>) has no effect the module can observe and is left out.
\<close>

section \<open>Signals, proposals and results\<close>

record signal_input =
  in_signal_type :: string
  in_source :: string
  in_polarity :: string
  in_title :: string
  in_description :: string
  in_target_key :: string
  in_target_memory_id :: int
  in_correction_text :: string
  in_workflow_project :: string
  in_workflow_signal_type :: string
  in_evidence_refs_json :: "string option"
  in_high_confidence :: bool

record proposal =
  p_id :: int
  p_signal_id :: int
  p_sink :: string
  p_state :: string
  p_target_key :: string
  p_target_memory_id :: int
  p_action_json :: string
  p_evidence_refs :: string
  p_corroboration_count :: int
  p_expires_at :: string
  p_committed_at :: string
  p_archive_reason :: string
  p_created_at :: string
  p_updated_at :: string

definition LEARNING_MAX_PROPOSAL_IDS :: nat where
  "LEARNING_MAX_PROPOSAL_IDS = 8"

text \<open>The two id arrays keep their fixed length; the counters say how much of them is in use.\<close>

record dispatch_result =
  d_signal_id :: int
  d_proposal_ids :: "int list"
  d_proposal_count :: nat
  d_committed_ids :: "int list"
  d_committed_count :: nat

text \<open>\<open>memset(x, 0, sizeof *x)\<close> for each struct.\<close>

definition zero_input :: signal_input where
  "zero_input = \<lparr>in_signal_type = [], in_source = [], in_polarity = [], in_title = [],
     in_description = [], in_target_key = [], in_target_memory_id = 0, in_correction_text = [],
     in_workflow_project = [], in_workflow_signal_type = [], in_evidence_refs_json = None,
     in_high_confidence = False\<rparr>"

definition zero_proposal :: proposal where
  "zero_proposal = \<lparr>p_id = 0, p_signal_id = 0, p_sink = [], p_state = [], p_target_key = [],
     p_target_memory_id = 0, p_action_json = [], p_evidence_refs = [], p_corroboration_count = 0,
     p_expires_at = [], p_committed_at = [], p_archive_reason = [], p_created_at = [],
     p_updated_at = []\<rparr>"

definition zero_dispatch :: dispatch_result where
  "zero_dispatch = \<lparr>d_signal_id = 0, d_proposal_ids = replicate LEARNING_MAX_PROPOSAL_IDS 0,
     d_proposal_count = 0, d_committed_ids = replicate LEARNING_MAX_PROPOSAL_IDS 0,
     d_committed_count = 0\<rparr>"

text \<open>The array bounds of the structs, as a well-formedness condition.\<close>

definition wf_input :: "signal_input \<Rightarrow> bool" where
  "wf_input i \<longleftrightarrow> fits 32 (in_signal_type i) \<and> fits 16 (in_source i) \<and> fits 16 (in_polarity i) \<and>
     fits 256 (in_title i) \<and> fits 1024 (in_description i) \<and> fits 256 (in_target_key i) \<and>
     in_i64 (in_target_memory_id i) \<and> fits 1024 (in_correction_text i) \<and>
     fits 128 (in_workflow_project i) \<and> fits 64 (in_workflow_signal_type i)"

definition wf_proposal :: "proposal \<Rightarrow> bool" where
  "wf_proposal p \<longleftrightarrow> in_i32 (p_id p) \<and> in_i32 (p_signal_id p) \<and> fits 32 (p_sink p) \<and>
     fits 16 (p_state p) \<and> fits 256 (p_target_key p) \<and> in_i64 (p_target_memory_id p) \<and>
     fits 2048 (p_action_json p) \<and> fits 1024 (p_evidence_refs p) \<and>
     in_i32 (p_corroboration_count p) \<and> fits 32 (p_expires_at p) \<and> fits 32 (p_committed_at p) \<and>
     fits 64 (p_archive_reason p) \<and> fits 32 (p_created_at p) \<and> fits 32 (p_updated_at p)"

definition wf_dispatch :: "dispatch_result \<Rightarrow> bool" where
  "wf_dispatch d \<longleftrightarrow> length (d_proposal_ids d) = LEARNING_MAX_PROPOSAL_IDS \<and>
     length (d_committed_ids d) = LEARNING_MAX_PROPOSAL_IDS \<and>
     d_proposal_count d \<le> LEARNING_MAX_PROPOSAL_IDS \<and> d_committed_count d \<le> LEARNING_MAX_PROPOSAL_IDS"

text \<open>The ids a result reports.\<close>

definition reported :: "dispatch_result \<Rightarrow> int list" where
  "reported d = take (d_proposal_count d) (d_proposal_ids d)"

definition reported_committed :: "dispatch_result \<Rightarrow> int list" where
  "reported_committed d = take (d_committed_count d) (d_committed_ids d)"

section \<open>cJSON\<close>

text \<open>
  A node of a cJSON tree is a value of type \<open>'j\<close>. \<open>NULL\<close> is \<open>None\<close>; the type tests are applied to the
  result of a lookup and are false for \<open>NULL\<close> (\<open>json_is\<close>). An \<open>Add\<dots>ToObject\<close> call returns the
  changed object; \<open>cj_add_array\<close> is \<open>AddArrayToObject\<close> followed by one \<open>AddItemToArray\<close> per item.
\<close>

record 'j cjson =
  cJSON_Parse :: "string \<Rightarrow> 'j option"
  cJSON_PrintUnformatted :: "'j \<Rightarrow> string option"
  cJSON_GetObjectItemCaseSensitive :: "'j \<Rightarrow> string \<Rightarrow> 'j option"
  cJSON_IsBool :: "'j \<Rightarrow> bool"
  cJSON_IsTrue :: "'j \<Rightarrow> bool"
  cJSON_IsNumber :: "'j \<Rightarrow> bool"
  cJSON_IsString :: "'j \<Rightarrow> bool"
  cJSON_IsArray :: "'j \<Rightarrow> bool"
  valueint :: "'j \<Rightarrow> int"
  valuedouble :: "'j \<Rightarrow> dbl"
  valuestring :: "'j \<Rightarrow> string"
  children :: "'j \<Rightarrow> 'j list"
  cJSON_CreateObject :: "'j option"
  cJSON_CreateNumber :: "dbl \<Rightarrow> 'j option"
  cJSON_AddBoolToObject :: "'j \<Rightarrow> string \<Rightarrow> bool \<Rightarrow> 'j"
  cJSON_AddNumberToObject :: "'j \<Rightarrow> string \<Rightarrow> dbl \<Rightarrow> 'j"
  cJSON_AddStringToObject :: "'j \<Rightarrow> string \<Rightarrow> string \<Rightarrow> 'j"
  cj_add_array :: "'j \<Rightarrow> string \<Rightarrow> 'j list \<Rightarrow> 'j"

definition json_is :: "('j \<Rightarrow> bool) \<Rightarrow> 'j option \<Rightarrow> bool" where
  "json_is test x = (case x of None \<Rightarrow> False | Some v \<Rightarrow> test v)"

lemma json_is_simps [simp]: "\<not> json_is t None" "json_is t (Some v) = t v"
  by (simp_all add: json_is_def)

text \<open>\<open>cJSON_IsString(v) && v->valuestring[0]\<close>.\<close>

definition json_text :: "'j cjson \<Rightarrow> 'j option \<Rightarrow> string option" where
  "json_text J x = (case x of None \<Rightarrow> None
     | Some v \<Rightarrow> if cJSON_IsString J v \<and> valuestring J v \<noteq> [] then Some (valuestring J v) else None)"

section \<open>The learning tables of DB2\<close>

text \<open>
  A read into a caller's struct takes the struct's old contents and returns its new ones, so that a
  failed read may leave it as it was. A return value the code ignores is dropped.
\<close>

record 'w db2_learning =
  db2_learning_proposals_archive_expired :: "('w, unit) state"
  db2_learning_proposal_find_pending :: "string \<Rightarrow> string \<Rightarrow> int \<Rightarrow> ('w, int) state"
  db2_learning_proposal_bump_corroboration :: "int \<Rightarrow> ('w, unit) state"
  db2_learning_proposal_insert ::
    "int \<Rightarrow> string \<Rightarrow> string \<Rightarrow> int \<Rightarrow> string \<Rightarrow> string option \<Rightarrow> string \<Rightarrow> ('w, int) state"
  db2_learning_proposal_get :: "int \<Rightarrow> proposal \<Rightarrow> ('w, int \<times> proposal) state"
  db2_learning_proposal_list ::
    "string option \<Rightarrow> string option \<Rightarrow> int \<Rightarrow> proposal list \<Rightarrow> int \<Rightarrow> ('w, int \<times> proposal list) state"
  db2_learning_proposal_archive :: "int \<Rightarrow> string \<Rightarrow> ('w, unit) state"
  db2_learning_proposal_mark_committed :: "int \<Rightarrow> ('w, unit) state"
  db2_learning_commits_in_last_7_days :: "string \<Rightarrow> ('w, int) state"
  db2_learning_signal_insert :: "signal_input \<Rightarrow> string \<Rightarrow> ('w, int) state"
  db2_learning_proposals_settled_counts :: "int \<Rightarrow> ('w, int \<times> int \<times> int) state"

section \<open>Configuration\<close>

record 'w config =
  config_present :: "'w \<Rightarrow> bool"
  config_learning_router_enabled :: "'w \<Rightarrow> bool"
  config_learning_proposal_ttl_days :: "'w \<Rightarrow> int"
  config_learning_max_commits_per_week :: "'w \<Rightarrow> int"
  config_integrity_enabled :: "'w \<Rightarrow> bool"
  config_integrity_dry_run :: "'w \<Rightarrow> bool"
  config_learning_implicit_citation_repair :: "'w \<Rightarrow> bool"
  config_learning_implicit_citation_continuation :: "'w \<Rightarrow> bool"
  config_learning_implicit_repeat_question :: "'w \<Rightarrow> bool"
  config_learning_implicit_repeated_correction :: "'w \<Rightarrow> bool"
  config_learning_implicit_workflow_repetition :: "'w \<Rightarrow> bool"

section \<open>The other services\<close>

datatype integrity_source = INTEGRITY_SOURCE_TOOL | INTEGRITY_SOURCE_USER_STATED

text \<open>The verdicts the router distinguishes; any further one is \<open>VERDICT_OTHER\<close>.\<close>

datatype integrity_verdict = VERDICT_ACCEPT | VERDICT_REJECT | VERDICT_OTHER

datatype autolabel_kind = AUTOLABEL_REPAIR | AUTOLABEL_CONTINUATION | AUTOLABEL_OTHER

text \<open>
  \<open>memory_get\<close> is used for the key of the row only. \<open>COLLAB_RULE_TEXT_LEN\<close> and
  \<open>COLLAB_RULE_REASON_LEN\<close> are macros of another header.
\<close>

record 'w services =
  session_id :: "('w, string) state"
  memory_apply_feedback :: "int \<Rightarrow> int list \<Rightarrow> ('w, int) state"
  memory_supersede :: "int \<Rightarrow> string \<Rightarrow> dbl \<Rightarrow> string \<Rightarrow> ('w, int) state"
  memory_upsert_workflow :: "string \<Rightarrow> string \<Rightarrow> string \<Rightarrow> dbl \<Rightarrow> string \<Rightarrow> ('w, int) state"
  memory_get :: "int \<Rightarrow> ('w, int \<times> string) state"
  db2_collab_rules_propose :: "string \<Rightarrow> string \<Rightarrow> string \<Rightarrow> ('w, int) state"
  db2_artifact_write ::
    "string \<Rightarrow> string \<Rightarrow> string \<Rightarrow> string \<Rightarrow> string \<Rightarrow> string \<Rightarrow> dbl \<Rightarrow> string \<Rightarrow> ('w, int) state"
  dogfood_log_moment_tagged ::
    "string \<Rightarrow> string \<Rightarrow> int list \<Rightarrow> string \<Rightarrow> string \<Rightarrow> ('w, unit) state"
  dogfood_classify_next_turn :: "string \<Rightarrow> ('w, autolabel_kind) state"
  dogfood_query_is_repeat :: "string \<Rightarrow> string \<Rightarrow> string \<Rightarrow> ('w, bool) state"
  integrity_gate_check :: "string \<Rightarrow> integrity_source \<Rightarrow> ('w, integrity_verdict) state"
  clock_gettime :: "('w, int \<times> int) state"
  time_now :: "('w, int) state"
  COLLAB_RULE_TEXT_LEN :: nat
  COLLAB_RULE_REASON_LEN :: nat

record ('w, 'j) host =
  plat :: platform
  json :: "'j cjson"
  cfg :: "'w config"
  db :: "'w db2_learning"
  svc :: "'w services"

section \<open>Lemmas\<close>

lemma wf_zero_dispatch: "wf_dispatch zero_dispatch"
  by (simp add: wf_dispatch_def zero_dispatch_def)

lemma reported_zero [simp]: "reported zero_dispatch = []" "reported_committed zero_dispatch = []"
  by (simp_all add: reported_def reported_committed_def zero_dispatch_def)

lemma json_text_Some:
  "json_text J x = Some t \<longleftrightarrow> (\<exists>v. x = Some v \<and> cJSON_IsString J v \<and> valuestring J v = t \<and> t \<noteq> [])"
  by (auto simp: json_text_def split: option.splits if_splits)

lemma json_text_None: "json_text J None = None"
  by (simp add: json_text_def)

end
