(* ===== verification/Router_Telemetry.thy ===== *)
theory Router_Telemetry
  imports Learning_Types
begin

text \<open>
  The process-local state of \<open>learning_router.c\<close>: the two latency meters, each three static
  variables, and the registered signal classifier; with the functions that own them. The meters
  have one contract, the locale \<open>latency_meter\<close>, and two interpretations.
\<close>

section \<open>The static variables\<close>

record latency =
  calls :: int
  ms_sum :: dbl
  ms_max :: dbl

type_synonym 'w classifier = "string \<Rightarrow> ('w, int \<times> u32) state"

text \<open>The module's state beside the world: \<open>g_learning_ingest_*\<close>, \<open>g_learning_detection_*\<close> and
  \<open>g_signal_classifier\<close>.\<close>

record 'w router =
  g_ingest :: latency
  g_detection :: latency
  g_signal_classifier :: "'w classifier option"
  world :: 'w

definition zero_latency :: latency where
  "zero_latency = \<lparr>calls = 0, ms_sum = Fin 0, ms_max = Fin 0\<rparr>"

text \<open>A program over the world alone, run by the router.\<close>

definition on_world :: "('w, 'a) state \<Rightarrow> ('w router, 'a) state" where
  "on_world m = zoom world (\<lambda>w s. s\<lparr>world := w\<rparr>) m"

lemma final_on_world [run_simps]: "final (on_world m) s = s\<lparr>world := final m (world s)\<rparr>"
  by (simp add: on_world_def final_zoom)

lemma outcome_on_world [run_simps]: "outcome (on_world m) s = outcome m (world s)"
  by (simp add: on_world_def outcome_zoom)

section \<open>Classifier registration\<close>

definition learning_router_register_signal_classifier ::
    "'w classifier option \<Rightarrow> 'w router \<Rightarrow> 'w router" where
  "learning_router_register_signal_classifier classifier s = s\<lparr>g_signal_classifier := classifier\<rparr>"

text \<open>The result and the mask, which is 0 where the classifier did not run.\<close>

definition learning_classify_signal :: "string \<Rightarrow> ('w router, int \<times> u32) state" where
  "learning_classify_signal signal = do {
     c \<leftarrow> gets g_signal_classifier;
     (case c of
        None \<Rightarrow> ret (-1, 0)
      | Some classify \<Rightarrow> on_world (classify signal))
   }"

section \<open>Latency\<close>

definition learning_ingest_record_ms :: "platform \<Rightarrow> dbl \<Rightarrow> 'w router \<Rightarrow> 'w router" where
  "learning_ingest_record_ms P ms s =
     (if flt ms (Fin 0) then s
      else
        (let g = g_ingest s;
             g = g\<lparr>calls := calls g + 1\<rparr>;
             g = g\<lparr>ms_sum := fadd P (ms_sum g) ms\<rparr>;
             g = (if flt (ms_max g) ms then g\<lparr>ms_max := ms\<rparr> else g)
         in s\<lparr>g_ingest := g\<rparr>))"

text \<open>The three out-pointers, each of which may be NULL, are the components of the result.\<close>

definition learning_router_metrics :: "platform \<Rightarrow> 'w router \<Rightarrow> int \<times> dbl \<times> dbl" where
  "learning_router_metrics P s =
     (let g = g_ingest s in
      (calls g,
       if calls g > 0 then fdiv P (ms_sum g) (dbl_of_int P (calls g)) else Fin 0,
       ms_max g))"

definition learning_router_metrics_reset :: "'w router \<Rightarrow> 'w router" where
  "learning_router_metrics_reset s = s\<lparr>g_ingest := \<lparr>calls = 0, ms_sum = Fin 0, ms_max = Fin 0\<rparr>\<rparr>"

definition learning_router_record_detection_ms :: "platform \<Rightarrow> dbl \<Rightarrow> 'w router \<Rightarrow> 'w router" where
  "learning_router_record_detection_ms P ms s =
     (if flt ms (Fin 0) then s
      else
        (let g = g_detection s;
             g = g\<lparr>calls := calls g + 1\<rparr>;
             g = g\<lparr>ms_sum := fadd P (ms_sum g) ms\<rparr>;
             g = (if flt (ms_max g) ms then g\<lparr>ms_max := ms\<rparr> else g)
         in s\<lparr>g_detection := g\<rparr>))"

definition learning_router_detection_metrics :: "platform \<Rightarrow> 'w router \<Rightarrow> int \<times> dbl \<times> dbl" where
  "learning_router_detection_metrics P s =
     (let g = g_detection s in
      (calls g,
       if calls g > 0 then fdiv P (ms_sum g) (dbl_of_int P (calls g)) else Fin 0,
       ms_max g))"

definition learning_router_detection_metrics_reset :: "'w router \<Rightarrow> 'w router" where
  "learning_router_detection_metrics_reset s =
     s\<lparr>g_detection := \<lparr>calls = 0, ms_sum = Fin 0, ms_max = Fin 0\<rparr>\<rparr>"

text \<open>\<open>(t1.tv_sec - t0.tv_sec) * 1000.0 + (t1.tv_nsec - t0.tv_nsec) / 1.0e6\<close>, which every timed
  path computes from its two clock readings.\<close>

definition elapsed_ms :: "platform \<Rightarrow> int \<times> int \<Rightarrow> int \<times> int \<Rightarrow> dbl" where
  "elapsed_ms P t0 t1 =
     fadd P (fmul P (dbl_of_int P (fst t1 - fst t0)) (Fin 1000))
            (fdiv P (dbl_of_int P (snd t1 - snd t0)) (Fin 1000000))"

section \<open>The contract of a meter\<close>

locale latency_meter =
  fixes P :: platform
    and meter :: "'s \<Rightarrow> latency"
    and record_ms :: "dbl \<Rightarrow> 's \<Rightarrow> 's"
    and reset :: "'s \<Rightarrow> 's"
    and read :: "'s \<Rightarrow> int \<times> dbl \<times> dbl"
  assumes record_negative: "flt ms (Fin 0) \<Longrightarrow> record_ms ms s = s"
    and record_sample: "\<not> flt ms (Fin 0) \<Longrightarrow> meter (record_ms ms s) =
          \<lparr>calls = calls (meter s) + 1, ms_sum = fadd P (ms_sum (meter s)) ms,
           ms_max = (if flt (ms_max (meter s)) ms then ms else ms_max (meter s))\<rparr>"
    and reset_meter: "meter (reset s) = zero_latency"
    and read_meter: "read s = (calls (meter s),
          if calls (meter s) > 0 then fdiv P (ms_sum (meter s)) (dbl_of_int P (calls (meter s)))
          else Fin 0, ms_max (meter s))"
begin

text \<open>Whatever the rounding, the count is the number of samples that are not negative and the
  maximum bounds every one of them.\<close>

lemma calls_after:
  "calls (meter (fold record_ms xs s)) =
     calls (meter s) + int (length (filter (\<lambda>x. \<not> flt x (Fin 0)) xs))"
  by (induction xs arbitrary: s) (simp_all add: record_negative record_sample)

lemma max_keeps: "\<not> flt (ms_max (meter s)) y \<Longrightarrow> ms_max (meter s) \<noteq> NaN \<Longrightarrow>
   \<not> flt (ms_max (meter (record_ms x s))) y \<and> ms_max (meter (record_ms x s)) \<noteq> NaN"
  by (cases "flt x (Fin 0)")
     (auto simp: record_negative record_sample dest: flt_trans)

lemma max_keeps_fold: "\<not> flt (ms_max (meter s)) y \<Longrightarrow> ms_max (meter s) \<noteq> NaN \<Longrightarrow>
   \<not> flt (ms_max (meter (fold record_ms xs s))) y"
proof (induction xs arbitrary: s)
  case (Cons x xs)
  then show ?case
    using max_keeps [of s y x] by simp
qed simp

lemma max_not_nan: "ms_max (meter s) \<noteq> NaN \<Longrightarrow> ms_max (meter (record_ms x s)) \<noteq> NaN"
  by (cases "flt x (Fin 0)") (auto simp: record_negative record_sample)

lemma max_bounds:
  "ms_max (meter s) \<noteq> NaN \<Longrightarrow> \<not> flt (ms_max (meter s)) (Fin 0) \<Longrightarrow> x \<in> set xs \<Longrightarrow>
   \<not> flt (ms_max (meter (fold record_ms xs s))) x"
proof (induction xs arbitrary: s)
  case (Cons y ys)
  let ?s = "record_ms y s"
  have nn: "ms_max (meter ?s) \<noteq> NaN" and nz: "\<not> flt (ms_max (meter ?s)) (Fin 0)"
    using max_keeps [OF Cons.prems(2,1), of y] by auto
  show ?case
  proof (cases "x = y")
    case True
    have "\<not> flt (ms_max (meter ?s)) y"
    proof (cases "flt y (Fin 0)")
      case True
      then show ?thesis
        using Cons.prems(2) by (auto simp: record_negative dest: flt_trans)
    next
      case False
      then show ?thesis by (simp add: record_sample)
    qed
    then show ?thesis
      using True max_keeps_fold [OF _ nn] by simp
  next
    case False
    then show ?thesis
      using Cons.prems(3) Cons.IH [OF nn nz] by simp
  qed
qed simp

text \<open>In exact arithmetic the three readings are the count, the mean and the maximum.\<close>

lemma exact_fold:
  assumes "P = exact_platform" and "meter s = \<lparr>calls = n, ms_sum = Fin a, ms_max = Fin b\<rparr>"
  shows "meter (fold record_ms (map Fin xs) s) =
    (let ys = filter (\<lambda>x. 0 \<le> x) xs in
     \<lparr>calls = n + int (length ys), ms_sum = Fin (a + sum_list ys), ms_max = Fin (fold max ys b)\<rparr>)"
  using assms(2)
proof (induction xs arbitrary: s n a b)
  case (Cons x xs)
  show ?case
  proof (cases "x < 0")
    case True
    then show ?thesis
      using Cons by (simp add: record_negative)
  next
    case False
    then have "meter (record_ms (Fin x) s) =
        \<lparr>calls = n + 1, ms_sum = Fin (a + x), ms_max = Fin (max x b)\<rparr>"
      using Cons.prems assms(1) by (simp add: record_sample max_def)
    from Cons.IH [OF this] False show ?thesis
      by (simp add: Let_def algebra_simps)
  qed
qed simp

lemma exact_summary:
  fixes xs :: "real list"
  assumes "P = exact_platform"
  shows "read (fold record_ms (map Fin xs) (reset s)) =
    (let ys = filter (\<lambda>x. 0 \<le> x) xs in
     (int (length ys),
      Fin (if ys = [] then 0 else sum_list ys / real (length ys)),
      Fin (Max (insert 0 (set ys)))))"
proof -
  have z: "meter (reset s) = \<lparr>calls = 0, ms_sum = Fin 0, ms_max = Fin 0\<rparr>"
    by (simp add: reset_meter zero_latency_def)
  show ?thesis
    using exact_fold [OF assms z, of xs]
    by (simp add: read_meter assms dbl_of_int_def Let_def Max.set_eq_fold [symmetric]
        del: Max_insert)
qed

end

interpretation ingest: latency_meter P g_ingest "learning_ingest_record_ms P"
  learning_router_metrics_reset "learning_router_metrics P" for P
  by unfold_locales
     (simp_all add: learning_ingest_record_ms_def learning_router_metrics_reset_def
       learning_router_metrics_def zero_latency_def Let_def)

interpretation detection: latency_meter P g_detection "learning_router_record_detection_ms P"
  learning_router_detection_metrics_reset "learning_router_detection_metrics P" for P
  by unfold_locales
     (simp_all add: learning_router_record_detection_ms_def
       learning_router_detection_metrics_reset_def learning_router_detection_metrics_def
       zero_latency_def Let_def)

section \<open>Frame\<close>

text \<open>A meter's functions touch its own three variables only.\<close>

lemma ingest_record_frame [simp]:
  "g_detection (learning_ingest_record_ms P ms s) = g_detection s"
  "g_signal_classifier (learning_ingest_record_ms P ms s) = g_signal_classifier s"
  "world (learning_ingest_record_ms P ms s) = world s"
  by (simp_all add: learning_ingest_record_ms_def Let_def)

lemma detection_record_frame [simp]:
  "g_ingest (learning_router_record_detection_ms P ms s) = g_ingest s"
  "g_signal_classifier (learning_router_record_detection_ms P ms s) = g_signal_classifier s"
  "world (learning_router_record_detection_ms P ms s) = world s"
  by (simp_all add: learning_router_record_detection_ms_def Let_def)

lemma ingest_fold_frame: "g_detection (fold (learning_ingest_record_ms P) xs s) = g_detection s"
  by (induction xs arbitrary: s) simp_all

lemma detection_fold_frame: "g_ingest (fold (learning_router_record_detection_ms P) xs s) = g_ingest s"
  by (induction xs arbitrary: s) simp_all

lemma reset_frame [simp]:
  "g_detection (learning_router_metrics_reset s) = g_detection s"
  "g_ingest (learning_router_detection_metrics_reset s) = g_ingest s"
  "world (learning_router_metrics_reset s) = world s"
  "world (learning_router_detection_metrics_reset s) = world s"
  by (simp_all add: learning_router_metrics_reset_def learning_router_detection_metrics_reset_def)

section \<open>Properties\<close>

text \<open>
  C33. What operators read. After a reset and any sequence of recorded samples (in exact
  arithmetic) each meter reports the number of samples that are not negative, their arithmetic
  mean (0 when there is none) and the largest of them (at least 0), and recording into one meter
  leaves every reading of the other as it was.
\<close>

theorem latency_summary:
  fixes xs :: "real list" and s :: "'w router"
  shows "let ys = filter (\<lambda>x. 0 \<le> x) xs;
             summary = (int (length ys), Fin (if ys = [] then 0 else sum_list ys / real (length ys)),
                        Fin (Max (insert 0 (set ys))));
             si = fold (learning_ingest_record_ms exact_platform) (map Fin xs)
                    (learning_router_metrics_reset s);
             sd = fold (learning_router_record_detection_ms exact_platform) (map Fin xs)
                    (learning_router_detection_metrics_reset s)
         in learning_router_metrics exact_platform si = summary \<and>
            learning_router_detection_metrics exact_platform si =
              learning_router_detection_metrics exact_platform s \<and>
            learning_router_detection_metrics exact_platform sd = summary \<and>
            learning_router_metrics exact_platform sd = learning_router_metrics exact_platform s"
proof -
  have "learning_router_detection_metrics exact_platform
      (fold (learning_ingest_record_ms exact_platform) (map Fin xs) (learning_router_metrics_reset s)) =
    learning_router_detection_metrics exact_platform s"
    by (simp add: detection.read_meter ingest_fold_frame)
  moreover have "learning_router_metrics exact_platform
      (fold (learning_router_record_detection_ms exact_platform) (map Fin xs)
        (learning_router_detection_metrics_reset s)) =
    learning_router_metrics exact_platform s"
    by (simp add: ingest.read_meter detection_fold_frame)
  ultimately show ?thesis
    using ingest.exact_summary [OF refl, of xs s] detection.exact_summary [OF refl, of xs s]
    unfolding Let_def by blast
qed

text \<open>
  The count and the maximum do not depend on how the platform rounds: after a reset and any
  samples, with infinities and NaNs among them, the ingest count is the number of samples that are
  not below zero and no sample exceeds the reported maximum.
\<close>

theorem latency_bounds_any_rounding:
  assumes "x \<in> set xs"
  shows "case learning_router_metrics P (fold (learning_ingest_record_ms P) xs
                (learning_router_metrics_reset s)) of
           (n, avg, mx) \<Rightarrow> n = int (length (filter (\<lambda>x. \<not> flt x (Fin 0)) xs)) \<and> \<not> flt mx x"
proof -
  let ?s = "learning_router_metrics_reset s"
  have "ms_max (g_ingest ?s) = Fin 0" "calls (g_ingest ?s) = 0"
    by (simp_all add: ingest.reset_meter zero_latency_def)
  with assms show ?thesis
    using ingest.calls_after [of P xs ?s] ingest.max_bounds [of ?s x xs P]
    by (simp add: ingest.read_meter)
qed

theorem latency_bounds_any_rounding_witness:
  "case learning_router_metrics exact_platform
      (fold (learning_ingest_record_ms exact_platform) [Fin 3, NaN, Fin (-1), Fin 5]
        (learning_router_metrics_reset
          \<lparr>g_ingest = zero_latency, g_detection = zero_latency, g_signal_classifier = None,
           world = ()\<rparr>)) of
     (n, avg, mx) \<Rightarrow> n = int (length (filter (\<lambda>x. \<not> flt x (Fin 0)) [Fin 3, NaN, Fin (-1), Fin 5])) \<and>
       \<not> flt mx (Fin 5)"
  by (rule latency_bounds_any_rounding) simp

end
