(* ===== verification/Json_Contract.thy ===== *)
theory Json_Contract
  imports Learning_Types
begin

text \<open>
  What the module may assume of cJSON, stated over the interface record: the value a node shows
  through cJSON's type tests, how the \<open>Add\<dots>ToObject\<close> calls change the fields of an object, and that
  printing and parsing are inverse on what the module prints. \<open>json_laws\<close> is a hypothesis of the
  properties that follow an action from the text it is stored as to the call it causes.
\<close>

section \<open>The value of a node\<close>

datatype jval = JBool bool | JNum dbl | JStr string | JArr "dbl list" | JOther

definition number_items :: "'j cjson \<Rightarrow> 'j list \<Rightarrow> dbl list" where
  "number_items J vs = map (valuedouble J) (filter (cJSON_IsNumber J) vs)"

definition jval_of :: "'j cjson \<Rightarrow> 'j \<Rightarrow> jval" where
  "jval_of J v =
     (if cJSON_IsBool J v then JBool (cJSON_IsTrue J v)
      else if cJSON_IsNumber J v then JNum (valuedouble J v)
      else if cJSON_IsString J v then JStr (valuestring J v)
      else if cJSON_IsArray J v then JArr (number_items J (children J v))
      else JOther)"

definition jfield :: "'j cjson \<Rightarrow> 'j \<Rightarrow> string \<Rightarrow> jval option" where
  "jfield J obj k = map_option (jval_of J) (cJSON_GetObjectItemCaseSensitive J obj k)"

text \<open>Numbers cJSON prints and parses without loss: the integers of at most 53 bits.\<close>

definition portable :: "dbl \<Rightarrow> bool" where
  "portable d \<longleftrightarrow> (\<exists>i. \<bar>i\<bar> \<le> 2 ^ 53 \<and> d = Fin (of_int i))"

fun portable_val :: "jval \<Rightarrow> bool" where
  "portable_val (JNum d) = portable d"
| "portable_val (JArr ds) = list_all portable ds"
| "portable_val JOther = False"
| "portable_val v = True"

section \<open>Laws\<close>

text \<open>At most one type test holds of a node.\<close>

definition json_exclusive :: "'j cjson \<Rightarrow> bool" where
  "json_exclusive J \<longleftrightarrow>
     (\<forall>v. (cJSON_IsBool J v \<longrightarrow> \<not> cJSON_IsNumber J v \<and> \<not> cJSON_IsString J v \<and> \<not> cJSON_IsArray J v) \<and>
          (cJSON_IsNumber J v \<longrightarrow> \<not> cJSON_IsString J v \<and> \<not> cJSON_IsArray J v) \<and>
          (cJSON_IsString J v \<longrightarrow> \<not> cJSON_IsArray J v))"

text \<open>The objects the module builds: a fresh one, and a built one with a string, a boolean, a number
  or an array of numbers added to it. The laws are about these only.\<close>

inductive built :: "'j cjson \<Rightarrow> 'j \<Rightarrow> bool" for J :: "'j cjson" where
  fresh: "cJSON_CreateObject J = Some obj \<Longrightarrow> built J obj"
| with_string: "built J obj \<Longrightarrow> built J (cJSON_AddStringToObject J obj k s)"
| with_bool: "built J obj \<Longrightarrow> built J (cJSON_AddBoolToObject J obj k b)"
| with_number: "built J obj \<Longrightarrow> built J (cJSON_AddNumberToObject J obj k d)"
| with_array: "built J obj \<Longrightarrow> list_all (cJSON_IsNumber J) vs \<Longrightarrow> built J (cj_add_array J obj k vs)"

text \<open>An object starts empty, and adding a field under a new key adds exactly that field.\<close>

definition json_build :: "'j cjson \<Rightarrow> bool" where
  "json_build J \<longleftrightarrow>
     (\<forall>obj k. cJSON_CreateObject J = Some obj \<longrightarrow> jfield J obj k = None) \<and>
     (\<forall>obj k s k'. built J obj \<longrightarrow> jfield J obj k = None \<longrightarrow>
        jfield J (cJSON_AddStringToObject J obj k s) k' =
          (if k' = k then Some (JStr s) else jfield J obj k')) \<and>
     (\<forall>obj k b k'. built J obj \<longrightarrow> jfield J obj k = None \<longrightarrow>
        jfield J (cJSON_AddBoolToObject J obj k b) k' =
          (if k' = k then Some (JBool b) else jfield J obj k')) \<and>
     (\<forall>obj k d k'. built J obj \<longrightarrow> jfield J obj k = None \<longrightarrow> portable d \<longrightarrow>
        jfield J (cJSON_AddNumberToObject J obj k d) k' =
          (if k' = k then Some (JNum d) else jfield J obj k')) \<and>
     (\<forall>obj k vs k'. built J obj \<longrightarrow> jfield J obj k = None \<longrightarrow>
        list_all (cJSON_IsNumber J) vs \<longrightarrow> list_all portable (number_items J vs) \<longrightarrow>
        jfield J (cj_add_array J obj k vs) k' =
          (if k' = k then Some (JArr (number_items J vs)) else jfield J obj k')) \<and>
     (\<forall>d v. cJSON_CreateNumber J d = Some v \<longrightarrow> portable d \<longrightarrow>
        cJSON_IsNumber J v \<and> valuedouble J v = d)"

text \<open>No allocation fails.\<close>

definition json_alloc :: "'j cjson \<Rightarrow> bool" where
  "json_alloc J \<longleftrightarrow> cJSON_CreateObject J \<noteq> None \<and> (\<forall>v. cJSON_PrintUnformatted J v \<noteq> None) \<and>
     (\<forall>d. portable d \<longrightarrow> cJSON_CreateNumber J d \<noteq> None)"

text \<open>
  The text of an object parses back to an object with the same portable fields, no proper prefix
  of the text parses (the closing brace is its last character), and a string field is in the text
  with its two quotes.
\<close>

definition json_print_parse :: "'j cjson \<Rightarrow> bool" where
  "json_print_parse J \<longleftrightarrow>
     (\<forall>obj t. built J obj \<longrightarrow> cJSON_PrintUnformatted J obj = Some t \<longrightarrow>
        (\<exists>obj'. cJSON_Parse J t = Some obj' \<and>
           (\<forall>k. (\<forall>v. jfield J obj k = Some v \<longrightarrow> portable_val v) \<longrightarrow>
              jfield J obj' k = jfield J obj k)) \<and>
        (\<forall>n < length t. cJSON_Parse J (take n t) = None) \<and>
        (\<forall>k s. jfield J obj k = Some (JStr s) \<longrightarrow> length s + 2 \<le> length t))"

definition json_laws :: "'j cjson \<Rightarrow> bool" where
  "json_laws J \<longleftrightarrow> json_exclusive J \<and> json_build J \<and> json_alloc J \<and> json_print_parse J"

section \<open>Consequences\<close>

lemma jval_tests:
  assumes "json_exclusive J"
  shows "jval_of J v = JStr s \<longleftrightarrow> cJSON_IsString J v \<and> valuestring J v = s"
    and "jval_of J v = JNum d \<longleftrightarrow> cJSON_IsNumber J v \<and> valuedouble J v = d"
    and "jval_of J v = JBool b \<longleftrightarrow> cJSON_IsBool J v \<and> cJSON_IsTrue J v = b"
    and "jval_of J v = JArr ds \<longleftrightarrow> cJSON_IsArray J v \<and> number_items J (children J v) = ds"
  using assms unfolding json_exclusive_def jval_of_def by auto

lemma jfield_None: "jfield J obj k = None \<longleftrightarrow> cJSON_GetObjectItemCaseSensitive J obj k = None"
  by (simp add: jfield_def)

lemma jfield_Some:
  "jfield J obj k = Some x \<longleftrightarrow>
     (\<exists>v. cJSON_GetObjectItemCaseSensitive J obj k = Some v \<and> jval_of J v = x)"
  by (auto simp: jfield_def)

lemma json_text_field:
  assumes "json_exclusive J"
  shows "json_text J (cJSON_GetObjectItemCaseSensitive J obj k) =
           (case jfield J obj k of
              Some (JStr s) \<Rightarrow> if s = [] then None else Some s
            | _ \<Rightarrow> None)"
  by (cases "cJSON_GetObjectItemCaseSensitive J obj k")
     (use assms in \<open>auto simp: json_text_def jfield_def jval_of_def json_exclusive_def\<close>)

text \<open>The whole way: print, cut to a buffer, parse.\<close>

lemma print_parse_fields:
  assumes "json_laws J" "built J obj" "cJSON_PrintUnformatted J obj = Some t" "length t < cap"
  shows "\<exists>obj'. cJSON_Parse J (snprintf cap t) = Some obj' \<and>
    (\<forall>k. (\<forall>v. jfield J obj k = Some v \<longrightarrow> portable_val v) \<longrightarrow> jfield J obj' k = jfield J obj k)"
proof -
  have "snprintf cap t = t"
    using assms(4) by (rule snprintf_id)
  with assms(1,2,3) show ?thesis
    unfolding json_laws_def json_print_parse_def by (metis (no_types, lifting))
qed

lemma truncated_unparsable:
  assumes "json_laws J" "built J obj" "cJSON_PrintUnformatted J obj = Some t" "cap \<le> length t" "0 < cap"
  shows "cJSON_Parse J (snprintf cap t) = None"
proof -
  have "cap - 1 < length t"
    using assms(4,5) by linarith
  with assms(1,2,3) show ?thesis
    unfolding json_laws_def json_print_parse_def snprintf_def by blast
qed

lemma string_field_length:
  "json_laws J \<Longrightarrow> built J obj \<Longrightarrow> cJSON_PrintUnformatted J obj = Some t \<Longrightarrow> jfield J obj k = Some (JStr s) \<Longrightarrow>
   length s + 2 \<le> length t"
  unfolding json_laws_def json_print_parse_def by blast

lemma json_laws_exclusive: "json_laws J \<Longrightarrow> json_exclusive J"
  by (simp add: json_laws_def)

lemma portable_id: "exact_ints P \<Longrightarrow> \<bar>i\<bar> \<le> 2 ^ 53 \<Longrightarrow> portable (dbl_of_int P i)"
  by (auto simp: portable_def exact_ints_def dbl_of_int_def)

end
