(* ===== verification/Router_Actions.thy ===== *)
theory Router_Actions
  imports Json_Contract
begin

text \<open>
  The actions of a proposal, in \<open>learning_router.c\<close>: the four builders that render one as JSON into
  the caller's buffer, and \<open>learning_apply_sink\<close>, which parses the stored text when the proposal is
  committed and calls the service its sink stands for.
\<close>

section \<open>Building an action\<close>

text \<open>Each builder is given the size of its buffer; \<open>None\<close> is the return value \<open>-1\<close>.\<close>

definition print_into :: "'j cjson \<Rightarrow> nat \<Rightarrow> 'j \<Rightarrow> string option" where
  "print_into J cap obj = map_option (snprintf cap) (cJSON_PrintUnformatted J obj)"

definition create_numbers :: "'j cjson \<Rightarrow> dbl list \<Rightarrow> 'j list" where
  "create_numbers J ds = List.map_filter (cJSON_CreateNumber J) ds"

definition learning_make_reranker_action ::
    "platform \<Rightarrow> 'j cjson \<Rightarrow> bool \<Rightarrow> int \<Rightarrow> string option \<Rightarrow> nat \<Rightarrow> string option" where
  "learning_make_reranker_action P J success target_memory_id evidence_refs_json cap =
     (case cJSON_CreateObject J of
        None \<Rightarrow> None
      | Some obj \<Rightarrow>
          (let obj = cJSON_AddBoolToObject J obj ''success'' success;
               ids =
                 (if target_memory_id > 0
                  then create_numbers J [dbl_of_int P target_memory_id]
                  else (case evidence_refs_json of
                    None \<Rightarrow> []
                  | Some refs \<Rightarrow>
                      (let parsed = cJSON_Parse J refs in
                       if json_is (cJSON_IsArray J) parsed
                       then create_numbers J (number_items J (children J (the parsed)))
                       else [])));
               obj = cj_add_array J obj ''citation_ids'' ids
           in print_into J cap obj))"

definition learning_make_supersede_action ::
    "platform \<Rightarrow> 'j cjson \<Rightarrow> int \<Rightarrow> string option \<Rightarrow> nat \<Rightarrow> string option" where
  "learning_make_supersede_action P J target_memory_id correction_text cap =
     (case cJSON_CreateObject J of
        None \<Rightarrow> None
      | Some obj \<Rightarrow>
          (let obj = cJSON_AddNumberToObject J obj ''old_memory_id'' (dbl_of_int P target_memory_id);
               obj = cJSON_AddStringToObject J obj ''new_content'' (or_str correction_text [])
           in print_into J cap obj))"

definition learning_make_rule_action ::
    "'j cjson \<Rightarrow> string option \<Rightarrow> string option \<Rightarrow> nat \<Rightarrow> string option" where
  "learning_make_rule_action J body reason cap =
     (case cJSON_CreateObject J of
        None \<Rightarrow> None
      | Some obj \<Rightarrow>
          (let obj = cJSON_AddStringToObject J obj ''text'' (or_str body []);
               obj = cJSON_AddStringToObject J obj ''reason'' (or_str reason [])
           in print_into J cap obj))"

definition learning_make_workflow_action ::
    "'j cjson \<Rightarrow> string option \<Rightarrow> string option \<Rightarrow> string option \<Rightarrow> nat \<Rightarrow> string option" where
  "learning_make_workflow_action J project signal_type rule cap =
     (case cJSON_CreateObject J of
        None \<Rightarrow> None
      | Some obj \<Rightarrow>
          (let obj = cJSON_AddStringToObject J obj ''project'' (or_str project []);
               obj = cJSON_AddStringToObject J obj ''signal_type'' (or_str signal_type []);
               obj = cJSON_AddStringToObject J obj ''rule'' (or_str rule [])
           in print_into J cap obj))"

section \<open>Applying an action\<close>

text \<open>The loop over \<open>citation_ids\<close>: \<open>ids[32]\<close> with \<open>n\<close> entries so far.\<close>

fun collect_ids :: "platform \<Rightarrow> 'j cjson \<Rightarrow> int list \<Rightarrow> 'j list \<Rightarrow> int list" where
  "collect_ids P J ids [] = ids"
| "collect_ids P J ids (item # rest) =
     (if length ids \<ge> 32 then ids
      else if cJSON_IsNumber J item
        then collect_ids P J (ids @ [i64_of_dbl P (valuedouble J item)]) rest
      else collect_ids P J ids rest)"

definition success_value :: "'j cjson \<Rightarrow> 'j option \<Rightarrow> int" where
  "success_value J js =
     (if json_is (cJSON_IsBool J) js then (if json_is (cJSON_IsTrue J) js then 1 else 0)
      else if json_is (cJSON_IsNumber J) js then valueint J (the js) else 0)"

definition apply_reranker :: "('w, 'j) host \<Rightarrow> proposal \<Rightarrow> 'j \<Rightarrow> ('w, int) state" where
  "apply_reranker H proposal action =
     (let J = json H;
          js = cJSON_GetObjectItemCaseSensitive J action ''success'';
          jc = cJSON_GetObjectItemCaseSensitive J action ''citation_ids'';
          success = success_value J js;
          ids = (if json_is (cJSON_IsArray J) jc
                 then collect_ids (plat H) J [] (children J (the jc)) else []);
          ids = (if ids = [] \<and> p_target_memory_id proposal > 0
                 then [p_target_memory_id proposal] else ids)
      in if ids \<noteq> [] then memory_apply_feedback (svc H) success ids else ret 0)"

definition apply_supersede :: "('w, 'j) host \<Rightarrow> 'j \<Rightarrow> ('w, int) state" where
  "apply_supersede H action =
     (let J = json H;
          jold = cJSON_GetObjectItemCaseSensitive J action ''old_memory_id'';
          jnew = json_text J (cJSON_GetObjectItemCaseSensitive J action ''new_content'')
      in if \<not> json_is (cJSON_IsNumber J) jold \<or> jnew = None then ret (-1)
         else do {
           sid \<leftarrow> session_id (svc H);
           memory_supersede (svc H) (i64_of_dbl (plat H) (valuedouble J (the jold))) (the jnew)
             (Fin 1) sid
         })"

definition apply_rule :: "('w, 'j) host \<Rightarrow> 'j \<Rightarrow> ('w, int) state" where
  "apply_rule H action =
     (let J = json H;
          jtext = json_text J (cJSON_GetObjectItemCaseSensitive J action ''text'');
          jreason = cJSON_GetObjectItemCaseSensitive J action ''reason''
      in if jtext = None then ret (-1)
         else do {
           r \<leftarrow> db2_collab_rules_propose (svc H) (the jtext)
                 (if json_is (cJSON_IsString J) jreason then valuestring J (the jreason) else [])
                 ''learning_router'';
           ret (if r \<ge> 0 then 0 else -1)
         })"

definition apply_workflow :: "('w, 'j) host \<Rightarrow> 'j \<Rightarrow> ('w, int) state" where
  "apply_workflow H action =
     (let J = json H;
          jp = json_text J (cJSON_GetObjectItemCaseSensitive J action ''project'');
          js = json_text J (cJSON_GetObjectItemCaseSensitive J action ''signal_type'');
          jr = json_text J (cJSON_GetObjectItemCaseSensitive J action ''rule'')
      in if jp = None \<or> js = None \<or> jr = None then ret (-1)
         else do {
           sid \<leftarrow> session_id (svc H);
           r \<leftarrow> memory_upsert_workflow (svc H) (the jp) (the js) (the jr) (Fin 1) sid;
           ret (if r > 0 then 0 else -1)
         })"

definition apply_artifact :: "('w, 'j) host \<Rightarrow> 'j \<Rightarrow> ('w, int) state" where
  "apply_artifact H action =
     (let J = json H;
          jid = json_text J (cJSON_GetObjectItemCaseSensitive J action ''artifact_id'');
          jkind = json_text J (cJSON_GetObjectItemCaseSensitive J action ''artifact_kind'');
          jscope = cJSON_GetObjectItemCaseSensitive J action ''scope_kind'';
          jpayload = json_text J (cJSON_GetObjectItemCaseSensitive J action ''payload_json'');
          jconf = cJSON_GetObjectItemCaseSensitive J action ''confidence''
      in if jid = None \<or> jkind = None \<or> jpayload = None then ret (-1)
         else db2_artifact_write (svc H) (the jid) (the jkind) ''proposed''
                (if json_is (cJSON_IsString J) jscope then valuestring J (the jscope)
                 else ''workspace'')
                [] ''kb-mining-learning''
                (if json_is (cJSON_IsNumber J) jconf then valuedouble J (the jconf) else Fin (1/2))
                (the jpayload))"

definition learning_apply_sink :: "('w, 'j) host \<Rightarrow> proposal \<Rightarrow> ('w, int) state" where
  "learning_apply_sink H proposal =
     (case cJSON_Parse (json H) (p_action_json proposal) of
        None \<Rightarrow> ret (-1)
      | Some action \<Rightarrow>
          if p_sink proposal = ''reranker'' then apply_reranker H proposal action
          else if p_sink proposal = ''supersede'' then apply_supersede H action
          else if p_sink proposal = ''rule'' then apply_rule H action
          else if p_sink proposal = ''workflow'' then apply_workflow H action
          else if p_sink proposal = ''artifact'' then apply_artifact H action
          else ret 0)"

section \<open>The interface of a builder\<close>

text \<open>
  What the four builders promise \<open>learning_apply_sink\<close>: an object with the given fields was printed,
  and the buffer holds that text as far as it fits. Where it fits, the stored text parses to an
  object with those fields; where it does not, it does not parse at all.
\<close>

locale action_builder =
  fixes J :: "'j cjson"
    and build :: "nat \<Rightarrow> string option"
    and fields :: "string \<Rightarrow> jval option"
  assumes renders: "json_laws J \<Longrightarrow> (\<And>k v. fields k = Some v \<Longrightarrow> portable_val v) \<Longrightarrow>
     \<exists>obj t. built J obj \<and> cJSON_PrintUnformatted J obj = Some t \<and> (\<forall>k. jfield J obj k = fields k) \<and>
             (\<forall>cap. build cap = Some (snprintf cap t))"
begin

lemma stored:
  assumes "json_laws J" and port: "\<And>k v. fields k = Some v \<Longrightarrow> portable_val v"
  obtains t where "\<And>cap. build cap = Some (snprintf cap t)"
    "\<And>cap. length t < cap \<Longrightarrow>
       \<exists>act. cJSON_Parse J (snprintf cap t) = Some act \<and> (\<forall>k. jfield J act k = fields k)"
    "\<And>cap. 0 < cap \<Longrightarrow> cap \<le> length t \<Longrightarrow> cJSON_Parse J (snprintf cap t) = None"
    "\<And>k s. fields k = Some (JStr s) \<Longrightarrow> length s + 2 \<le> length t"
proof -
  obtain obj t where b: "built J obj" and o: "cJSON_PrintUnformatted J obj = Some t" "\<forall>k. jfield J obj k = fields k"
      "\<And>cap. build cap = Some (snprintf cap t)"
  proof -
    have "\<exists>obj t. built J obj \<and> cJSON_PrintUnformatted J obj = Some t \<and> (\<forall>k. jfield J obj k = fields k) \<and>
        (\<forall>cap. build cap = Some (snprintf cap t))"
      by (rule renders [OF assms(1)]) (rule port)
    then show ?thesis using that by blast
  qed
  show thesis
  proof (rule that [OF o(3)])
    fix cap
    assume l: "length t < cap"
    obtain act where a: "cJSON_Parse J (snprintf cap t) = Some act"
        "\<forall>k. (\<forall>v. jfield J obj k = Some v \<longrightarrow> portable_val v) \<longrightarrow> jfield J act k = jfield J obj k"
      using print_parse_fields [OF assms(1) b o(1) l] by blast
    have "jfield J act k = fields k" for k
      using a(2) o(2) port [of k] by metis
    then show "\<exists>act. cJSON_Parse J (snprintf cap t) = Some act \<and> (\<forall>k. jfield J act k = fields k)"
      using a(1) by blast
  next
    fix cap
    assume "0 < cap" "cap \<le> length t"
    then show "cJSON_Parse J (snprintf cap t) = None"
      using truncated_unparsable [OF assms(1) b o(1)] by blast
  next
    fix k s
    assume "fields k = Some (JStr s)"
    then show "length s + 2 \<le> length t"
      using string_field_length [OF assms(1) b o(1)] o(2) by metis
  qed
qed

end

lemma create_numbers_items:
  assumes "json_laws J" "list_all portable ds"
  shows "number_items J (create_numbers J ds) = ds"
  using assms(2)
proof (induction ds)
  case (Cons d ds)
  have a: "cJSON_CreateNumber J d \<noteq> None"
    and b: "\<And>v. cJSON_CreateNumber J d = Some v \<Longrightarrow> cJSON_IsNumber J v \<and> valuedouble J v = d"
    using assms(1) Cons.prems by (auto simp: json_laws_def json_alloc_def json_build_def)
  then obtain v where v: "cJSON_CreateNumber J d = Some v" "cJSON_IsNumber J v" "valuedouble J v = d"
    by blast
  have "create_numbers J (d # ds) = v # create_numbers J ds"
    using v(1) by (simp add: create_numbers_def List.map_filter_def)
  with v Cons show ?case
    by (simp add: number_items_def)
qed (simp add: create_numbers_def number_items_def List.map_filter_def)

lemma create_numbers_numbers:
  assumes "json_laws J" "list_all portable ds"
  shows "list_all (cJSON_IsNumber J) (create_numbers J ds)"
proof -
  have "\<And>d v. cJSON_CreateNumber J d = Some v \<Longrightarrow> portable d \<Longrightarrow> cJSON_IsNumber J v"
    using assms(1) by (simp add: json_laws_def json_build_def)
  with assms(2) show ?thesis
    by (induction ds) (auto simp: create_numbers_def List.map_filter_def)
qed

lemma printed:
  assumes "json_laws J"
  obtains t where "cJSON_PrintUnformatted J obj = Some t" "\<And>cap. print_into J cap obj = Some (snprintf cap t)"
proof -
  have "cJSON_PrintUnformatted J obj \<noteq> None"
    using assms by (simp add: json_laws_def json_alloc_def)
  then obtain t where "cJSON_PrintUnformatted J obj = Some t"
    by blast
  then show thesis
    by (intro that) (simp_all add: print_into_def)
qed

lemma created:
  assumes "json_laws J"
  obtains obj where "cJSON_CreateObject J = Some obj" "\<And>k. jfield J obj k = None" "built J obj"
proof -
  obtain obj where "cJSON_CreateObject J = Some obj"
    using assms by (auto simp: json_laws_def json_alloc_def)
  moreover from this have "jfield J obj k = None" for k
    using assms by (simp add: json_laws_def json_build_def)
  ultimately show thesis
    by (blast intro: that built.fresh)
qed

lemma added:
  assumes "json_laws J" "built J obj" "jfield J obj k = None"
  shows "jfield J (cJSON_AddStringToObject J obj k s) k' = (if k' = k then Some (JStr s) else jfield J obj k')"
    and "jfield J (cJSON_AddBoolToObject J obj k b) k' = (if k' = k then Some (JBool b) else jfield J obj k')"
    and "portable d \<Longrightarrow> jfield J (cJSON_AddNumberToObject J obj k d) k' =
           (if k' = k then Some (JNum d) else jfield J obj k')"
    and "list_all (cJSON_IsNumber J) vs \<Longrightarrow> list_all portable (number_items J vs) \<Longrightarrow> jfield J (cj_add_array J obj k vs) k' =
           (if k' = k then Some (JArr (number_items J vs)) else jfield J obj k')"
  using assms unfolding json_laws_def json_build_def by blast+

interpretation rule_action: action_builder J "learning_make_rule_action J body reason"
  "[''text'' \<mapsto> JStr (or_str body []), ''reason'' \<mapsto> JStr (or_str reason [])]" for J body reason
proof (unfold_locales, goal_cases)
  case 1
  obtain obj where o: "cJSON_CreateObject J = Some obj" "\<And>k. jfield J obj k = None" "built J obj"
    by (rule created [OF 1(1)]) blast
  let ?o = "cJSON_AddStringToObject J (cJSON_AddStringToObject J obj ''text'' (or_str body []))
    ''reason'' (or_str reason [])"
  obtain t where "cJSON_PrintUnformatted J ?o = Some t" "\<And>cap. print_into J cap ?o = Some (snprintf cap t)"
    by (rule printed [OF 1(1)]) blast
  then show ?case
    by (intro exI [of _ ?o] exI [of _ t])
       (simp add: learning_make_rule_action_def o added [OF 1(1)] built.intros)
qed

interpretation workflow_action: action_builder J "learning_make_workflow_action J project signal_type rule"
  "[''project'' \<mapsto> JStr (or_str project []), ''signal_type'' \<mapsto> JStr (or_str signal_type []),
    ''rule'' \<mapsto> JStr (or_str rule [])]" for J project signal_type rule
proof (unfold_locales, goal_cases)
  case 1
  obtain obj where o: "cJSON_CreateObject J = Some obj" "\<And>k. jfield J obj k = None" "built J obj"
    by (rule created [OF 1(1)]) blast
  let ?o = "cJSON_AddStringToObject J (cJSON_AddStringToObject J
      (cJSON_AddStringToObject J obj ''project'' (or_str project []))
      ''signal_type'' (or_str signal_type [])) ''rule'' (or_str rule [])"
  obtain t where "cJSON_PrintUnformatted J ?o = Some t" "\<And>cap. print_into J cap ?o = Some (snprintf cap t)"
    by (rule printed [OF 1(1)]) blast
  then show ?case
    by (intro exI [of _ ?o] exI [of _ t])
       (simp add: learning_make_workflow_action_def o added [OF 1(1)] built.intros)
qed

interpretation supersede_action: action_builder J "learning_make_supersede_action P J i body"
  "[''old_memory_id'' \<mapsto> JNum (dbl_of_int P i), ''new_content'' \<mapsto> JStr (or_str body [])]"
  for J P i body
proof (unfold_locales, goal_cases)
  case 1
  have p: "portable (dbl_of_int P i)"
    using 1(2) [of "''old_memory_id''" "JNum (dbl_of_int P i)"] by simp
  obtain obj where o: "cJSON_CreateObject J = Some obj" "\<And>k. jfield J obj k = None" "built J obj"
    by (rule created [OF 1(1)]) blast
  let ?o = "cJSON_AddStringToObject J (cJSON_AddNumberToObject J obj ''old_memory_id'' (dbl_of_int P i))
    ''new_content'' (or_str body [])"
  obtain t where "cJSON_PrintUnformatted J ?o = Some t" "\<And>cap. print_into J cap ?o = Some (snprintf cap t)"
    by (rule printed [OF 1(1)]) blast
  then show ?case
    by (intro exI [of _ ?o] exI [of _ t])
       (simp add: learning_make_supersede_action_def o added [OF 1(1)] built.intros p)
qed

text \<open>The ids a reranker action cites.\<close>

definition cited_ids :: "platform \<Rightarrow> 'j cjson \<Rightarrow> int \<Rightarrow> string option \<Rightarrow> dbl list" where
  "cited_ids P J target_memory_id refs =
     (if target_memory_id > 0 then [dbl_of_int P target_memory_id]
      else (case refs of None \<Rightarrow> [] | Some r \<Rightarrow>
        (case cJSON_Parse J r of
           None \<Rightarrow> []
         | Some v \<Rightarrow> if cJSON_IsArray J v then number_items J (children J v) else [])))"

interpretation reranker_action: action_builder J "learning_make_reranker_action P J b i refs"
  "[''success'' \<mapsto> JBool b, ''citation_ids'' \<mapsto> JArr (cited_ids P J i refs)]" for P J b i refs
proof (unfold_locales, goal_cases)
  case 1
  have p: "list_all portable (cited_ids P J i refs)"
    using 1(2) [of "''citation_ids''" "JArr (cited_ids P J i refs)"] by simp
  obtain obj where o: "cJSON_CreateObject J = Some obj" "\<And>k. jfield J obj k = None" "built J obj"
    by (rule created [OF 1(1)]) blast
  let ?o = "cj_add_array J (cJSON_AddBoolToObject J obj ''success'' b) ''citation_ids''
    (create_numbers J (cited_ids P J i refs))"
  have m: "learning_make_reranker_action P J b i refs cap = print_into J cap ?o" for cap
    by (auto simp: learning_make_reranker_action_def o(1) cited_ids_def Let_def create_numbers_def
        List.map_filter_def split: option.split)
  obtain t where "cJSON_PrintUnformatted J ?o = Some t" "\<And>cap. print_into J cap ?o = Some (snprintf cap t)"
    by (rule printed [OF 1(1)]) blast
  then show ?case
    by (intro exI [of _ ?o] exI [of _ t])
       (simp add: m o added [OF 1(1)] built.intros create_numbers_items [OF 1(1) p] create_numbers_numbers [OF 1(1) p] p)
qed

section \<open>What an action asks for\<close>

text \<open>
  The abstract side: a request, the buffer text the builders make of it, and the call it stands for.
  \<open>tid\<close> is the memory id of the proposal, to which the reranker falls back when no id is cited.
\<close>

datatype request =
    Feedback bool int "string option"
  | Supersede_Memory int string
  | Propose_Rule string string
  | Upsert_Workflow string string string

fun request_sink :: "request \<Rightarrow> string" where
  "request_sink (Feedback b i refs) = ''reranker''"
| "request_sink (Supersede_Memory i s) = ''supersede''"
| "request_sink (Propose_Rule t r) = ''rule''"
| "request_sink (Upsert_Workflow p s r) = ''workflow''"

fun build_request :: "platform \<Rightarrow> 'j cjson \<Rightarrow> request \<Rightarrow> nat \<Rightarrow> string option" where
  "build_request P J (Feedback b i refs) cap = learning_make_reranker_action P J b i refs cap"
| "build_request P J (Supersede_Memory i s) cap = learning_make_supersede_action P J i (Some s) cap"
| "build_request P J (Propose_Rule t r) cap = learning_make_rule_action J (Some t) (Some r) cap"
| "build_request P J (Upsert_Workflow p s r) cap =
     learning_make_workflow_action J (Some p) (Some s) (Some r) cap"

fun request_fields :: "platform \<Rightarrow> 'j cjson \<Rightarrow> request \<Rightarrow> string \<Rightarrow> jval option" where
  "request_fields P J (Feedback b i refs) =
     [''success'' \<mapsto> JBool b, ''citation_ids'' \<mapsto> JArr (cited_ids P J i refs)]"
| "request_fields P J (Supersede_Memory i s) =
     [''old_memory_id'' \<mapsto> JNum (dbl_of_int P i), ''new_content'' \<mapsto> JStr s]"
| "request_fields P J (Propose_Rule t r) = [''text'' \<mapsto> JStr t, ''reason'' \<mapsto> JStr r]"
| "request_fields P J (Upsert_Workflow p s r) =
     [''project'' \<mapsto> JStr p, ''signal_type'' \<mapsto> JStr s, ''rule'' \<mapsto> JStr r]"

text \<open>A request whose numbers are exact as doubles.\<close>

fun exact_request :: "platform \<Rightarrow> 'j cjson \<Rightarrow> request \<Rightarrow> bool" where
  "exact_request P J (Feedback b i refs) \<longleftrightarrow> list_all portable (cited_ids P J i refs)"
| "exact_request P J (Supersede_Memory i s) \<longleftrightarrow> exact_ints P \<and> \<bar>i\<bar> \<le> 2 ^ 53"
| "exact_request P J r \<longleftrightarrow> True"

fun perform :: "('w, 'j) host \<Rightarrow> int \<Rightarrow> request \<Rightarrow> ('w, int) state" where
  "perform H tid (Feedback b i refs) =
     (let ids = take 32 (map (i64_of_dbl (plat H)) (cited_ids (plat H) (json H) i refs));
          ids = (if ids = [] \<and> tid > 0 then [tid] else ids)
      in if ids = [] then ret 0 else memory_apply_feedback (svc H) (if b then 1 else 0) ids)"
| "perform H tid (Supersede_Memory i s) =
     (if s = [] then ret (-1)
      else do { sid \<leftarrow> session_id (svc H); memory_supersede (svc H) i s (Fin 1) sid })"
| "perform H tid (Propose_Rule t r) =
     (if t = [] then ret (-1)
      else do { k \<leftarrow> db2_collab_rules_propose (svc H) t r ''learning_router'';
                ret (if k \<ge> 0 then 0 else -1) })"
| "perform H tid (Upsert_Workflow p s r) =
     (if p = [] \<or> s = [] \<or> r = [] then ret (-1)
      else do { sid \<leftarrow> session_id (svc H);
                k \<leftarrow> memory_upsert_workflow (svc H) p s r (Fin 1) sid;
                ret (if k > 0 then 0 else -1) })"

lemma request_portable:
  "exact_request P J req \<Longrightarrow> request_fields P J req k = Some v \<Longrightarrow> portable_val v"
  by (cases req) (auto simp: portable_id split: if_splits)

text \<open>All four builders at once.\<close>

lemma request_stored:
  assumes "json_laws J" "exact_request P J req"
  obtains t where "\<And>cap. build_request P J req cap = Some (snprintf cap t)"
    "\<And>cap. length t < cap \<Longrightarrow> \<exists>act. cJSON_Parse J (snprintf cap t) = Some act \<and>
       (\<forall>k. jfield J act k = request_fields P J req k)"
    "\<And>cap. 0 < cap \<Longrightarrow> cap \<le> length t \<Longrightarrow> cJSON_Parse J (snprintf cap t) = None"
    "\<And>k s. request_fields P J req k = Some (JStr s) \<Longrightarrow> length s + 2 \<le> length t"
proof (cases req)
  case (Feedback b i refs)
  show thesis
    by (rule reranker_action.stored [OF assms(1), of b P i refs])
       (use request_portable [OF assms(2)] that Feedback in auto)
next
  case (Supersede_Memory i s)
  show thesis
    by (rule supersede_action.stored [OF assms(1), of P i "Some s"])
       (use request_portable [OF assms(2)] that Supersede_Memory in auto)
next
  case (Propose_Rule t r)
  show thesis
    by (rule rule_action.stored [OF assms(1), of "Some t" "Some r"])
       (use request_portable [OF assms(2)] that Propose_Rule in auto)
next
  case (Upsert_Workflow p s r)
  show thesis
    by (rule workflow_action.stored [OF assms(1), of "Some p" "Some s" "Some r"])
       (use request_portable [OF assms(2)] that Upsert_Workflow in auto)
qed

section \<open>Applying a stored action performs the request\<close>

lemma collect_ids_take:
  "length ids \<le> 32 \<Longrightarrow>
   collect_ids P J ids vs = take 32 (ids @ map (i64_of_dbl P) (number_items J vs))"
  by (induction vs arbitrary: ids) (auto simp: number_items_def take_Cons')

lemma text_of_field:
  "json_exclusive J \<Longrightarrow> jfield J act k = Some (JStr s) \<Longrightarrow>
   json_text J (cJSON_GetObjectItemCaseSensitive J act k) = (if s = [] then None else Some s)"
  by (simp add: json_text_field)

lemma number_of_field:
  assumes "json_exclusive J" "jfield J act k = Some (JNum d)"
  obtains v where "cJSON_GetObjectItemCaseSensitive J act k = Some v" "cJSON_IsNumber J v"
    "valuedouble J v = d"
  using assms(2) jval_tests(2) [OF assms(1)] by (auto simp: jfield_Some)

lemma string_of_field:
  assumes "json_exclusive J" "jfield J act k = Some (JStr s)"
  obtains v where "cJSON_GetObjectItemCaseSensitive J act k = Some v" "cJSON_IsString J v"
    "valuestring J v = s"
  using assms(2) jval_tests(1) [OF assms(1)] by (auto simp: jfield_Some)

lemma array_of_field:
  assumes "json_exclusive J" "jfield J act k = Some (JArr ds)"
  obtains v where "cJSON_GetObjectItemCaseSensitive J act k = Some v" "cJSON_IsArray J v"
    "number_items J (children J v) = ds"
  using assms(2) jval_tests(4) [OF assms(1)] by (auto simp: jfield_Some)

lemma bool_of_field:
  assumes "json_exclusive J" "jfield J act k = Some (JBool b)"
  shows "success_value J (cJSON_GetObjectItemCaseSensitive J act k) = (if b then 1 else 0)"
proof -
  obtain v where v: "cJSON_GetObjectItemCaseSensitive J act k = Some v" "jval_of J v = JBool b"
    using assms(2) by (auto simp: jfield_Some)
  then have "cJSON_IsBool J v" "cJSON_IsTrue J v = b"
    using jval_tests(3) [OF assms(1), of v b] by simp_all
  with v(1) show ?thesis
    by (simp add: success_value_def)
qed

lemma apply_fields:
  fixes H :: "('w, 'j) host"
  assumes ex: "json_exclusive (json H)" and er: "exact_request (plat H) (json H) req"
    and f: "\<And>k. jfield (json H) act k = request_fields (plat H) (json H) req k"
    and parse: "cJSON_Parse (json H) (p_action_json p) = Some act"
    and sink: "p_sink p = request_sink req"
  shows "learning_apply_sink H p = perform H (p_target_memory_id p) req"
proof (cases req)
  case (Feedback b i refs)
  obtain v where v: "cJSON_GetObjectItemCaseSensitive (json H) act ''citation_ids'' = Some v"
      "cJSON_IsArray (json H) v" "number_items (json H) (children (json H) v) = cited_ids (plat H) (json H) i refs"
    by (rule array_of_field [OF ex, of act "''citation_ids''"]) (use f Feedback in auto)
  have "success_value (json H) (cJSON_GetObjectItemCaseSensitive (json H) act ''success'') =
      (if b then 1 else 0)"
    by (rule bool_of_field [OF ex]) (use f Feedback in simp)
  then show ?thesis
    using v parse sink Feedback
    by (simp add: learning_apply_sink_def apply_reranker_def Let_def collect_ids_take)
next
  case (Supersede_Memory i s)
  obtain v where v: "cJSON_GetObjectItemCaseSensitive (json H) act ''old_memory_id'' = Some v"
      "cJSON_IsNumber (json H) v" "valuedouble (json H) v = dbl_of_int (plat H) i"
    by (rule number_of_field [OF ex, of act "''old_memory_id''"]) (use f Supersede_Memory in auto)
  have "json_text (json H) (cJSON_GetObjectItemCaseSensitive (json H) act ''new_content'') =
      (if s = [] then None else Some s)"
    by (rule text_of_field [OF ex]) (use f Supersede_Memory in simp)
  moreover have "i64_of_dbl (plat H) (dbl_of_int (plat H) i) = i"
    using er Supersede_Memory by (simp add: i64_of_dbl_of_int)
  ultimately show ?thesis
    using v parse sink Supersede_Memory
    by (simp add: learning_apply_sink_def apply_supersede_def)
next
  case (Propose_Rule t r)
  obtain v where v: "cJSON_GetObjectItemCaseSensitive (json H) act ''reason'' = Some v"
      "cJSON_IsString (json H) v" "valuestring (json H) v = r"
    by (rule string_of_field [OF ex, of act "''reason''"]) (use f Propose_Rule in auto)
  have "json_text (json H) (cJSON_GetObjectItemCaseSensitive (json H) act ''text'') =
      (if t = [] then None else Some t)"
    by (rule text_of_field [OF ex]) (use f Propose_Rule in simp)
  then show ?thesis
    using v parse sink Propose_Rule
    by (simp add: learning_apply_sink_def apply_rule_def)
next
  case (Upsert_Workflow q s r)
  have "json_text (json H) (cJSON_GetObjectItemCaseSensitive (json H) act k) =
      (if x = [] then None else Some x)"
    if "(k, x) \<in> {(''project'', q), (''signal_type'', s), (''rule'', r)}" for k x
    by (rule text_of_field [OF ex]) (use f Upsert_Workflow that in auto)
  then show ?thesis
    using parse sink Upsert_Workflow
    by (simp add: learning_apply_sink_def apply_workflow_def)
qed

lemma apply_unparsable:
  "cJSON_Parse (json H) (p_action_json p) = None \<Longrightarrow> learning_apply_sink H p = ret (-1)"
  by (simp add: learning_apply_sink_def)

end
