(* ===== verification/Proposal_Store.thy ===== *)
theory Proposal_Store
  imports Learning_Types
begin

text \<open>
  The life cycle of proposals, as an abstract store and its transitions, and what the module assumes
  of DB2's learning tables: that each call does to the store what its name says. The tables are not
  part of this repository, so the abstraction function \<open>view\<close> from the world to the store is a
  parameter and the laws are the named hypothesis \<open>proposal_tables\<close>. A law never looks at the state a
  row is in: archiving or committing a row that is already settled overwrites it, so whatever is
  proved about settled rows comes from the guards of the router.
\<close>

section \<open>The abstract store\<close>

text \<open>The rows by id, and how many commits of a sink fall into the last seven days.\<close>

record pstore =
  rows :: "int \<Rightarrow> proposal option"
  week_commits :: "string \<Rightarrow> int"

definition pending :: "proposal \<Rightarrow> bool" where
  "pending p \<longleftrightarrow> p_state p = ''pending''"

definition settled :: "proposal \<Rightarrow> bool" where
  "settled p \<longleftrightarrow> p_state p = ''committed'' \<or> p_state p = ''archived''"

text \<open>A row after it was archived, committed or corroborated; time stamps are the database's.\<close>

definition archived_from :: "proposal \<Rightarrow> string \<Rightarrow> proposal \<Rightarrow> bool" where
  "archived_from p reason q \<longleftrightarrow>
     q = p\<lparr>p_state := ''archived'', p_archive_reason := reason, p_updated_at := p_updated_at q\<rparr>"

definition committed_from :: "proposal \<Rightarrow> proposal \<Rightarrow> bool" where
  "committed_from p q \<longleftrightarrow>
     q = p\<lparr>p_state := ''committed'', p_committed_at := p_committed_at q, p_updated_at := p_updated_at q\<rparr>"

definition bumped_from :: "proposal \<Rightarrow> proposal \<Rightarrow> bool" where
  "bumped_from p q \<longleftrightarrow>
     q = p\<lparr>p_corroboration_count := p_corroboration_count p + 1, p_updated_at := p_updated_at q\<rparr>"

text \<open>Commits leave the seven-day window as time passes; nothing but a commit adds one.\<close>

definition no_new_commits :: "pstore \<Rightarrow> pstore \<Rightarrow> bool" where
  "no_new_commits s t \<longleftrightarrow> (\<forall>k. week_commits t k \<le> week_commits s k)"

text \<open>Replacing one row.\<close>

definition row_changed :: "int \<Rightarrow> proposal \<Rightarrow> pstore \<Rightarrow> pstore \<Rightarrow> bool" where
  "row_changed i q s t \<longleftrightarrow> rows t = (rows s)(i \<mapsto> q)"

section \<open>Transitions\<close>

text \<open>
  One step in the life of the proposals, below a weekly cap on the commits of a sink. Proposals are
  created pending; only a pending row is corroborated, committed (below the cap) or expires, and
  only a row that is not settled is archived.
\<close>

inductive life_step :: "int \<Rightarrow> pstore \<Rightarrow> pstore \<Rightarrow> bool" for cap :: int where
  expire: "(\<And>i. rows t i = rows s i \<or>
              (\<exists>p q r. rows s i = Some p \<and> pending p \<and> archived_from p r q \<and> rows t i = Some q)) \<Longrightarrow>
           no_new_commits s t \<Longrightarrow> life_step cap s t"
| archive: "rows s i = Some p \<Longrightarrow> \<not> settled p \<Longrightarrow> archived_from p r q \<Longrightarrow> row_changed i q s t \<Longrightarrow>
            no_new_commits s t \<Longrightarrow> life_step cap s t"
| commit: "rows s i = Some p \<Longrightarrow> pending p \<Longrightarrow> week_commits s (p_sink p) < cap \<Longrightarrow>
           committed_from p q \<Longrightarrow> row_changed i q s t \<Longrightarrow>
           (\<And>k. week_commits t k \<le> week_commits s k + (if k = p_sink p then 1 else 0)) \<Longrightarrow>
           life_step cap s t"
| corroborate: "rows s i = Some p \<Longrightarrow> pending p \<Longrightarrow> bumped_from p q \<Longrightarrow> row_changed i q s t \<Longrightarrow>
                no_new_commits s t \<Longrightarrow> life_step cap s t"
| create: "rows s i = None \<Longrightarrow> 0 < i \<Longrightarrow> pending q \<Longrightarrow> row_changed i q s t \<Longrightarrow>
           no_new_commits s t \<Longrightarrow> life_step cap s t"

abbreviation life :: "int \<Rightarrow> pstore \<Rightarrow> pstore \<Rightarrow> bool" where
  "life cap \<equiv> (life_step cap)\<^sup>*\<^sup>*"

text \<open>What no life changes: a row that is settled stays as it is, a row never disappears, and a row
  keeps what it was created with.\<close>

definition same_origin :: "proposal \<Rightarrow> proposal \<Rightarrow> bool" where
  "same_origin p q \<longleftrightarrow> p_id q = p_id p \<and> p_signal_id q = p_signal_id p \<and> p_sink q = p_sink p \<and>
     p_target_key q = p_target_key p \<and> p_target_memory_id q = p_target_memory_id p \<and>
     p_action_json q = p_action_json p \<and> p_evidence_refs q = p_evidence_refs p \<and>
     p_expires_at q = p_expires_at p"

definition row_kept :: "proposal option \<Rightarrow> proposal option \<Rightarrow> bool" where
  "row_kept x y \<longleftrightarrow> (case x of None \<Rightarrow> True
     | Some p \<Rightarrow> (case y of None \<Rightarrow> False
         | Some q \<Rightarrow> same_origin p q \<and> (settled p \<longrightarrow> q = p) \<and>
                    p_corroboration_count p \<le> p_corroboration_count q))"

lemma pending_not_settled: "pending p \<Longrightarrow> \<not> settled p"
  by (simp add: pending_def settled_def)

lemma row_kept_refl: "row_kept x x"
  by (cases x) (simp_all add: row_kept_def same_origin_def)

lemma row_kept_trans: "row_kept x y \<Longrightarrow> row_kept y z \<Longrightarrow> row_kept x z"
  by (cases x; cases y; cases z) (auto simp: row_kept_def same_origin_def)

lemma archived_fields:
  assumes "archived_from p r q"
  shows "p_state q = ''archived''" "p_archive_reason q = r" "same_origin p q"
    "p_corroboration_count q = p_corroboration_count p"
proof -
  obtain u where "q = p\<lparr>p_state := ''archived'', p_archive_reason := r, p_updated_at := u\<rparr>"
    using assms unfolding archived_from_def by blast
  then show "p_state q = ''archived''" "p_archive_reason q = r" "same_origin p q"
    "p_corroboration_count q = p_corroboration_count p"
    by (simp_all add: same_origin_def)
qed

lemma committed_fields:
  assumes "committed_from p q"
  shows "p_state q = ''committed''" "same_origin p q"
    "p_corroboration_count q = p_corroboration_count p"
proof -
  obtain c u where "q = p\<lparr>p_state := ''committed'', p_committed_at := c, p_updated_at := u\<rparr>"
    using assms unfolding committed_from_def by blast
  then show "p_state q = ''committed''" "same_origin p q"
    "p_corroboration_count q = p_corroboration_count p"
    by (simp_all add: same_origin_def)
qed

lemma bumped_fields:
  assumes "bumped_from p q"
  shows "p_state q = p_state p" "same_origin p q"
    "p_corroboration_count q = p_corroboration_count p + 1"
proof -
  obtain u where "q = p\<lparr>p_corroboration_count := p_corroboration_count p + 1, p_updated_at := u\<rparr>"
    using assms unfolding bumped_from_def by blast
  then show "p_state q = p_state p" "same_origin p q"
    "p_corroboration_count q = p_corroboration_count p + 1"
    by (simp_all add: same_origin_def)
qed

lemmas row_results = archived_fields committed_fields bumped_fields

lemma kept_by_change:
  "\<not> settled p \<Longrightarrow> archived_from p r q \<Longrightarrow> row_kept (Some p) (Some q)"
  "pending p \<Longrightarrow> committed_from p q \<Longrightarrow> row_kept (Some p) (Some q)"
  "pending p \<Longrightarrow> bumped_from p q \<Longrightarrow> row_kept (Some p) (Some q)"
  by (simp_all add: row_kept_def pending_not_settled row_results)

lemma life_step_keeps_rows: "life_step cap s t \<Longrightarrow> row_kept (rows s i) (rows t i)"
proof (induction rule: life_step.induct)
  case (expire t s)
  from expire(1) [of i] show ?case
    by (auto intro!: row_kept_refl kept_by_change(1) dest: pending_not_settled)
next
  case (create s j q t)
  then show ?case
    by (cases "i = j") (simp_all add: row_changed_def row_kept_refl row_kept_def)
qed (auto simp: row_changed_def row_kept_refl intro: kept_by_change)

lemma life_keeps_rows: "life cap s t \<Longrightarrow> row_kept (rows s i) (rows t i)"
  by (induction rule: rtranclp_induct) (auto intro: row_kept_refl row_kept_trans life_step_keeps_rows)

lemma life_step_cap:
  assumes "life_step cap s t" "\<And>k. week_commits s k \<le> cap"
  shows "week_commits t k \<le> cap"
  using assms
proof (induction rule: life_step.induct)
  case (commit s i p q t)
  have "week_commits t k \<le> week_commits s k + (if k = p_sink p then 1 else 0)"
    by (rule commit(6))
  with commit(3) commit(7) [of k] show ?case
    by (cases "k = p_sink p") auto
qed (auto simp: no_new_commits_def intro: order_trans)

lemma life_cap: "life cap s t \<Longrightarrow> (\<And>k. week_commits s k \<le> cap) \<Longrightarrow> week_commits t k \<le> cap"
  by (induction arbitrary: k rule: rtranclp_induct) (auto intro: life_step_cap)

text \<open>A settled row was there before, or was reached through a pending one: from a store without rows
  every row's state is one of the three.\<close>

definition known_states :: "pstore \<Rightarrow> bool" where
  "known_states s \<longleftrightarrow> (\<forall>i p. rows s i = Some p \<longrightarrow> pending p \<or> settled p)"

lemma life_step_states: "life_step cap s t \<Longrightarrow> known_states s \<Longrightarrow> known_states t"
proof (induction rule: life_step.induct)
  case (expire t s)
  show ?case
    unfolding known_states_def
  proof (intro allI impI)
    fix i q
    assume "rows t i = Some q"
    consider "rows s i = Some q" | p r where "archived_from p r q"
      using expire(1) [of i] \<open>rows t i = Some q\<close> by fastforce
    then show "pending q \<or> settled q"
    proof cases
      case 1
      with expire.prems show ?thesis
        by (simp add: known_states_def)
    next
      case 2
      then show ?thesis
        by (simp add: settled_def archived_fields)
    qed
  qed
qed (auto simp: known_states_def row_changed_def settled_def pending_def row_results
    split: if_splits)

lemma life_states: "life cap s t \<Longrightarrow> known_states s \<Longrightarrow> known_states t"
  by (induction rule: rtranclp_induct) (auto intro: life_step_states)

section \<open>What DB2's tables promise\<close>

text \<open>Writing a row may also fail and leave everything as it was.\<close>

definition row_write ::
    "('w \<Rightarrow> pstore) \<Rightarrow> int \<Rightarrow> (proposal \<Rightarrow> proposal \<Rightarrow> bool) \<Rightarrow> (proposal \<Rightarrow> string \<Rightarrow> int) \<Rightarrow>
     ('w, 'a) state \<Rightarrow> bool" where
  "row_write view i new adds m \<longleftrightarrow> (\<forall>w.
     (rows (view (final m w)) = rows (view w) \<and> no_new_commits (view w) (view (final m w))) \<or>
     (\<exists>p q. rows (view w) i = Some p \<and> new p q \<and> row_changed i q (view w) (view (final m w)) \<and>
        (\<forall>k. week_commits (view (final m w)) k \<le> week_commits (view w) k + adds p k)))"

definition expire_law :: "'w db2_learning \<Rightarrow> ('w \<Rightarrow> pstore) \<Rightarrow> bool" where
  "expire_law D view \<longleftrightarrow> (\<forall>w.
     (\<forall>i. rows (view (final (db2_learning_proposals_archive_expired D) w)) i = rows (view w) i \<or>
        (\<exists>p q r. rows (view w) i = Some p \<and> pending p \<and> archived_from p r q \<and>
           rows (view (final (db2_learning_proposals_archive_expired D) w)) i = Some q)) \<and>
     no_new_commits (view w) (view (final (db2_learning_proposals_archive_expired D) w)))"

definition find_law :: "'w db2_learning \<Rightarrow> ('w \<Rightarrow> pstore) \<Rightarrow> bool" where
  "find_law D view \<longleftrightarrow> (\<forall>sink key mid w.
     0 < outcome (db2_learning_proposal_find_pending D sink key mid) w \<longrightarrow>
     (\<exists>p. rows (view w) (outcome (db2_learning_proposal_find_pending D sink key mid) w) = Some p \<and>
          pending p \<and> p_sink p = sink \<and> p_target_key p = key \<and> p_target_memory_id p = mid))"

definition write_laws :: "'w db2_learning \<Rightarrow> ('w \<Rightarrow> pstore) \<Rightarrow> bool" where
  "write_laws D view \<longleftrightarrow>
     (\<forall>i. row_write view i bumped_from (\<lambda>_ _. 0) (db2_learning_proposal_bump_corroboration D i)) \<and>
     (\<forall>i r. row_write view i (\<lambda>p. archived_from p r) (\<lambda>_ _. 0) (db2_learning_proposal_archive D i r)) \<and>
     (\<forall>i. row_write view i committed_from (\<lambda>p k. if k = p_sink p then 1 else 0)
            (db2_learning_proposal_mark_committed D i))"

text \<open>A new row is pending, carries the arguments, and has an id that was not in use.\<close>

definition inserted ::
    "string \<Rightarrow> string \<Rightarrow> int \<Rightarrow> string \<Rightarrow> string \<Rightarrow> proposal \<Rightarrow> bool" where
  "inserted sink key mid act ex q \<longleftrightarrow> pending q \<and> p_sink q = sink \<and> p_target_key q = key \<and>
     p_target_memory_id q = mid \<and> p_action_json q = act \<and> p_expires_at q = ex"

definition insert_law :: "'w db2_learning \<Rightarrow> ('w \<Rightarrow> pstore) \<Rightarrow> bool" where
  "insert_law D view \<longleftrightarrow> (\<forall>sid sink key mid act refs ex w.
     let m = db2_learning_proposal_insert D sid sink key mid act refs ex;
         i = outcome m w
     in no_new_commits (view w) (view (final m w)) \<and>
        (if 0 < i
         then rows (view w) i = None \<and>
              (\<exists>q. row_changed i q (view w) (view (final m w)) \<and> inserted sink key mid act ex q)
         else rows (view (final m w)) = rows (view w)))"

definition read_laws :: "'w db2_learning \<Rightarrow> ('w \<Rightarrow> pstore) \<Rightarrow> bool" where
  "read_laws D view \<longleftrightarrow>
     (\<forall>sink key mid. reads view (db2_learning_proposal_find_pending D sink key mid)) \<and>
     (\<forall>i b. reads view (db2_learning_proposal_get D i b)) \<and>
     (\<forall>st sink n out mx. reads view (db2_learning_proposal_list D st sink n out mx)) \<and>
     (\<forall>sink. reads view (db2_learning_commits_in_last_7_days D sink)) \<and>
     (\<forall>inp sid. reads view (db2_learning_signal_insert D inp sid)) \<and>
     (\<forall>n. reads view (db2_learning_proposals_settled_counts D n))"

definition answer_laws :: "'w db2_learning \<Rightarrow> ('w \<Rightarrow> pstore) \<Rightarrow> bool" where
  "answer_laws D view \<longleftrightarrow>
     (\<forall>i b w p. outcome (db2_learning_proposal_get D i b) w = (0, p) \<longrightarrow> rows (view w) i = Some p) \<and>
     (\<forall>sink w. outcome (db2_learning_commits_in_last_7_days D sink) w = week_commits (view w) sink)"

definition proposal_tables :: "'w db2_learning \<Rightarrow> ('w \<Rightarrow> pstore) \<Rightarrow> bool" where
  "proposal_tables D view \<longleftrightarrow> expire_law D view \<and> find_law D view \<and> write_laws D view \<and>
     insert_law D view \<and> read_laws D view \<and> answer_laws D view"

text \<open>The other services have nothing to do with the proposal tables.\<close>

definition services_apart :: "'w services \<Rightarrow> ('w \<Rightarrow> 's) \<Rightarrow> bool" where
  "services_apart S view \<longleftrightarrow>
     reads view (session_id S) \<and>
     (\<forall>b is. reads view (memory_apply_feedback S b is)) \<and>
     (\<forall>i s d sid. reads view (memory_supersede S i s d sid)) \<and>
     (\<forall>p s r d sid. reads view (memory_upsert_workflow S p s r d sid)) \<and>
     (\<forall>i. reads view (memory_get S i)) \<and>
     (\<forall>t r who. reads view (db2_collab_rules_propose S t r who)) \<and>
     (\<forall>a b c d e f g h. reads view (db2_artifact_write S a b c d e f g h)) \<and>
     (\<forall>a b ids l n. reads view (dogfood_log_moment_tagged S a b ids l n)) \<and>
     (\<forall>t. reads view (dogfood_classify_next_turn S t)) \<and>
     (\<forall>a b c. reads view (dogfood_query_is_repeat S a b c)) \<and>
     (\<forall>t src. reads view (integrity_gate_check S t src)) \<and>
     reads view (clock_gettime S) \<and>
     reads view (time_now S)"

section \<open>The laws one by one\<close>

lemma tables_expire:
  assumes "proposal_tables D view"
  shows "life_step cap (view w) (view (final (db2_learning_proposals_archive_expired D) w))"
proof -
  have "expire_law D view"
    using assms by (simp add: proposal_tables_def)
  then show ?thesis
    unfolding expire_law_def by (intro life_step.expire) blast+
qed

lemma tables_reads:
  assumes "proposal_tables D view"
  shows "reads view (db2_learning_proposal_find_pending D sink key mid)"
    "reads view (db2_learning_proposal_get D i b)"
    "reads view (db2_learning_proposal_list D st fsink n buf mx)"
    "reads view (db2_learning_commits_in_last_7_days D sink)"
    "reads view (db2_learning_signal_insert D inp sid)"
    "reads view (db2_learning_proposals_settled_counts D n)"
  using assms by (simp_all add: proposal_tables_def read_laws_def)

lemma tables_find:
  "proposal_tables D view \<Longrightarrow> outcome (db2_learning_proposal_find_pending D sink key mid) w = i \<Longrightarrow> 0 < i \<Longrightarrow>
   \<exists>p. rows (view w) i = Some p \<and> pending p \<and> p_sink p = sink \<and> p_target_key p = key \<and>
       p_target_memory_id p = mid"
  by (auto simp: proposal_tables_def find_law_def)

lemma tables_write:
  assumes "proposal_tables D view"
  shows tables_bump:
      "row_write view i bumped_from (\<lambda>_ _. 0) (db2_learning_proposal_bump_corroboration D i)"
    and tables_archive:
      "row_write view i (\<lambda>p. archived_from p r) (\<lambda>_ _. 0) (db2_learning_proposal_archive D i r)"
    and tables_commit:
      "row_write view i committed_from (\<lambda>p k. if k = p_sink p then 1 else 0)
         (db2_learning_proposal_mark_committed D i)"
  using assms by (simp_all add: proposal_tables_def write_laws_def)

lemma tables_insert:
  fixes D :: "'w db2_learning" and sid sink key mid act refs ex
  assumes "proposal_tables D view"
  defines "m \<equiv> db2_learning_proposal_insert D sid sink key mid act refs ex"
  shows "no_new_commits (view w) (view (final m w))"
    and "0 < outcome m w \<Longrightarrow> rows (view w) (outcome m w) = None"
    and "0 < outcome m w \<Longrightarrow> \<exists>q. row_changed (outcome m w) q (view w) (view (final m w)) \<and>
      inserted sink key mid act ex q"
    and "\<not> 0 < outcome m w \<Longrightarrow> rows (view (final m w)) = rows (view w)"
proof -
  have "insert_law D view"
    using assms(1) by (simp add: proposal_tables_def)
  then have "no_new_commits (view w) (view (final m w)) \<and>
    (if 0 < outcome m w
     then rows (view w) (outcome m w) = None \<and>
       (\<exists>q. row_changed (outcome m w) q (view w) (view (final m w)) \<and> inserted sink key mid act ex q)
     else rows (view (final m w)) = rows (view w))"
    unfolding insert_law_def m_def Let_def by blast
  then show "no_new_commits (view w) (view (final m w))"
    "0 < outcome m w \<Longrightarrow> rows (view w) (outcome m w) = None"
    "0 < outcome m w \<Longrightarrow> \<exists>q. row_changed (outcome m w) q (view w) (view (final m w)) \<and>
      inserted sink key mid act ex q"
    "\<not> 0 < outcome m w \<Longrightarrow> rows (view (final m w)) = rows (view w)"
    by (simp_all split: if_splits)
qed

lemma tables_get:
  "proposal_tables D view \<Longrightarrow> outcome (db2_learning_proposal_get D i b) w = (0, p) \<Longrightarrow>
   rows (view w) i = Some p"
  by (simp add: proposal_tables_def answer_laws_def)

lemma tables_commits:
  "proposal_tables D view \<Longrightarrow>
   outcome (db2_learning_commits_in_last_7_days D sink) w = week_commits (view w) sink"
  by (simp add: proposal_tables_def answer_laws_def)

lemma apart_reads:
  assumes "services_apart S view"
  shows "reads view (session_id S)" "reads view (memory_apply_feedback S b ids)"
    "reads view (memory_supersede S i s d sid)" "reads view (memory_upsert_workflow S p s r d sid)"
    "reads view (memory_get S i)" "reads view (db2_collab_rules_propose S t r who)"
    "reads view (db2_artifact_write S a0 a1 a2 a3 a4 a5 d a7)"
    "reads view (dogfood_log_moment_tagged S a0 a1 ids l n)"
    "reads view (dogfood_classify_next_turn S t)" "reads view (dogfood_query_is_repeat S a0 a1 a2)"
    "reads view (integrity_gate_check S t src)" "reads view (clock_gettime S)"
    "reads view (time_now S)"
  using assms by (simp_all add: services_apart_def)

text \<open>Where nothing changes, the store has not moved: the frame relation, and the relation of a life.\<close>

interpretation frame: effects "\<lambda>w w'. view w' = view w" for view :: "'w \<Rightarrow> 's"
  by unfold_locales auto

interpretation lives: effects "\<lambda>w w'. life cap (view w) (view w')" for cap and view :: "'w \<Rightarrow> pstore"
  by unfold_locales auto

lemma reads_io: "reads view m \<longleftrightarrow> state_io_rel (\<lambda>w w'. view w' = view w) m"
  by (simp add: reads_def state_io_rel_final)

lemma reads_lives: "reads view m \<Longrightarrow> state_io_rel (\<lambda>w w'. life cap (view w) (view w')) m"
  by (simp add: reads_def state_io_rel_final)

lemma step_lives:
  "(\<And>w. life_step cap (view w) (view (final m w))) \<Longrightarrow> state_io_rel (\<lambda>w w'. life cap (view w) (view w')) m"
  by (simp add: state_io_rel_final r_into_rtranclp)

lemmas frame_rules [unfolded reads_io [symmetric]] = frame.eff_rules

text \<open>A row write where the row is pending.\<close>

lemma quiet_step: "rows t = rows s \<Longrightarrow> no_new_commits s t \<Longrightarrow> life_step cap s t"
  by (rule life_step.expire) simp_all

lemma archive_step:
  assumes "proposal_tables D view" "rows (view w) i = Some p" "\<not> settled p"
  shows "life_step cap (view w) (view (final (db2_learning_proposal_archive D i r) w))"
  using tables_archive [OF assms(1), of i r] assms(2,3)
  by (auto simp: row_write_def no_new_commits_def intro: quiet_step life_step.archive
      dest!: spec [where x = w])

lemma bump_step:
  assumes "proposal_tables D view" "rows (view w) i = Some p" "pending p"
  shows "life_step cap (view w) (view (final (db2_learning_proposal_bump_corroboration D i) w))"
  using tables_bump [OF assms(1), of i] assms(2,3)
  by (auto simp: row_write_def no_new_commits_def intro: quiet_step life_step.corroborate
      dest!: spec [where x = w])

lemma commit_step:
  assumes "proposal_tables D view" "rows (view w) i = Some p" "pending p"
    "week_commits (view w) (p_sink p) < cap"
  shows "life_step cap (view w) (view (final (db2_learning_proposal_mark_committed D i) w))"
proof -
  let ?t = "view (final (db2_learning_proposal_mark_committed D i) w)"
  consider "rows ?t = rows (view w)" "no_new_commits (view w) ?t"
    | q where "committed_from p q" "row_changed i q (view w) ?t"
        "\<forall>k. week_commits ?t k \<le> week_commits (view w) k + (if k = p_sink p then 1 else 0)"
    using tables_commit [OF assms(1), of i] assms(2) unfolding row_write_def by fastforce
  then show ?thesis
    by cases (auto intro: quiet_step life_step.commit [OF assms(2,3,4)])
qed

lemma insert_step:
  assumes "proposal_tables D view"
  shows "life_step cap (view w)
    (view (final (db2_learning_proposal_insert D sid sink key mid act refs ex) w))"
proof (cases "0 < outcome (db2_learning_proposal_insert D sid sink key mid act refs ex) w")
  case True
  from tables_insert(3) [OF assms True] obtain q
    where "inserted sink key mid act ex q" "row_changed (outcome (db2_learning_proposal_insert D sid sink key mid act refs ex) w)
      q (view w) (view (final (db2_learning_proposal_insert D sid sink key mid act refs ex) w))"
    by blast
  then show ?thesis
    by (intro life_step.create [OF tables_insert(2) [OF assms True] True] tables_insert(1) [OF assms])
       (simp_all add: inserted_def)
next
  case False
  then show ?thesis
    using tables_insert(1,4) [OF assms] by (blast intro: quiet_step)
qed

section \<open>Where rows come from\<close>

text \<open>Every row was there before with the same origin, or has a planned content: sink, target key,
  memory id and action.\<close>

type_synonym content = "string \<times> string \<times> int \<times> string"

definition content :: "proposal \<Rightarrow> content" where
  "content q = (p_sink q, p_target_key q, p_target_memory_id q, p_action_json q)"

definition rows_from :: "content set \<Rightarrow> pstore \<Rightarrow> pstore \<Rightarrow> bool" where
  "rows_from S s t \<longleftrightarrow> (\<forall>i q. rows t i = Some q \<longrightarrow>
     (\<exists>p. rows s i = Some p \<and> same_origin p q) \<or> content q \<in> S)"

lemma same_origin_content: "same_origin p q \<Longrightarrow> content q = content p"
  by (simp add: same_origin_def content_def)

lemma same_origin_trans: "same_origin p q \<Longrightarrow> same_origin q r \<Longrightarrow> same_origin p r"
  by (simp add: same_origin_def)

lemma same_origin_refl: "same_origin p p"
  by (simp add: same_origin_def)

lemma rows_from_refl: "rows_from S s s"
  by (auto simp: rows_from_def same_origin_refl)

lemma rows_from_trans: "rows_from S s t \<Longrightarrow> rows_from S t u \<Longrightarrow> rows_from S s u"
  unfolding rows_from_def by (metis same_origin_content same_origin_trans)

interpretation origins: effects "\<lambda>w w'. rows_from S (view w) (view w')" for S and view :: "'w \<Rightarrow> pstore"
  by unfold_locales (auto intro: rows_from_refl rows_from_trans)

lemma reads_origins: "reads view m \<Longrightarrow> state_io_rel (\<lambda>w w'. rows_from S (view w) (view w')) m"
  by (simp add: state_io_rel_final reads_def rows_from_refl)

lemma expire_origins:
  assumes "proposal_tables D view"
  shows "state_io_rel (\<lambda>w w'. rows_from S (view w) (view w')) (db2_learning_proposals_archive_expired D)"
  unfolding state_io_rel_final rows_from_def
proof (intro allI impI)
  fix w i q
  assume q: "rows (view (final (db2_learning_proposals_archive_expired D) w)) i = Some q"
  have "expire_law D view"
    using assms by (simp add: proposal_tables_def)
  then have "rows (view w) i = Some q \<or> (\<exists>p r. rows (view w) i = Some p \<and> archived_from p r q)"
    using q unfolding expire_law_def by (metis option.inject)
  then show "(\<exists>p. rows (view w) i = Some p \<and> same_origin p q) \<or> content q \<in> S"
    using same_origin_refl archived_fields(3) by blast
qed

lemma write_origins:
  assumes "row_write view i new adds m" "\<And>p q. new p q \<Longrightarrow> same_origin p q"
  shows "state_io_rel (\<lambda>w w'. rows_from S (view w) (view w')) m"
  unfolding state_io_rel_final rows_from_def
proof (intro allI impI)
  fix w j q
  assume q: "rows (view (final m w)) j = Some q"
  have "rows (view w) j = Some q \<or> (\<exists>p. rows (view w) j = Some p \<and> same_origin p q)"
    using assms(1) assms(2) q unfolding row_write_def row_changed_def
    by (metis fun_upd_apply option.inject)
  then show "(\<exists>p. rows (view w) j = Some p \<and> same_origin p q) \<or> content q \<in> S"
    using same_origin_refl by blast
qed

lemma writes_origins:
  assumes "proposal_tables D view"
  shows "state_io_rel (\<lambda>w w'. rows_from S (view w) (view w')) (db2_learning_proposal_bump_corroboration D i)"
    and "state_io_rel (\<lambda>w w'. rows_from S (view w) (view w')) (db2_learning_proposal_archive D i r)"
    and "state_io_rel (\<lambda>w w'. rows_from S (view w) (view w')) (db2_learning_proposal_mark_committed D i)"
  by (rule write_origins [OF tables_bump [OF assms] bumped_fields(2)]
      write_origins [OF tables_archive [OF assms] archived_fields(3)]
      write_origins [OF tables_commit [OF assms] committed_fields(2)]; assumption)+

lemma insert_origins:
  assumes "proposal_tables D view" "(sink, key, mid, act) \<in> S"
  shows "state_io_rel (\<lambda>w w'. rows_from S (view w) (view w'))
    (db2_learning_proposal_insert D sid sink key mid act refs ex)"
  unfolding state_io_rel_final
proof
  fix w
  let ?m = "db2_learning_proposal_insert D sid sink key mid act refs ex"
  show "rows_from S (view w) (view (final ?m w))"
  proof (cases "0 < outcome ?m w")
    case True
    obtain q where q: "row_changed (outcome ?m w) q (view w) (view (final ?m w))"
        "inserted sink key mid act ex q"
      using tables_insert(3) [OF assms(1) True] by blast
    have "content q \<in> S"
      using q(2) assms(2) by (simp add: inserted_def content_def)
    with q(1) show ?thesis
      by (auto simp: rows_from_def row_changed_def same_origin_refl)
  next
    case False
    then show ?thesis
      using tables_insert(4) [OF assms(1) False] by (simp add: rows_from_def same_origin_refl)
  qed
qed

end
