(* ===== verification/Calendar.thy ===== *)
theory Calendar
  imports C_Runtime
begin

text \<open>
  The part of \<open>time.h\<close> the sources use to write a time stamp: \<open>gmtime_r\<close> (the proleptic Gregorian
  calendar, without leap seconds) and \<open>strftime\<close> with the format \<open>%Y-%m-%d %H:%M:%S\<close>. The calendar is
  computed by walking years and months; a lemma shows that the broken-down time denotes the instant
  it was made from, and that the printed stamp is nineteen characters for the years 1000 to 9999.
\<close>

section \<open>Broken-down time\<close>

record tm =
  tm_year :: int
  tm_mon :: nat
  tm_mday :: int
  tm_hour :: int
  tm_min :: int
  tm_sec :: int

definition leap :: "int \<Rightarrow> bool" where
  "leap y \<longleftrightarrow> (y mod 4 = 0 \<and> y mod 100 \<noteq> 0) \<or> y mod 400 = 0"

definition year_days :: "int \<Rightarrow> int" where
  "year_days y = (if leap y then 366 else 365)"

definition month_days :: "int \<Rightarrow> int list" where
  "month_days y = [31, if leap y then 29 else 28, 31, 30, 31, 30, 31, 31, 30, 31, 30, 31]"

text \<open>The year that is \<open>d\<close> days after the first of January of \<open>y\<close>, and the days left in it.\<close>

function split_years :: "int \<Rightarrow> int \<Rightarrow> int \<times> int" where
  "split_years y d = (if d < year_days y then (y, d) else split_years (y + 1) (d - year_days y))"
  by auto
termination
  by (relation "measure (\<lambda>(y, d). nat d)") (auto simp: year_days_def split: if_splits)

declare split_years.simps [simp del]

text \<open>The month, counted from 0, and the days left in it.\<close>

fun split_months :: "nat \<Rightarrow> int list \<Rightarrow> int \<Rightarrow> nat \<times> int" where
  "split_months m [] d = (m, d)"
| "split_months m (l # ls) d = (if d < l then (m, d) else split_months (Suc m) ls (d - l))"

text \<open>Days since the first of January 1970; the calendar repeats after 400 years, 146097 days.\<close>

definition gmtime :: "int \<Rightarrow> tm" where
  "gmtime t =
     (let day = t div 86400;
          s = t mod 86400;
          (y, yd) = split_years (1970 + 400 * (day div 146097)) (day mod 146097);
          (m, md) = split_months 0 (month_days y) yd
      in \<lparr>tm_year = y, tm_mon = m, tm_mday = md + 1, tm_hour = s div 3600,
          tm_min = s div 60 mod 60, tm_sec = s mod 60\<rparr>)"

section \<open>Printing a time stamp\<close>

definition two_digits :: "int \<Rightarrow> string" where
  "two_digits i = [dec_digit (nat i div 10), dec_digit (nat i mod 10)]"

definition stamp :: "tm \<Rightarrow> string" where
  "stamp x = dec_int (tm_year x) @ ''-'' @ two_digits (int (tm_mon x) + 1) @ ''-'' @
     two_digits (tm_mday x) @ '' '' @ two_digits (tm_hour x) @ '':'' @ two_digits (tm_min x) @
     '':'' @ two_digits (tm_sec x)"

text \<open>\<open>strftime\<close> writes the text when it fits with its terminator; otherwise the buffer's contents are
  unspecified (\<open>junk\<close>).\<close>

definition strftime_stamp :: "nat \<Rightarrow> string \<Rightarrow> tm \<Rightarrow> string" where
  "strftime_stamp cap junk x = (if length (stamp x) < cap then stamp x else junk)"

section \<open>The reference: how many seconds a broken-down time stands for\<close>

text \<open>Days from the first of January 1970 to that of year \<open>y\<close>, by counting leap years.\<close>

definition days_to_year :: "int \<Rightarrow> int" where
  "days_to_year y = 365 * (y - 1970) + ((y - 1) div 4 - 1969 div 4) - ((y - 1) div 100 - 1969 div 100) +
     ((y - 1) div 400 - 1969 div 400)"

definition timegm :: "tm \<Rightarrow> int" where
  "timegm x = (days_to_year (tm_year x) + sum_list (take (tm_mon x) (month_days (tm_year x))) +
     tm_mday x - 1) * 86400 + tm_hour x * 3600 + tm_min x * 60 + tm_sec x"

definition valid_tm :: "tm \<Rightarrow> bool" where
  "valid_tm x \<longleftrightarrow> tm_mon x < 12 \<and> 1 \<le> tm_mday x \<and> tm_mday x \<le> month_days (tm_year x) ! tm_mon x \<and>
     0 \<le> tm_hour x \<and> tm_hour x < 24 \<and> 0 \<le> tm_min x \<and> tm_min x < 60 \<and> 0 \<le> tm_sec x \<and> tm_sec x < 60"

lemma days_next_year: "days_to_year (y + 1) = days_to_year y + year_days y"
proof -
  have step: "y div k - (y - 1) div k = (if y mod k = 0 then 1 else 0)" if "0 < k" for k
  proof (cases "y mod k = 0")
    case True
    then obtain q where "y = q * k" by (metis mult.commute mod_0_imp_dvd dvdE)
    moreover have "(q * k - 1) div k = q - 1"
      using that by (intro int_div_pos_eq [where r = "k - 1"]) (auto simp: algebra_simps)
    ultimately show ?thesis using that by simp
  next
    case False
    then have "1 \<le> y mod k" using that pos_mod_sign [of k y] by linarith
    moreover have "y mod k < k" using that by simp
    ultimately have r: "0 \<le> y mod k - 1" "y mod k - 1 < k"
      by linarith+
    have "y - 1 = k * (y div k) + (y mod k - 1)"
      by (simp add: algebra_simps)
    then have "(y - 1) div k = y div k"
      using r by (rule int_div_pos_eq)
    with False show ?thesis by simp
  qed
  have steps: "y div 4 = (y - 1) div 4 + (if y mod 4 = 0 then 1 else 0)"
    "y div 100 = (y - 1) div 100 + (if y mod 100 = 0 then 1 else 0)"
    "y div 400 = (y - 1) div 400 + (if y mod 400 = 0 then 1 else 0)"
    using step [of 4, OF zero_less_numeral] step [of 100, OF zero_less_numeral]
      step [of 400, OF zero_less_numeral] by linarith+
  have "y mod 400 = 0 \<Longrightarrow> y mod 100 = 0" "y mod 100 = 0 \<Longrightarrow> y mod 4 = 0"
    by presburger+
  then show ?thesis
    unfolding days_to_year_def year_days_def leap_def
    by (cases "y mod 4 = 0"; cases "y mod 100 = 0"; cases "y mod 400 = 0") (simp_all add: steps)
qed

lemma days_period: "days_to_year (y + 400 * k) = days_to_year y + 146097 * k"
proof -
  have "(y - 1 + 100 * k * 4) div 4 = (y - 1) div 4 + 100 * k"
    "(y - 1 + 4 * k * 100) div 100 = (y - 1) div 100 + 4 * k"
    "(y - 1 + k * 400) div 400 = (y - 1) div 400 + k"
    by (simp_all only: div_mult_self1 [where 'a = int] zero_neq_numeral not_False_eq_True add.commute)
  moreover have "y + 400 * k - 1 = y - 1 + 100 * k * 4" "y - 1 + 100 * k * 4 = y - 1 + 4 * k * 100"
    "y - 1 + 4 * k * 100 = y - 1 + k * 400"
    by simp_all
  ultimately show ?thesis by (simp add: days_to_year_def algebra_simps)
qed

lemma split_years:
  "0 \<le> d \<Longrightarrow> split_years y d = (y', d') \<Longrightarrow>
   days_to_year y' + d' = days_to_year y + d \<and> 0 \<le> d' \<and> d' < year_days y'"
proof (induction y d rule: split_years.induct)
  case (1 y d)
  show ?case
  proof (cases "d < year_days y")
    case True
    with 1 show ?thesis by (simp add: split_years.simps)
  next
    case False
    with 1 show ?thesis
      by (simp add: split_years.simps [of y d] days_next_year)
  qed
qed

lemma split_months:
  "0 \<le> d \<Longrightarrow> d < sum_list ls \<Longrightarrow> split_months m ls d = (m', d') \<Longrightarrow>
   m \<le> m' \<and> m' - m < length ls \<and> sum_list (take (m' - m) ls) + d' = d \<and> 0 \<le> d' \<and> d' < ls ! (m' - m)"
proof (induction m ls d rule: split_months.induct)
  case (2 m l ls d)
  show ?case
  proof (cases "d < l")
    case True
    with 2 show ?thesis by simp
  next
    case False
    with 2 have "Suc m \<le> m' \<and> m' - Suc m < length ls \<and>
        sum_list (take (m' - Suc m) ls) + d' = d - l \<and> 0 \<le> d' \<and> d' < ls ! (m' - Suc m)"
      by simp
    moreover then have "m' - m = Suc (m' - Suc m)" by linarith
    ultimately show ?thesis by simp
  qed
qed simp

lemma sum_month_days: "sum_list (month_days y) = year_days y"
  by (simp add: month_days_def year_days_def)

lemma length_month_days: "length (month_days y) = 12"
  by (simp add: month_days_def)

lemma clock_split: "(s :: int) div 3600 * 3600 + s div 60 mod 60 * 60 + s mod 60 = s"
proof -
  have "s div 3600 = s div 60 div 60"
    by (simp add: zdiv_zmult2_eq [symmetric])
  moreover have "s div 60 div 60 * 60 + s div 60 mod 60 = s div 60" "s div 60 * 60 + s mod 60 = s"
    by (simp_all only: div_mult_mod_eq)
  ultimately show ?thesis by linarith
qed

text \<open>A broken-down time is in range and denotes the instant it was computed from.\<close>

lemma gmtime_correct: "valid_tm (gmtime t) \<and> timegm (gmtime t) = t"
proof -
  let ?day = "t div 86400" and ?s = "t mod 86400"
  obtain y yd where y: "split_years (1970 + 400 * (?day div 146097)) (?day mod 146097) = (y, yd)"
    by (metis surj_pair)
  obtain m md where m: "split_months 0 (month_days y) yd = (m, md)"
    by (metis surj_pair)
  have yy: "days_to_year y + yd = days_to_year (1970 + 400 * (?day div 146097)) + ?day mod 146097"
      "0 \<le> yd" "yd < year_days y"
    using split_years [OF _ y] by simp_all
  have day: "days_to_year y + yd = ?day"
    using yy(1) by (simp add: days_period) (simp add: days_to_year_def)
  have mm: "m < 12" "sum_list (take m (month_days y)) + md = yd" "0 \<le> md" "md < month_days y ! m"
    using split_months [OF yy(2) _ m] yy(3) by (simp_all add: sum_month_days length_month_days)
  have g: "gmtime t = \<lparr>tm_year = y, tm_mon = m, tm_mday = md + 1, tm_hour = ?s div 3600,
      tm_min = ?s div 60 mod 60, tm_sec = ?s mod 60\<rparr>"
    by (simp add: gmtime_def Let_def y m)
  have "0 \<le> ?s" "?s < 86400"
    by simp_all
  then have "?s div 3600 < 24" "0 \<le> ?s div 3600"
    using pos_imp_zdiv_nonneg_iff [of 3600 ?s] zdiv_mono1 [of ?s 86399 3600] by simp_all
  then have "valid_tm (gmtime t)"
    using mm by (simp add: g valid_tm_def)
  moreover have "timegm (gmtime t) = (days_to_year y + yd) * 86400 + ?s"
    using mm(2) clock_split [of ?s] by (simp add: g timegm_def algebra_simps)
  then have "timegm (gmtime t) = t"
    by (simp add: day)
  ultimately show ?thesis by simp
qed

lemma dec_nat_four: "1000 \<le> n \<Longrightarrow> n \<le> 9999 \<Longrightarrow> length (dec_nat n) = 4"
proof -
  assume n: "1000 \<le> n" "n \<le> 9999"
  have big: "\<not> n div 10 < 10" "\<not> n div 100 < 10" "n div 1000 < 10"
    using div_le_mono [OF n(1), of 10] div_le_mono [OF n(1), of 100] div_le_mono [OF n(2), of 1000]
    by simp_all
  have "length (dec_nat n) = Suc (length (dec_nat (n div 10)))"
    using n by (simp add: dec_nat.simps [of n])
  also have "length (dec_nat (n div 10)) = Suc (length (dec_nat (n div 100)))"
    using big by (simp add: dec_nat.simps [of "n div 10"] div_mult2_eq [symmetric])
  also have "length (dec_nat (n div 100)) = Suc (length (dec_nat (n div 1000)))"
    using big by (simp add: dec_nat.simps [of "n div 100"] div_mult2_eq [symmetric])
  also have "length (dec_nat (n div 1000)) = 1"
    using big by (simp add: dec_nat.simps [of "n div 1000"])
  finally show ?thesis by simp
qed

lemma stamp_length: "1000 \<le> tm_year x \<Longrightarrow> tm_year x \<le> 9999 \<Longrightarrow> length (stamp x) = 19"
  by (simp add: stamp_def two_digits_def dec_int_def dec_nat_four)

end
