(* ===== verification/Router_Proposals.thy ===== *)
theory Router_Proposals
  imports Router_Actions Proposal_Store Calendar
begin

text \<open>
  The proposal gate of \<open>learning_router.c\<close>: reading, queueing, committing, accepting and rejecting
  proposals. Every operation is proved to be a sequence of transitions of the abstract store in
  \<open>Proposal_Store\<close>, whatever the deployment's tables and services are, as long as they keep their
  contracts; which transition it is, and what is reported, is stated branch by branch.
\<close>

section \<open>Configuration\<close>

definition LEARNING_DEFAULT_TTL_DAYS :: int where
  "LEARNING_DEFAULT_TTL_DAYS = 7"

definition LEARNING_DEFAULT_MAX_COMMITS_PER_WEEK :: int where
  "LEARNING_DEFAULT_MAX_COMMITS_PER_WEEK = 25"

definition learning_proposal_ttl_days :: "('w, 'j) host \<Rightarrow> 'w \<Rightarrow> int" where
  "learning_proposal_ttl_days H w =
     (if \<not> config_present (cfg H) w then LEARNING_DEFAULT_TTL_DAYS
      else if config_learning_proposal_ttl_days (cfg H) w > 0
        then config_learning_proposal_ttl_days (cfg H) w
      else LEARNING_DEFAULT_TTL_DAYS)"

definition learning_max_commits_per_week :: "('w, 'j) host \<Rightarrow> 'w \<Rightarrow> int" where
  "learning_max_commits_per_week H w =
     (if \<not> config_present (cfg H) w then LEARNING_DEFAULT_MAX_COMMITS_PER_WEEK
      else if config_learning_max_commits_per_week (cfg H) w > 0
        then config_learning_max_commits_per_week (cfg H) w
      else LEARNING_DEFAULT_MAX_COMMITS_PER_WEEK)"

definition learning_router_enabled :: "('w, 'j) host \<Rightarrow> 'w \<Rightarrow> int" where
  "learning_router_enabled H w =
     (if \<not> config_present (cfg H) w then 1
      else if config_learning_router_enabled (cfg H) w then 1 else 0)"

definition learning_expiry_after_days :: "('w, 'j) host \<Rightarrow> int \<Rightarrow> nat \<Rightarrow> ('w, string) state" where
  "learning_expiry_after_days H days len = do {
     now \<leftarrow> time_now (svc H);
     ret (strftime_stamp len [] (gmtime (now + days * 86400)))
   }"

definition learning_dispatch_clear :: "dispatch_result option \<Rightarrow> dispatch_result option" where
  "learning_dispatch_clear out = map_option (\<lambda>_. zero_dispatch) out"

section \<open>Reading proposals\<close>

text \<open>An uninitialised local struct is passed to a read as \<open>zero_proposal\<close>; a failed read's contents
  are never looked at.\<close>

definition learning_list_proposals ::
    "('w, 'j) host \<Rightarrow> string option \<Rightarrow> string option \<Rightarrow> int \<Rightarrow> proposal list \<Rightarrow> int \<Rightarrow>
     ('w, int \<times> proposal list) state" where
  "learning_list_proposals H st sink limit out mx = do {
     _ \<leftarrow> db2_learning_proposals_archive_expired (db H);
     db2_learning_proposal_list (db H) st sink limit out mx
   }"

definition learning_get_proposal ::
    "('w, 'j) host \<Rightarrow> int \<Rightarrow> proposal \<Rightarrow> ('w, int \<times> proposal) state" where
  "learning_get_proposal H pid out = do {
     _ \<leftarrow> db2_learning_proposals_archive_expired (db H);
     db2_learning_proposal_get (db H) pid out
   }"

text \<open>\<open>learning_get_proposal(pid, out ? out : &proposal)\<close>.\<close>

definition get_into ::
    "('w, 'j) host \<Rightarrow> int \<Rightarrow> proposal \<Rightarrow> proposal option \<Rightarrow> ('w, int \<times> proposal option) state" where
  "get_into H pid local_copy out = do {
     r \<leftarrow> learning_get_proposal H pid (case out of Some p \<Rightarrow> p | None \<Rightarrow> local_copy);
     ret (fst r, map_option (\<lambda>_. snd r) out)
   }"

section \<open>Committing\<close>

text \<open>The out pointer is an option; its new contents come with the return value.\<close>

definition learning_commit_proposal ::
    "('w, 'j) host \<Rightarrow> int \<Rightarrow> proposal option \<Rightarrow> ('w, int \<times> proposal option) state" where
  "learning_commit_proposal H pid out = do {
     got \<leftarrow> learning_get_proposal H pid zero_proposal;
     let proposal = snd got;
     if fst got \<noteq> 0 then ret (-1, out)
     else if p_state proposal = ''committed'' then ret (0, map_option (\<lambda>_. proposal) out)
     else if p_state proposal \<noteq> ''pending'' then ret (0, map_option (\<lambda>_. proposal) out)
     else do {
       n \<leftarrow> db2_learning_commits_in_last_7_days (db H) (p_sink proposal);
       cap \<leftarrow> gets (learning_max_commits_per_week H);
       if n \<ge> cap then do {
         _ \<leftarrow> db2_learning_proposal_archive (db H) pid ''weekly_cap'';
         get_into H pid proposal out
       }
       else do {
         r \<leftarrow> learning_apply_sink H proposal;
         if r \<noteq> 0 then ret (-1, out)
         else do {
           _ \<leftarrow> db2_learning_proposal_mark_committed (db H) pid;
           get_into H pid proposal out
         }
       }
     }
   }"

section \<open>Queueing\<close>

definition add_proposal_id :: "int \<Rightarrow> dispatch_result option \<Rightarrow> dispatch_result option" where
  "add_proposal_id pid out = map_option (\<lambda>d.
     if d_proposal_count d < LEARNING_MAX_PROPOSAL_IDS
     then d\<lparr>d_proposal_ids := (d_proposal_ids d)[d_proposal_count d := pid],
            d_proposal_count := d_proposal_count d + 1\<rparr>
     else d) out"

definition add_committed_id :: "int \<Rightarrow> dispatch_result option \<Rightarrow> dispatch_result option" where
  "add_committed_id pid out = map_option (\<lambda>d.
     if d_committed_count d < LEARNING_MAX_PROPOSAL_IDS
     then d\<lparr>d_committed_ids := (d_committed_ids d)[d_committed_count d := pid],
            d_committed_count := d_committed_count d + 1\<rparr>
     else d) out"

text \<open>The commit inside a dispatch, with its report; both branches of \<open>learning_queue_sink\<close> end in it.\<close>

definition commit_and_report ::
    "('w, 'j) host \<Rightarrow> int \<Rightarrow> proposal \<Rightarrow> dispatch_result option \<Rightarrow> ('w, dispatch_result option) state" where
  "commit_and_report H proposal_id proposal out = do {
     r \<leftarrow> learning_commit_proposal H proposal_id (Some proposal);
     ret (if fst r = 0 \<and> p_state (the (snd r)) = ''committed'' then add_committed_id proposal_id out
          else out)
   }"

definition learning_queue_sink ::
    "('w, 'j) host \<Rightarrow> int \<Rightarrow> string \<Rightarrow> string \<Rightarrow> int \<Rightarrow> string \<Rightarrow> string option \<Rightarrow> bool \<Rightarrow>
     dispatch_result option \<Rightarrow> ('w, int \<times> dispatch_result option) state" where
  "learning_queue_sink H signal_id sink target_key target_memory_id action_json evidence_refs
     high_confidence out = do {
     found \<leftarrow> db2_learning_proposal_find_pending (db H) sink target_key target_memory_id;
     if found > 0 then do {
       _ \<leftarrow> db2_learning_proposal_bump_corroboration (db H) found;
       let out = add_proposal_id found out;
       got \<leftarrow> learning_get_proposal H found zero_proposal;
       out \<leftarrow> (if fst got = 0 \<and> p_corroboration_count (snd got) \<ge> 2
               then commit_and_report H found (snd got) out else ret out);
       ret (found, out)
     }
     else do {
       days \<leftarrow> gets (learning_proposal_ttl_days H);
       expires_at \<leftarrow> learning_expiry_after_days H days 32;
       proposal_id \<leftarrow> db2_learning_proposal_insert (db H) signal_id sink target_key target_memory_id
                        action_json evidence_refs expires_at;
       if proposal_id \<le> 0 then ret (-1, out)
       else do {
         let out = add_proposal_id proposal_id out;
         out \<leftarrow> (if high_confidence then commit_and_report H proposal_id zero_proposal out
                 else ret out);
         ret (proposal_id, out)
       }
     }
   }"

section \<open>Accepting and rejecting\<close>

definition learning_accept_proposal ::
    "('w, 'j) host \<Rightarrow> int \<Rightarrow> proposal option \<Rightarrow> ('w, int \<times> proposal option) state" where
  "learning_accept_proposal H pid out =
     (if pid \<le> 0 then ret (-1, out)
      else do {
        _ \<leftarrow> db2_learning_proposals_archive_expired (db H);
        learning_commit_proposal H pid out
      })"

definition learning_reject_proposal ::
    "('w, 'j) host \<Rightarrow> int \<Rightarrow> proposal option \<Rightarrow> ('w, int \<times> proposal option) state" where
  "learning_reject_proposal H pid out =
     (if pid \<le> 0 then ret (-1, out)
      else do {
        got \<leftarrow> learning_get_proposal H pid zero_proposal;
        let proposal = snd got;
        if fst got \<noteq> 0 then ret (-1, out)
        else do {
          _ \<leftarrow> (if p_state proposal \<noteq> ''committed'' \<and> p_state proposal \<noteq> ''archived''
               then db2_learning_proposal_archive (db H) pid ''rejected'' else ret ());
          get_into H pid proposal out
        }
      })"

section \<open>Every operation is a life of the proposals\<close>

text \<open>
  A deployment: tables and services that keep their contracts over the store \<open>view\<close>, and a configured
  weekly maximum of at most \<open>cap\<close>.
\<close>

definition deployment :: "('w, 'j) host \<Rightarrow> ('w \<Rightarrow> pstore) \<Rightarrow> int \<Rightarrow> bool" where
  "deployment H view cap \<longleftrightarrow> proposal_tables (db H) view \<and> services_apart (svc H) view \<and>
     (\<forall>w. learning_max_commits_per_week H w \<le> cap)"

lemma deployment_tables: "deployment H view cap \<Longrightarrow> proposal_tables (db H) view"
  and deployment_apart: "deployment H view cap \<Longrightarrow> services_apart (svc H) view"
  and deployment_cap: "deployment H view cap \<Longrightarrow> learning_max_commits_per_week H w \<le> cap"
  by (simp_all add: deployment_def)

abbreviation lives_by :: "('w \<Rightarrow> pstore) \<Rightarrow> int \<Rightarrow> ('w, 'a) state \<Rightarrow> bool" where
  "lives_by view cap m \<equiv> state_io_rel (\<lambda>w w'. life cap (view w) (view w')) m"

lemma lives_byD: "lives_by view cap m \<Longrightarrow> life cap (view w) (view (final m w))"
  by (simp add: state_io_rel_final)

lemma lives_byI: "(\<And>w. life cap (view w) (view (final m w))) \<Longrightarrow> lives_by view cap m"
  by (simp add: state_io_rel_final)

lemma expire_lives:
  "deployment H view cap \<Longrightarrow> lives_by view cap (db2_learning_proposals_archive_expired (db H))"
  by (intro step_lives tables_expire deployment_tables)

lemma apply_sink_reads:
  assumes "services_apart (svc H) view"
  shows "reads view (learning_apply_sink H p)"
  unfolding learning_apply_sink_def apply_reranker_def apply_supersede_def apply_rule_def
    apply_workflow_def apply_artifact_def Let_def
  by (intro frame_rules apart_reads [OF assms])

lemma get_lives: "deployment H view cap \<Longrightarrow> lives_by view cap (learning_get_proposal H i b)"
  unfolding learning_get_proposal_def
  by (intro lives.eff_rules expire_lives reads_lives tables_reads deployment_tables)

lemma list_lives: "deployment H view cap \<Longrightarrow> lives_by view cap (learning_list_proposals H st sink n b mx)"
  unfolding learning_list_proposals_def
  by (intro lives.eff_rules expire_lives reads_lives tables_reads deployment_tables)

lemma get_into_lives: "deployment H view cap \<Longrightarrow> lives_by view cap (get_into H i p out)"
  unfolding get_into_def by (intro lives.eff_rules get_lives)

text \<open>A read that succeeded shows the row as it is afterwards.\<close>

lemma get_row:
  assumes "deployment H view cap" "outcome (learning_get_proposal H i b) w = (0, p)"
  shows "rows (view (final (learning_get_proposal H i b) w)) i = Some p"
proof -
  let ?w = "final (db2_learning_proposals_archive_expired (db H)) w"
  have "view (final (learning_get_proposal H i b) w) = view ?w"
    using tables_reads(2) [OF deployment_tables [OF assms(1)]]
    by (simp add: learning_get_proposal_def final_bind readsD)
  moreover have "rows (view ?w) i = Some p"
    using assms(2) tables_get [OF deployment_tables [OF assms(1)], of i b ?w p]
    by (simp add: learning_get_proposal_def outcome_bind)
  ultimately show ?thesis by simp
qed

lemma get_into_row:
  assumes "deployment H view cap" "outcome (get_into H i p out) w = (0, Some q)"
  shows "rows (view (final (get_into H i p out) w)) i = Some q"
proof -
  let ?m = "learning_get_proposal H i (case out of Some p \<Rightarrow> p | None \<Rightarrow> p)"
  have "outcome ?m w = (0, q)"
    using assms(2) by (auto simp: get_into_def outcome_bind prod_eq_iff)
  then show ?thesis
    using get_row [OF assms(1)] by (simp add: get_into_def final_bind)
qed

text \<open>The three guarded writes of the gate, from a world where the row is pending.\<close>

lemma guarded_archive_lives:
  "deployment H view cap \<Longrightarrow> rows (view w) i = Some p \<Longrightarrow> \<not> settled p \<Longrightarrow>
   life cap (view w) (view (final (db2_learning_proposal_archive (db H) i r) w))"
  by (blast intro: r_into_rtranclp archive_step deployment_tables)

lemma guarded_bump_lives:
  "deployment H view cap \<Longrightarrow> rows (view w) i = Some p \<Longrightarrow> pending p \<Longrightarrow>
   life cap (view w) (view (final (db2_learning_proposal_bump_corroboration (db H) i) w))"
  by (blast intro: r_into_rtranclp bump_step deployment_tables)

lemma guarded_commit_lives:
  "deployment H view cap \<Longrightarrow> rows (view w) i = Some p \<Longrightarrow> pending p \<Longrightarrow>
   week_commits (view w) (p_sink p) < cap \<Longrightarrow>
   life cap (view w) (view (final (db2_learning_proposal_mark_committed (db H) i) w))"
  by (blast intro: r_into_rtranclp commit_step deployment_tables)

text \<open>The commit, case by case: \<open>w1\<close> is the world after the read.\<close>

definition commit_after ::
    "('w, 'j) host \<Rightarrow> int \<Rightarrow> proposal option \<Rightarrow> int \<times> proposal \<Rightarrow> ('w, int \<times> proposal option) state" where
  "commit_after H i out got =
     (if fst got \<noteq> 0 then ret (-1, out)
      else if \<not> pending (snd got) then ret (0, map_option (\<lambda>_. snd got) out)
      else do {
        n \<leftarrow> db2_learning_commits_in_last_7_days (db H) (p_sink (snd got));
        cap \<leftarrow> gets (learning_max_commits_per_week H);
        if n \<ge> cap then do {
          _ \<leftarrow> db2_learning_proposal_archive (db H) i ''weekly_cap'';
          get_into H i (snd got) out
        }
        else do {
          r \<leftarrow> learning_apply_sink H (snd got);
          if r \<noteq> 0 then ret (-1, out)
          else do {
            _ \<leftarrow> db2_learning_proposal_mark_committed (db H) i;
            get_into H i (snd got) out
          }
        }
      })"

lemma commit_split:
  "learning_commit_proposal H i out = learning_get_proposal H i zero_proposal \<bind> commit_after H i out"
  by (auto simp: learning_commit_proposal_def commit_after_def pending_def Let_def
      intro!: arg_cong2 [where f = State_Monad.bind])

lemma commit_after_lives:
  assumes "deployment H view cap" "fst got = 0 \<Longrightarrow> rows (view w) i = Some (snd got)"
  shows "life cap (view w) (view (final (commit_after H i out got) w))"
proof (cases "fst got = 0 \<and> pending (snd got)")
  case False
  then show ?thesis
    by (auto simp: commit_after_def)
next
  case True
  then have p: "rows (view w) i = Some (snd got)" "pending (snd got)"
    using assms(2) by simp_all
  let ?w1 = "final (db2_learning_commits_in_last_7_days (db H) (p_sink (snd got))) w"
  have w1: "view ?w1 = view w"
    using tables_reads(4) [OF deployment_tables [OF assms(1)]] by (rule readsD)
  have n: "outcome (db2_learning_commits_in_last_7_days (db H) (p_sink (snd got))) w =
      week_commits (view w) (p_sink (snd got))"
    using tables_commits [OF deployment_tables [OF assms(1)]] .
  show ?thesis
  proof (cases "week_commits (view w) (p_sink (snd got)) \<ge> learning_max_commits_per_week H ?w1")
    case True': True
    let ?w2 = "final (db2_learning_proposal_archive (db H) i ''weekly_cap'') ?w1"
    have "life cap (view w) (view ?w2)"
      using guarded_archive_lives [OF assms(1), of ?w1] p w1 by (simp add: pending_not_settled)
    moreover have "life cap (view ?w2) (view (final (get_into H i (snd got) out) ?w2))"
      by (rule lives_byD [OF get_into_lives [OF assms(1)]])
    ultimately show ?thesis
      using True True' by (simp add: commit_after_def final_bind outcome_bind n)
  next
    case False
    let ?w2 = "final (learning_apply_sink H (snd got)) ?w1"
    let ?w3 = "final (db2_learning_proposal_mark_committed (db H) i) ?w2"
    have w2: "view ?w2 = view w"
      using readsD [OF apply_sink_reads [OF deployment_apart [OF assms(1)]]] w1 by simp
    have "week_commits (view ?w2) (p_sink (snd got)) < cap"
      using False deployment_cap [OF assms(1), of ?w1] w2 by simp
    then have "life cap (view w) (view ?w3)"
      using guarded_commit_lives [OF assms(1), of ?w2] p w2 by simp
    moreover have "life cap (view ?w3) (view (final (get_into H i (snd got) out) ?w3))"
      by (rule lives_byD [OF get_into_lives [OF assms(1)]])
    ultimately have "life cap (view w) (view (final (get_into H i (snd got) out) ?w3))"
      by (rule rtranclp_trans)
    then show ?thesis
      using True False w2 by (simp add: commit_after_def final_bind outcome_bind n)
  qed
qed

lemma commit_lives:
  assumes "deployment H view cap"
  shows "lives_by view cap (learning_commit_proposal H i out)"
proof (rule lives_byI)
  fix w
  let ?g = "learning_get_proposal H i zero_proposal"
  have "fst (outcome ?g w) = 0 \<Longrightarrow> rows (view (final ?g w)) i = Some (snd (outcome ?g w))"
    by (rule get_row [OF assms]) (simp add: prod_eq_iff)
  then have "life cap (view (final ?g w)) (view (final (commit_after H i out (outcome ?g w)) (final ?g w)))"
    by (rule commit_after_lives [OF assms])
  then show "life cap (view w) (view (final (learning_commit_proposal H i out) w))"
    using lives_byD [OF get_lives [OF assms], of w i zero_proposal]
    by (simp add: commit_split final_bind)
qed

lemma report_lives: "deployment H view cap \<Longrightarrow> lives_by view cap (commit_and_report H i p out)"
  unfolding commit_and_report_def by (intro lives.eff_rules commit_lives)

lemma expiry_reads: "deployment H view cap \<Longrightarrow> reads view (learning_expiry_after_days H d n)"
  unfolding learning_expiry_after_days_def by (intro frame_rules apart_reads deployment_apart)

lemma expiry_lives: "deployment H view cap \<Longrightarrow> lives_by view cap (learning_expiry_after_days H d n)"
  by (intro reads_lives expiry_reads)

lemma insert_lives: "deployment H view cap \<Longrightarrow>
  lives_by view cap (db2_learning_proposal_insert (db H) sid sink key mid act refs ex)"
  by (intro step_lives insert_step deployment_tables)

lemma accept_lives: "deployment H view cap \<Longrightarrow> lives_by view cap (learning_accept_proposal H i out)"
  unfolding learning_accept_proposal_def by (intro lives.eff_rules expire_lives commit_lives)

lemma reject_lives:
  assumes "deployment H view cap"
  shows "lives_by view cap (learning_reject_proposal H i out)"
proof (rule lives_byI)
  fix w
  let ?g = "learning_get_proposal H i zero_proposal"
  let ?w1 = "final ?g w" and ?p = "snd (outcome ?g w)"
  let ?a = "(if p_state ?p \<noteq> ''committed'' \<and> p_state ?p \<noteq> ''archived''
     then db2_learning_proposal_archive (db H) i ''rejected'' else ret ())"
  have w1: "life cap (view w) (view ?w1)"
    by (rule lives_byD [OF get_lives [OF assms]])
  show "life cap (view w) (view (final (learning_reject_proposal H i out) w))"
  proof (cases "0 < i \<and> fst (outcome ?g w) = 0")
    case False
    then show ?thesis
      using w1 by (auto simp: learning_reject_proposal_def final_bind Let_def)
  next
    case True
    have row: "rows (view ?w1) i = Some ?p"
      by (rule get_row [OF assms]) (use True in \<open>simp add: prod_eq_iff\<close>)
    have "life cap (view ?w1) (view (final ?a ?w1))"
      using guarded_archive_lives [OF assms row, of "''rejected''"] by (simp add: settled_def)
    moreover have "life cap (view (final ?a ?w1)) (view (final (get_into H i ?p out) (final ?a ?w1)))"
      by (rule lives_byD [OF get_into_lives [OF assms]])
    ultimately have "life cap (view w) (view (final (get_into H i ?p out) (final ?a ?w1)))"
      using w1 by (blast intro: rtranclp_trans)
    then show ?thesis
      using True by (simp add: learning_reject_proposal_def final_bind Let_def)
  qed
qed

text \<open>Queueing: a pending row that is found is corroborated, otherwise a new one is inserted.\<close>

lemma queue_lives:
  assumes "deployment H view cap"
  shows "lives_by view cap (learning_queue_sink H sid sink key mid act refs hc out)"
proof (rule lives_byI)
  fix w
  let ?f = "db2_learning_proposal_find_pending (db H) sink key mid"
  let ?w1 = "final ?f w" and ?i = "outcome ?f w"
  have w1: "view ?w1 = view w"
    by (rule readsD [OF tables_reads(1) [OF deployment_tables [OF assms]]])
  show "life cap (view w) (view (final (learning_queue_sink H sid sink key mid act refs hc out) w))"
  proof (cases "0 < ?i")
    case True
    let ?w2 = "final (db2_learning_proposal_bump_corroboration (db H) ?i) ?w1"
    let ?rest = "learning_get_proposal H ?i zero_proposal \<bind> (\<lambda>got.
      (if fst got = 0 \<and> p_corroboration_count (snd got) \<ge> 2
       then commit_and_report H ?i (snd got) (add_proposal_id ?i out) else ret (add_proposal_id ?i out))
      \<bind> (\<lambda>out. ret (?i, out)))"
    obtain p where "rows (view w) ?i = Some p" "pending p"
      using tables_find [OF deployment_tables [OF assms] refl True] by blast
    then have "life cap (view w) (view ?w2)"
      using guarded_bump_lives [OF assms, of ?w1] w1 by simp
    moreover have "life cap (view ?w2) (view (final ?rest ?w2))"
      by (rule lives_byD) (intro lives.eff_rules get_lives report_lives assms)
    ultimately have "life cap (view w) (view (final ?rest ?w2))"
      by (rule rtranclp_trans)
    moreover have "final (learning_queue_sink H sid sink key mid act refs hc out) w = final ?rest ?w2"
      using True by (simp add: learning_queue_sink_def Let_def final_bind)
    ultimately show ?thesis
      by simp
  next
    case False
    let ?rest = "gets (learning_proposal_ttl_days H) \<bind> (\<lambda>days.
      learning_expiry_after_days H days 32 \<bind> (\<lambda>ex.
      db2_learning_proposal_insert (db H) sid sink key mid act refs ex \<bind> (\<lambda>i.
        if i \<le> 0 then ret (-1, out)
        else (if hc then commit_and_report H i zero_proposal (add_proposal_id i out)
              else ret (add_proposal_id i out)) \<bind> (\<lambda>out. ret (i, out)))))"
    have "life cap (view ?w1) (view (final ?rest ?w1))"
      by (rule lives_byD)
         (intro lives.eff_rules expiry_lives insert_lives report_lives assms)
    moreover have "final (learning_queue_sink H sid sink key mid act refs hc out) w = final ?rest ?w1"
      using False by (simp only: learning_queue_sink_def Let_def final_bind [of ?f] if_False)
    ultimately show ?thesis
      by (simp only: w1)
  qed
qed

lemmas operation_lives = list_lives get_lives commit_lives queue_lives accept_lives reject_lives

section \<open>What the operations answer\<close>

lemma commit_after_row:
  assumes "deployment H view cap" "fst got = 0 \<Longrightarrow> rows (view w) i = Some (snd got)"
    and "outcome (commit_after H i out got) w = (0, Some q)"
  shows "rows (view (final (commit_after H i out got) w)) i = Some q"
proof -
  have got: "fst got = 0"
    using assms(3) by (auto simp: commit_after_def split: if_splits)
  show ?thesis
  proof (cases "pending (snd got)")
    case False
    then show ?thesis
      using assms(2,3) got by (cases out) (auto simp: commit_after_def)
  next
    case True
    then show ?thesis
      using assms(3) got
      by (auto simp: commit_after_def final_bind outcome_bind split: if_splits
          intro: get_into_row [OF assms(1)])
  qed
qed

lemma commit_row:
  assumes "deployment H view cap" "outcome (learning_commit_proposal H i out) w = (0, Some q)"
  shows "rows (view (final (learning_commit_proposal H i out) w)) i = Some q"
  using assms(2) unfolding commit_split final_bind outcome_bind
  by (rule commit_after_row [OF assms(1), rotated]) (rule get_row [OF assms(1)], simp add: prod_eq_iff)

lemma accept_row:
  assumes "deployment H view cap" "outcome (learning_accept_proposal H i out) w = (0, Some q)"
  shows "rows (view (final (learning_accept_proposal H i out) w)) i = Some q"
  using assms(2) commit_row [OF assms(1)]
  by (auto simp: learning_accept_proposal_def final_bind outcome_bind split: if_splits)

lemma reject_row:
  assumes "deployment H view cap" "outcome (learning_reject_proposal H i out) w = (0, Some q)"
  shows "rows (view (final (learning_reject_proposal H i out) w)) i = Some q"
  using assms(2) get_into_row [OF assms(1)]
  by (auto simp: learning_reject_proposal_def final_bind outcome_bind Let_def split: if_splits)

text \<open>Expiry archives and never commits, so a row that is committed after a read was committed before.\<close>

definition committed_row :: "pstore \<Rightarrow> int \<Rightarrow> bool" where
  "committed_row s i \<longleftrightarrow> (\<exists>q. rows s i = Some q \<and> p_state q = ''committed'')"

lemma expire_commits_nothing:
  assumes "deployment H view cap"
    "committed_row (view (final (db2_learning_proposals_archive_expired (db H)) w)) i"
  shows "committed_row (view w) i"
proof -
  let ?w = "final (db2_learning_proposals_archive_expired (db H)) w"
  have "expire_law (db H) view"
    using deployment_tables [OF assms(1)] by (simp add: proposal_tables_def)
  then have "rows (view ?w) i = rows (view w) i \<or>
      (\<exists>p q r. archived_from p r q \<and> rows (view ?w) i = Some q)"
    unfolding expire_law_def by blast
  then show ?thesis
    using assms(2) by (auto simp: committed_row_def archived_fields)
qed

lemma get_commits_nothing:
  assumes "deployment H view cap" "committed_row (view (final (learning_get_proposal H i b) w)) j"
  shows "committed_row (view w) j"
proof (rule expire_commits_nothing [OF assms(1)])
  show "committed_row (view (final (db2_learning_proposals_archive_expired (db H)) w)) j"
    using assms(2) tables_reads(2) [OF deployment_tables [OF assms(1)]]
    by (simp add: learning_get_proposal_def final_bind readsD)
qed

lemma get_into_commits_nothing:
  assumes "deployment H view cap" "committed_row (view (final (get_into H i p out) w)) j"
  shows "committed_row (view w) j"
  using assms(2) get_commits_nothing [OF assms(1)] by (auto simp: get_into_def final_bind)

lemma archive_commits_nothing:
  assumes "deployment H view cap"
    "committed_row (view (final (db2_learning_proposal_archive (db H) i r) w)) j"
  shows "committed_row (view w) j"
  using assms(2) tables_archive [OF deployment_tables [OF assms(1)], of i r]
  by (auto simp: row_write_def row_changed_def committed_row_def archived_fields split: if_splits
      dest!: spec [where x = w])

lemma expire_keeps_pending:
  assumes "deployment H view cap"
    "rows (view (final (db2_learning_proposals_archive_expired (db H)) w)) i = Some p" "pending p"
  shows "rows (view w) i = Some p"
proof -
  have "expire_law (db H) view"
    using deployment_tables [OF assms(1)] by (simp add: proposal_tables_def)
  then have "rows (view w) i = Some p \<or> (\<exists>p' r. archived_from p' r p)"
    using assms(2) unfolding expire_law_def by (metis option.inject)
  then show ?thesis
    using assms(3) by (auto simp: pending_def archived_fields)
qed

lemma get_keeps_pending:
  assumes "deployment H view cap"
    "rows (view (final (learning_get_proposal H j b) w)) i = Some p" "pending p"
  shows "rows (view w) i = Some p"
  using assms tables_reads(2) [OF deployment_tables [OF assms(1)]]
  by (auto simp: learning_get_proposal_def final_bind readsD intro: expire_keeps_pending)

text \<open>A commit: the row was read as pending, the week was below its maximum when it was counted, and
  the sink, called right then, took the action before the row was marked.\<close>

lemma commit_was_applied:
  assumes "deployment H view cap" "\<not> committed_row (view w) i"
    and "committed_row (view (final (learning_commit_proposal H i out) w)) i"
  shows "\<exists>p w2. rows (view w) i = Some p \<and> pending p \<and>
    w2 = final (db2_learning_commits_in_last_7_days (db H) (p_sink p))
           (final (learning_get_proposal H i zero_proposal) w) \<and>
    week_commits (view w2) (p_sink p) < learning_max_commits_per_week H w2 \<and>
    outcome (learning_apply_sink H p) w2 = 0 \<and>
    final (learning_commit_proposal H i out) w =
      final (get_into H i p out)
        (final (db2_learning_proposal_mark_committed (db H) i) (final (learning_apply_sink H p) w2))"
proof -
  let ?g = "learning_get_proposal H i zero_proposal"
  let ?w1 = "final ?g w" and ?got = "outcome ?g w"
  let ?n = "db2_learning_commits_in_last_7_days (db H) (p_sink (snd ?got))"
  let ?w2 = "final ?n ?w1"
  have c1: "\<not> committed_row (view ?w1) i"
    using assms(2) get_commits_nothing [OF assms(1)] by blast
  have c2: "\<not> committed_row (view ?w2) i"
    using c1 readsD [OF tables_reads(4) [OF deployment_tables [OF assms(1)]]] by simp
  have fin: "committed_row (view (final (commit_after H i out ?got) ?w1)) i"
    using assms(3) by (simp add: commit_split final_bind)
  then have got: "fst ?got = 0" and pend: "pending (snd ?got)"
    using c1 by (auto simp: commit_after_def split: if_splits)
  have row: "rows (view ?w1) i = Some (snd ?got)"
    by (rule get_row [OF assms(1)]) (use got in \<open>simp add: prod_eq_iff\<close>)
  have n: "outcome ?n ?w1 = week_commits (view ?w1) (p_sink (snd ?got))"
    by (rule tables_commits [OF deployment_tables [OF assms(1)]])
  have below: "\<not> learning_max_commits_per_week H ?w2 \<le> week_commits (view ?w1) (p_sink (snd ?got))"
  proof
    assume "learning_max_commits_per_week H ?w2 \<le> week_commits (view ?w1) (p_sink (snd ?got))"
    then have "committed_row (view (final (get_into H i (snd ?got) out)
        (final (db2_learning_proposal_archive (db H) i ''weekly_cap'') ?w2))) i"
      using fin got pend by (simp add: commit_after_def final_bind outcome_bind n)
    with c2 show False
      using get_into_commits_nothing [OF assms(1)] archive_commits_nothing [OF assms(1)] by blast
  qed
  have taken: "outcome (learning_apply_sink H (snd ?got)) ?w2 = 0"
  proof (rule ccontr)
    assume "outcome (learning_apply_sink H (snd ?got)) ?w2 \<noteq> 0"
    then have "committed_row (view (final (learning_apply_sink H (snd ?got)) ?w2)) i"
      using fin got pend below by (simp add: commit_after_def final_bind outcome_bind n)
    with c2 show False
      using readsD [OF apply_sink_reads [OF deployment_apart [OF assms(1)]]] by simp
  qed
  have "rows (view w) i = Some (snd ?got)"
    using get_keeps_pending [OF assms(1) row pend] .
  moreover have "week_commits (view ?w2) (p_sink (snd ?got)) < learning_max_commits_per_week H ?w2"
    using below readsD [OF tables_reads(4) [OF deployment_tables [OF assms(1)]]] by simp
  moreover have "final (learning_commit_proposal H i out) w =
      final (get_into H i (snd ?got) out)
        (final (db2_learning_proposal_mark_committed (db H) i) (final (learning_apply_sink H (snd ?got)) ?w2))"
    using got pend below taken by (simp add: commit_split commit_after_def final_bind outcome_bind n)
  ultimately show ?thesis
    using pend taken by blast
qed

text \<open>Appending to the report.\<close>

lemma add_proposal_id_report:
  assumes "wf_dispatch d" "add_proposal_id i (Some d) = Some d'"
  shows "wf_dispatch d'" "reported d' = take LEARNING_MAX_PROPOSAL_IDS (reported d @ [i])"
    "reported_committed d' = reported_committed d" "d_signal_id d' = d_signal_id d"
  using assms
  by (auto simp: add_proposal_id_def wf_dispatch_def reported_def reported_committed_def
      take_update_append split: if_splits)

lemma add_committed_id_report:
  assumes "wf_dispatch d" "add_committed_id i (Some d) = Some d'"
  shows "wf_dispatch d'" "reported d' = reported d" "d_signal_id d' = d_signal_id d"
    "reported_committed d' = take LEARNING_MAX_PROPOSAL_IDS (reported_committed d @ [i])"
  using assms
  by (auto simp: add_committed_id_def wf_dispatch_def reported_def reported_committed_def
      take_update_append split: if_splits)

lemma reported_full:
  "wf_dispatch d \<Longrightarrow> length (reported d) \<le> LEARNING_MAX_PROPOSAL_IDS \<and>
   length (reported_committed d) \<le> LEARNING_MAX_PROPOSAL_IDS"
  by (simp add: wf_dispatch_def reported_def reported_committed_def)

section \<open>What is queued\<close>

abbreviation origin_of :: "('w \<Rightarrow> pstore) \<Rightarrow> content set \<Rightarrow> ('w, 'a) state \<Rightarrow> bool" where
  "origin_of view S m \<equiv> state_io_rel (\<lambda>w w'. rows_from S (view w) (view w')) m"

lemma get_origins: "deployment H view cap \<Longrightarrow> origin_of view S (learning_get_proposal H i b)"
  unfolding learning_get_proposal_def
  by (intro origins.eff_rules expire_origins reads_origins tables_reads deployment_tables)

lemma get_into_origins: "deployment H view cap \<Longrightarrow> origin_of view S (get_into H i p out)"
  unfolding get_into_def by (intro origins.eff_rules get_origins)

lemma apply_origins: "deployment H view cap \<Longrightarrow> origin_of view S (learning_apply_sink H p)"
  by (intro reads_origins apply_sink_reads deployment_apart)

lemma commits_read_origins:
  "deployment H view cap \<Longrightarrow> origin_of view S (db2_learning_commits_in_last_7_days (db H) k)"
  by (intro reads_origins tables_reads deployment_tables)

lemma commit_origins:
  assumes "deployment H view cap"
  shows "origin_of view S (learning_commit_proposal H i out)"
  unfolding commit_split commit_after_def
  by (intro origins.eff_rules get_origins [OF assms] get_into_origins [OF assms] apply_origins [OF assms]
      commits_read_origins [OF assms] writes_origins [OF deployment_tables [OF assms]])

lemma queue_origins:
  assumes "deployment H view cap" "(sink, key, mid, act) \<in> S"
  shows "origin_of view S (learning_queue_sink H sid sink key mid act refs hc out)"
proof -
  note T = deployment_tables [OF assms(1)]
  have "origin_of view S (db2_learning_proposal_find_pending (db H) sink key mid)"
    by (intro reads_origins tables_reads T)
  moreover have "origin_of view S (learning_expiry_after_days H d n)" for d n
    by (intro reads_origins expiry_reads [OF assms(1)])
  ultimately show ?thesis
    unfolding learning_queue_sink_def commit_and_report_def Let_def
    by (intro origins.eff_rules get_origins [OF assms(1)] commit_origins [OF assms(1)]
        writes_origins [OF T] insert_origins [OF T assms(2)])
qed

text \<open>The report of a queued sink: the id is appended, and what is newly reported as committed is.\<close>

lemma report_committed:
  assumes "deployment H view cap" "wf_dispatch d"
    and "outcome (commit_and_report H i p (Some d)) w = Some d'"
  shows "wf_dispatch d' \<and> reported d' = reported d \<and> d_signal_id d' = d_signal_id d \<and>
    (\<forall>j \<in> set (reported_committed d'). j \<in> set (reported_committed d) \<or>
       j = i \<and> committed_row (view (final (commit_and_report H i p (Some d)) w)) i)"
proof (cases "fst (outcome (learning_commit_proposal H i (Some p)) w) = 0 \<and>
    p_state (the (snd (outcome (learning_commit_proposal H i (Some p)) w))) = ''committed''")
  case False
  then have "d' = d"
    using assms(3) by (auto simp: commit_and_report_def outcome_bind split: if_splits)
  with assms(2) show ?thesis by simp
next
  case True
  let ?m = "learning_commit_proposal H i (Some p)"
  have d': "add_committed_id i (Some d) = Some d'"
    using True assms(3) by (simp add: commit_and_report_def outcome_bind)
  have "snd (outcome ?m w) \<noteq> None"
    by (simp add: commit_split commit_after_def get_into_def outcome_bind)
  then obtain q where "outcome ?m w = (0, Some q)" "p_state q = ''committed''"
    using True by (cases "outcome ?m w") auto
  then have "committed_row (view (final (commit_and_report H i p (Some d)) w)) i"
    using commit_row [OF assms(1)] by (simp add: committed_row_def commit_and_report_def final_bind)
  then show ?thesis
    using add_committed_id_report [OF assms(2) d'] by (auto dest: in_set_takeD)
qed

end
