(* ===== verification/Observation.thy ===== *)
theory Observation
  imports Wire_Protocol
begin

text \<open>
  The observation stage itself: the signal policy (\<open>learning_signal_policy.c\<close>), the C handler that
  serves it on the bus (\<open>module_adapter.c\<close>), and the Go handler that is shipped in its place
  (\<open>server-go/modules/learning/learning.go\<close>). What the router needs of a classifier is the locale
  \<open>signal_classifier\<close>; the policy called directly, the C process behind the wire and the Go process
  behind the wire are three interpretations of it.

  The out-parameters of the C functions are results here, so the callers' pointers to them are the
  non-NULL ones every caller passes, except \<open>response_len\<close>, which the handler checks.
\<close>

section \<open>Signal policy\<close>

definition learning_signal_policy_sink_mask :: "string option \<Rightarrow> u32 option" where
  "learning_signal_policy_sink_mask signal =
     (case signal of
        None \<Rightarrow> None
      | Some s \<Rightarrow>
          if s = [] then None
          else if s = ''thumb_up'' \<or> s = ''thumb_down'' then Some AIMEE_LEARNING_SINK_RERANKER
          else if s = ''correction''
            then Some (AIMEE_LEARNING_SINK_RERANKER OR AIMEE_LEARNING_SINK_SUPERSEDE OR
                       AIMEE_LEARNING_SINK_RULE)
          else if s = ''preference_statement'' \<or> s = ''mark_rule'' then Some AIMEE_LEARNING_SINK_RULE
          else if s = ''workflow_repetition'' then Some AIMEE_LEARNING_SINK_WORKFLOW
          else Some 0)"

section \<open>The C handler\<close>

datatype module_status = STATUS_OK | STATUS_INVALID_REQUEST | STATUS_CANCELLED | STATUS_INTERNAL

record invocation =
  stage_id :: u32

text \<open>
  Whether an invocation was cancelled (by the bus or by its deadline) is the module runtime's to
  say: the parameter \<open>cancelled\<close>. The response buffer's length is \<open>response_capacity\<close>.
\<close>

definition aimee_module_handler ::
    "(invocation \<Rightarrow> bool) \<Rightarrow> invocation option \<Rightarrow> byte list option \<Rightarrow> byte list \<Rightarrow> nat option \<Rightarrow>
     module_status \<times> byte list \<times> nat option" where
  "aimee_module_handler cancelled invocation request_body response_body response_len =
     (case invocation of
        None \<Rightarrow> (STATUS_INVALID_REQUEST, response_body, response_len)
      | Some i \<Rightarrow>
          if response_len = None \<or> stage_id i \<noteq> AIMEE_LEARNING_STAGE_OBSERVE \<or>
             length response_body < AIMEE_LEARNING_RESPONSE_LEN
          then (STATUS_INVALID_REQUEST, response_body, response_len)
          else (case aimee_learning_request_decode request_body (Some (AIMEE_LEARNING_SIGNAL_MAX + 1)) of
            None \<Rightarrow> (STATUS_INVALID_REQUEST, response_body, response_len)
          | Some signal \<Rightarrow>
              if cancelled i then (STATUS_CANCELLED, response_body, response_len)
              else (case learning_signal_policy_sink_mask (Some (c_str signal)) of
                None \<Rightarrow> (STATUS_INTERNAL, response_body, response_len)
              | Some m \<Rightarrow>
                  (STATUS_OK, response_encode response_body m, Some AIMEE_LEARNING_RESPONSE_LEN))))"

section \<open>The Go handler\<close>

text \<open>A Go string is a byte string with its own length, so a NUL in it is an ordinary byte. The
  \<open>nil\<close> body of an error is \<open>None\<close>.\<close>

definition Handle :: "(invocation \<Rightarrow> bool) \<Rightarrow> invocation \<Rightarrow> byte list \<Rightarrow> byte list option \<times> module_status" where
  "Handle cancelled iv request =
     (if stage_id iv \<noteq> 1 \<or> length request \<noteq> 40 \<or> aimee_learning_get_u32 request 0 \<noteq> 0x53424f4c \<or>
         request ! 4 \<noteq> 1 \<or> request ! 5 \<noteq> 0 \<or> request ! 7 \<noteq> 0 \<or> request ! 6 = 0 \<or>
         31 < unat (request ! 6)
      then (None, STATUS_INVALID_REQUEST)
      else if cancelled iv then (None, STATUS_CANCELLED)
      else
        (let signal = map char_of_byte (take (unat (request ! 6)) (drop 8 request));
             m = (if signal = ''thumb_up'' \<or> signal = ''thumb_down'' then 1
                  else if signal = ''correction'' then 1 OR 2 OR 4
                  else if signal = ''preference_statement'' \<or> signal = ''mark_rule'' then 4
                  else if signal = ''workflow_repetition'' then 8
                  else 0);
             response = replicate 8 0
         in (Some (aimee_learning_put_u32 (aimee_learning_put_u32 response 0 0x4b53414c) 4 m),
             STATUS_OK)))"

section \<open>What a signal means\<close>

text \<open>The contract of the stage, free of masks and bytes: the sinks a signal may reach.\<close>

datatype sink = Reranker | Supersede | Rule | Workflow

fun sink_bit :: "sink \<Rightarrow> u32" where
  "sink_bit Reranker = AIMEE_LEARNING_SINK_RERANKER"
| "sink_bit Supersede = AIMEE_LEARNING_SINK_SUPERSEDE"
| "sink_bit Rule = AIMEE_LEARNING_SINK_RULE"
| "sink_bit Workflow = AIMEE_LEARNING_SINK_WORKFLOW"

definition signal_sinks :: "string \<Rightarrow> sink set" where
  "signal_sinks s =
     (if s \<in> {''thumb_up'', ''thumb_down''} then {Reranker}
      else if s = ''correction'' then {Reranker, Supersede, Rule}
      else if s \<in> {''preference_statement'', ''mark_rule''} then {Rule}
      else if s = ''workflow_repetition'' then {Workflow}
      else {})"

definition mask_sinks :: "u32 \<Rightarrow> sink set" where
  "mask_sinks m = {k. m AND sink_bit k \<noteq> 0}"

text \<open>A signal name the wire can carry.\<close>

definition wire_name :: "string \<Rightarrow> bool" where
  "wire_name s \<longleftrightarrow> s \<noteq> [] \<and> fits (AIMEE_LEARNING_SIGNAL_MAX + 1) s"

section \<open>The interface of a classifier\<close>

text \<open>
  What the router relies on when it asks for the sinks of a signal: an answer for every name, with
  the four known bits only, that stands for the sinks of the contract.
\<close>

locale signal_classifier =
  fixes classify :: "string \<Rightarrow> u32 option"
  assumes answers: "wire_name s \<Longrightarrow> \<exists>m. classify s = Some m \<and> m AND NOT sink_bits = 0 \<and>
                     mask_sinks m = signal_sinks s"
begin

lemma classified:
  assumes "wire_name s"
  obtains m where "classify s = Some m" "m AND NOT sink_bits = 0" "mask_sinks m = signal_sinks s"
  using answers [OF assms] by blast

lemma bit_test: "wire_name s \<Longrightarrow> classify s = Some m \<Longrightarrow> m AND sink_bit k \<noteq> 0 \<longleftrightarrow> k \<in> signal_sinks s"
  using answers [of s] by (auto simp: mask_sinks_def)

lemma unknown_no_sink:
  "wire_name s \<Longrightarrow> signal_sinks s = {} \<Longrightarrow> classify s = Some m \<Longrightarrow> m AND sink_bit k = 0"
  using bit_test [of s m k] by auto

end

text \<open>The mask is determined by its sinks once no other bit is set.\<close>

lemma u32_eq_bits: "(\<And>n. n < 32 \<Longrightarrow> bit a n = bit b n) \<Longrightarrow> (a :: u32) = b"
  by (rule bit_word_eqI) simp

lemma mask_determined:
  assumes "m AND NOT sink_bits = 0" "n AND NOT sink_bits = 0" "mask_sinks m = mask_sinks n"
  shows "m = n"
proof -
  have low: "a AND 15 = a" if "a AND NOT sink_bits = 0" for a :: u32
    using that by (metis and.right_neutral bit.compl_one bit.conj_disj_distrib bit.disj_cancel_right
        or.left_neutral or.commute sink_bits_value)
  have same: "m AND sink_bit k \<noteq> 0 \<longleftrightarrow> n AND sink_bit k \<noteq> 0" for k
    using assms(3) by (auto simp: mask_sinks_def set_eq_iff)
  have bit_of: "a AND 1 \<noteq> 0 \<longleftrightarrow> bit a 0" "a AND 2 \<noteq> 0 \<longleftrightarrow> bit a 1" "a AND 4 \<noteq> 0 \<longleftrightarrow> bit a 2"
    "a AND 8 \<noteq> 0 \<longleftrightarrow> bit a 3" for a :: u32
    using and_exp_eq_0_iff_not_bit [of a 0] and_exp_eq_0_iff_not_bit [of a 1]
      and_exp_eq_0_iff_not_bit [of a 2] and_exp_eq_0_iff_not_bit [of a 3]
    by (simp_all add: numeral_eq_Suc)
  have b: "bit m i = bit n i" if "i < 4" for i
  proof -
    from that consider "i = 0" | "i = 1" | "i = 2" | "i = 3" by linarith
    then show ?thesis
      using same [of Reranker] same [of Supersede] same [of Rule] same [of Workflow]
      by cases (auto simp: bit_of sink_consts)
  qed
  have "a AND 15 = take_bit 4 a" for a :: u32
    by (simp add: take_bit_eq_mask mask_eq_exp_minus_1)
  then have "m = take_bit 4 m" "n = take_bit 4 n"
    using low assms(1,2) by metis+
  moreover have "take_bit 4 m = take_bit 4 n"
    by (rule bit_word_eqI) (auto simp: bit_take_bit_iff b)
  ultimately show ?thesis by simp
qed

section \<open>Three classifiers\<close>

text \<open>
  A round over the wire, as the host performs it: encode the name into a request, hand it to the
  process, decode what comes back.
\<close>

definition observe_over_wire ::
    "(byte list \<Rightarrow> module_status \<times> byte list) \<Rightarrow> string \<Rightarrow> u32 option" where
  "observe_over_wire process s =
     (case aimee_learning_request_encode (Some s) (Some (replicate 40 0)) of
        None \<Rightarrow> None
      | Some req \<Rightarrow>
          (case process req of (st, body) \<Rightarrow>
             if st = STATUS_OK then aimee_learning_response_decode (Some body) else None))"

definition c_process :: "byte list \<Rightarrow> module_status \<times> byte list" where
  "c_process req =
     (case aimee_module_handler (\<lambda>_. False) (Some \<lparr>stage_id = 1\<rparr>) (Some req) (replicate 8 0) (Some 0) of
        (st, body, len) \<Rightarrow> (st, case len of None \<Rightarrow> [] | Some n \<Rightarrow> take n body))"

definition go_process :: "byte list \<Rightarrow> module_status \<times> byte list" where
  "go_process req =
     (case Handle (\<lambda>_. False) \<lparr>stage_id = 1\<rparr> req of
        (body, st) \<Rightarrow> (st, case body of None \<Rightarrow> [] | Some b \<Rightarrow> b))"

subsection \<open>The policy\<close>

lemma sink_sets:
  "mask_sinks 0 = {}"
  "mask_sinks AIMEE_LEARNING_SINK_RERANKER = {Reranker}"
  "mask_sinks AIMEE_LEARNING_SINK_RULE = {Rule}"
  "mask_sinks AIMEE_LEARNING_SINK_WORKFLOW = {Workflow}"
  "mask_sinks (AIMEE_LEARNING_SINK_RERANKER OR AIMEE_LEARNING_SINK_SUPERSEDE OR
               AIMEE_LEARNING_SINK_RULE) = {Reranker, Supersede, Rule}"
proof -
  have cases: "k \<in> S \<longleftrightarrow> (case k of Reranker \<Rightarrow> a | Supersede \<Rightarrow> b | Rule \<Rightarrow> c | Workflow \<Rightarrow> d)"
    if "(Reranker \<in> S) = a" "(Supersede \<in> S) = b" "(Rule \<in> S) = c" "(Workflow \<in> S) = d"
    for k S a b c d
    using that by (cases k) auto
  show "mask_sinks 0 = {}" "mask_sinks AIMEE_LEARNING_SINK_RERANKER = {Reranker}"
    "mask_sinks AIMEE_LEARNING_SINK_RULE = {Rule}"
    "mask_sinks AIMEE_LEARNING_SINK_WORKFLOW = {Workflow}"
    "mask_sinks (AIMEE_LEARNING_SINK_RERANKER OR AIMEE_LEARNING_SINK_SUPERSEDE OR
               AIMEE_LEARNING_SINK_RULE) = {Reranker, Supersede, Rule}"
    by (rule set_eqI, subst cases [OF refl refl refl refl],
        simp add: mask_sinks_def sink_consts split: sink.split)+
qed

lemma policy_refines:
  assumes "s \<noteq> []"
  shows "\<exists>m. learning_signal_policy_sink_mask (Some s) = Some m \<and> m AND NOT sink_bits = 0 \<and>
             mask_sinks m = signal_sinks s"
  using assms
  by (simp add: learning_signal_policy_sink_mask_def signal_sinks_def sink_sets)
     (simp add: sink_bits_value sink_consts)

interpretation policy_direct: signal_classifier "\<lambda>s. learning_signal_policy_sink_mask (Some s)"
  by unfold_locales (simp add: wire_name_def policy_refines)

subsection \<open>The processes\<close>

lemma wire_name_bounds: "wire_name s \<Longrightarrow> 0 < length s \<and> length s \<le> 31 \<and> NUL \<notin> set s"
  by (auto simp: wire_name_def fits_def wire_consts)

lemma map_char_byte [simp]: "map char_of_byte (map byte_of_char s) = s"
  by (simp add: comp_def)

text \<open>The request of a wire name, and what the decoder makes of it.\<close>

lemma wire_request:
  assumes "wire_name s" and "length buf = 40"
  obtains req where "aimee_learning_request_encode (Some s) (Some buf) = Some req"
    "length req = 40" "aimee_learning_get_u32 req 0 = 0x53424f4c" "req ! 4 = 1" "req ! 5 = 0"
    "unat (req ! 6) = length s" "req ! 7 = 0"
    "map char_of_byte (take (unat (req ! 6)) (drop 8 req)) = s"
proof -
  note b = wire_name_bounds [OF assms(1)]
  let ?req = "copy_at 8 (map byte_of_char s)
             ((aimee_learning_put_u32 (zero_first 40 buf) 0 0x53424f4c)
                [4 := 1, 6 := word_of_nat (length s)])"
  have e: "aimee_learning_request_encode (Some s) (Some buf) = Some ?req"
    using b assms(2) by (simp add: request_encode_Some)
  have l: "length s \<le> 31" using b by simp
  note h = encoded_header [OF l assms(2)]
  have u: "unat (?req ! 6) = length s"
    using h(5) l by (simp add: unat_word_of_small)
  show thesis
    by (rule that [OF e h(1,2,3,4) u h(6)]) (simp only: u h(7) map_char_byte)
qed

lemma wire_request_decode:
  assumes "wire_name s" "length buf = 40" "length s < cap"
    "aimee_learning_request_encode (Some s) (Some buf) = Some req"
  shows "aimee_learning_request_decode (Some req) (Some cap) = Some s"
proof -
  note b = wire_name_bounds [OF assms(1)]
  show ?thesis
    by (rule wire_request [OF assms(1,2)])
       (use assms(3,4) b in \<open>auto simp: request_decode_Some_iff\<close>)
qed

lemma c_process_request:
  assumes "wire_name s" "aimee_learning_request_encode (Some s) (Some (replicate 40 0)) = Some req"
    "learning_signal_policy_sink_mask (Some s) = Some m"
  shows "c_process req = (STATUS_OK, response_encode (replicate 8 0) m)"
proof -
  note b = wire_name_bounds [OF assms(1)]
  have "aimee_learning_request_decode (Some req) (Some 32) = Some s"
    by (rule wire_request_decode [OF assms(1) _ _ assms(2)]) (use b in auto)
  then show ?thesis
    using b assms(3) by (simp add: c_process_def aimee_module_handler_def wire_consts)
qed

lemma handle_mask:
  "learning_signal_policy_sink_mask (Some s) = Some m \<Longrightarrow>
   (if s = ''thumb_up'' \<or> s = ''thumb_down'' then 1
    else if s = ''correction'' then 1 OR 2 OR 4
    else if s = ''preference_statement'' \<or> s = ''mark_rule'' then 4
    else if s = ''workflow_repetition'' then 8 else 0) = m"
  by (auto simp: learning_signal_policy_sink_mask_def sink_consts split: if_splits)

lemma go_process_request:
  assumes "wire_name s" "aimee_learning_request_encode (Some s) (Some (replicate 40 0)) = Some req"
    "learning_signal_policy_sink_mask (Some s) = Some m"
  shows "go_process req = (STATUS_OK, response_encode (replicate 8 0) m)"
proof -
  note b = wire_name_bounds [OF assms(1)]
  have nz: "req ! 6 \<noteq> 0" if "unat (req ! 6) = length s"
    using that b by auto
  show ?thesis
    by (rule wire_request [OF assms(1), of "replicate 40 0"], simp)
       (use b nz assms(2) handle_mask [OF assms(3)] in
         \<open>simp add: go_process_def Handle_def response_encode_def wire_consts Let_def\<close>)
qed

lemma observe_mask:
  assumes p: "\<And>req m. aimee_learning_request_encode (Some s) (Some (replicate 40 0)) = Some req \<Longrightarrow>
      learning_signal_policy_sink_mask (Some s) = Some m \<Longrightarrow>
      process req = (STATUS_OK, response_encode (replicate 8 0) m)"
    and w: "wire_name s"
  shows "observe_over_wire process s = learning_signal_policy_sink_mask (Some s)"
proof -
  obtain m where m: "learning_signal_policy_sink_mask (Some s) = Some m" "m AND NOT sink_bits = 0"
    using policy_direct.classified [OF w] by metis
  obtain req where r: "aimee_learning_request_encode (Some s) (Some (replicate 40 0)) = Some req"
    by (rule wire_request [OF w, of "replicate 40 0"]) simp_all
  show ?thesis
    using p [OF r m(1)] r m by (simp add: observe_over_wire_def response_decode_encode)
qed

interpretation wire_c: signal_classifier "observe_over_wire c_process"
proof
  fix s
  assume w: "wire_name s"
  then have "observe_over_wire c_process s = learning_signal_policy_sink_mask (Some s)"
    by (intro observe_mask c_process_request)
  with policy_direct.answers [OF w]
  show "\<exists>m. observe_over_wire c_process s = Some m \<and> m AND NOT sink_bits = 0 \<and>
            mask_sinks m = signal_sinks s" by simp
qed

interpretation wire_go: signal_classifier "observe_over_wire go_process"
proof
  fix s
  assume w: "wire_name s"
  then have "observe_over_wire go_process s = learning_signal_policy_sink_mask (Some s)"
    by (intro observe_mask go_process_request)
  with policy_direct.answers [OF w]
  show "\<exists>m. observe_over_wire go_process s = Some m \<and> m AND NOT sink_bits = 0 \<and>
            mask_sinks m = signal_sinks s" by simp
qed

section \<open>Properties\<close>

lemma c_str_prefix: "NUL \<notin> set s \<Longrightarrow> c_str (s @ NUL # t) = s"
  by (simp add: c_str_def takeWhile_append)

lemma wire_name_example: "wire_name ''correction''"
  by (simp add: wire_name_def fits_def wire_consts)

text \<open>
  C20. Round trip of a request: every name the wire can carry (1 to 31 bytes, no NUL) is encoded
  into any buffer of at least 40 bytes, and a receiver with room for the name and its terminator
  decodes the 40 bytes of the frame back to exactly that name.
\<close>

theorem request_roundtrip:
  assumes "wire_name s" and "40 \<le> length buf" and "length s < cap"
  shows "\<exists>req. aimee_learning_request_encode (Some s) (Some buf) = Some req \<and>
           length req = length buf \<and>
           aimee_learning_request_decode (Some (take 40 req)) (Some cap) = Some s"
proof -
  note b = wire_name_bounds [OF assms(1)]
  let ?enc = "\<lambda>bf. copy_at 8 (map byte_of_char s)
     ((aimee_learning_put_u32 (zero_first 40 bf) 0 0x53424f4c)[4 := 1, 6 := word_of_nat (length s)])"
  have e: "aimee_learning_request_encode (Some s) (Some bf) = Some (?enc bf)"
    if "40 \<le> length bf" for bf
    using b that by (simp add: request_encode_Some)
  have "take 40 (?enc buf) = ?enc (take 40 buf)"
    using b assms(2)
    by (simp add: copy_at_def zero_first_def take_update_swap put_u32_unfold drop_take)
  moreover have "aimee_learning_request_decode (Some (?enc (take 40 buf))) (Some cap) = Some s"
    by (rule wire_request_decode [OF assms(1) _ assms(3)]) (use e [of "take 40 buf"] assms(2) in auto)
  ultimately show ?thesis
    using e [OF assms(2)] request_encode_length [OF e [OF assms(2)]] by simp
qed

theorem request_roundtrip_witness:
  "\<exists>req. aimee_learning_request_encode (Some ''correction'') (Some (replicate 64 7)) = Some req \<and>
     length req = length (replicate 64 (7 :: byte)) \<and>
     aimee_learning_request_decode (Some (take 40 req)) (Some 32) = Some ''correction''"
  by (rule request_roundtrip [OF wire_name_example]) simp_all

text \<open>
  C21. What the decoder accepts, and that it stays inside both buffers: a frame is accepted exactly
  when it is 40 bytes long with the right magic, version and zero reserved bytes, and its length
  byte is between 1 and 31 and below the receiver's capacity. The name then has that many
  characters, all of them read from offsets 8 to 38 of the frame, with room left for the terminator.
\<close>

theorem request_decode_bounds:
  "aimee_learning_request_decode (Some b) (Some cap) = Some cs \<longleftrightarrow>
     length b = 40 \<and> aimee_learning_get_u32 b 0 = AIMEE_LEARNING_REQUEST_MAGIC \<and>
     b ! 4 = AIMEE_LEARNING_WIRE_VERSION \<and> b ! 5 = 0 \<and> b ! 7 = 0 \<and>
     0 < length cs \<and> length cs = unat (b ! 6) \<and> 8 + length cs < length b \<and> length cs < cap \<and>
     cs = map char_of_byte (take (length cs) (drop 8 b))"
proof -
  have "length (map char_of_byte (take (unat (b ! 6)) (drop 8 b))) = unat (b ! 6)"
    if "length b = 40" "unat (b ! 6) \<le> 31"
    using that by simp
  then show ?thesis
    unfolding request_decode_Some_iff wire_consts by auto
qed

text \<open>
  Response round trip: a response a handler writes decodes to the mask it wrote when the mask
  has none but the four sink bits, and is refused when it has any other bit.
\<close>

theorem response_roundtrip:
  assumes "length body = 8"
  shows "aimee_learning_response_decode (Some (response_encode body m)) =
           (if m AND NOT sink_bits = 0 then Some m else None)"
  using assms by (rule response_decode_encode)

theorem response_roundtrip_witness:
  "aimee_learning_response_decode (Some (response_encode (replicate 8 0) 7)) = Some 7 \<and>
   aimee_learning_response_decode (Some (response_encode (replicate 8 0) 16)) = None"
  using response_roundtrip [of "replicate 8 0" 7] response_roundtrip [of "replicate 8 0" 16]
  by (simp add: sink_bits_value)

text \<open>
  C8. Classification over the wire. For every name the wire can carry, the host that encodes it,
  hands the frame to the process and decodes the answer gets the mask of the policy called
  directly, from the C process and from the Go process alike, and the sinks of that mask are those
  of the contract.
\<close>

theorem observation_end_to_end:
  assumes "wire_name s"
  shows "\<exists>m. learning_signal_policy_sink_mask (Some s) = Some m \<and> mask_sinks m = signal_sinks s \<and>
           observe_over_wire c_process s = Some m \<and> observe_over_wire go_process s = Some m"
proof -
  obtain m where m: "learning_signal_policy_sink_mask (Some s) = Some m" "m AND NOT sink_bits = 0"
      "mask_sinks m = signal_sinks s"
    by (rule policy_direct.classified [OF assms])
  obtain c where c: "observe_over_wire c_process s = Some c" "c AND NOT sink_bits = 0"
      "mask_sinks c = signal_sinks s"
    by (rule wire_c.classified [OF assms])
  obtain g where g: "observe_over_wire go_process s = Some g" "g AND NOT sink_bits = 0"
      "mask_sinks g = signal_sinks s"
    by (rule wire_go.classified [OF assms])
  have "c = m" and "g = m"
    using m c g by (auto intro: mask_determined)
  with m c g show ?thesis by simp
qed

theorem observation_end_to_end_witness:
  "\<exists>m. learning_signal_policy_sink_mask (Some ''correction'') = Some m \<and>
       mask_sinks m = signal_sinks ''correction'' \<and>
       observe_over_wire c_process ''correction'' = Some m \<and>
       observe_over_wire go_process ''correction'' = Some m"
  by (rule observation_end_to_end [OF wire_name_example])

text \<open>The name field of a frame, as bytes the way Go reads it.\<close>

definition frame_name :: "byte list \<Rightarrow> char list" where
  "frame_name req = map char_of_byte (take (unat (req ! 6)) (drop 8 req))"

definition valid_frame :: "byte list \<Rightarrow> bool" where
  "valid_frame req \<longleftrightarrow> aimee_learning_request_decode (Some req) (Some 32) \<noteq> None"

lemma decode_frame:
  "aimee_learning_request_decode (Some req) (Some 32) =
     (if valid_frame req then Some (frame_name req) else None)"
  using request_decode_Some_iff [of req 32]
  by (cases "aimee_learning_request_decode (Some req) (Some 32)")
     (auto simp: valid_frame_def frame_name_def)

lemma valid_frame_iff:
  "valid_frame req \<longleftrightarrow> length req = 40 \<and> aimee_learning_get_u32 req 0 = 0x53424f4c \<and> req ! 4 = 1 \<and>
     req ! 5 = 0 \<and> req ! 7 = 0 \<and> 0 < unat (req ! 6) \<and> unat (req ! 6) \<le> 31"
  using request_decode_Some_iff [of req 32 "frame_name req"] request_decode_Some_iff [of req 32]
  by (cases "aimee_learning_request_decode (Some req) (Some 32)")
     (auto simp: valid_frame_def frame_name_def)

lemma frame_name_nonempty: "valid_frame req \<Longrightarrow> frame_name req \<noteq> []"
  by (auto simp: valid_frame_iff frame_name_def)

text \<open>Both handlers as functions of a frame; the tests are the same up to the name.\<close>

lemma handler_frame:
  "aimee_module_handler cancelled (Some i) (Some req) body (Some n) =
     (if stage_id i \<noteq> 1 \<or> length body < 8 \<or> \<not> valid_frame req
      then (STATUS_INVALID_REQUEST, body, Some n)
      else if cancelled i then (STATUS_CANCELLED, body, Some n)
      else (case learning_signal_policy_sink_mask (Some (c_str (frame_name req))) of
              None \<Rightarrow> (STATUS_INTERNAL, body, Some n)
            | Some m \<Rightarrow> (STATUS_OK, response_encode body m, Some 8)))"
  unfolding aimee_module_handler_def wire_consts by (simp add: decode_frame)

lemma Handle_frame:
  assumes "learning_signal_policy_sink_mask (Some (frame_name req)) = Some m"
  shows "Handle cancelled i req =
     (if stage_id i \<noteq> 1 \<or> \<not> valid_frame req then (None, STATUS_INVALID_REQUEST)
      else if cancelled i then (None, STATUS_CANCELLED)
      else (Some (response_encode (replicate 8 0) m), STATUS_OK))"
proof -
  have "req ! 6 \<noteq> 0 \<longleftrightarrow> 0 < unat (req ! 6)"
    by (simp add: unat_gt_0)
  then show ?thesis
    using handle_mask [OF assms]
    by (auto simp: Handle_def valid_frame_iff frame_name_def response_encode_def wire_consts
        not_less)
qed

lemma policy_total: "s \<noteq> [] \<Longrightarrow> \<exists>m. learning_signal_policy_sink_mask (Some s) = Some m"
  using policy_refines by blast

text \<open>
  C22. The C handler and its response buffer. A status other than OK leaves the buffer and the
  length untouched. OK needs an invocation of the stage that is not cancelled, a valid frame, a
  length pointer and room for 8 bytes; it writes the 8 bytes of the response and nothing after
  them, sets the length to 8, and the mask it wrote is the policy's for the name in the frame.
\<close>

theorem handler_response:
  assumes "aimee_module_handler cancelled iv req body len = (st, body', len')"
  shows "if st = STATUS_OK
         then (\<exists>i b m. iv = Some i \<and> stage_id i = 1 \<and> \<not> cancelled i \<and> req = Some b \<and> valid_frame b \<and>
                learning_signal_policy_sink_mask (Some (c_str (frame_name b))) = Some m \<and>
                8 \<le> length body \<and> length body' = length body \<and> drop 8 body' = drop 8 body \<and>
                aimee_learning_response_decode (Some (take 8 body')) = Some m \<and> len' = Some 8)
         else body' = body \<and> len' = len"
proof (cases "st = STATUS_OK")
  case False
  with assms show ?thesis
    by (auto simp: aimee_module_handler_def Let_def split: option.splits if_splits)
next
  case True
  obtain i b n where h: "iv = Some i" "req = Some b" "len = Some n"
    using assms True
    by (cases iv; cases req; cases len)
       (auto simp: aimee_module_handler_def aimee_learning_request_decode_def split: if_splits)
  then have v: "stage_id i = 1" "\<not> cancelled i" "valid_frame b" "8 \<le> length body"
    and ok: "(case learning_signal_policy_sink_mask (Some (c_str (frame_name b))) of
              None \<Rightarrow> (STATUS_INTERNAL, body, Some n)
            | Some m \<Rightarrow> (STATUS_OK, response_encode body m, Some 8)) = (st, body', len')"
    using assms True by (auto simp: handler_frame split: if_splits)
  obtain m where m: "learning_signal_policy_sink_mask (Some (c_str (frame_name b))) = Some m"
      "body' = response_encode body m" "len' = Some 8"
    using ok True by (auto split: option.splits)
  then have "c_str (frame_name b) \<noteq> []"
    by (auto simp: learning_signal_policy_sink_mask_def)
  then have mb: "m AND NOT sink_bits = 0"
    using policy_refines m(1) by fastforce
  have "take 8 (response_encode body m) = response_encode (take 8 body) m"
    by (simp add: response_encode_def put_u32_unfold take_update_swap)
  moreover have "drop 8 (response_encode body m) = drop 8 body"
    by (simp add: response_encode_def put_u32_unfold drop_update_cancel)
  ultimately show ?thesis
    using True h v m mb response_decode_encode [of "take 8 body" m] by auto
qed

text \<open>A frame for examples: the name \<open>thumb_up\<close>, and one with a NUL after it.\<close>

definition example_frame :: "char list \<Rightarrow> byte list" where
  "example_frame cs = [0x4c, 0x4f, 0x42, 0x53, 1, 0, word_of_nat (length cs), 0] @
     map byte_of_char cs @ replicate (32 - length cs) 0"

lemma example_frame_props:
  assumes "0 < length cs" "length cs \<le> 31"
  shows "valid_frame (example_frame cs)" "frame_name (example_frame cs) = cs"
  using assms
  by (simp_all add: example_frame_def valid_frame_iff frame_name_def get_u32_unfold
      unat_word_of_small)

theorem handler_response_witness:
  "aimee_module_handler (\<lambda>_. False) (Some \<lparr>stage_id = 1\<rparr>) (Some (example_frame ''mark_rule''))
     (replicate 9 5) (Some 0) = (STATUS_OK, response_encode (replicate 9 5) 4, Some 8) \<and>
   (\<exists>b. valid_frame b \<and> drop 8 (response_encode (replicate 9 5) 4) = drop 8 (replicate 9 (5 :: byte)))"
proof -
  have h: "aimee_module_handler (\<lambda>_. False) (Some \<lparr>stage_id = 1\<rparr>) (Some (example_frame ''mark_rule''))
     (replicate 9 5) (Some 0) = (STATUS_OK, response_encode (replicate 9 5) 4, Some 8)"
    by (simp add: handler_frame example_frame_props learning_signal_policy_sink_mask_def sink_consts)
  show ?thesis
    using h handler_response [OF h] by auto
qed

text \<open>
  C11. Wire parity of the two handlers. For every frame whose name has no NUL in it, the C handler
  with an 8-byte response buffer and the shipped Go handler give the same status and, when it is
  OK, the same 8 bytes: for valid and invalid frames, any stage, cancelled or not.
\<close>

theorem c_go_parity:
  assumes "NUL \<notin> set (frame_name req)"
  shows "aimee_module_handler cancelled (Some i) (Some req) (replicate 8 0) (Some n) =
           (case Handle cancelled i req of
              (Some body, st) \<Rightarrow> (st, body, Some 8)
            | (None, st) \<Rightarrow> (st, replicate 8 0, Some n))"
proof (cases "valid_frame req")
  case False
  then have "Handle cancelled i req = (None, STATUS_INVALID_REQUEST)"
    by (auto simp: Handle_def valid_frame_iff unat_gt_0 not_less)
  with False show ?thesis
    by (simp add: handler_frame)
next
  case True
  then obtain m where "learning_signal_policy_sink_mask (Some (frame_name req)) = Some m"
    using policy_total frame_name_nonempty by blast
  with assms True show ?thesis
    by (simp add: handler_frame Handle_frame)
qed

theorem c_go_parity_witness:
  "aimee_module_handler (\<lambda>_. False) (Some \<lparr>stage_id = 1\<rparr>) (Some (example_frame ''thumb_up''))
     (replicate 8 0) (Some 0) =
   (case Handle (\<lambda>_. False) \<lparr>stage_id = 1\<rparr> (example_frame ''thumb_up'') of
      (Some body, st) \<Rightarrow> (st, body, Some 8)
    | (None, st) \<Rightarrow> (st, replicate 8 0, Some 0))"
  by (rule c_go_parity) (simp add: example_frame_props)

text \<open>
  C38. Where the parity ends. A frame may carry a NUL inside its name: neither decoder looks. The C
  policy compares the name up to the NUL and the Go handler compares all of it, so for the frame of
  a known signal followed by a NUL and any further bytes the C handler answers the known signal's
  sinks and the Go handler answers that the signal has none.
\<close>

theorem c_go_divergence:
  assumes "valid_frame req" and "frame_name req = s @ NUL # t"
    and "wire_name s" and "signal_sinks s \<noteq> {}"
  shows "\<exists>m. c_process req = (STATUS_OK, response_encode (replicate 8 0) m) \<and>
             mask_sinks m = signal_sinks s \<and>
             go_process req = (STATUS_OK, response_encode (replicate 8 0) 0)"
proof -
  obtain m where m: "learning_signal_policy_sink_mask (Some s) = Some m"
      "mask_sinks m = signal_sinks s"
    using assms(3) policy_direct.classified by metis
  have "c_str (frame_name req) = s"
    using assms(2) wire_name_bounds [OF assms(3)] by (simp add: c_str_prefix)
  then have c: "c_process req = (STATUS_OK, response_encode (replicate 8 0) m)"
    using assms(1) m(1) by (simp add: c_process_def handler_frame)
  have "NUL \<in> set (frame_name req)"
    using assms(2) by simp
  moreover have "NUL \<notin> set k" if "k \<in> {''thumb_up'', ''thumb_down'', ''correction'',
      ''preference_statement'', ''mark_rule'', ''workflow_repetition''}" for k
    using that by auto
  ultimately have "frame_name req \<notin> {''thumb_up'', ''thumb_down'', ''correction'',
      ''preference_statement'', ''mark_rule'', ''workflow_repetition''}"
    by blast
  then have "learning_signal_policy_sink_mask (Some (frame_name req)) = Some 0"
    using frame_name_nonempty [OF assms(1)] by (simp add: learning_signal_policy_sink_mask_def)
  then have "go_process req = (STATUS_OK, response_encode (replicate 8 0) 0)"
    using assms(1) by (simp add: go_process_def Handle_frame)
  with c m(2) show ?thesis by blast
qed

theorem c_go_divergence_witness:
  "\<exists>m. c_process (example_frame (''thumb_up'' @ NUL # ''x'')) =
         (STATUS_OK, response_encode (replicate 8 0) m) \<and>
       mask_sinks m = signal_sinks ''thumb_up'' \<and>
       go_process (example_frame (''thumb_up'' @ NUL # ''x'')) =
         (STATUS_OK, response_encode (replicate 8 0) 0)"
  by (rule c_go_divergence)
     (simp_all add: example_frame_props wire_name_def fits_def wire_consts signal_sinks_def)

end
