(* ===== verification/Router_Signal.thy ===== *)
theory Router_Signal
  imports Router_Telemetry Router_Proposals Observation
begin

text \<open>
  \<open>learning_router_record_signal\<close>, the entry point of the router: the integrity gate, classification by
  the registered classifier, the insertion of the signal, and one queued proposal per sink in the
  classification's mask, timed from end to end. It runs on the router's state, that is on the static
  variables of \<open>Router_Telemetry\<close> together with the world.
\<close>

section \<open>The parts\<close>

definition learning_log_dogfood :: "('w, 'j) host \<Rightarrow> signal_input \<Rightarrow> ('w, unit) state" where
  "learning_log_dogfood H input =
     (let notes = snprintf 96 (''learning_router:'' @ in_signal_type input);
          ids = (if in_target_memory_id input > 0 then [in_target_memory_id input] else []);
          what = (if in_title input \<noteq> [] then in_title input else in_description input);
          log = (\<lambda>verdict. dogfood_log_moment_tagged (svc H) ''learning_router'' what ids verdict notes)
      in if in_signal_type input = ''thumb_up'' then log ''hit''
         else if in_signal_type input = ''thumb_down'' then log ''partial''
         else if in_signal_type input = ''correction'' then log ''miss''
         else ret ())"

definition learning_fill_target_key :: "('w, 'j) host \<Rightarrow> signal_input \<Rightarrow> ('w, signal_input) state" where
  "learning_fill_target_key H input =
     (if in_target_key input \<noteq> [] \<or> in_target_memory_id input \<le> 0 then ret input
      else do {
        m \<leftarrow> memory_get (svc H) (in_target_memory_id input);
        ret (if fst m = 0 then input\<lparr>in_target_key := snprintf 256 (snd m)\<rparr> else input)
      })"

text \<open>The signals of explicit user actions.\<close>

definition user_stated :: "string \<Rightarrow> bool" where
  "user_stated s \<longleftrightarrow> s = ''thumb_up'' \<or> s = ''thumb_down'' \<or> s = ''correction'' \<or>
     s = ''preference_statement'' \<or> s = ''mark_rule''"

text \<open>Whether the integrity gate refuses the signal.\<close>

definition integrity_refuses :: "('w, 'j) host \<Rightarrow> signal_input \<Rightarrow> ('w, bool) state" where
  "integrity_refuses H raw_input = do {
     on \<leftarrow> gets (\<lambda>w. config_present (cfg H) w \<and> config_integrity_enabled (cfg H) w);
     let content = (if in_description raw_input \<noteq> [] then in_description raw_input
                    else if in_correction_text raw_input \<noteq> [] then in_correction_text raw_input
                    else in_title raw_input);
     if \<not> on \<or> content = [] then ret False
     else do {
       let src = (if user_stated (in_signal_type raw_input) then INTEGRITY_SOURCE_USER_STATED
                  else INTEGRITY_SOURCE_TOOL);
       verdict \<leftarrow> integrity_gate_check (svc H) content src;
       dry_run \<leftarrow> gets (config_integrity_dry_run (cfg H));
       ret (verdict \<noteq> VERDICT_ACCEPT \<and> \<not> dry_run \<and> src \<noteq> INTEGRITY_SOURCE_USER_STATED \<and>
            verdict = VERDICT_REJECT)
     }
   }"

section \<open>One sink each\<close>

text \<open>Building an action and queueing it; the id the queue returns is ignored.\<close>

definition queue_action ::
    "('w, 'j) host \<Rightarrow> int \<Rightarrow> string \<Rightarrow> string \<Rightarrow> int \<Rightarrow> string option \<Rightarrow> string option \<Rightarrow> bool \<Rightarrow>
     dispatch_result option \<Rightarrow> ('w, dispatch_result option) state" where
  "queue_action H signal_id sink key mid action refs high_confidence out =
     (case action of
        None \<Rightarrow> ret out
      | Some a \<Rightarrow> do {
          r \<leftarrow> learning_queue_sink H signal_id sink key mid a refs high_confidence out;
          ret (snd r)
        })"

definition signal_reranker ::
    "('w, 'j) host \<Rightarrow> u32 \<Rightarrow> int \<Rightarrow> signal_input \<Rightarrow> dispatch_result option \<Rightarrow>
     ('w, dispatch_result option) state" where
  "signal_reranker H sink_mask signal_id input out =
     (if sink_mask AND AIMEE_LEARNING_SINK_RERANKER \<noteq> 0 then
        (let has_target = (in_target_memory_id input > 0 \<or>
               (case in_evidence_refs_json input of None \<Rightarrow> False | Some r \<Rightarrow> r \<noteq> []))
         in if in_signal_type input \<noteq> ''correction'' \<or> has_target then
              queue_action H signal_id ''reranker'' (in_target_key input) (in_target_memory_id input)
                (learning_make_reranker_action (plat H) (json H) (in_signal_type input = ''thumb_up'')
                   (in_target_memory_id input) (in_evidence_refs_json input) 512)
                (in_evidence_refs_json input) False out
            else ret out)
      else ret out)"

definition signal_supersede ::
    "('w, 'j) host \<Rightarrow> u32 \<Rightarrow> int \<Rightarrow> signal_input \<Rightarrow> dispatch_result option \<Rightarrow>
     ('w, dispatch_result option) state" where
  "signal_supersede H sink_mask signal_id input out =
     (if sink_mask AND AIMEE_LEARNING_SINK_SUPERSEDE \<noteq> 0 then
        (if in_target_memory_id input > 0 \<and> in_correction_text input \<noteq> [] then
           queue_action H signal_id ''supersede'' (in_target_key input) (in_target_memory_id input)
             (learning_make_supersede_action (plat H) (json H) (in_target_memory_id input)
                (Some (in_correction_text input)) 2048)
             (in_evidence_refs_json input) False out
         else ret out)
      else ret out)"

text \<open>The rule a correction asks for.\<close>

definition correction_rule_text :: "nat \<Rightarrow> signal_input \<Rightarrow> string" where
  "correction_rule_text cap input =
     (if in_target_key input \<noteq> [] \<and> in_correction_text input \<noteq> [] then
        snprintf cap (''For '' @ in_target_key input @ '', use '' @ in_correction_text input)
      else if in_title input \<noteq> [] \<and> in_correction_text input \<noteq> [] then
        snprintf cap (''For '' @ in_title input @ '', use '' @ in_correction_text input)
      else snprintf cap (if in_correction_text input \<noteq> [] then in_correction_text input
                         else in_description input))"

definition signal_rule ::
    "('w, 'j) host \<Rightarrow> u32 \<Rightarrow> int \<Rightarrow> signal_input \<Rightarrow> dispatch_result option \<Rightarrow>
     ('w, dispatch_result option) state" where
  "signal_rule H sink_mask signal_id input out =
     (if sink_mask AND AIMEE_LEARNING_SINK_RULE \<noteq> 0 then
        (let text_cap = COLLAB_RULE_TEXT_LEN (svc H) + 1;
             reason_cap = COLLAB_RULE_REASON_LEN (svc H) + 1
         in if in_signal_type input = ''correction'' \<and>
               (in_correction_text input \<noteq> [] \<or> in_title input \<noteq> [] \<or> in_description input \<noteq> []) then
              queue_action H signal_id ''rule'' (in_target_key input) (in_target_memory_id input)
                (learning_make_rule_action (json H) (Some (correction_rule_text text_cap input))
                   (Some (snprintf reason_cap ''Repeated correction captured by learning router'')) 2048)
                (in_evidence_refs_json input) False out
            else if in_signal_type input = ''preference_statement'' \<or> in_signal_type input = ''mark_rule'' then
              queue_action H signal_id ''rule'' (in_target_key input) (in_target_memory_id input)
                (learning_make_rule_action (json H)
                   (Some (snprintf text_cap (if in_description input \<noteq> [] then in_description input
                                             else in_title input)))
                   (Some (snprintf reason_cap (if in_signal_type input = ''mark_rule''
                      then ''Explicit rule capture'' else ''Explicit user preference''))) 2048)
                (in_evidence_refs_json input)
                (in_high_confidence input \<or> in_signal_type input = ''mark_rule'') out
            else ret out)
      else ret out)"

definition signal_workflow ::
    "('w, 'j) host \<Rightarrow> u32 \<Rightarrow> int \<Rightarrow> signal_input \<Rightarrow> dispatch_result option \<Rightarrow>
     ('w, dispatch_result option) state" where
  "signal_workflow H sink_mask signal_id input out =
     (if sink_mask AND AIMEE_LEARNING_SINK_WORKFLOW \<noteq> 0 \<and> in_workflow_project input \<noteq> [] \<and>
         in_workflow_signal_type input \<noteq> [] \<and> in_description input \<noteq> [] then
        queue_action H signal_id ''workflow'' (in_workflow_project input) 0
          (learning_make_workflow_action (json H) (Some (in_workflow_project input))
             (Some (in_workflow_signal_type input)) (Some (in_description input)) 1024)
          (in_evidence_refs_json input) False out
      else ret out)"

text \<open>The four blocks in the order of the code.\<close>

definition dispatch_sinks ::
    "('w, 'j) host \<Rightarrow> u32 \<Rightarrow> int \<Rightarrow> signal_input \<Rightarrow> dispatch_result option \<Rightarrow>
     ('w, dispatch_result option) state" where
  "dispatch_sinks H sink_mask signal_id input out = do {
     out \<leftarrow> signal_reranker H sink_mask signal_id input out;
     out \<leftarrow> signal_supersede H sink_mask signal_id input out;
     out \<leftarrow> signal_rule H sink_mask signal_id input out;
     signal_workflow H sink_mask signal_id input out
   }"

section \<open>Recording a signal\<close>

definition learning_router_record_signal ::
    "('w, 'j) host \<Rightarrow> signal_input option \<Rightarrow> dispatch_result option \<Rightarrow>
     ('w router, int \<times> dispatch_result option) state" where
  "learning_router_record_signal H raw out =
     (case raw of
        None \<Rightarrow> ret (-1, out)
      | Some raw_input \<Rightarrow>
          if in_signal_type raw_input = [] then ret (-1, out)
          else do {
            refused \<leftarrow> on_world (integrity_refuses H raw_input);
            if refused then ret (-1, learning_dispatch_clear out)
            else do {
              t0 \<leftarrow> on_world (clock_gettime (svc H));
              let out = learning_dispatch_clear out;
              c \<leftarrow> learning_classify_signal (in_signal_type raw_input);
              let (rc, sink_mask) = c;
              if rc \<noteq> 0 then ret (-1, out)
              else do {
                input \<leftarrow> on_world (learning_fill_target_key H raw_input);
                _ \<leftarrow> on_world (db2_learning_proposals_archive_expired (db H));
                sid \<leftarrow> on_world (session_id (svc H));
                signal_id \<leftarrow> on_world (db2_learning_signal_insert (db H) input sid);
                if signal_id \<le> 0 then ret (-1, out)
                else do {
                  let out = map_option (\<lambda>d. d\<lparr>d_signal_id := signal_id\<rparr>) out;
                  _ \<leftarrow> on_world (learning_log_dogfood H input);
                  out \<leftarrow> on_world (dispatch_sinks H sink_mask signal_id input out);
                  t1 \<leftarrow> on_world (clock_gettime (svc H));
                  _ \<leftarrow> modify (learning_ingest_record_ms (plat H) (elapsed_ms (plat H) t0 t1));
                  ret (signal_id, out)
                }
              }
            }
          })"

end
