(* ===== verification/Router_Plan.thy ===== *)
theory Router_Plan
  imports Router_Signal
begin

text \<open>
  What a signal asks for, as data: the plan of a signal is the list of requests its sinks make of the
  services, with the key each is queued under. The dispatch of \<open>learning_router_record_signal\<close> is shown
  to carry out that plan, so that what the router queues can be read off the plan.
\<close>

section \<open>The plan of a signal\<close>

record task =
  t_key :: string
  t_memory :: int
  t_request :: request
  t_buffer :: nat
  t_high_confidence :: bool

definition plan_reranker :: "signal_input \<Rightarrow> task list" where
  "plan_reranker i =
     (if in_signal_type i \<noteq> ''correction'' \<or> in_target_memory_id i > 0 \<or>
         (\<exists>r. in_evidence_refs_json i = Some r \<and> r \<noteq> [])
      then [\<lparr>t_key = in_target_key i, t_memory = in_target_memory_id i,
             t_request = Feedback (in_signal_type i = ''thumb_up'') (in_target_memory_id i)
               (in_evidence_refs_json i),
             t_buffer = 512, t_high_confidence = False\<rparr>]
      else [])"

definition plan_supersede :: "signal_input \<Rightarrow> task list" where
  "plan_supersede i =
     (if in_target_memory_id i > 0 \<and> in_correction_text i \<noteq> []
      then [\<lparr>t_key = in_target_key i, t_memory = in_target_memory_id i,
             t_request = Supersede_Memory (in_target_memory_id i) (in_correction_text i),
             t_buffer = 2048, t_high_confidence = False\<rparr>]
      else [])"

definition plan_rule :: "nat \<Rightarrow> nat \<Rightarrow> signal_input \<Rightarrow> task list" where
  "plan_rule text_cap reason_cap i =
     (if in_signal_type i = ''correction''
      then (if in_correction_text i \<noteq> [] \<or> in_title i \<noteq> [] \<or> in_description i \<noteq> []
        then [\<lparr>t_key = in_target_key i, t_memory = in_target_memory_id i,
               t_request = Propose_Rule (correction_rule_text text_cap i)
                 (snprintf reason_cap ''Repeated correction captured by learning router''),
               t_buffer = 2048, t_high_confidence = False\<rparr>]
        else [])
      else if in_signal_type i = ''preference_statement'' \<or> in_signal_type i = ''mark_rule''
      then [\<lparr>t_key = in_target_key i, t_memory = in_target_memory_id i,
             t_request = Propose_Rule
               (snprintf text_cap (if in_description i \<noteq> [] then in_description i else in_title i))
               (snprintf reason_cap (if in_signal_type i = ''mark_rule'' then ''Explicit rule capture''
                                     else ''Explicit user preference'')),
             t_buffer = 2048,
             t_high_confidence = in_high_confidence i \<or> in_signal_type i = ''mark_rule''\<rparr>]
      else [])"

definition plan_workflow :: "signal_input \<Rightarrow> task list" where
  "plan_workflow i =
     (if in_workflow_project i \<noteq> [] \<and> in_workflow_signal_type i \<noteq> [] \<and> in_description i \<noteq> []
      then [\<lparr>t_key = in_workflow_project i, t_memory = 0,
             t_request = Upsert_Workflow (in_workflow_project i) (in_workflow_signal_type i)
               (in_description i),
             t_buffer = 1024, t_high_confidence = False\<rparr>]
      else [])"

definition signal_plan :: "nat \<Rightarrow> nat \<Rightarrow> sink set \<Rightarrow> signal_input \<Rightarrow> task list" where
  "signal_plan text_cap reason_cap sinks i =
     (if Reranker \<in> sinks then plan_reranker i else []) @
     (if Supersede \<in> sinks then plan_supersede i else []) @
     (if Rule \<in> sinks then plan_rule text_cap reason_cap i else []) @
     (if Workflow \<in> sinks then plan_workflow i else [])"

text \<open>Carrying out a plan.\<close>

definition run_task ::
    "('w, 'j) host \<Rightarrow> int \<Rightarrow> string option \<Rightarrow> task \<Rightarrow> dispatch_result option \<Rightarrow>
     ('w, dispatch_result option) state" where
  "run_task H sid refs t out =
     queue_action H sid (request_sink (t_request t)) (t_key t) (t_memory t)
       (build_request (plat H) (json H) (t_request t) (t_buffer t)) refs (t_high_confidence t) out"

fun run_plan ::
    "('w, 'j) host \<Rightarrow> int \<Rightarrow> string option \<Rightarrow> task list \<Rightarrow> dispatch_result option \<Rightarrow>
     ('w, dispatch_result option) state" where
  "run_plan H sid refs [] out = ret out"
| "run_plan H sid refs (t # ts) out = run_task H sid refs t out \<bind> run_plan H sid refs ts"

lemma run_plan_Nil [simp]: "run_plan H sid refs [] = ret"
  by (rule ext) simp

lemma run_plan_append:
  "run_plan H sid refs (xs @ ys) out = run_plan H sid refs xs out \<bind> run_plan H sid refs ys"
proof (induction xs arbitrary: out)
  case (Cons x xs)
  then have "run_plan H sid refs (xs @ ys) = (\<lambda>out. run_plan H sid refs xs out \<bind> run_plan H sid refs ys)"
    by (intro ext)
  then show ?case by simp
qed simp

lemma sink_in_mask: "k \<in> mask_sinks m \<longleftrightarrow> m AND sink_bit k \<noteq> 0"
  by (simp add: mask_sinks_def)

lemma reranker_plan:
  "signal_reranker H m sid i out =
     run_plan H sid (in_evidence_refs_json i) (if Reranker \<in> mask_sinks m then plan_reranker i else []) out"
  by (auto simp: signal_reranker_def plan_reranker_def sink_in_mask run_task_def split: option.splits)

lemma supersede_plan:
  "signal_supersede H m sid i out =
     run_plan H sid (in_evidence_refs_json i) (if Supersede \<in> mask_sinks m then plan_supersede i else []) out"
  by (simp add: signal_supersede_def plan_supersede_def sink_in_mask run_task_def)

lemma rule_plan:
  "signal_rule H m sid i out =
     run_plan H sid (in_evidence_refs_json i) (if Rule \<in> mask_sinks m
       then plan_rule (COLLAB_RULE_TEXT_LEN (svc H) + 1) (COLLAB_RULE_REASON_LEN (svc H) + 1) i else []) out"
  by (simp add: signal_rule_def plan_rule_def sink_in_mask run_task_def Let_def)

lemma workflow_plan:
  "signal_workflow H m sid i out =
     run_plan H sid (in_evidence_refs_json i) (if Workflow \<in> mask_sinks m then plan_workflow i else []) out"
  by (simp add: signal_workflow_def plan_workflow_def sink_in_mask run_task_def)

lemma dispatch_plan:
  "dispatch_sinks H m sid i out =
     run_plan H sid (in_evidence_refs_json i)
       (signal_plan (COLLAB_RULE_TEXT_LEN (svc H) + 1) (COLLAB_RULE_REASON_LEN (svc H) + 1)
          (mask_sinks m) i) out"
  unfolding dispatch_sinks_def reranker_plan supersede_plan rule_plan workflow_plan signal_plan_def
    run_plan_append ..

text \<open>
  C6. The dispatch carries out the plan: for every mask and input, the four sink blocks of
  \<open>learning_router_record_signal\<close> queue exactly the requests of the signal's plan for the sinks in the
  mask, in that order, each rendered into its buffer.
\<close>

theorem dispatch_carries_out_plan:
  "dispatch_sinks H m sid i out =
     run_plan H sid (in_evidence_refs_json i)
       (signal_plan (COLLAB_RULE_TEXT_LEN (svc H) + 1) (COLLAB_RULE_REASON_LEN (svc H) + 1)
          (mask_sinks m) i) out"
  by (rule dispatch_plan)

section \<open>What recording a signal does to the proposals\<close>

text \<open>
  A classifier that leaves the proposals alone and answers with the sinks of the contract in
  \<open>Observation\<close>, as the module behind the bus does.
\<close>

definition good_classifier :: "('w \<Rightarrow> pstore) \<Rightarrow> 'w classifier \<Rightarrow> bool" where
  "good_classifier view c \<longleftrightarrow> (\<forall>x. reads view (c x)) \<and>
     (\<forall>x w m. wire_name x \<longrightarrow> outcome (c x) w = (0, m) \<longrightarrow> mask_sinks m = signal_sinks x)"

definition good_router :: "('w \<Rightarrow> pstore) \<Rightarrow> 'w router \<Rightarrow> bool" where
  "good_router view s \<longleftrightarrow> (\<forall>c. g_signal_classifier s = Some c \<longrightarrow> good_classifier view c)"

text \<open>A relation between stores, followed through the router's state as long as the registered
  classifier is good.\<close>

definition tracks :: "(pstore \<Rightarrow> pstore \<Rightarrow> bool) \<Rightarrow> ('w \<Rightarrow> pstore) \<Rightarrow> 'w router \<Rightarrow> 'w router \<Rightarrow> bool" where
  "tracks R view s t \<longleftrightarrow> (good_router view s \<longrightarrow> R (view (world s)) (view (world t)) \<and> good_router view t)"

interpretation tracked_lives: effects "tracks (life cap) view" for cap and view :: "'w \<Rightarrow> pstore"
  by unfold_locales (auto simp: tracks_def)

interpretation tracked_origins: effects "tracks (rows_from S) view" for S and view :: "'w \<Rightarrow> pstore"
  by unfold_locales (auto simp: tracks_def intro: rows_from_refl rows_from_trans)

lemma track_on_world:
  "state_io_rel (\<lambda>w w'. R (view w) (view w')) m \<Longrightarrow> state_io_rel (tracks R view) (on_world m)"
  by (simp add: state_io_rel_final tracks_def final_on_world good_router_def)

lemma track_ingest:
  "(\<And>x. R x x) \<Longrightarrow> state_io_rel (tracks R view) (modify (learning_ingest_record_ms P ms))"
  by (simp add: state_io_rel_final tracks_def good_router_def learning_ingest_record_ms_def Let_def)

lemma final_classify:
  "final (learning_classify_signal x) s = (case g_signal_classifier s of None \<Rightarrow> s
     | Some c \<Rightarrow> s\<lparr>world := final (c x) (world s)\<rparr>)"
  by (simp add: learning_classify_signal_def final_bind final_on_world split: option.split)

lemma outcome_classify:
  "outcome (learning_classify_signal x) s = (case g_signal_classifier s of None \<Rightarrow> (-1, 0)
     | Some c \<Rightarrow> outcome (c x) (world s))"
  by (simp add: learning_classify_signal_def outcome_bind outcome_on_world split: option.split)

lemma classify_view:
  "good_router view s \<Longrightarrow> view (world (final (learning_classify_signal x) s)) = view (world s)"
  by (auto simp: final_classify good_router_def good_classifier_def readsD split: option.split)

lemma track_classify: "(\<And>x. R x x) \<Longrightarrow> state_io_rel (tracks R view) (learning_classify_signal x)"
  by (simp add: state_io_rel_final tracks_def classify_view)
     (simp add: final_classify good_router_def split: option.split)

text \<open>After a step of a good router, only the answers it can give matter.\<close>

lemma track_bind:
  assumes "effects (tracks R view)" "state_io_rel (tracks R view) m"
    and "\<And>s. good_router view s \<Longrightarrow> state_io_rel (tracks R view) (f (outcome m s))"
  shows "state_io_rel (tracks R view) (m \<bind> f)"
proof -
  have "tracks R view s (final (m \<bind> f) s)" for s
  proof (cases "good_router view s")
    case True
    then have "tracks R view s (final m s)" "tracks R view (final m s) (final (f (outcome m s)) (final m s))"
      using assms(2,3) by (simp_all add: state_io_rel_final)
    then show ?thesis
      unfolding final_bind by (rule effects.eff_trans [OF assms(1)])
  qed (simp add: tracks_def)
  then show ?thesis by (simp add: state_io_rel_final)
qed

lemma integrity_reads: "services_apart (svc H) view \<Longrightarrow> reads view (integrity_refuses H i)"
  unfolding integrity_refuses_def Let_def by (intro frame_rules apart_reads)

lemma fill_reads: "services_apart (svc H) view \<Longrightarrow> reads view (learning_fill_target_key H i)"
  unfolding learning_fill_target_key_def by (intro frame_rules apart_reads)

lemma dogfood_reads: "services_apart (svc H) view \<Longrightarrow> reads view (learning_log_dogfood H i)"
  unfolding learning_log_dogfood_def Let_def by (intro frame_rules apart_reads)

lemma run_plan_lives: "deployment H view cap \<Longrightarrow> lives_by view cap (run_plan H sid refs ts out)"
proof (induction ts arbitrary: out)
  case (Cons t ts)
  have "lives_by view cap (run_task H sid refs t out)"
    unfolding run_task_def queue_action_def
    by (intro lives.eff_rules queue_lives Cons.prems)
  then show ?case
    using Cons by (auto intro: lives.eff_bind)
qed (simp add: lives.eff_ret)

text \<open>The contents a plan can queue.\<close>

definition plan_contents :: "platform \<Rightarrow> 'j cjson \<Rightarrow> task list \<Rightarrow> content set" where
  "plan_contents P J ts = {(request_sink (t_request t), t_key t, t_memory t, act) | t act.
     t \<in> set ts \<and> build_request P J (t_request t) (t_buffer t) = Some act}"

lemma run_plan_origins:
  "deployment H view cap \<Longrightarrow> plan_contents (plat H) (json H) ts \<subseteq> S \<Longrightarrow>
   origin_of view S (run_plan H sid refs ts out)"
proof (induction ts arbitrary: out)
  case (Cons t ts)
  have "origin_of view S (run_task H sid refs t out)"
  proof (cases "build_request (plat H) (json H) (t_request t) (t_buffer t)")
    case None
    then show ?thesis by (simp add: run_task_def queue_action_def origins.eff_ret)
  next
    case (Some act)
    then have "(request_sink (t_request t), t_key t, t_memory t, act) \<in> S"
      using Cons.prems(2) by (auto simp: plan_contents_def)
    then show ?thesis
      unfolding run_task_def queue_action_def Some option.case
      by (intro origins.eff_rules queue_origins [OF Cons.prems(1)])
  qed
  moreover have "plan_contents (plat H) (json H) ts \<subseteq> S"
    using Cons.prems(2) by (auto simp: plan_contents_def)
  ultimately show ?case
    using Cons by (auto intro: origins.eff_bind)
qed (simp add: origins.eff_ret)

lemma record_signal_lives:
  assumes "deployment H view cap"
  shows "state_io_rel (tracks (life cap) view) (learning_router_record_signal H raw out)"
proof -
  note A = deployment_apart [OF assms]
  have quiet: "state_io_rel (tracks (life cap) view) (on_world (integrity_refuses H i))"
    "state_io_rel (tracks (life cap) view) (on_world (clock_gettime (svc H)))"
    "state_io_rel (tracks (life cap) view) (on_world (learning_fill_target_key H i))"
    "state_io_rel (tracks (life cap) view) (on_world (session_id (svc H)))"
    "state_io_rel (tracks (life cap) view) (on_world (db2_learning_signal_insert (db H) i sid))"
    "state_io_rel (tracks (life cap) view) (on_world (learning_log_dogfood H i))" for i sid
    by (intro track_on_world reads_lives integrity_reads fill_reads dogfood_reads apart_reads A
        tables_reads deployment_tables [OF assms])+
  have busy: "state_io_rel (tracks (life cap) view) (on_world (db2_learning_proposals_archive_expired (db H)))"
    "state_io_rel (tracks (life cap) view) (on_world (dispatch_sinks H m sid i out))" for m sid i out
    unfolding dispatch_plan
    by (intro track_on_world expire_lives run_plan_lives assms)+
  show ?thesis
    unfolding learning_router_record_signal_def Let_def
    by (intro tracked_lives.eff_rules quiet busy track_classify track_ingest rtranclp.rtrancl_refl)
qed

text \<open>The contents a signal can queue: those of its plan, with the target key it came with or, where
  it came without one and names a memory, the key that was filled in.\<close>

definition signal_contents :: "('w, 'j) host \<Rightarrow> signal_input \<Rightarrow> content set" where
  "signal_contents H raw = {x. \<exists>key.
     (key = in_target_key raw \<or> in_target_key raw = [] \<and> in_target_memory_id raw > 0) \<and>
     x \<in> plan_contents (plat H) (json H)
       (signal_plan (COLLAB_RULE_TEXT_LEN (svc H) + 1) (COLLAB_RULE_REASON_LEN (svc H) + 1)
          (signal_sinks (in_signal_type raw)) (raw\<lparr>in_target_key := key\<rparr>))}"

lemma fill_outcome:
  "\<exists>key. outcome (learning_fill_target_key H i) w = i\<lparr>in_target_key := key\<rparr> \<and>
     (key = in_target_key i \<or> in_target_key i = [] \<and> in_target_memory_id i > 0)"
  by (auto simp: learning_fill_target_key_def outcome_bind intro: exI [of _ "in_target_key i"])

lemma record_signal_origins:
  assumes "deployment H view cap" "wire_name (in_signal_type raw)"
  shows "state_io_rel (tracks (rows_from (signal_contents H raw)) view)
    (learning_router_record_signal H (Some raw) out)"
proof -
  let ?S = "signal_contents H raw"
  let ?T = "tracks (rows_from ?S) view"
  note A = deployment_apart [OF assms(1)] and D = deployment_tables [OF assms(1)]
  have quiet: "state_io_rel ?T (on_world (integrity_refuses H i))"
    "state_io_rel ?T (on_world (clock_gettime (svc H)))"
    "state_io_rel ?T (on_world (learning_fill_target_key H i))"
    "state_io_rel ?T (on_world (session_id (svc H)))"
    "state_io_rel ?T (on_world (db2_learning_signal_insert (db H) i sid))"
    "state_io_rel ?T (on_world (learning_log_dogfood H i))" for i sid
    by (intro track_on_world reads_origins integrity_reads fill_reads dogfood_reads apart_reads A
        tables_reads D)+
  have expire: "state_io_rel ?T (on_world (db2_learning_proposals_archive_expired (db H)))"
    by (intro track_on_world expire_origins D)
  have dispatch: "state_io_rel ?T (on_world (dispatch_sinks H m sid (raw\<lparr>in_target_key := key\<rparr>) d))"
    if "mask_sinks m = signal_sinks (in_signal_type raw)"
      "key = in_target_key raw \<or> in_target_key raw = [] \<and> in_target_memory_id raw > 0" for m sid key d
    unfolding dispatch_plan that(1)
    using that(2) by (intro track_on_world run_plan_origins [OF assms(1)]) (auto simp: signal_contents_def)
  have ingest: "state_io_rel ?T (modify (learning_ingest_record_ms P ms))" for P ms
    by (intro track_ingest rows_from_refl)
  have eff: "effects ?T"
    by (rule tracked_origins.effects_axioms)
  have answer: "mask_sinks (snd (outcome (learning_classify_signal (in_signal_type raw)) s)) =
      signal_sinks (in_signal_type raw)"
    if "good_router view s" "fst (outcome (learning_classify_signal (in_signal_type raw)) s) = 0" for s
    using that assms(2)
    by (cases "outcome (learning_classify_signal (in_signal_type raw)) s")
       (auto simp: outcome_classify good_router_def good_classifier_def split: option.splits)
  show ?thesis
    unfolding learning_router_record_signal_def option.case Let_def case_prod_beta
  proof (intro tracked_origins.eff_if tracked_origins.eff_ret, rule tracked_origins.eff_bind [OF quiet(1)],
      intro tracked_origins.eff_if tracked_origins.eff_ret, rule tracked_origins.eff_bind [OF quiet(2)],
      rule track_bind [OF eff track_classify], rule rows_from_refl,
      rule tracked_origins.eff_if_cond, rule tracked_origins.eff_ret, rule track_bind [OF eff quiet(3)])
    fix s s' :: "'a router"
    let ?c = "outcome (learning_classify_signal (in_signal_type raw)) s"
    assume s: "good_router view s" "\<not> fst ?c \<noteq> 0"
    obtain key where key: "outcome (on_world (learning_fill_target_key H raw)) s' = raw\<lparr>in_target_key := key\<rparr>"
        "key = in_target_key raw \<or> in_target_key raw = [] \<and> in_target_memory_id raw > 0"
      using fill_outcome [of H raw "world s'"] by (auto simp: outcome_on_world)
    have "mask_sinks (snd ?c) = signal_sinks (in_signal_type raw)"
      using answer s by simp
    note d = dispatch [OF this key(2)]
    show "state_io_rel ?T (on_world (db2_learning_proposals_archive_expired (db H)) \<bind>
       (\<lambda>_. on_world (session_id (svc H)) \<bind>
       (\<lambda>sid. on_world (db2_learning_signal_insert (db H)
           (outcome (on_world (learning_fill_target_key H raw)) s') sid) \<bind>
       (\<lambda>signal_id. if signal_id \<le> 0 then ret (- 1, learning_dispatch_clear out)
         else on_world (learning_log_dogfood H (outcome (on_world (learning_fill_target_key H raw)) s')) \<bind>
           (\<lambda>_. on_world (dispatch_sinks H (snd ?c) signal_id
               (outcome (on_world (learning_fill_target_key H raw)) s')
               (map_option (\<lambda>d. d\<lparr>d_signal_id := signal_id\<rparr>) (learning_dispatch_clear out))) \<bind>
           (\<lambda>out. on_world (clock_gettime (svc H)) \<bind>
           (\<lambda>t1. modify (learning_ingest_record_ms (plat H) (elapsed_ms (plat H) t0 t1)) \<bind>
           (\<lambda>_. ret (signal_id, out)))))))))" for t0
      unfolding key(1) by (intro tracked_origins.eff_rules quiet expire d ingest)
  qed
qed

end
