(* ===== verification/Reference_Json.thy ===== *)
theory Reference_Json
  imports Json_Contract
begin

text \<open>
  An executable implementation of the cJSON interface that satisfies \<open>json_laws\<close>, so that properties
  with that hypothesis can be applied to concrete actions. It is not a model of cJSON's text format:
  its documents are a length-prefixed code for one level of fields, which is all the laws speak of.
\<close>

section \<open>Nodes\<close>

datatype leaf = LBool bool | LNum int | LStr string | LArr "int list"

datatype ref_node = Leaf leaf | Obj "(string \<times> leaf) list"

fun members :: "ref_node \<Rightarrow> (string \<times> leaf) list" where
  "members (Leaf l) = []"
| "members (Obj ms) = ms"

definition add_member :: "ref_node \<Rightarrow> string \<Rightarrow> leaf \<Rightarrow> ref_node" where
  "add_member v k l = Obj (members v @ [(k, l)])"

fun node_num :: "ref_node \<Rightarrow> int option" where
  "node_num (Leaf (LNum i)) = Some i"
| "node_num v = None"

fun node_str :: "ref_node \<Rightarrow> string option" where
  "node_str (Leaf (LStr s)) = Some s"
| "node_str v = None"

fun node_bool :: "ref_node \<Rightarrow> bool option" where
  "node_bool (Leaf (LBool b)) = Some b"
| "node_bool v = None"

fun node_arr :: "ref_node \<Rightarrow> int list option" where
  "node_arr (Leaf (LArr is)) = Some is"
| "node_arr v = None"

fun int_of_dbl :: "dbl \<Rightarrow> int option" where
  "int_of_dbl (Fin x) = (if of_int \<lfloor>x\<rfloor> = x then Some \<lfloor>x\<rfloor> else None)"
| "int_of_dbl d = None"

section \<open>Text\<close>

type_synonym 'a decoder = "string \<Rightarrow> ('a \<times> string) option"

definition enc_len :: "nat \<Rightarrow> string" where
  "enc_len n = replicate n CHR ''1'' @ '';''"

fun dec_len :: "nat decoder" where
  "dec_len [] = None"
| "dec_len (c # s) =
     (if c = CHR ''1'' then (case dec_len s of None \<Rightarrow> None | Some (n, r) \<Rightarrow> Some (Suc n, r))
      else if c = CHR '';'' then Some (0, s) else None)"

definition enc_int :: "int \<Rightarrow> string" where
  "enc_int i = (if i < 0 then CHR ''-'' else CHR ''+'') # enc_len (nat \<bar>i\<bar>)"

fun dec_int' :: "int decoder" where
  "dec_int' [] = None"
| "dec_int' (c # s) =
     (case dec_len s of None \<Rightarrow> None
      | Some (n, r) \<Rightarrow> if c = CHR ''-'' then Some (- int n, r)
                     else if c = CHR ''+'' then Some (int n, r) else None)"

definition enc_str :: "string \<Rightarrow> string" where
  "enc_str s = CHR 0x22 # enc_len (length s) @ s"

fun dec_str :: "string decoder" where
  "dec_str [] = None"
| "dec_str (c # s) =
     (if c \<noteq> CHR 0x22 then None
      else (case dec_len s of None \<Rightarrow> None
            | Some (n, r) \<Rightarrow> if n \<le> length r then Some (take n r, drop n r) else None))"

fun dec_many :: "nat \<Rightarrow> 'a decoder \<Rightarrow> 'a list decoder" where
  "dec_many 0 d s = Some ([], s)"
| "dec_many (Suc n) d s =
     (case d s of None \<Rightarrow> None
      | Some (x, r) \<Rightarrow> (case dec_many n d r of None \<Rightarrow> None | Some (xs, r') \<Rightarrow> Some (x # xs, r')))"

definition enc_many :: "('a \<Rightarrow> string) \<Rightarrow> 'a list \<Rightarrow> string" where
  "enc_many e xs = enc_len (length xs) @ List.concat (map e xs)"

definition dec_seq :: "'a decoder \<Rightarrow> 'a list decoder" where
  "dec_seq d s = (case dec_len s of None \<Rightarrow> None | Some (n, r) \<Rightarrow> dec_many n d r)"

fun enc_leaf :: "leaf \<Rightarrow> string" where
  "enc_leaf (LBool b) = (if b then ''t'' else ''f'')"
| "enc_leaf (LNum i) = CHR ''n'' # enc_int i"
| "enc_leaf (LStr s) = CHR ''s'' # enc_str s"
| "enc_leaf (LArr is) = CHR ''a'' # enc_many enc_int is"

definition wrap :: "('a \<Rightarrow> 'b) \<Rightarrow> ('a \<times> string) option \<Rightarrow> ('b \<times> string) option" where
  "wrap f x = map_option (\<lambda>(y, r). (f y, r)) x"

fun dec_leaf :: "leaf decoder" where
  "dec_leaf [] = None"
| "dec_leaf (c # s) =
     (if c = CHR ''t'' then Some (LBool True, s)
      else if c = CHR ''f'' then Some (LBool False, s)
      else if c = CHR ''n'' then wrap LNum (dec_int' s)
      else if c = CHR ''s'' then wrap LStr (dec_str s)
      else if c = CHR ''a'' then wrap LArr (dec_seq dec_int' s)
      else None)"

definition enc_member :: "string \<times> leaf \<Rightarrow> string" where
  "enc_member m = enc_str (fst m) @ enc_leaf (snd m)"

definition dec_member :: "(string \<times> leaf) decoder" where
  "dec_member s = (case dec_str s of None \<Rightarrow> None
     | Some (k, r) \<Rightarrow> (case dec_leaf r of None \<Rightarrow> None | Some (l, r') \<Rightarrow> Some ((k, l), r')))"

definition ref_print :: "ref_node \<Rightarrow> string" where
  "ref_print v = enc_many enc_member (members v)"

definition ref_parse :: "string \<Rightarrow> ref_node option" where
  "ref_parse s = (case dec_seq dec_member s of None \<Rightarrow> None | Some (ms, r) \<Rightarrow> Some (Obj ms))"

section \<open>A decoder inverts its encoder and does not look past what it needs\<close>

definition inverts :: "('a \<Rightarrow> string) \<Rightarrow> 'a decoder \<Rightarrow> bool" where
  "inverts e d \<longleftrightarrow> (\<forall>x r. d (e x @ r) = Some (x, r)) \<and>
     (\<forall>s x r u. d s = Some (x, r) \<longrightarrow> d (s @ u) = Some (x, r @ u))"

lemma inverts_dec: "inverts e d \<Longrightarrow> d (e x @ r) = Some (x, r)"
  by (simp add: inverts_def)

lemma inverts_ext: "inverts e d \<Longrightarrow> d s = Some (x, r) \<Longrightarrow> d (s @ u) = Some (x, r @ u)"
  by (simp add: inverts_def)

lemma len_dec: "dec_len (enc_len n @ r) = Some (n, r)"
  by (induction n) (simp_all add: enc_len_def)

lemma len_ext: "dec_len s = Some (n, r) \<Longrightarrow> dec_len (s @ u) = Some (n, r @ u)"
  by (induction s arbitrary: n) (auto split: if_splits option.splits)

lemma int_inverts: "inverts enc_int dec_int'"
  unfolding inverts_def
proof (intro conjI allI impI)
  show "dec_int' (enc_int x @ r) = Some (x, r)" for x r
    by (simp add: enc_int_def len_dec)
  show "dec_int' (s @ u) = Some (x, r @ u)" if "dec_int' s = Some (x, r)" for s x r u
    using that by (cases s) (auto split: option.splits if_splits dest: len_ext [where u = u])
qed

lemma str_inverts: "inverts enc_str dec_str"
  unfolding inverts_def
proof (intro conjI allI impI)
  show "dec_str (enc_str x @ r) = Some (x, r)" for x r
    by (simp add: enc_str_def len_dec)
  show "dec_str (s @ u) = Some (x, r @ u)" if "dec_str s = Some (x, r)" for s x r u
    using that by (cases s) (auto split: option.splits if_splits dest: len_ext [where u = u])
qed

lemma many_dec: "inverts e d \<Longrightarrow> dec_many (length xs) d (List.concat (map e xs) @ r) = Some (xs, r)"
  by (induction xs) (simp_all add: inverts_dec)

lemma many_ext: "inverts e d \<Longrightarrow> dec_many n d s = Some (xs, r) \<Longrightarrow>
  dec_many n d (s @ u) = Some (xs, r @ u)"
proof (induction n arbitrary: s xs)
  case (Suc n)
  from Suc.prems(2) obtain a b ys where "d s = Some (a, b)" "dec_many n d b = Some (ys, r)" "xs = a # ys"
    by (auto split: option.splits)
  with Suc.prems(1) show ?case
    using inverts_ext [of e d s a b u] Suc.IH [of b ys] by simp
qed simp

lemma seq_inverts:
  assumes "inverts e d"
  shows "inverts (enc_many e) (dec_seq d)"
  unfolding inverts_def
proof (intro conjI allI impI)
  show "dec_seq d (enc_many e x @ r) = Some (x, r)" for x r
    using assms by (simp add: dec_seq_def enc_many_def len_dec many_dec)
  show "dec_seq d (s @ u) = Some (x, r @ u)" if h: "dec_seq d s = Some (x, r)" for s x r u
  proof -
    obtain n b where "dec_len s = Some (n, b)" "dec_many n d b = Some (x, r)"
      using h by (auto simp: dec_seq_def split: option.splits)
    then show ?thesis
      using len_ext [of s n b u] many_ext [OF assms, of n b x r u] by (simp add: dec_seq_def)
  qed
qed

lemma leaf_inverts: "inverts enc_leaf dec_leaf"
proof -
  note arr = seq_inverts [OF int_inverts]
  show ?thesis
    unfolding inverts_def
  proof (intro conjI allI impI)
    show "dec_leaf (enc_leaf x @ r) = Some (x, r)" for x r
      by (cases x) (simp_all add: wrap_def inverts_dec [OF int_inverts] inverts_dec [OF str_inverts]
          inverts_dec [OF arr])
    show "dec_leaf (s @ u) = Some (x, r @ u)" if "dec_leaf s = Some (x, r)" for s x r u
      using that
      by (cases s) (auto simp: wrap_def split: if_splits
          dest: inverts_ext [OF int_inverts, where u = u] inverts_ext [OF str_inverts, where u = u]
            inverts_ext [OF arr, where u = u])
  qed
qed

lemma member_inverts: "inverts enc_member dec_member"
  unfolding inverts_def
proof (intro conjI allI impI)
  show "dec_member (enc_member x @ r) = Some (x, r)" for x r
    by (simp add: enc_member_def dec_member_def inverts_dec [OF str_inverts]
        inverts_dec [OF leaf_inverts])
  show "dec_member (s @ u) = Some (x, r @ u)" if h: "dec_member s = Some (x, r)" for s x r u
  proof -
    obtain k b l where "dec_str s = Some (k, b)" "dec_leaf b = Some (l, r)" "x = (k, l)"
      using h by (auto simp: dec_member_def split: option.splits)
    then show ?thesis
      using inverts_ext [OF str_inverts, of s k b u] inverts_ext [OF leaf_inverts, of b l r u]
      by (simp add: dec_member_def)
  qed
qed

lemmas doc_inverts = seq_inverts [OF member_inverts]

lemma ref_parse_print: "ref_parse (ref_print v) = Some (Obj (members v))"
  using inverts_dec [OF doc_inverts, of "members v" "[]"]
  by (simp add: ref_parse_def ref_print_def)

lemma ref_parse_prefix:
  assumes "n < length (ref_print v)"
  shows "ref_parse (take n (ref_print v)) = None"
proof (rule ccontr)
  assume "ref_parse (take n (ref_print v)) \<noteq> None"
  then obtain ms r where "dec_seq dec_member (take n (ref_print v)) = Some (ms, r)"
    by (auto simp: ref_parse_def split: option.splits)
  from inverts_ext [OF doc_inverts this, of "drop n (ref_print v)"]
  have "dec_seq dec_member (ref_print v) = Some (ms, r @ drop n (ref_print v))"
    by simp
  then have "drop n (ref_print v) = []"
    using inverts_dec [OF doc_inverts, of "members v" "[]"] by (simp add: ref_print_def)
  with assms show False by simp
qed

section \<open>The interface\<close>

definition ref_json :: "ref_node cjson" where
  "ref_json = \<lparr>
     cJSON_Parse = ref_parse,
     cJSON_PrintUnformatted = (\<lambda>v. Some (ref_print v)),
     cJSON_GetObjectItemCaseSensitive = (\<lambda>v k. map_option Leaf (map_of (members v) k)),
     cJSON_IsBool = (\<lambda>v. node_bool v \<noteq> None),
     cJSON_IsTrue = (\<lambda>v. node_bool v = Some True),
     cJSON_IsNumber = (\<lambda>v. node_num v \<noteq> None),
     cJSON_IsString = (\<lambda>v. node_str v \<noteq> None),
     cJSON_IsArray = (\<lambda>v. node_arr v \<noteq> None),
     valueint = (\<lambda>v. case node_num v of None \<Rightarrow> 0 | Some i \<Rightarrow> i),
     valuedouble = (\<lambda>v. case node_num v of None \<Rightarrow> Fin 0 | Some i \<Rightarrow> Fin (of_int i)),
     valuestring = (\<lambda>v. case node_str v of None \<Rightarrow> [] | Some s \<Rightarrow> s),
     children = (\<lambda>v. case node_arr v of None \<Rightarrow> [] | Some is \<Rightarrow> map (\<lambda>i. Leaf (LNum i)) is),
     cJSON_CreateObject = Some (Obj []),
     cJSON_CreateNumber = (\<lambda>d. map_option (\<lambda>i. Leaf (LNum i)) (int_of_dbl d)),
     cJSON_AddBoolToObject = (\<lambda>v k b. add_member v k (LBool b)),
     cJSON_AddNumberToObject = (\<lambda>v k d. case int_of_dbl d of None \<Rightarrow> v | Some i \<Rightarrow> add_member v k (LNum i)),
     cJSON_AddStringToObject = (\<lambda>v k s. add_member v k (LStr s)),
     cj_add_array = (\<lambda>v k vs. add_member v k (LArr (List.map_filter node_num vs)))\<rparr>"

lemma ref_fields [simp]:
  "cJSON_Parse ref_json = ref_parse"
  "cJSON_PrintUnformatted ref_json v = Some (ref_print v)"
  "cJSON_GetObjectItemCaseSensitive ref_json v k = map_option Leaf (map_of (members v) k)"
  "cJSON_IsBool ref_json v \<longleftrightarrow> node_bool v \<noteq> None"
  "cJSON_IsTrue ref_json v \<longleftrightarrow> node_bool v = Some True"
  "cJSON_IsNumber ref_json v \<longleftrightarrow> node_num v \<noteq> None"
  "cJSON_IsString ref_json v \<longleftrightarrow> node_str v \<noteq> None"
  "cJSON_IsArray ref_json v \<longleftrightarrow> node_arr v \<noteq> None"
  "valueint ref_json v = (case node_num v of None \<Rightarrow> 0 | Some i \<Rightarrow> i)"
  "valuedouble ref_json v = (case node_num v of None \<Rightarrow> Fin 0 | Some i \<Rightarrow> Fin (of_int i))"
  "valuestring ref_json v = (case node_str v of None \<Rightarrow> [] | Some s \<Rightarrow> s)"
  "children ref_json v = (case node_arr v of None \<Rightarrow> [] | Some is \<Rightarrow> map (\<lambda>i. Leaf (LNum i)) is)"
  "cJSON_CreateObject ref_json = Some (Obj [])"
  "cJSON_CreateNumber ref_json d = map_option (\<lambda>i. Leaf (LNum i)) (int_of_dbl d)"
  "cJSON_AddBoolToObject ref_json v k b = add_member v k (LBool b)"
  "cJSON_AddNumberToObject ref_json v k d =
     (case int_of_dbl d of None \<Rightarrow> v | Some i \<Rightarrow> add_member v k (LNum i))"
  "cJSON_AddStringToObject ref_json v k s = add_member v k (LStr s)"
  "cj_add_array ref_json v k vs = add_member v k (LArr (List.map_filter node_num vs))"
  by (simp_all add: ref_json_def)

fun leaf_val :: "leaf \<Rightarrow> jval" where
  "leaf_val (LBool b) = JBool b"
| "leaf_val (LNum i) = JNum (Fin (of_int i))"
| "leaf_val (LStr s) = JStr s"
| "leaf_val (LArr is) = JArr (map (\<lambda>i. Fin (of_int i)) is)"

lemma ref_jval: "jval_of ref_json (Leaf l) = leaf_val l"
  by (cases l) (simp_all add: jval_of_def number_items_def comp_def filter_map)

lemma ref_jfield: "jfield ref_json v k = map_option leaf_val (map_of (members v) k)"
  by (simp add: jfield_def ref_jval option.map_comp comp_def)

lemma ref_add: "jfield ref_json v k = None \<Longrightarrow>
  jfield ref_json (add_member v k l) k' = (if k' = k then Some (leaf_val l) else jfield ref_json v k')"
  by (auto simp: ref_jfield add_member_def map_add_def split: option.split)

lemma number_items_ref:
  "number_items ref_json vs = map (\<lambda>i. Fin (of_int i)) (List.map_filter node_num vs)"
  by (induction vs) (auto simp: number_items_def List.map_filter_def)

lemma ref_exclusive: "json_exclusive ref_json"
proof -
  have "(node_bool v \<noteq> None \<longrightarrow> node_num v = None \<and> node_str v = None \<and> node_arr v = None) \<and>
        (node_num v \<noteq> None \<longrightarrow> node_str v = None \<and> node_arr v = None) \<and>
        (node_str v \<noteq> None \<longrightarrow> node_arr v = None)" for v
  proof (cases v)
    case (Leaf l)
    then show ?thesis by (cases l) simp_all
  qed simp
  then show ?thesis by (simp add: json_exclusive_def)
qed

lemma ref_build: "json_build ref_json"
proof -
  have "jfield ref_json (Obj []) k = None" for k
    by (simp add: ref_jfield)
  then show ?thesis
    unfolding json_build_def
    by (intro conjI allI impI) (auto simp: ref_add number_items_ref portable_def)
qed

lemma ref_alloc: "json_alloc ref_json"
  by (auto simp: json_alloc_def portable_def)

lemma member_text_length:
  "(k, l) \<in> set ms \<Longrightarrow> length (enc_leaf l) \<le> length (List.concat (map enc_member ms))"
  by (induction ms) (auto simp: enc_member_def)

lemma ref_string_length:
  assumes "jfield ref_json v k = Some (JStr s)"
  shows "length s + 2 \<le> length (ref_print v)"
proof -
  obtain l where l: "map_of (members v) k = Some l" "leaf_val l = JStr s"
    using assms by (auto simp: ref_jfield)
  then have "l = LStr s"
    by (cases l) auto
  then have "length s + 2 \<le> length (enc_leaf l)"
    by (simp add: enc_str_def enc_len_def)
  also have "\<dots> \<le> length (ref_print v)"
    using member_text_length [OF map_of_SomeD [OF l(1)]]
    by (simp add: ref_print_def enc_many_def)
  finally show ?thesis .
qed

theorem ref_json_laws: "json_laws ref_json"
proof -
  have "json_print_parse ref_json"
    unfolding json_print_parse_def
  proof (intro allI impI conjI)
    fix v t
    assume "cJSON_PrintUnformatted ref_json v = Some t"
    then have t: "t = ref_print v" by simp
    show "\<exists>obj'. cJSON_Parse ref_json t = Some obj' \<and>
        (\<forall>k. (\<forall>x. jfield ref_json v k = Some x \<longrightarrow> portable_val x) \<longrightarrow>
           jfield ref_json obj' k = jfield ref_json v k)"
      by (simp add: t ref_parse_print ref_jfield)
    show "cJSON_Parse ref_json (take n t) = None" if "n < length t" for n
      using that by (simp add: t ref_parse_prefix)
    show "length s + 2 \<le> length t" if "jfield ref_json v k = Some (JStr s)" for k s
      using ref_string_length [OF that] by (simp add: t)
  qed
  then show ?thesis
    by (simp add: json_laws_def ref_exclusive ref_build ref_alloc)
qed

end
