(* ===== verification/Reference_World.thy ===== *)
theory Reference_World
  imports Proposal_Store Reference_Json
begin

text \<open>
  A deployment one can run: the learning tables as a list of rows in memory, services that record
  which of them was called, and the cJSON of \<open>Reference_Json\<close>. It shows that the contracts of
  \<open>Proposal_Store\<close> can be met, and it is the world the properties are evaluated in. It is not a model
  of DB2.
\<close>

section \<open>The world\<close>

record ref_world =
  rw_rows :: "proposal list"
  rw_due :: "int list"
  rw_calls :: "(string \<times> string) list"
  rw_clock :: int
  rw_gate :: integrity_verdict
  rw_label :: autolabel_kind
  rw_repeat :: bool

definition empty_world :: ref_world where
  "empty_world = \<lparr>rw_rows = [], rw_due = [], rw_calls = [], rw_clock = 0, rw_gate = VERDICT_ACCEPT,
     rw_label = AUTOLABEL_OTHER, rw_repeat = False\<rparr>"

text \<open>Row \<open>i\<close> is the \<open>i\<close>th of the list, counted from 1.\<close>

definition row_at :: "proposal list \<Rightarrow> int \<Rightarrow> proposal option" where
  "row_at xs i = (if 0 < i \<and> i \<le> int (length xs) then Some (xs ! nat (i - 1)) else None)"

definition update_row :: "int \<Rightarrow> (proposal \<Rightarrow> proposal) \<Rightarrow> proposal list \<Rightarrow> proposal list" where
  "update_row i f xs = (case row_at xs i of None \<Rightarrow> xs | Some p \<Rightarrow> xs[nat (i - 1) := f p])"

fun commits_of :: "string \<Rightarrow> proposal list \<Rightarrow> int" where
  "commits_of k [] = 0"
| "commits_of k (p # ps) =
     (if p_state p = ''committed'' \<and> p_sink p = k then 1 else 0) + commits_of k ps"

definition ref_view :: "ref_world \<Rightarrow> pstore" where
  "ref_view w = \<lparr>rows = row_at (rw_rows w), week_commits = (\<lambda>k. commits_of k (rw_rows w))\<rparr>"

definition archived_row :: "string \<Rightarrow> proposal \<Rightarrow> proposal" where
  "archived_row r p = p\<lparr>p_state := ''archived'', p_archive_reason := r\<rparr>"

definition committed_now :: "proposal \<Rightarrow> proposal" where
  "committed_now p = p\<lparr>p_state := ''committed'', p_committed_at := ''now''\<rparr>"

definition bumped_row :: "proposal \<Rightarrow> proposal" where
  "bumped_row p = p\<lparr>p_corroboration_count := p_corroboration_count p + 1\<rparr>"

text \<open>A row whose expiry has passed is archived if it is pending.\<close>

fun expire_rows :: "int \<Rightarrow> int list \<Rightarrow> proposal list \<Rightarrow> proposal list" where
  "expire_rows i due [] = []"
| "expire_rows i due (p # ps) =
     (if List.member due i \<and> pending p then archived_row ''expired'' p else p) # expire_rows (i + 1) due ps"

fun find_row :: "int \<Rightarrow> string \<Rightarrow> string \<Rightarrow> int \<Rightarrow> proposal list \<Rightarrow> int" where
  "find_row i sink key mid [] = 0"
| "find_row i sink key mid (p # ps) =
     (if pending p \<and> p_sink p = sink \<and> p_target_key p = key \<and> p_target_memory_id p = mid then i
      else find_row (i + 1) sink key mid ps)"

definition new_row ::
    "int \<Rightarrow> int \<Rightarrow> string \<Rightarrow> string \<Rightarrow> int \<Rightarrow> string \<Rightarrow> string option \<Rightarrow> string \<Rightarrow> proposal" where
  "new_row pid sid sink key mid act refs ex = zero_proposal\<lparr>p_id := pid, p_signal_id := sid,
     p_sink := sink, p_state := ''pending'', p_target_key := key, p_target_memory_id := mid,
     p_action_json := act, p_evidence_refs := or_str refs [], p_corroboration_count := 1,
     p_expires_at := ex\<rparr>"

section \<open>The tables and the services\<close>

definition on_rows :: "(proposal list \<Rightarrow> proposal list) \<Rightarrow> (ref_world, unit) state" where
  "on_rows f = modify (\<lambda>w. w\<lparr>rw_rows := f (rw_rows w)\<rparr>)"

definition ref_db :: "ref_world db2_learning" where
  "ref_db = \<lparr>
     db2_learning_proposals_archive_expired =
       modify (\<lambda>w. w\<lparr>rw_rows := expire_rows 1 (rw_due w) (rw_rows w)\<rparr>),
     db2_learning_proposal_find_pending = (\<lambda>sink key mid. gets (\<lambda>w. find_row 1 sink key mid (rw_rows w))),
     db2_learning_proposal_bump_corroboration = (\<lambda>i. on_rows (update_row i bumped_row)),
     db2_learning_proposal_insert = (\<lambda>sid sink key mid act refs ex. do {
       i \<leftarrow> gets (\<lambda>w. int (length (rw_rows w)) + 1);
       _ \<leftarrow> on_rows (\<lambda>xs. xs @ [new_row i sid sink key mid act refs ex]);
       ret i }),
     db2_learning_proposal_get = (\<lambda>i b. gets (\<lambda>w.
       case row_at (rw_rows w) i of None \<Rightarrow> (-1, b) | Some p \<Rightarrow> (0, p))),
     db2_learning_proposal_list = (\<lambda>st sink n b mx. gets (\<lambda>w.
       let xs = take (nat mx) (filter (\<lambda>p. (st = None \<or> st = Some (p_state p)) \<and>
                  (sink = None \<or> sink = Some (p_sink p))) (rw_rows w))
       in (int (length xs), xs @ drop (length xs) b))),
     db2_learning_proposal_archive = (\<lambda>i r. on_rows (update_row i (archived_row r))),
     db2_learning_proposal_mark_committed = (\<lambda>i. on_rows (update_row i committed_now)),
     db2_learning_commits_in_last_7_days = (\<lambda>k. gets (\<lambda>w. commits_of k (rw_rows w))),
     db2_learning_signal_insert = (\<lambda>inp sid. ret 1),
     db2_learning_proposals_settled_counts = (\<lambda>n. gets (\<lambda>w.
       (0, int (length (filter (\<lambda>p. p_state p = ''committed'') (rw_rows w))),
           int (length (filter settled (rw_rows w))))))\<rparr>"

definition called :: "string \<Rightarrow> string \<Rightarrow> 'a \<Rightarrow> (ref_world, 'a) state" where
  "called f arg r = do { _ \<leftarrow> modify (\<lambda>w. w\<lparr>rw_calls := rw_calls w @ [(f, arg)]\<rparr>); ret r }"

definition ref_svc :: "ref_world services" where
  "ref_svc = \<lparr>
     session_id = ret ''session'',
     memory_apply_feedback = (\<lambda>b ids. called ''memory_apply_feedback'' (dec_int b) 0),
     memory_supersede = (\<lambda>i s d sid. called ''memory_supersede'' s 0),
     memory_upsert_workflow = (\<lambda>p s r d sid. called ''memory_upsert_workflow'' r 1),
     memory_get = (\<lambda>i. ret (0, ''memory-key'')),
     db2_collab_rules_propose = (\<lambda>t r who. called ''db2_collab_rules_propose'' t 0),
     db2_artifact_write = (\<lambda>a b c d e f g h. called ''db2_artifact_write'' a 0),
     dogfood_log_moment_tagged = (\<lambda>a b ids l n. called ''dogfood_log_moment_tagged'' l ()),
     dogfood_classify_next_turn = (\<lambda>t. gets rw_label),
     dogfood_query_is_repeat = (\<lambda>a b c. gets rw_repeat),
     integrity_gate_check = (\<lambda>t src. gets rw_gate),
     clock_gettime = do { _ \<leftarrow> modify (\<lambda>w. w\<lparr>rw_clock := rw_clock w + 1\<rparr>); gets (\<lambda>w. (0, rw_clock w)) },
     time_now = ret 1700000000,
     COLLAB_RULE_TEXT_LEN = 1024,
     COLLAB_RULE_REASON_LEN = 256\<rparr>"

text \<open>The configuration: a weekly maximum, and whether the integrity gate is on.\<close>

definition ref_cfg :: "int \<Rightarrow> bool \<Rightarrow> ref_world config" where
  "ref_cfg mx gate = \<lparr>
     config_present = (\<lambda>w. True),
     config_learning_router_enabled = (\<lambda>w. True),
     config_learning_proposal_ttl_days = (\<lambda>w. 7),
     config_learning_max_commits_per_week = (\<lambda>w. mx),
     config_integrity_enabled = (\<lambda>w. gate),
     config_integrity_dry_run = (\<lambda>w. False),
     config_learning_implicit_citation_repair = (\<lambda>w. True),
     config_learning_implicit_citation_continuation = (\<lambda>w. True),
     config_learning_implicit_repeat_question = (\<lambda>w. True),
     config_learning_implicit_repeated_correction = (\<lambda>w. True),
     config_learning_implicit_workflow_repetition = (\<lambda>w. True)\<rparr>"

definition ref_host :: "int \<Rightarrow> bool \<Rightarrow> (ref_world, ref_node) host" where
  "ref_host mx gate = \<lparr>plat = exact_platform, json = ref_json, cfg = ref_cfg mx gate, db = ref_db,
     svc = ref_svc\<rparr>"

section \<open>The tables keep their contract\<close>

lemma row_at_Some: "row_at xs i = Some p \<longleftrightarrow> 0 < i \<and> nat (i - 1) < length xs \<and> p = xs ! nat (i - 1)"
  by (auto simp: row_at_def)

lemma row_at_update:
  "row_at xs i = Some p \<Longrightarrow> row_at (xs[nat (i - 1) := q]) = (row_at xs)(i \<mapsto> q)"
proof (rule ext)
  fix j
  assume "row_at xs i = Some p"
  then have i: "0 < i" "nat (i - 1) < length xs"
    by (auto simp: row_at_Some)
  show "row_at (xs[nat (i - 1) := q]) j = ((row_at xs)(i \<mapsto> q)) j"
  proof (cases "j = i")
    case True
    with i show ?thesis by (auto simp: row_at_def)
  next
    case False
    with i have "0 < j \<Longrightarrow> nat (j - 1) \<noteq> nat (i - 1)" by auto
    with False show ?thesis by (auto simp: row_at_def)
  qed
qed

lemma row_at_append: "row_at (xs @ [q]) = (row_at xs)(int (length xs) + 1 \<mapsto> q)"
  by (rule ext) (auto simp: row_at_def nth_append)

lemma commits_of_append: "commits_of k (xs @ ys) = commits_of k xs + commits_of k ys"
  by (induction xs) simp_all

lemma commits_of_update:
  "n < length xs \<Longrightarrow> commits_of k (xs[n := q]) = commits_of k xs
     - (if p_state (xs ! n) = ''committed'' \<and> p_sink (xs ! n) = k then 1 else 0)
     + (if p_state q = ''committed'' \<and> p_sink q = k then 1 else 0)"
  by (induction xs arbitrary: n) (auto split: nat.split)

lemma commits_of_nonneg: "0 \<le> commits_of k xs"
  by (induction xs) simp_all

lemma expire_row_at:
  "row_at (expire_rows n due xs) i = (case row_at xs i of None \<Rightarrow> None | Some p \<Rightarrow>
     Some (if List.member due (n + i - 1) \<and> pending p then archived_row ''expired'' p else p))"
proof -
  have "length (expire_rows n due xs) = length xs"
    by (induction xs arbitrary: n) simp_all
  moreover have "m < length xs \<Longrightarrow> expire_rows n due xs ! m =
      (if List.member due (n + int m) \<and> pending (xs ! m) then archived_row ''expired'' (xs ! m) else xs ! m)" for m
    by (induction xs arbitrary: n m) (auto simp: nth_Cons algebra_simps split: nat.split)
  ultimately show ?thesis
    by (auto simp: row_at_def algebra_simps)
qed

lemma expire_commits: "commits_of k (expire_rows n due xs) \<le> commits_of k xs"
  by (induction xs arbitrary: n) (auto simp: archived_row_def pending_def intro: add_mono order_trans)

lemma find_row_sound:
  "0 < find_row n sink key mid xs \<Longrightarrow> 0 < n \<Longrightarrow>
   \<exists>m < length xs. find_row n sink key mid xs = n + int m \<and> pending (xs ! m) \<and> p_sink (xs ! m) = sink \<and>
     p_target_key (xs ! m) = key \<and> p_target_memory_id (xs ! m) = mid"
proof (induction xs arbitrary: n)
  case (Cons p ps)
  show ?case
  proof (cases "pending p \<and> p_sink p = sink \<and> p_target_key p = key \<and> p_target_memory_id p = mid")
    case True
    then show ?thesis by (intro exI [of _ 0]) simp
  next
    case False
    then have "find_row n sink key mid (p # ps) = find_row (n + 1) sink key mid ps"
      by auto
    with Cons obtain m where "m < length ps" "find_row n sink key mid (p # ps) = n + 1 + int m"
        "pending (ps ! m)" "p_sink (ps ! m) = sink" "p_target_key (ps ! m) = key"
        "p_target_memory_id (ps ! m) = mid"
      by fastforce
    then show ?thesis by (intro exI [of _ "Suc m"]) simp
  qed
qed simp

lemmas ref_fields_db = ref_db_def on_rows_def

lemma ref_row_write:
  assumes "\<And>p. new p (f p)"
    and "\<And>p k. (if p_state (f p) = ''committed'' \<and> p_sink (f p) = k then 1 else 0) \<le>
       (if p_state p = ''committed'' \<and> p_sink p = k then 1 else 0) + adds p k"
  shows "row_write ref_view i new adds (on_rows (update_row i f))"
  unfolding row_write_def
proof
  fix w
  show "rows (ref_view (final (on_rows (update_row i f)) w)) = rows (ref_view w) \<and>
      no_new_commits (ref_view w) (ref_view (final (on_rows (update_row i f)) w)) \<or>
      (\<exists>p q. rows (ref_view w) i = Some p \<and> new p q \<and>
        row_changed i q (ref_view w) (ref_view (final (on_rows (update_row i f)) w)) \<and>
        (\<forall>k. week_commits (ref_view (final (on_rows (update_row i f)) w)) k \<le>
          week_commits (ref_view w) k + adds p k))"
  proof (cases "row_at (rw_rows w) i")
    case None
    then show ?thesis
      by (simp add: on_rows_def update_row_def ref_view_def no_new_commits_def)
  next
    case (Some p)
    then have n: "nat (i - 1) < length (rw_rows w)" "p = rw_rows w ! nat (i - 1)"
      by (auto simp: row_at_Some)
    have "commits_of k ((rw_rows w)[nat (i - 1) := f p]) \<le> commits_of k (rw_rows w) + adds p k" for k
      using assms(2) [of p k] n by (simp add: commits_of_update)
    then have "rows (ref_view w) i = Some p \<and> new p (f p) \<and>
        row_changed i (f p) (ref_view w) (ref_view (final (on_rows (update_row i f)) w)) \<and>
        (\<forall>k. week_commits (ref_view (final (on_rows (update_row i f)) w)) k \<le>
          week_commits (ref_view w) k + adds p k)"
      using Some assms(1) [of p]
      by (simp add: on_rows_def update_row_def ref_view_def row_changed_def row_at_update)
    then show ?thesis by blast
  qed
qed

lemma ref_expire_law: "expire_law ref_db ref_view"
  by (auto simp: expire_law_def ref_db_def ref_view_def expire_row_at no_new_commits_def expire_commits
      archived_from_def archived_row_def split: option.splits)

lemma ref_find_law: "find_law ref_db ref_view"
  unfolding find_law_def ref_db_def ref_view_def
  using find_row_sound by (fastforce simp: row_at_def)

lemma ref_write_laws: "write_laws ref_db ref_view"
  unfolding write_laws_def ref_db_def
  by (auto intro!: ref_row_write simp: bumped_from_def bumped_row_def archived_from_def archived_row_def
      committed_from_def committed_now_def)

lemma ref_insert_law: "insert_law ref_db ref_view"
proof -
  have "no_new_commits (ref_view w) (ref_view (w\<lparr>rw_rows := rw_rows w @ [new_row i sid sink key mid act refs ex]\<rparr>))"
    for w i sid sink key mid act refs ex
    by (simp add: no_new_commits_def ref_view_def commits_of_append new_row_def)
  moreover have "row_at xs (int (length xs) + 1) = None" for xs
    by (simp add: row_at_def)
  ultimately show ?thesis
    by (auto simp: insert_law_def ref_fields_db run_simps ref_view_def row_changed_def row_at_append
        inserted_def new_row_def pending_def Let_def intro!: exI)
qed

lemma ref_read_laws: "read_laws ref_db ref_view" "answer_laws ref_db ref_view"
  by (auto simp: read_laws_def answer_laws_def ref_db_def reads_def ref_view_def split: option.splits)

theorem ref_tables: "proposal_tables ref_db ref_view"
  by (simp add: proposal_tables_def ref_expire_law ref_find_law ref_write_laws ref_insert_law
      ref_read_laws)

theorem ref_apart: "services_apart ref_svc ref_view"
  by (simp add: services_apart_def ref_svc_def reads_def called_def run_simps ref_view_def)

lemma ref_host_parts [simp]:
  "plat (ref_host mx g) = exact_platform" "json (ref_host mx g) = ref_json"
  "db (ref_host mx g) = ref_db" "svc (ref_host mx g) = ref_svc" "cfg (ref_host mx g) = ref_cfg mx g"
  by (simp_all add: ref_host_def)

end
