(* ===== verification/Router_Metrics.thy ===== *)
theory Router_Metrics
  imports Router_Proposals Reference_World
begin

text \<open>
  The read-only metrics of \<open>learning_router.c\<close> over the proposal tables: the commit ratio of a window
  and the weekly cap of every canonical sink. They are shown to report the store as it is, to stay in
  their ranges and to leave the store alone.
\<close>

record commit_ratio =
  cr_proposals_terminal :: int
  cr_proposals_committed :: int
  cr_commit_ratio :: dbl
  cr_window_days :: int

record sink_cap =
  sc_sink :: string
  sc_committed_this_week :: int
  sc_weekly_cap :: int
  sc_utilization :: dbl

definition LEARNING_METRICS_DEFAULT_WINDOW_DAYS :: int where
  "LEARNING_METRICS_DEFAULT_WINDOW_DAYS = 7"

definition LEARNING_SINK_COUNT :: nat where
  "LEARNING_SINK_COUNT = 4"

definition LEARNING_CANONICAL_SINKS :: "string list" where
  "LEARNING_CANONICAL_SINKS = [''reranker'', ''supersede'', ''rule'', ''workflow'']"

definition learning_metrics_commit_ratio ::
    "('w, 'j) host \<Rightarrow> int \<Rightarrow> commit_ratio option \<Rightarrow> ('w, int \<times> commit_ratio option) state" where
  "learning_metrics_commit_ratio H window_days out =
     (case out of
        None \<Rightarrow> ret (-1, None)
      | Some _ \<Rightarrow>
          (let window_days = (if window_days \<le> 0 then LEARNING_METRICS_DEFAULT_WINDOW_DAYS
                              else window_days)
           in do {
             r \<leftarrow> db2_learning_proposals_settled_counts (db H) window_days;
             let (rc, committed, terminal) = r;
             let out = \<lparr>cr_proposals_terminal = terminal, cr_proposals_committed = committed,
                        cr_commit_ratio = Fin 0, cr_window_days = window_days\<rparr>;
             ret (if rc \<noteq> 0 then (-1, Some out)
                  else if terminal > 0
                    then (0, Some (out\<lparr>cr_commit_ratio :=
                            fdiv (plat H) (dbl_of_int (plat H) committed) (dbl_of_int (plat H) terminal)\<rparr>))
                  else (0, Some out))
           }))"

text \<open>The loop over the sinks, from entry \<open>i\<close> of the array on.\<close>

fun per_sink_loop ::
    "('w, 'j) host \<Rightarrow> int \<Rightarrow> nat \<Rightarrow> string list \<Rightarrow> sink_cap list \<Rightarrow> ('w, sink_cap list) state" where
  "per_sink_loop H cap i [] out = ret out"
| "per_sink_loop H cap i (s # ss) out = do {
     n \<leftarrow> db2_learning_commits_in_last_7_days (db H) s;
     per_sink_loop H cap (i + 1) ss (out[i :=
       \<lparr>sc_sink = snprintf 32 s, sc_committed_this_week = n, sc_weekly_cap = cap,
        sc_utilization = (if cap > 0 then fdiv (plat H) (dbl_of_int (plat H) n) (dbl_of_int (plat H) cap)
                          else Fin 0)\<rparr>])
   }"

definition learning_metrics_per_sink_caps ::
    "('w, 'j) host \<Rightarrow> sink_cap list option \<Rightarrow> int \<Rightarrow> ('w, int \<times> sink_cap list option) state" where
  "learning_metrics_per_sink_caps H out mx =
     (case out of
        None \<Rightarrow> ret (-1, out)
      | Some xs \<Rightarrow>
          if mx \<le> 0 then ret (-1, out)
          else do {
            cap \<leftarrow> gets (learning_max_commits_per_week H);
            let n = (if mx < int LEARNING_SINK_COUNT then nat mx else LEARNING_SINK_COUNT);
            xs \<leftarrow> per_sink_loop H cap 0 (take n LEARNING_CANONICAL_SINKS) xs;
            ret (int n, Some xs)
          })"

section \<open>Reports\<close>

text \<open>
  C35. The commit ratio is a ratio: when the tables count no more commits than settled rows, the report
  of a window has those counts, the window it was asked for (7 days for a window that is not
  positive) and a ratio. The ratio is 0 when nothing is settled, on any platform; when something is settled, it is
  the quotient of the two counts, which lies between 0 and 1, provided the arithmetic of doubles is exact.
\<close>

theorem commit_ratio_report:
  assumes "outcome (db2_learning_proposals_settled_counts (db H) (if days \<le> 0 then 7 else days)) w = (0, c, t)"
    and "0 \<le> c" "c \<le> t"
  shows "\<exists>x. outcome (learning_metrics_commit_ratio H days (Some b)) w =
      (0, Some \<lparr>cr_proposals_terminal = t, cr_proposals_committed = c, cr_commit_ratio = x,
                cr_window_days = (if days \<le> 0 then 7 else days)\<rparr>) \<and>
    (t = 0 \<longrightarrow> x = Fin 0) \<and>
    (0 < t \<longrightarrow> plat H = exact_platform \<longrightarrow>
       x = Fin (of_int c / of_int t) \<and> 0 \<le> real_of_int c / of_int t \<and> real_of_int c / of_int t \<le> 1)"
proof -
  let ?x = "if t > 0 then fdiv (plat H) (dbl_of_int (plat H) c) (dbl_of_int (plat H) t) else Fin 0"
  have "outcome (learning_metrics_commit_ratio H days (Some b)) w =
      (0, Some \<lparr>cr_proposals_terminal = t, cr_proposals_committed = c, cr_commit_ratio = ?x,
                cr_window_days = (if days \<le> 0 then 7 else days)\<rparr>)"
    unfolding learning_metrics_commit_ratio_def LEARNING_METRICS_DEFAULT_WINDOW_DAYS_def Let_def
      option.case outcome_bind assms(1)
    by simp
  moreover have "?x = Fin (of_int c / of_int t)" if "0 < t" "plat H = exact_platform"
    using that by (simp add: dbl_of_int_def)
  moreover have "0 \<le> real_of_int c / of_int t" "real_of_int c / of_int t \<le> 1"
    using assms(2,3) by (auto simp: divide_le_eq_1)
  ultimately show ?thesis
    by (intro exI [of _ ?x]) simp
qed

lemma commit_ratio_report_witness:
  "outcome (learning_metrics_commit_ratio (ref_host 5 False) 0 (Some \<lparr>cr_proposals_terminal = 0, cr_proposals_committed = 0,
        cr_commit_ratio = NaN, cr_window_days = 0\<rparr>))
      (empty_world\<lparr>rw_rows := [zero_proposal\<lparr>p_state := ''committed''\<rparr>, zero_proposal\<lparr>p_state := ''archived''\<rparr>]\<rparr>) =
      (0, Some \<lparr>cr_proposals_terminal = 2, cr_proposals_committed = 1, cr_commit_ratio = Fin (1 / 2),
                cr_window_days = 7\<rparr>) \<and>
   outcome (learning_metrics_commit_ratio (ref_host 5 False) 30 (Some \<lparr>cr_proposals_terminal = 0, cr_proposals_committed = 0,
        cr_commit_ratio = NaN, cr_window_days = 0\<rparr>)) empty_world =
      (0, Some \<lparr>cr_proposals_terminal = 0, cr_proposals_committed = 0, cr_commit_ratio = Fin 0, cr_window_days = 30\<rparr>)"
  using commit_ratio_report [of "ref_host 5 False" 0 "empty_world\<lparr>rw_rows :=
      [zero_proposal\<lparr>p_state := ''committed''\<rparr>, zero_proposal\<lparr>p_state := ''archived''\<rparr>]\<rparr>" 1 2
      "\<lparr>cr_proposals_terminal = 0, cr_proposals_committed = 0, cr_commit_ratio = NaN, cr_window_days = 0\<rparr>"]
    commit_ratio_report [of "ref_host 5 False" 30 empty_world 0 0
      "\<lparr>cr_proposals_terminal = 0, cr_proposals_committed = 0, cr_commit_ratio = NaN, cr_window_days = 0\<rparr>"]
  by (simp add: ref_db_def settled_def zero_proposal_def empty_world_def)

lemma per_sink_loop_report:
  assumes "proposal_tables (db H) view" "i + length ss \<le> length out"
  shows "view (final (per_sink_loop H cap i ss out) w) = view w"
    "length (outcome (per_sink_loop H cap i ss out) w) = length out"
    "j < i \<or> i + length ss \<le> j \<Longrightarrow> outcome (per_sink_loop H cap i ss out) w ! j = out ! j"
    "i \<le> j \<Longrightarrow> j < i + length ss \<Longrightarrow> outcome (per_sink_loop H cap i ss out) w ! j =
       (let s = ss ! (j - i); n = week_commits (view w) s in
        \<lparr>sc_sink = snprintf 32 s, sc_committed_this_week = n, sc_weekly_cap = cap,
         sc_utilization = (if cap > 0 then fdiv (plat H) (dbl_of_int (plat H) n) (dbl_of_int (plat H) cap)
                           else Fin 0)\<rparr>)"
  using assms(2)
proof (induction ss arbitrary: i out w)
  case (Cons s ss)
  have w: "view (final (db2_learning_commits_in_last_7_days (db H) s) w) = view w" for w
    by (rule readsD [OF tables_reads(4) [OF assms(1)]])
  note n = tables_commits [OF assms(1), of s]
  { case 1 with Cons.IH(1) [where i = "i + 1"] w show ?case by (simp add: final_bind) }
  { case 2 with Cons.IH(2) [where i = "i + 1"] show ?case by (simp add: outcome_bind) }
  { case 3 with Cons.IH(3) [where i = "i + 1"] show ?case by (auto simp: outcome_bind) }
  { case 4
    show ?case
    proof (cases "j = i")
      case True
      with 4 Cons.IH(3) [where i = "i + 1"] show ?thesis by (simp add: outcome_bind n Let_def)
    next
      case False
      with 4 have "j - i = Suc (j - (i + 1))" by linarith
      with 4 False Cons.IH(4) [where i = "i + 1"] w show ?thesis by (simp add: outcome_bind Let_def)
    qed }
qed simp_all

text \<open>
  The weekly caps are the store's: of an array of at least \<open>max\<close> entries the first \<open>min max 4\<close> report the
  canonical sinks in order, each with the number of its commits in the last seven days and the
  configured cap; the other entries and the store are left alone.
\<close>

theorem per_sink_caps_report:
  assumes "proposal_tables (db H) view" "0 < mx" "mx \<le> int (length xs)"
  shows "\<exists>out n. outcome (learning_metrics_per_sink_caps H (Some xs) mx) w = (int n, Some out) \<and>
    n = min (nat mx) 4 \<and> length out = length xs \<and>
    map sc_sink (take n out) = take n [''reranker'', ''supersede'', ''rule'', ''workflow''] \<and>
    map sc_committed_this_week (take n out) =
      map (week_commits (view w)) (take n [''reranker'', ''supersede'', ''rule'', ''workflow'']) \<and>
    map sc_weekly_cap (take n out) = replicate n (learning_max_commits_per_week H w) \<and>
    drop n out = drop n xs \<and> view (final (learning_metrics_per_sink_caps H (Some xs) mx) w) = view w"
proof -
  define n where "n = min (nat mx) 4"
  let ?ss = "take n LEARNING_CANONICAL_SINKS"
  let ?m = "per_sink_loop H (learning_max_commits_per_week H w) 0 ?ss xs"
  have n: "(if mx < int LEARNING_SINK_COUNT then nat mx else LEARNING_SINK_COUNT) = n"
    using assms(2) by (auto simp: LEARNING_SINK_COUNT_def n_def)
  have len: "length LEARNING_CANONICAL_SINKS = 4"
    by (simp add: LEARNING_CANONICAL_SINKS_def)
  then have ss: "length ?ss = n" "0 + length ?ss \<le> length xs"
    using assms(2,3) by (auto simp: n_def)
  note report = per_sink_loop_report [OF assms(1) ss(2), where cap = "learning_max_commits_per_week H w" and w = w]
  have entry: "sc_sink (outcome ?m w ! j) = LEARNING_CANONICAL_SINKS ! j"
    "sc_committed_this_week (outcome ?m w ! j) = week_commits (view w) (LEARNING_CANONICAL_SINKS ! j)"
    "sc_weekly_cap (outcome ?m w ! j) = learning_max_commits_per_week H w" if "j < n" for j
  proof -
    have j: "j < 4" using that by (simp add: n_def)
    have "length s < 32" if "s \<in> set LEARNING_CANONICAL_SINKS" for s
      using that by (auto simp: LEARNING_CANONICAL_SINKS_def)
    then have "snprintf 32 (LEARNING_CANONICAL_SINKS ! j) = LEARNING_CANONICAL_SINKS ! j"
      using j len by (simp add: snprintf_id)
    then show "sc_sink (outcome ?m w ! j) = LEARNING_CANONICAL_SINKS ! j"
      "sc_committed_this_week (outcome ?m w ! j) = week_commits (view w) (LEARNING_CANONICAL_SINKS ! j)"
      "sc_weekly_cap (outcome ?m w ! j) = learning_max_commits_per_week H w"
      using report(4) [of j] that ss(1) by (simp_all add: Let_def)
  qed
  have "learning_metrics_per_sink_caps H (Some xs) mx =
      gets (learning_max_commits_per_week H) \<bind> (\<lambda>cap.
        per_sink_loop H cap 0 ?ss xs \<bind> (\<lambda>xs. ret (int n, Some xs)))"
    using assms(2) by (simp add: learning_metrics_per_sink_caps_def n Let_def)
  moreover have "take n LEARNING_CANONICAL_SINKS ! j = LEARNING_CANONICAL_SINKS ! j" if "j < n" for j
    using that by simp
  moreover have "drop n (outcome ?m w) = drop n xs"
    using report(2,3) ss by (intro nth_equalityI) auto
  ultimately show ?thesis
    using report(1,2) entry ss len
    unfolding LEARNING_CANONICAL_SINKS_def [symmetric]
    by (intro exI [of _ "outcome ?m w"] exI [of _ n] conjI nth_equalityI)
       (auto simp: outcome_bind final_bind n_def)
qed

lemma per_sink_caps_report_witness:
  "\<exists>out n. outcome (learning_metrics_per_sink_caps (ref_host 5 False)
      (Some (replicate 2 \<lparr>sc_sink = [], sc_committed_this_week = 0, sc_weekly_cap = 0, sc_utilization = NaN\<rparr>)) 2)
      (empty_world\<lparr>rw_rows := [zero_proposal\<lparr>p_state := ''committed'', p_sink := ''reranker''\<rparr>]\<rparr>) = (n, Some out) \<and>
    map sc_sink out = [''reranker'', ''supersede''] \<and> map sc_committed_this_week out = [1, 0]"
  using per_sink_caps_report [of "ref_host 5 False" ref_view 2 "replicate 2 \<lparr>sc_sink = [],
      sc_committed_this_week = 0, sc_weekly_cap = 0, sc_utilization = NaN\<rparr>"
      "empty_world\<lparr>rw_rows := [zero_proposal\<lparr>p_state := ''committed'', p_sink := ''reranker''\<rparr>]\<rparr>"]
    ref_tables
  by (auto simp: ref_view_def zero_proposal_def)

end
