(* ===== verification/Router_Runs.thy ===== *)
theory Router_Runs
  imports Router_Plan Router_Metrics
begin

text \<open>
  Sequences of calls of the router, in any order, and what they can never do: change a settled row,
  lose a row, or pass the weekly cap. The lemmas here also follow a single recorded signal to its end.
\<close>

section \<open>Any sequence of calls\<close>

datatype call =
    List_Proposals "string option" "string option" int "proposal list" int
  | Get_Proposal int proposal
  | Accept_Proposal int "proposal option"
  | Reject_Proposal int "proposal option"
  | Record_Signal "signal_input option" "dispatch_result option"
  | Sink_Caps "sink_cap list option" int

fun run_call :: "('w, 'j) host \<Rightarrow> call \<Rightarrow> 'w router \<Rightarrow> 'w router" where
  "run_call H (List_Proposals st k n out mx) = final (on_world (learning_list_proposals H st k n out mx))"
| "run_call H (Get_Proposal i out) = final (on_world (learning_get_proposal H i out))"
| "run_call H (Accept_Proposal i out) = final (on_world (learning_accept_proposal H i out))"
| "run_call H (Reject_Proposal i out) = final (on_world (learning_reject_proposal H i out))"
| "run_call H (Record_Signal raw out) = final (learning_router_record_signal H raw out)"
| "run_call H (Sink_Caps out mx) = final (on_world (learning_metrics_per_sink_caps H out mx))"

definition run_calls :: "('w, 'j) host \<Rightarrow> call list \<Rightarrow> 'w router \<Rightarrow> 'w router" where
  "run_calls H cs s = fold (run_call H) cs s"

lemma sink_loop_reads: "proposal_tables (db H) view \<Longrightarrow> reads view (per_sink_loop H cap i ss out)"
  by (induction ss arbitrary: i out) (auto intro!: frame_rules tables_reads)

lemma sink_caps_lives:
  assumes "deployment H view cap"
  shows "lives_by view cap (learning_metrics_per_sink_caps H out mx)"
  unfolding learning_metrics_per_sink_caps_def Let_def
  by (intro lives.eff_rules reads_lives sink_loop_reads deployment_tables [OF assms])

lemma run_call_lives: "deployment H view cap \<Longrightarrow> tracks (life cap) view s (run_call H c s)"
  by (cases c)
     (auto intro!: tracked_lives.eff_final track_on_world record_signal_lives operation_lives sink_caps_lives)

lemma run_calls_lives:
  assumes "deployment H view cap" "good_router view s"
  shows "life cap (view (world s)) (view (world (run_calls H cs s)))"
proof -
  have "tracks (life cap) view s (fold (run_call H) cs s)"
    by (induction cs arbitrary: s)
       (auto intro: tracked_lives.eff_refl tracked_lives.eff_trans run_call_lives [OF assms(1)])
  with assms(2) show ?thesis by (simp add: tracks_def run_calls_def)
qed

section \<open>One recorded signal\<close>

text \<open>A successful call ends with the dispatch of its sinks, begun with an empty report.\<close>

lemma record_signal_success:
  assumes "deployment H view cap" "0 < i"
    and "outcome (learning_router_record_signal H raw out) s = (i, d')"
  shows "\<exists>w m input. d' = outcome (dispatch_sinks H m i input
        (map_option (\<lambda>_. zero_dispatch\<lparr>d_signal_id := i\<rparr>) out)) w \<and>
    view (world (final (learning_router_record_signal H raw out) s)) =
      view (final (dispatch_sinks H m i input (map_option (\<lambda>_. zero_dispatch\<lparr>d_signal_id := i\<rparr>) out)) w)"
proof (cases raw)
  case None
  with assms(2,3) show ?thesis by (simp add: learning_router_record_signal_def)
next
  case (Some r)
  have clear: "map_option (\<lambda>d. d\<lparr>d_signal_id := i\<rparr>) (learning_dispatch_clear out) =
      map_option (\<lambda>_. zero_dispatch\<lparr>d_signal_id := i\<rparr>) out"
    by (cases out) (simp_all add: learning_dispatch_clear_def)
  have clk: "view (final (clock_gettime (svc H)) w) = view w" for w
    by (rule readsD [OF apart_reads(12) [OF deployment_apart [OF assms(1)]]])
  have ing: "world (learning_ingest_record_ms P ms x) = world x" for P ms and x :: "'a router"
    by (simp add: learning_ingest_record_ms_def Let_def)
  let ?gate = "on_world (integrity_refuses H r)"
  let ?s2 = "final (on_world (clock_gettime (svc H))) (final ?gate s)"
  let ?c = "outcome (learning_classify_signal (in_signal_type r)) ?s2"
  let ?s3 = "final (learning_classify_signal (in_signal_type r)) ?s2"
  let ?input = "outcome (on_world (learning_fill_target_key H r)) ?s3"
  let ?s4 = "final (on_world (db2_learning_proposals_archive_expired (db H)))
    (final (on_world (learning_fill_target_key H r)) ?s3)"
  let ?sid = "outcome (on_world (session_id (svc H))) ?s4"
  let ?s5 = "final (on_world (session_id (svc H))) ?s4"
  let ?insert = "on_world (db2_learning_signal_insert (db H) ?input ?sid)"
  let ?s6 = "final (on_world (learning_log_dogfood H ?input)) (final ?insert ?s5)"
  note run = assms(3) [unfolded Some learning_router_record_signal_def option.case Let_def case_prod_beta]
  have 1: "in_signal_type r \<noteq> []"
    using run assms(2) by auto
  have 2: "\<not> outcome ?gate s"
    using run assms(2) 1 by (auto simp: outcome_bind [of ?gate])
  have 3: "fst ?c = 0"
  proof (rule ccontr)
    assume "fst ?c \<noteq> 0"
    with run assms(2) 1 2 show False by (simp add: outcome_bind)
  qed
  have 4: "0 < outcome ?insert ?s5"
  proof (rule ccontr)
    assume "\<not> 0 < outcome ?insert ?s5"
    with run assms(2) 1 2 3 show False by (simp add: outcome_bind)
  qed
  have i: "outcome ?insert ?s5 = i"
    using run 1 2 3 4 by (simp add: outcome_bind)
  let ?d = "dispatch_sinks H (snd ?c) i ?input (map_option (\<lambda>_. zero_dispatch\<lparr>d_signal_id := i\<rparr>) out)"
  have "d' = outcome ?d (world ?s6)"
    using run 1 2 3 4 i by (simp add: outcome_bind clear) (simp add: outcome_on_world)
  moreover have "view (world (final (learning_router_record_signal H raw out) s)) = view (final ?d (world ?s6))"
    unfolding Some learning_router_record_signal_def option.case Let_def case_prod_beta
    using 1 2 3 4 i by (simp add: final_bind clear) (simp add: final_on_world ing clk)
  ultimately show ?thesis by blast
qed

lemma committed_row_life: "life cap s t \<Longrightarrow> committed_row s i \<Longrightarrow> committed_row t i"
  using life_keeps_rows [of cap s t i]
  by (auto simp: committed_row_def row_kept_def settled_def split: option.splits)

lemma queue_report:
  assumes "deployment H view cap" "wf_dispatch d"
    and "outcome (learning_queue_sink H sid sink key mid act refs hc (Some d)) w = (i, d')"
  shows "\<exists>e. d' = Some e \<and> wf_dispatch e \<and> d_signal_id e = d_signal_id d \<and>
    reported e = (if i = -1 then reported d else take LEARNING_MAX_PROPOSAL_IDS (reported d @ [i])) \<and>
    (i = -1 \<or> 0 < i) \<and>
    (\<forall>j \<in> set (reported_committed e). j \<in> set (reported_committed d) \<or>
       j = i \<and> committed_row (view (final (learning_queue_sink H sid sink key mid act refs hc (Some d)) w)) i)"
proof -
  let ?q = "learning_queue_sink H sid sink key mid act refs hc (Some d)"
  let ?m = "\<lambda>b j p. if b then commit_and_report H j p (add_proposal_id j (Some d))
    else ret (add_proposal_id j (Some d))"
  have step: "\<exists>e. outcome (?m b j p) v = Some e \<and> wf_dispatch e \<and> d_signal_id e = d_signal_id d \<and>
      reported e = take LEARNING_MAX_PROPOSAL_IDS (reported d @ [j]) \<and>
      (\<forall>k \<in> set (reported_committed e). k \<in> set (reported_committed d) \<or>
        k = j \<and> committed_row (view (final (?m b j p) v)) j)" for b j p v
  proof -
    obtain e where e: "add_proposal_id j (Some d) = Some e"
      by (simp add: add_proposal_id_def)
    note r = add_proposal_id_report [OF assms(2) e]
    have "\<exists>x. outcome (commit_and_report H j p (Some e)) v = Some x"
      by (simp add: commit_and_report_def outcome_bind add_committed_id_def)
    then obtain x where x: "outcome (commit_and_report H j p (Some e)) v = Some x" ..
    show ?thesis
    proof (cases b)
      case True
      with report_committed [OF assms(1) r(1) x] r e x show ?thesis by simp
    next
      case False
      with r e show ?thesis by simp
    qed
  qed
  let ?found = "outcome (db2_learning_proposal_find_pending (db H) sink key mid) w"
  let ?w1 = "final (db2_learning_proposal_find_pending (db H) sink key mid) w"
  show ?thesis
  proof (cases "0 < ?found")
    case True
    obtain b p v where "outcome ?q w = (?found, outcome (?m b ?found p) v)" "final ?q w = final (?m b ?found p) v"
    proof (rule that)
      let ?w2 = "final (db2_learning_proposal_bump_corroboration (db H) ?found) ?w1"
      let ?got = "outcome (learning_get_proposal H ?found zero_proposal) ?w2"
      let ?b = "fst ?got = 0 \<and> p_corroboration_count (snd ?got) \<ge> 2"
      let ?v = "final (learning_get_proposal H ?found zero_proposal) ?w2"
      show "outcome ?q w = (?found, outcome (?m ?b ?found (snd ?got)) ?v)"
        using True by (simp only: learning_queue_sink_def Let_def outcome_bind if_True outcome_ret final_ret)
      show "final ?q w = final (?m ?b ?found (snd ?got)) ?v"
        using True by (simp only: learning_queue_sink_def Let_def final_bind if_True final_ret)
    qed
    with step [of b ?found p v] assms(3) True show ?thesis by auto
  next
    case False
    let ?ex = "outcome (learning_expiry_after_days H (learning_proposal_ttl_days H ?w1) 32) ?w1"
    let ?w2 = "final (learning_expiry_after_days H (learning_proposal_ttl_days H ?w1) 32) ?w1"
    let ?ins = "db2_learning_proposal_insert (db H) sid sink key mid act refs ?ex"
    have o: "outcome ?q w = (if outcome ?ins ?w2 \<le> 0 then (-1, Some d)
        else (outcome ?ins ?w2, outcome (?m hc (outcome ?ins ?w2) zero_proposal) (final ?ins ?w2)))"
      and f: "final ?q w = (if outcome ?ins ?w2 \<le> 0 then final ?ins ?w2
        else final (?m hc (outcome ?ins ?w2) zero_proposal) (final ?ins ?w2))"
      using False by (simp_all add: learning_queue_sink_def Let_def outcome_bind final_bind)
    show ?thesis
    proof (cases "outcome ?ins ?w2 \<le> 0")
      case True
      with o assms(2,3) show ?thesis by auto
    next
      case False
      with step [of hc "outcome ?ins ?w2" zero_proposal "final ?ins ?w2"] o f assms(3) show ?thesis
        by auto
    qed
  qed
qed

text \<open>The report of a whole dispatch.\<close>

lemma task_report:
  assumes "deployment H view cap" "wf_dispatch d"
    and "\<forall>j \<in> set (reported_committed d). committed_row (view w) j"
  shows "\<exists>e. outcome (run_task H sid refs t (Some d)) w = Some e \<and> wf_dispatch e \<and>
    d_signal_id e = d_signal_id d \<and> length (reported e) \<le> Suc (length (reported d)) \<and>
    (\<forall>j \<in> set (reported_committed e). committed_row (view (final (run_task H sid refs t (Some d)) w)) j)"
proof (cases "build_request (plat H) (json H) (t_request t) (t_buffer t)")
  case None
  with assms(2,3) show ?thesis by (simp add: run_task_def queue_action_def)
next
  case (Some act)
  let ?q = "learning_queue_sink H sid (request_sink (t_request t)) (t_key t) (t_memory t) act refs
    (t_high_confidence t) (Some d)"
  obtain i d' where q: "outcome ?q w = (i, d')"
    by (metis surj_pair)
  obtain e where e: "d' = Some e" "wf_dispatch e" "d_signal_id e = d_signal_id d"
      "reported e = (if i = -1 then reported d else take LEARNING_MAX_PROPOSAL_IDS (reported d @ [i]))"
      "\<forall>j \<in> set (reported_committed e). j \<in> set (reported_committed d) \<or>
         j = i \<and> committed_row (view (final ?q w)) i"
    using queue_report [OF assms(1,2) q] by blast
  have "committed_row (view (final ?q w)) j" if "j \<in> set (reported_committed d)" for j
    using that assms(3) committed_row_life [OF lives_byD [OF queue_lives [OF assms(1)]]] by blast
  with e q show ?thesis
    by (auto simp: run_task_def queue_action_def Some outcome_bind final_bind)
qed

lemma plan_report:
  assumes "deployment H view cap" "wf_dispatch d"
    and "\<forall>j \<in> set (reported_committed d). committed_row (view w) j"
  shows "\<exists>e. outcome (run_plan H sid refs ts (Some d)) w = Some e \<and> wf_dispatch e \<and>
    d_signal_id e = d_signal_id d \<and> length (reported e) \<le> length ts + length (reported d) \<and>
    (\<forall>j \<in> set (reported_committed e). committed_row (view (final (run_plan H sid refs ts (Some d)) w)) j)"
  using assms(2,3)
proof (induction ts arbitrary: d w)
  case (Cons t ts)
  let ?w = "final (run_task H sid refs t (Some d)) w"
  obtain e where e: "outcome (run_task H sid refs t (Some d)) w = Some e" "wf_dispatch e"
      "d_signal_id e = d_signal_id d" "length (reported e) \<le> Suc (length (reported d))"
      "\<forall>j \<in> set (reported_committed e). committed_row (view ?w) j"
    using task_report [OF assms(1) Cons.prems] by blast
  obtain x where "outcome (run_plan H sid refs ts (Some e)) ?w = Some x" "wf_dispatch x"
      "d_signal_id x = d_signal_id e" "length (reported x) \<le> length ts + length (reported e)"
      "\<forall>j \<in> set (reported_committed x). committed_row (view (final (run_plan H sid refs ts (Some e)) ?w)) j"
    using Cons.IH [OF e(2,5)] by blast
  with e show ?case
    by (auto simp: outcome_bind final_bind)
qed simp

lemma signal_plan_length: "length (signal_plan a b S i) \<le> 4"
  by (auto simp: signal_plan_def plan_reranker_def plan_supersede_def plan_rule_def plan_workflow_def)

end
