(* ===== verification/Router_Properties.thy ===== *)
theory Router_Properties
  imports Router_Runs
begin

text \<open>
  The properties of the proposal gate and of signal recording, over every deployment that keeps the
  contracts of \<open>Proposal_Store\<close> and over every sequence of calls, each applied to the deployment of
  \<open>Reference_World\<close>.
\<close>

section \<open>The reference deployment\<close>

lemma ref_deployment: "0 < mx \<Longrightarrow> deployment (ref_host mx g) ref_view mx"
  by (simp add: deployment_def ref_tables ref_apart learning_max_commits_per_week_def ref_cfg_def)

text \<open>The classifier of the module itself.\<close>

definition policy_classifier :: "ref_world classifier" where
  "policy_classifier x = ret (case learning_signal_policy_sink_mask (Some x) of
     None \<Rightarrow> (-1, 0) | Some m \<Rightarrow> (0, m))"

lemma policy_good: "good_classifier ref_view policy_classifier"
proof -
  have "mask_sinks m = signal_sinks x"
    if "wire_name x" "learning_signal_policy_sink_mask (Some x) = Some m" for x m
    using policy_direct.answers [OF that(1)] that(2) by auto
  then show ?thesis
    by (auto simp: good_classifier_def policy_classifier_def reads_def split: option.splits)
qed

definition ref_router :: "proposal list \<Rightarrow> ref_world router" where
  "ref_router xs = \<lparr>g_ingest = zero_latency, g_detection = zero_latency,
     g_signal_classifier = Some policy_classifier, world = empty_world\<lparr>rw_rows := xs\<rparr>\<rparr>"

lemma ref_router_good: "good_router ref_view (ref_router xs)"
  by (simp add: good_router_def ref_router_def policy_good)

definition row :: "string \<Rightarrow> string \<Rightarrow> proposal" where
  "row st act = zero_proposal\<lparr>p_id := 1, p_sink := ''rule'', p_state := st, p_target_key := ''style'',
     p_action_json := act, p_corroboration_count := 1\<rparr>"

definition mark_rule_input :: signal_input where
  "mark_rule_input = zero_input\<lparr>in_signal_type := ''mark_rule'', in_description := ''prefer tabs'',
     in_target_key := ''style''\<rparr>"

lemma ref_rows [simp]: "rows (ref_view (world (ref_router xs))) = row_at xs"
  by (simp add: ref_view_def ref_router_def)

lemma ref_weeks [simp]: "week_commits (ref_view (world (ref_router xs))) k = commits_of k xs"
  by (simp add: ref_view_def ref_router_def)

section \<open>Invariants of any sequence of calls\<close>

text \<open>
  C1. Settled proposals are final and nothing is lost: whatever calls are made of the router, in any
  order, a row that is in the table stays there with its sink, target, action, evidence and expiry, its
  corroboration count never drops, and once it is committed or archived it never changes again.
\<close>

theorem settled_rows_are_final:
  assumes "deployment H view cap" "good_router view s" "rows (view (world s)) i = Some p"
  shows "\<exists>q. rows (view (world (run_calls H cs s))) i = Some q \<and> same_origin p q \<and>
    p_corroboration_count p \<le> p_corroboration_count q \<and> (settled p \<longrightarrow> q = p)"
  using life_keeps_rows [OF run_calls_lives [OF assms(1,2)], of i cs] assms(3)
  by (auto simp: row_kept_def split: option.splits)

lemma settled_rows_are_final_witness:
  "\<exists>q. rows (ref_view (world (run_calls (ref_host 5 False)
        [Record_Signal (Some mark_rule_input) (Some zero_dispatch), Accept_Proposal 1 None, Reject_Proposal 1 None]
        (ref_router [row ''archived'' ''{}''])))) 1 = Some q \<and>
    same_origin (row ''archived'' ''{}'') q \<and> 1 \<le> p_corroboration_count q \<and> q = row ''archived'' ''{}''"
  using settled_rows_are_final [OF ref_deployment [of 5 False] ref_router_good,
      of "[row ''archived'' ''{}'']" 1 "row ''archived'' ''{}''"
        "[Record_Signal (Some mark_rule_input) (Some zero_dispatch), Accept_Proposal 1 None, Reject_Proposal 1 None]"]
  by (auto simp: row_at_def settled_def row_def)

text \<open>
  C3. The weekly cap holds: with a configured maximum of at most \<open>cap\<close>, no sequence of calls brings the
  commits of a sink in the last seven days above \<open>cap\<close>.
\<close>

theorem weekly_cap_holds:
  assumes "deployment H view cap" "good_router view s" "\<And>k. week_commits (view (world s)) k \<le> cap"
  shows "week_commits (view (world (run_calls H cs s))) k \<le> cap"
  by (rule life_cap [OF run_calls_lives [OF assms(1,2)] assms(3)])

lemma weekly_cap_holds_witness:
  "week_commits (ref_view (world (run_calls (ref_host 1 False)
      [Record_Signal (Some mark_rule_input) None, Accept_Proposal 2 None]
      (ref_router [row ''committed'' ''{}'', row ''pending'' ''{}''])))) ''rule'' \<le> 1"
  by (rule weekly_cap_holds [OF ref_deployment ref_router_good]) (simp_all add: row_def)

text \<open>
  Every row is pending, committed or archived: starting from a table where that is so, the calls of
  the router keep it so.
\<close>

theorem states_are_known:
  assumes "deployment H view cap" "good_router view s" "known_states (view (world s))"
    and "rows (view (world (run_calls H cs s))) i = Some q"
  shows "p_state q = ''pending'' \<or> p_state q = ''committed'' \<or> p_state q = ''archived''"
  using life_states [OF run_calls_lives [OF assms(1,2), of cs] assms(3)] assms(4)
  by (auto simp: known_states_def pending_def settled_def)

lemma states_are_known_witness:
  "\<exists>q. rows (ref_view (world (run_calls (ref_host 5 False) [Accept_Proposal 1 None]
      (ref_router [row ''archived'' ''{}''])))) 1 = Some q \<and>
    (p_state q = ''pending'' \<or> p_state q = ''committed'' \<or> p_state q = ''archived'')"
proof -
  let ?s = "run_calls (ref_host 5 False) [Accept_Proposal 1 None] (ref_router [row ''archived'' ''{}''])"
  have "known_states (ref_view (world (ref_router [row ''archived'' ''{}''])))"
    by (auto simp: known_states_def settled_def row_at_def row_def)
  moreover obtain q where "rows (ref_view (world ?s)) 1 = Some q"
    using life_keeps_rows [OF run_calls_lives [OF ref_deployment [of 5 False] ref_router_good], of
        "[row ''archived'' ''{}'']" 1 "[Accept_Proposal 1 None]"]
    by (auto simp: row_kept_def row_at_def split: option.splits)
  ultimately show ?thesis
    using states_are_known [OF ref_deployment [of 5 False] ref_router_good] by simp
qed

section \<open>Committing\<close>

text \<open>
  C2. A commit is earned: if accepting a proposal turns a row that was not committed into a committed
  one, that row was pending before the call, and the call itself read it, counted the commits of its sink in
  the last seven days and found them below the weekly maximum, called \<open>learning_apply_sink\<close> on exactly
  that row with the result 0, marked the row, and read it back. \<open>w1\<close> is the world in which the call counts
  and \<open>w2\<close> the one in which it calls the sink.
\<close>

theorem accept_commits_only_applied:
  assumes "deployment H view cap" "\<not> committed_row (view w) i"
    and "committed_row (view (final (learning_accept_proposal H i out) w)) i"
    and "w1 = final (learning_get_proposal H i zero_proposal)
               (final (db2_learning_proposals_archive_expired (db H)) w)"
  shows "\<exists>p w2. rows (view w) i = Some p \<and> pending p \<and>
    w2 = final (db2_learning_commits_in_last_7_days (db H) (p_sink p)) w1 \<and>
    week_commits (view w2) (p_sink p) < learning_max_commits_per_week H w2 \<and>
    outcome (learning_apply_sink H p) w2 = 0 \<and>
    final (learning_accept_proposal H i out) w =
      final (get_into H i p out)
        (final (db2_learning_proposal_mark_committed (db H) i) (final (learning_apply_sink H p) w2))"
proof -
  let ?w = "final (db2_learning_proposals_archive_expired (db H)) w"
  have "0 < i"
    using assms(2,3) by (auto simp: learning_accept_proposal_def split: if_splits)
  then have run: "final (learning_accept_proposal H i out) w = final (learning_commit_proposal H i out) ?w"
    by (simp add: learning_accept_proposal_def final_bind)
  have "\<not> committed_row (view ?w) i"
    using assms(2) expire_commits_nothing [OF assms(1)] by blast
  then obtain p w2 where "rows (view ?w) i = Some p" "pending p" and rest:
      "w2 = final (db2_learning_commits_in_last_7_days (db H) (p_sink p)) w1"
      "week_commits (view w2) (p_sink p) < learning_max_commits_per_week H w2"
      "outcome (learning_apply_sink H p) w2 = 0"
      "final (learning_commit_proposal H i out) ?w =
        final (get_into H i p out)
          (final (db2_learning_proposal_mark_committed (db H) i) (final (learning_apply_sink H p) w2))"
    using commit_was_applied [OF assms(1), of ?w i out] assms(3,4) unfolding run by metis
  moreover from this have "rows (view w) i = Some p"
    using expire_keeps_pending [OF assms(1)] by blast
  ultimately show ?thesis
    unfolding run by metis
qed

definition empty_action :: string where
  "empty_action = ref_print (Obj [])"

definition open_row :: proposal where
  "open_row = zero_proposal\<lparr>p_id := 1, p_sink := ''other'', p_state := ''pending'', p_action_json := empty_action\<rparr>"

lemma accept_example:
  "rw_rows (final (learning_accept_proposal (ref_host 5 False) 1 None) (empty_world\<lparr>rw_rows := [open_row]\<rparr>)) =
     [committed_now open_row]"
proof -
  have "learning_apply_sink (ref_host 5 False) open_row = ret 0"
    by (simp add: learning_apply_sink_def open_row_def empty_action_def ref_parse_print)
  moreover have "p_state open_row = ''pending''" "p_state (committed_now open_row) = ''committed''"
    by (simp_all add: open_row_def committed_now_def)
  ultimately show ?thesis
    by (simp add: learning_accept_proposal_def learning_commit_proposal_def learning_get_proposal_def
        get_into_def ref_fields_db final_bind outcome_bind empty_world_def row_at_def update_row_def
        learning_max_commits_per_week_def ref_cfg_def)
qed

lemma accept_commits_only_applied_witness:
  "\<exists>p w2. row_at [open_row] 1 = Some p \<and> pending p \<and>
    week_commits (ref_view w2) (p_sink p) < learning_max_commits_per_week (ref_host 5 False) w2 \<and>
    outcome (learning_apply_sink (ref_host 5 False) p) w2 = 0 \<and>
    final (learning_accept_proposal (ref_host 5 False) 1 None) (empty_world\<lparr>rw_rows := [open_row]\<rparr>) =
      final (get_into (ref_host 5 False) 1 p None)
        (final (db2_learning_proposal_mark_committed (db (ref_host 5 False)) 1)
          (final (learning_apply_sink (ref_host 5 False) p) w2))"
proof -
  let ?H = "ref_host 5 False" and ?w = "empty_world\<lparr>rw_rows := [open_row]\<rparr>"
  have dep: "deployment ?H ref_view 5"
    by (rule ref_deployment) simp
  have pre: "\<not> committed_row (ref_view ?w) 1"
    by (simp add: committed_row_def ref_view_def row_at_def open_row_def zero_proposal_def)
  have post: "committed_row (ref_view (final (learning_accept_proposal ?H 1 None) ?w)) 1"
    by (simp add: committed_row_def ref_view_def row_at_def accept_example committed_now_def)
  obtain p w2 where "rows (ref_view ?w) 1 = Some p" "pending p"
      "week_commits (ref_view w2) (p_sink p) < learning_max_commits_per_week ?H w2"
      "outcome (learning_apply_sink ?H p) w2 = 0"
      "final (learning_accept_proposal ?H 1 None) ?w = final (get_into ?H 1 p None)
        (final (db2_learning_proposal_mark_committed (db ?H) 1) (final (learning_apply_sink ?H p) w2))"
    using accept_commits_only_applied [OF dep pre post refl] by blast
  then show ?thesis
    by (intro exI [of _ p] exI [of _ w2]) (simp add: ref_view_def)
qed

text \<open>
  C28. The answers show the table: when accepting or rejecting a proposal, or reading one, returns 0 with
  a proposal, the row of the table is that proposal after the call.
\<close>

theorem answers_show_the_table:
  assumes "deployment H view cap"
  shows "(\<forall>q. outcome (learning_accept_proposal H i out) w = (0, Some q) \<longrightarrow>
            rows (view (final (learning_accept_proposal H i out) w)) i = Some q) \<and>
         (\<forall>q. outcome (learning_reject_proposal H i out) w = (0, Some q) \<longrightarrow>
            rows (view (final (learning_reject_proposal H i out) w)) i = Some q) \<and>
         (\<forall>q. outcome (learning_get_proposal H i b) w = (0, q) \<longrightarrow>
            rows (view (final (learning_get_proposal H i b) w)) i = Some q)"
  using accept_row [OF assms] reject_row [OF assms] get_row [OF assms] by blast

lemma answers_show_the_table_witness:
  "rows (ref_view (final (learning_get_proposal (ref_host 5 False) 1 zero_proposal)
      (empty_world\<lparr>rw_rows := [open_row]\<rparr>))) 1 = Some open_row"
proof -
  have "outcome (learning_get_proposal (ref_host 5 False) 1 zero_proposal)
      (empty_world\<lparr>rw_rows := [open_row]\<rparr>) = (0, open_row)"
    by (simp add: learning_get_proposal_def ref_fields_db outcome_bind empty_world_def row_at_def)
  then show ?thesis
    using answers_show_the_table [OF ref_deployment [of 5 False], where i = 1 and b = zero_proposal
        and w = "empty_world\<lparr>rw_rows := [open_row]\<rparr>"]
    by simp
qed

definition archives_only :: "pstore \<Rightarrow> pstore \<Rightarrow> bool" where
  "archives_only s t \<longleftrightarrow> (\<forall>i. rows t i = rows s i \<or> (\<exists>q. rows t i = Some q \<and> p_state q = ''archived''))"

lemma archives_only_trans:
  assumes "archives_only s t" "archives_only t u"
  shows "archives_only s u"
  unfolding archives_only_def
proof
  fix i
  from assms have "rows t i = rows s i \<or> (\<exists>q. rows t i = Some q \<and> p_state q = ''archived'')"
    "rows u i = rows t i \<or> (\<exists>q. rows u i = Some q \<and> p_state q = ''archived'')"
    by (simp_all add: archives_only_def)
  then show "rows u i = rows s i \<or> (\<exists>q. rows u i = Some q \<and> p_state q = ''archived'')"
    by auto
qed

interpretation archival: effects "\<lambda>w w'. archives_only (view w) (view w')" for view :: "'w \<Rightarrow> pstore"
  by unfold_locales (auto intro: archives_only_trans simp: archives_only_def [of s s for s])

lemma expire_archives:
  "deployment H view cap \<Longrightarrow>
   state_io_rel (\<lambda>w w'. archives_only (view w) (view w')) (db2_learning_proposals_archive_expired (db H))"
  unfolding state_io_rel_final archives_only_def
proof (intro allI)
  fix w i
  assume "deployment H view cap"
  then have "expire_law (db H) view"
    using deployment_tables by (auto simp: proposal_tables_def)
  then show "rows (view (final (db2_learning_proposals_archive_expired (db H)) w)) i = rows (view w) i \<or>
      (\<exists>q. rows (view (final (db2_learning_proposals_archive_expired (db H)) w)) i = Some q \<and>
         p_state q = ''archived'')"
    unfolding expire_law_def using archived_fields(1) by blast
qed

lemma archive_archives:
  assumes "deployment H view cap"
  shows "state_io_rel (\<lambda>w w'. archives_only (view w) (view w')) (db2_learning_proposal_archive (db H) i r)"
  unfolding state_io_rel_final
proof
  fix w
  show "archives_only (view w) (view (final (db2_learning_proposal_archive (db H) i r) w))"
    using tables_archive [OF deployment_tables [OF assms], of i r, unfolded row_write_def, rule_format, of w]
    by (auto simp: archives_only_def row_changed_def archived_fields)
qed

lemma get_archives:
  assumes "deployment H view cap"
  shows "state_io_rel (\<lambda>w w'. archives_only (view w) (view w')) (learning_get_proposal H i b)"
proof -
  have "state_io_rel (\<lambda>w w'. archives_only (view w) (view w')) (db2_learning_proposal_get (db H) i b)"
    using tables_reads(2) [OF deployment_tables [OF assms]]
    by (simp add: state_io_rel_final archives_only_def readsD)
  then show ?thesis
    unfolding learning_get_proposal_def by (intro archival.eff_rules expire_archives [OF assms])
qed

text \<open>
  C24. Rejecting a proposal only archives: every row of the table is afterwards what it was, or it was not
  settled before and is archived now. In particular a rejection never commits, and never undoes a commit.
\<close>

theorem rejection_only_archives:
  assumes "deployment H view cap" "rows (view w) i = Some p"
  shows "\<exists>q. rows (view (final (learning_reject_proposal H j out) w)) i = Some q \<and>
    (q = p \<or> \<not> settled p \<and> p_state q = ''archived'')"
proof -
  have "state_io_rel (\<lambda>w w'. archives_only (view w) (view w')) (learning_reject_proposal H j out)"
    unfolding learning_reject_proposal_def get_into_def Let_def
    by (intro archival.eff_rules get_archives [OF assms(1)] archive_archives [OF assms(1)])
  then have "archives_only (view w) (view (final (learning_reject_proposal H j out) w))"
    by (simp add: state_io_rel_final)
  then have "rows (view (final (learning_reject_proposal H j out) w)) i = rows (view w) i \<or>
      (\<exists>q. rows (view (final (learning_reject_proposal H j out) w)) i = Some q \<and> p_state q = ''archived'')"
    by (simp add: archives_only_def)
  moreover have "row_kept (rows (view w) i) (rows (view (final (learning_reject_proposal H j out) w)) i)"
    by (rule life_keeps_rows [OF lives_byD [OF reject_lives [OF assms(1)]]])
  ultimately show ?thesis
    using assms(2) by (auto simp: row_kept_def split: option.splits)
qed

lemma rejection_only_archives_witness:
  "\<exists>q. rows (ref_view (final (learning_reject_proposal (ref_host 5 False) 1 None)
      (empty_world\<lparr>rw_rows := [open_row]\<rparr>))) 1 = Some q \<and>
    (q = open_row \<or> \<not> settled open_row \<and> p_state q = ''archived'')"
proof (rule rejection_only_archives [OF ref_deployment [of 5 False]])
  show "rows (ref_view (empty_world\<lparr>rw_rows := [open_row]\<rparr>)) 1 = Some open_row"
    by (simp add: ref_view_def row_at_def)
qed simp

lemma queue_ignores_action:
  assumes "0 < outcome (db2_learning_proposal_find_pending (db H) sink key mid) w"
  shows "run_state (learning_queue_sink H sid sink key mid act refs hc out) w =
         run_state (learning_queue_sink H sid' sink key mid act' refs' hc' out) w"
  unfolding learning_queue_sink_def
  using assms by (simp only: run_bind [of "db2_learning_proposal_find_pending (db H) sink key mid"] if_True)

lemma reranker_action_built:
  "json_alloc (json H) \<Longrightarrow> learning_make_reranker_action P (json H) up mid refs cap \<noteq> None"
  by (auto simp: json_alloc_def learning_make_reranker_action_def print_into_def Let_def split: option.split)

text \<open>
  C30. Corroboration does not look at what it corroborates: while a proposal of any sink is pending for the same
  sink, key and memory, queueing another for them does the same whatever its action, evidence and confidence are
  and whichever signal it came from. So, as long as no allocation of the JSON library fails, the reranker block
  handles a thumb down on a memory whose thumb up is pending, row for row and answer for answer, as a second
  thumb up with the same key and memory.
\<close>

theorem corroboration_ignores_the_action:
  assumes "0 < outcome (db2_learning_proposal_find_pending (db H) sink key mid) w"
  shows "run_state (learning_queue_sink H sid sink key mid act refs hc out) w =
      run_state (learning_queue_sink H sid' sink key mid act' refs' hc' out) w \<and>
    (json_alloc (json H) \<longrightarrow> in_signal_type i = ''thumb_up'' \<longrightarrow>
       (sink, key, mid) = (''reranker'', in_target_key i, in_target_memory_id i) \<longrightarrow>
       run_state (signal_reranker H m sid (i\<lparr>in_signal_type := ''thumb_down''\<rparr>) out) w =
       run_state (signal_reranker H m sid' i out) w)"
proof (intro conjI impI)
  show "run_state (learning_queue_sink H sid sink key mid act refs hc out) w =
      run_state (learning_queue_sink H sid' sink key mid act' refs' hc' out) w"
    by (rule queue_ignores_action [OF assms])
  assume alloc: "json_alloc (json H)" and up: "in_signal_type i = ''thumb_up''"
    and t: "(sink, key, mid) = (''reranker'', in_target_key i, in_target_memory_id i)"
  obtain a b where "learning_make_reranker_action (plat H) (json H) True (in_target_memory_id i)
        (in_evidence_refs_json i) 512 = Some a"
      "learning_make_reranker_action (plat H) (json H) False (in_target_memory_id i)
        (in_evidence_refs_json i) 512 = Some b"
    using reranker_action_built [OF alloc] by (meson not_Some_eq)
  then show "run_state (signal_reranker H m sid (i\<lparr>in_signal_type := ''thumb_down''\<rparr>) out) w =
      run_state (signal_reranker H m sid' i out) w"
    using queue_ignores_action [OF assms, of sid b "in_evidence_refs_json i" False out sid' a
        "in_evidence_refs_json i" False] t
    by (simp add: signal_reranker_def queue_action_def up Let_def run_bind outcome_def final_def)
qed

definition pending_up :: proposal where
  "pending_up = zero_proposal\<lparr>p_id := 1, p_sink := ''reranker'', p_state := ''pending'', p_target_memory_id := 7\<rparr>"

lemma corroboration_ignores_the_action_witness:
  "run_state (signal_reranker (ref_host 5 False) 1 2
      (zero_input\<lparr>in_signal_type := ''thumb_down'', in_target_memory_id := 7\<rparr>) None) (empty_world\<lparr>rw_rows := [pending_up]\<rparr>) =
   run_state (signal_reranker (ref_host 5 False) 1 2
      (zero_input\<lparr>in_signal_type := ''thumb_up'', in_target_memory_id := 7\<rparr>) None) (empty_world\<lparr>rw_rows := [pending_up]\<rparr>) \<and>
   run_state (learning_queue_sink (ref_host 5 False) 1 ''other'' [] 0 ''this'' None True None) (empty_world\<lparr>rw_rows := [open_row]\<rparr>) =
   run_state (learning_queue_sink (ref_host 5 False) 2 ''other'' [] 0 ''that'' None False None) (empty_world\<lparr>rw_rows := [open_row]\<rparr>)"
proof
  show "run_state (signal_reranker (ref_host 5 False) 1 2
      (zero_input\<lparr>in_signal_type := ''thumb_down'', in_target_memory_id := 7\<rparr>) None) (empty_world\<lparr>rw_rows := [pending_up]\<rparr>) =
   run_state (signal_reranker (ref_host 5 False) 1 2
      (zero_input\<lparr>in_signal_type := ''thumb_up'', in_target_memory_id := 7\<rparr>) None) (empty_world\<lparr>rw_rows := [pending_up]\<rparr>)"
    using corroboration_ignores_the_action [of "ref_host 5 False" "''reranker''" "[]" 7 "empty_world\<lparr>rw_rows := [pending_up]\<rparr>" 2
        _ _ _ None 2 _ _ _ "zero_input\<lparr>in_signal_type := ''thumb_up'', in_target_memory_id := 7\<rparr>" 1]
      ref_json_laws
    by (simp add: json_laws_def ref_fields_db empty_world_def pending_up_def zero_proposal_def zero_input_def pending_def)
  show "run_state (learning_queue_sink (ref_host 5 False) 1 ''other'' [] 0 ''this'' None True None) (empty_world\<lparr>rw_rows := [open_row]\<rparr>) =
   run_state (learning_queue_sink (ref_host 5 False) 2 ''other'' [] 0 ''that'' None False None) (empty_world\<lparr>rw_rows := [open_row]\<rparr>)"
    by (rule corroboration_ignores_the_action [THEN conjunct1])
       (simp add: ref_fields_db empty_world_def open_row_def zero_proposal_def pending_def)
qed

text \<open>
  A second sighting commits: when the pending row that is found has been seen before (its count is 2
  or more after the corroboration) queueing it runs the commit of that row, and otherwise only
  corroborates it.
\<close>

theorem second_sighting_commits:
  assumes "outcome (db2_learning_proposal_find_pending (db H) sink key mid) w = i" "0 < i"
    and "w1 = final (db2_learning_proposal_bump_corroboration (db H) i)
               (final (db2_learning_proposal_find_pending (db H) sink key mid) w)"
    and "outcome (learning_get_proposal H i zero_proposal) w1 = (0, p)"
    and "w2 = final (learning_get_proposal H i zero_proposal) w1"
  shows "final (learning_queue_sink H sid sink key mid act refs hc out) w =
    (if 2 \<le> p_corroboration_count p then final (learning_commit_proposal H i (Some p)) w2 else w2)"
  using assms by (simp add: learning_queue_sink_def commit_and_report_def final_bind Let_def)

lemma second_sighting_commits_witness:
  "rw_rows (final (learning_queue_sink (ref_host 5 False) 1 ''other'' [] 0 ''again'' None False None)
     (empty_world\<lparr>rw_rows := [open_row]\<rparr>)) = [bumped_row open_row]"
  using second_sighting_commits [of "ref_host 5 False" "''other''" "[]" 0 "empty_world\<lparr>rw_rows := [open_row]\<rparr>" 1
      "empty_world\<lparr>rw_rows := [bumped_row open_row]\<rparr>" "bumped_row open_row"
      "empty_world\<lparr>rw_rows := [bumped_row open_row]\<rparr>" 1 "''again''" None False None]
  by (simp add: ref_fields_db empty_world_def open_row_def zero_proposal_def pending_def bumped_row_def
      learning_get_proposal_def outcome_bind final_bind row_at_def update_row_def)

lemma recorded_with_report:
  assumes "deployment H view cap" "0 < i"
    and "outcome (learning_router_record_signal H raw (Some d0)) s = (i, d')"
  shows "d' \<noteq> None"
proof -
  let ?z = "zero_dispatch\<lparr>d_signal_id := i\<rparr>"
  obtain w m input where d: "d' = outcome (dispatch_sinks H m i input (Some ?z)) w"
    using record_signal_success [OF assms] by auto
  have "\<exists>e. outcome (run_plan H i (in_evidence_refs_json input)
      (signal_plan (COLLAB_RULE_TEXT_LEN (svc H) + 1) (COLLAB_RULE_REASON_LEN (svc H) + 1) (mask_sinks m) input)
      (Some ?z)) w = Some e"
    using plan_report [OF assms(1), of ?z] wf_zero_dispatch
    by (fastforce simp: wf_dispatch_def reported_committed_def zero_dispatch_def)
  then show ?thesis
    using d by (auto simp: dispatch_plan)
qed

lemma mark_rule_recorded:
  "fst (outcome (learning_router_record_signal (ref_host 5 False) (Some mark_rule_input) (Some zero_dispatch))
     (ref_router [open_row])) = 1"
proof -
  have cl: "outcome (learning_classify_signal ''mark_rule'') s = (0, AIMEE_LEARNING_SINK_RULE)"
    if "g_signal_classifier s = Some policy_classifier" for s :: "ref_world router"
    using that
    by (simp add: outcome_classify policy_classifier_def learning_signal_policy_sink_mask_def)
  show ?thesis
    by (simp add: learning_router_record_signal_def integrity_refuses_def user_stated_def mark_rule_input_def
        outcome_bind Let_def case_prod_beta outcome_on_world final_on_world cl ref_router_def ref_svc_def
        ref_db_def)
qed
text \<open>
  C13. The report of a signal is right: when recording a signal succeeds with a report, the report has the
  signal's id, stays inside its arrays, lists at most the four proposals of the four sinks, and every
  proposal it lists as committed is committed in the table.
\<close>

theorem signal_report_is_right:
  assumes "deployment H view cap" "0 < i"
    and "outcome (learning_router_record_signal H raw (Some d0)) s = (i, Some d)"
  shows "d_signal_id d = i \<and> wf_dispatch d \<and> length (reported d) \<le> 4 \<and>
    (\<forall>j \<in> set (reported_committed d).
       committed_row (view (world (final (learning_router_record_signal H raw (Some d0)) s))) j)"
proof -
  let ?z = "zero_dispatch\<lparr>d_signal_id := i\<rparr>"
  obtain w m input where d: "Some d = outcome (dispatch_sinks H m i input (Some ?z)) w"
      and v: "view (world (final (learning_router_record_signal H raw (Some d0)) s)) =
        view (final (dispatch_sinks H m i input (Some ?z)) w)"
    using record_signal_success [OF assms] by auto
  have z: "wf_dispatch ?z" "reported ?z = []" "reported_committed ?z = []"
    using wf_zero_dispatch by (auto simp: wf_dispatch_def reported_def reported_committed_def zero_dispatch_def)
  let ?ts = "signal_plan (COLLAB_RULE_TEXT_LEN (svc H) + 1) (COLLAB_RULE_REASON_LEN (svc H) + 1)
    (mask_sinks m) input"
  have "\<exists>e. outcome (run_plan H i (in_evidence_refs_json input) ?ts (Some ?z)) w = Some e \<and> wf_dispatch e \<and>
      d_signal_id e = d_signal_id ?z \<and> length (reported e) \<le> length ?ts + length (reported ?z) \<and>
      (\<forall>j \<in> set (reported_committed e). committed_row
        (view (final (run_plan H i (in_evidence_refs_json input) ?ts (Some ?z)) w)) j)"
    by (rule plan_report [OF assms(1) z(1)]) (simp add: z)
  then show ?thesis
    using d v z signal_plan_length [of "COLLAB_RULE_TEXT_LEN (svc H) + 1" "COLLAB_RULE_REASON_LEN (svc H) + 1"
        "mask_sinks m" input]
    unfolding dispatch_plan by auto
qed

lemma signal_report_is_right_witness:
  "\<exists>d. outcome (learning_router_record_signal (ref_host 5 False) (Some mark_rule_input) (Some zero_dispatch))
      (ref_router [open_row]) = (1, Some d) \<and> d_signal_id d = 1 \<and> wf_dispatch d \<and> length (reported d) \<le> 4"
proof -
  obtain d' where d': "outcome (learning_router_record_signal (ref_host 5 False) (Some mark_rule_input)
      (Some zero_dispatch)) (ref_router [open_row]) = (1, d')"
    using mark_rule_recorded by (metis prod.collapse)
  then obtain d where "d' = Some d"
    using recorded_with_report [OF ref_deployment [of 5 False] _ d'] by auto
  with d' show ?thesis
    using signal_report_is_right [OF ref_deployment [of 5 False], of 1] by simp
qed

section \<open>Recording signals\<close>

text \<open>
  C5. Only the plan is queued: with a registered classifier that keeps the contract of \<open>Observation\<close>, every
  row in the table after a signal was recorded was there before with the same content, or its sink,
  key, memory id and action are those of a request in the plan of that signal for the sinks its name
  stands for.
\<close>

theorem only_the_plan_is_queued:
  assumes "deployment H view cap" "good_router view s" "wire_name (in_signal_type raw)"
    and "rows (view (world (final (learning_router_record_signal H (Some raw) out) s))) i = Some q"
  shows "(\<exists>p. rows (view (world s)) i = Some p \<and> same_origin p q) \<or>
    (\<exists>key t act. (key = in_target_key raw \<or> in_target_key raw = [] \<and> in_target_memory_id raw > 0) \<and>
       t \<in> set (signal_plan (COLLAB_RULE_TEXT_LEN (svc H) + 1) (COLLAB_RULE_REASON_LEN (svc H) + 1)
                 (signal_sinks (in_signal_type raw)) (raw\<lparr>in_target_key := key\<rparr>)) \<and>
       build_request (plat H) (json H) (t_request t) (t_buffer t) = Some act \<and>
       content q = (request_sink (t_request t), t_key t, t_memory t, act))"
proof -
  have "tracks (rows_from (signal_contents H raw)) view s
      (final (learning_router_record_signal H (Some raw) out) s)"
    by (rule tracked_origins.eff_final [OF record_signal_origins [OF assms(1,3)]])
  then have "rows_from (signal_contents H raw) (view (world s))
      (view (world (final (learning_router_record_signal H (Some raw) out) s)))"
    using assms(2) by (simp add: tracks_def)
  then have "(\<exists>p. rows (view (world s)) i = Some p \<and> same_origin p q) \<or> content q \<in> signal_contents H raw"
    using assms(4) unfolding rows_from_def by blast
  then show ?thesis
    unfolding signal_contents_def plan_contents_def by blast
qed

lemma wire_mark_rule: "wire_name (in_signal_type mark_rule_input)"
  by (simp add: wire_name_def mark_rule_input_def fits_def AIMEE_LEARNING_SIGNAL_MAX_def)

lemma only_the_plan_is_queued_witness:
  "\<exists>q. rows (ref_view (world (final (learning_router_record_signal (ref_host 5 False)
        (Some mark_rule_input) None) (ref_router [open_row])))) 1 = Some q \<and>
    (same_origin open_row q \<or> p_sink q = ''rule'')"
proof -
  let ?s = "ref_router [open_row]"
  let ?t = "final (learning_router_record_signal (ref_host 5 False) (Some mark_rule_input) None) ?s"
  have "life 5 (ref_view (world ?s)) (ref_view (world ?t))"
    using tracked_lives.eff_final [OF record_signal_lives [OF ref_deployment [of 5 False]], of ?s]
      ref_router_good by (auto simp: tracks_def)
  then obtain q where q: "rows (ref_view (world ?t)) 1 = Some q"
    using life_keeps_rows [of 5 "ref_view (world ?s)" "ref_view (world ?t)" 1]
    by (auto simp: row_kept_def row_at_def split: option.splits)
  have "(\<exists>p. row_at [open_row] 1 = Some p \<and> same_origin p q) \<or> p_sink q = ''rule''"
    using only_the_plan_is_queued [OF ref_deployment [of 5 False] ref_router_good wire_mark_rule q]
    by (auto simp: content_def mark_rule_input_def signal_sinks_def signal_plan_def plan_rule_def)
  with q show ?thesis
    by (auto simp: row_at_def)
qed

text \<open>
  Without a classifier nothing is learnt: while none is registered, recording any signal that has a
  type returns -1 with a cleared report, and neither the tables nor the latency meters change.
\<close>

theorem no_classifier_no_learning:
  assumes "services_apart (svc H) view" "g_signal_classifier s = None" "in_signal_type raw \<noteq> []"
  shows "outcome (learning_router_record_signal H (Some raw) out) s = (-1, learning_dispatch_clear out) \<and>
    view (world (final (learning_router_record_signal H (Some raw) out) s)) = view (world s) \<and>
    g_ingest (final (learning_router_record_signal H (Some raw) out) s) = g_ingest s"
proof -
  have g: "view (final (integrity_refuses H raw) w) = view w" for w
    by (rule readsD [OF integrity_reads [OF assms(1)]])
  have c: "view (final (clock_gettime (svc H)) w) = view w" for w
    by (rule readsD [OF apart_reads(12) [OF assms(1)]])
  show ?thesis
    using assms(2,3) g c
    by (simp add: learning_router_record_signal_def outcome_bind final_bind outcome_on_world final_on_world
        outcome_classify final_classify Let_def)
qed

lemma no_classifier_no_learning_witness:
  "outcome (learning_router_record_signal (ref_host 5 False) (Some mark_rule_input) (Some zero_dispatch))
     ((ref_router [open_row])\<lparr>g_signal_classifier := None\<rparr>) = (-1, Some zero_dispatch)"
  using no_classifier_no_learning [of "ref_host 5 False" ref_view
      "(ref_router [open_row])\<lparr>g_signal_classifier := None\<rparr>" mark_rule_input "Some zero_dispatch"]
  by (simp add: ref_apart mark_rule_input_def learning_dispatch_clear_def)

text \<open>
  C12. The integrity gate: a signal of an explicit user action is never refused by it; any other is refused
  exactly when the gate is on and not in dry-run mode, there is a text to check, and the verdict on it is
  a rejection. A refused signal returns -1 with a cleared report and leaves the tables as they were.
\<close>

theorem integrity_gate:
  assumes "services_apart (svc H) view" "in_signal_type raw \<noteq> []"
    and "t = (if in_description raw \<noteq> [] then in_description raw
              else if in_correction_text raw \<noteq> [] then in_correction_text raw else in_title raw)"
  shows "outcome (integrity_refuses H raw) w =
     (\<not> user_stated (in_signal_type raw) \<and> config_present (cfg H) w \<and> config_integrity_enabled (cfg H) w \<and>
      t \<noteq> [] \<and>
      outcome (integrity_gate_check (svc H) t INTEGRITY_SOURCE_TOOL) w = VERDICT_REJECT \<and>
      \<not> config_integrity_dry_run (cfg H) (final (integrity_gate_check (svc H) t INTEGRITY_SOURCE_TOOL) w)) \<and>
   (outcome (integrity_refuses H raw) (world s) \<longrightarrow>
      outcome (learning_router_record_signal H (Some raw) out) s = (-1, learning_dispatch_clear out) \<and>
      view (world (final (learning_router_record_signal H (Some raw) out) s)) = view (world s))"
proof -
  have "view (final (integrity_refuses H raw) w) = view w" for w
    by (rule readsD [OF integrity_reads [OF assms(1)]])
  then show ?thesis
    using assms(2) unfolding assms(3)
    by (auto simp: learning_router_record_signal_def integrity_refuses_def Let_def outcome_bind final_bind
        outcome_on_world final_on_world)
qed

definition tool_input :: signal_input where
  "tool_input = zero_input\<lparr>in_signal_type := ''workflow_repetition'', in_description := ''rm -rf''\<rparr>"

lemma integrity_gate_witness:
  "outcome (learning_router_record_signal (ref_host 5 True) (Some tool_input) (Some zero_dispatch))
     ((ref_router [])\<lparr>world := empty_world\<lparr>rw_gate := VERDICT_REJECT\<rparr>\<rparr>) = (-1, Some zero_dispatch)"
proof -
  have "integrity_gate_check (svc (ref_host 5 True)) t src = gets rw_gate" for t src
    by (simp add: ref_svc_def)
  then show ?thesis
    using integrity_gate [of "ref_host 5 True" ref_view tool_input "in_description tool_input"
        "empty_world\<lparr>rw_gate := VERDICT_REJECT\<rparr>"
        "(ref_router [])\<lparr>world := empty_world\<lparr>rw_gate := VERDICT_REJECT\<rparr>\<rparr>" "Some zero_dispatch"]
    by (simp add: ref_apart tool_input_def ref_cfg_def user_stated_def learning_dispatch_clear_def)
qed

text \<open>The worlds in which a signal that is refused or cannot be stored is left: after the classification, and
  after the attempt to insert it.\<close>

definition classified_at :: "('w, 'j) host \<Rightarrow> signal_input \<Rightarrow> 'w router \<Rightarrow> 'w router" where
  "classified_at H r s = final (learning_classify_signal (in_signal_type r))
     (final (on_world (clock_gettime (svc H))) (final (on_world (integrity_refuses H r)) s))"

definition insert_signal :: "('w, 'j) host \<Rightarrow> signal_input \<Rightarrow> ('w, int) state" where
  "insert_signal H r = do {
     input \<leftarrow> learning_fill_target_key H r;
     _ \<leftarrow> db2_learning_proposals_archive_expired (db H);
     sid \<leftarrow> session_id (svc H);
     db2_learning_signal_insert (db H) input sid
   }"

definition inserted_at :: "('w, 'j) host \<Rightarrow> signal_input \<Rightarrow> 'w router \<Rightarrow> 'w router" where
  "inserted_at H r s = final (on_world (insert_signal H r)) (classified_at H r s)"

lemma failed_signal_ends:
  assumes "in_signal_type r \<noteq> []" "fst (outcome (learning_router_record_signal H (Some r) out) s) = -1"
  shows "final (learning_router_record_signal H (Some r) out) s \<in>
    {final (on_world (integrity_refuses H r)) s, classified_at H r s, inserted_at H r s}"
proof -
  let ?s2 = "final (on_world (clock_gettime (svc H))) (final (on_world (integrity_refuses H r)) s)"
  let ?c = "outcome (learning_classify_signal (in_signal_type r)) ?s2"
  let ?i = "outcome (on_world (insert_signal H r)) (classified_at H r s)"
  note defs = assms(1) learning_router_record_signal_def classified_at_def inserted_at_def insert_signal_def
    final_bind outcome_bind final_on_world outcome_on_world Let_def case_prod_beta
  consider "outcome (on_world (integrity_refuses H r)) s" | "\<not> outcome (on_world (integrity_refuses H r)) s" "fst ?c \<noteq> 0"
    | "\<not> outcome (on_world (integrity_refuses H r)) s" "fst ?c = 0" by blast
  then show ?thesis
  proof cases
    case 1
    then have "final (learning_router_record_signal H (Some r) out) s = final (on_world (integrity_refuses H r)) s"
      by (simp add: defs)
    then show ?thesis by blast
  next
    case 2
    then have "final (learning_router_record_signal H (Some r) out) s = classified_at H r s"
      by (simp add: defs)
    then show ?thesis by blast
  next
    case 3
    have "?i \<le> 0"
    proof (rule ccontr)
      assume "\<not> ?i \<le> 0"
      with 3 have "fst (outcome (learning_router_record_signal H (Some r) out) s) = ?i"
        by (simp add: defs)
      with assms(2) \<open>\<not> ?i \<le> 0\<close> show False by linarith
    qed
    with 3 have "final (learning_router_record_signal H (Some r) out) s = inserted_at H r s"
      by (simp add: defs)
    then show ?thesis by blast
  qed
qed

lemma classified_view:
  assumes "deployment H view cap" "good_router view s"
  shows "view (world (classified_at H r s)) = view (world s)" "g_ingest (classified_at H r s) = g_ingest s"
proof -
  let ?s2 = "final (on_world (clock_gettime (svc H))) (final (on_world (integrity_refuses H r)) s)"
  note A = deployment_apart [OF assms(1)]
  have "view (world ?s2) = view (world s)" "g_ingest ?s2 = g_ingest s" "good_router view ?s2"
    using assms(2) readsD [OF integrity_reads [OF A]] readsD [OF apart_reads(12) [OF A]]
    by (simp_all add: final_on_world good_router_def)
  then show "view (world (classified_at H r s)) = view (world s)" "g_ingest (classified_at H r s) = g_ingest s"
    using classify_view [of view ?s2] by (simp_all add: classified_at_def final_classify split: option.split)
qed

lemma inserted_view:
  assumes "deployment H view cap" "good_router view s"
  shows "rows_from {} (view (world s)) (view (world (inserted_at H r s)))" "g_ingest (inserted_at H r s) = g_ingest s"
proof -
  note A = deployment_apart [OF assms(1)] and D = deployment_tables [OF assms(1)]
  have reads: "view (final (learning_fill_target_key H i) w) = view w" "view (final (session_id (svc H)) w) = view w"
    "view (final (db2_learning_signal_insert (db H) i sid) w) = view w" for w i sid
    by (rule readsD; intro fill_reads apart_reads tables_reads A D)+
  have "rows_from {} (view w) (view (final (insert_signal H r) w))" for w
    using expire_origins [OF D, of "{}", unfolded state_io_rel_final, rule_format, of "final (learning_fill_target_key H r) w"]
    by (simp add: insert_signal_def final_bind reads)
  from this [of "world (classified_at H r s)"]
  show "rows_from {} (view (world s)) (view (world (inserted_at H r s)))" "g_ingest (inserted_at H r s) = g_ingest s"
    using classified_view [OF assms, of r] by (simp_all add: inserted_at_def final_on_world)
qed

text \<open>
  C29. A signal that fails teaches nothing: when recording a signal returns -1, every row of the table that is
  there afterwards was there before with the same content, and the ingest meter has not counted it.
\<close>

theorem failed_signal_queues_nothing:
  assumes "deployment H view cap" "good_router view s"
    and "fst (outcome (learning_router_record_signal H raw out) s) = -1"
  shows "rows_from {} (view (world s)) (view (world (final (learning_router_record_signal H raw out) s))) \<and>
    g_ingest (final (learning_router_record_signal H raw out) s) = g_ingest s"
proof (cases "raw = None \<or> in_signal_type (the raw) = []")
  case True
  then show ?thesis
    by (auto simp: learning_router_record_signal_def rows_from_refl split: option.split)
next
  case False
  then obtain r where r: "raw = Some r" "in_signal_type r \<noteq> []"
    by auto
  then show ?thesis
    using failed_signal_ends [OF r(2) assms(3) [unfolded r(1)]] classified_view [OF assms(1,2), of r]
      inserted_view [OF assms(1,2), of r]
      readsD [OF integrity_reads [OF deployment_apart [OF assms(1)]]]
    by (auto simp: final_on_world rows_from_refl)
qed

lemma failed_signal_queues_nothing_witness:
  "rows_from {} (ref_view (world (ref_router [open_row])))
     (ref_view (world (final (learning_router_record_signal (ref_host 5 False) None None) (ref_router [open_row]))))"
  using failed_signal_queues_nothing [OF ref_deployment [of 5 False] ref_router_good, of None None "[open_row]"]
  by (simp add: learning_router_record_signal_def)

section \<open>Actions\<close>

lemma request_performed:
  assumes "json_laws (json H)" "exact_request (plat H) (json H) req" "0 < cap"
  shows "\<exists>t. build_request (plat H) (json H) req cap = Some (snprintf cap t) \<and>
    (\<forall>p. p_sink p = request_sink req \<longrightarrow> p_action_json p = snprintf cap t \<longrightarrow>
       learning_apply_sink H p =
         (if length t < cap then perform H (p_target_memory_id p) req else ret (-1)))"
proof -
  obtain t where t: "\<And>c. build_request (plat H) (json H) req c = Some (snprintf c t)"
    and fit: "\<And>c. length t < c \<Longrightarrow> \<exists>act. cJSON_Parse (json H) (snprintf c t) = Some act \<and>
       (\<forall>k. jfield (json H) act k = request_fields (plat H) (json H) req k)"
    and cut: "\<And>c. 0 < c \<Longrightarrow> c \<le> length t \<Longrightarrow> cJSON_Parse (json H) (snprintf c t) = None"
    by (rule request_stored [OF assms(1,2)]) blast
  have "learning_apply_sink H p = (if length t < cap then perform H (p_target_memory_id p) req else ret (-1))"
    if p: "p_sink p = request_sink req" "p_action_json p = snprintf cap t" for p
  proof (cases "length t < cap")
    case True
    then obtain act where a: "cJSON_Parse (json H) (snprintf cap t) = Some act"
        "\<And>k. jfield (json H) act k = request_fields (plat H) (json H) req k"
      using fit by blast
    have "learning_apply_sink H p = perform H (p_target_memory_id p) req"
      by (rule apply_fields [OF json_laws_exclusive [OF assms(1)] assms(2) a(2)]) (simp_all add: a(1) p)
    with True show ?thesis by simp
  next
    case False
    then show ?thesis
      using cut [OF assms(3)] p by (simp add: apply_unparsable)
  qed
  with t show ?thesis by blast
qed

lemma long_workflow_unusable:
  assumes "json_laws (json H)" "1022 \<le> length rule"
  shows "\<exists>act. build_request (plat H) (json H) (Upsert_Workflow project signal_type rule) 1024 = Some act \<and>
    (\<forall>p. p_sink p = ''workflow'' \<longrightarrow> p_action_json p = act \<longrightarrow> learning_apply_sink H p = ret (-1))"
proof -
  let ?r = "Upsert_Workflow project signal_type rule"
  obtain t where t: "\<And>c. build_request (plat H) (json H) ?r c = Some (snprintf c t)"
    and cut: "\<And>c. 0 < c \<Longrightarrow> c \<le> length t \<Longrightarrow> cJSON_Parse (json H) (snprintf c t) = None"
    and len: "\<And>k s. request_fields (plat H) (json H) ?r k = Some (JStr s) \<Longrightarrow> length s + 2 \<le> length t"
    by (rule request_stored [OF assms(1), of "plat H" ?r]) auto
  have "1024 \<le> length t"
    using len [of "''rule''" rule] assms(2) by simp
  then show ?thesis
    using t cut [of 1024] by (auto intro: apply_unparsable)
qed

lemma feedback_arguments:
  assumes "exact_ints (plat H)" "0 < i" "i \<le> 2 ^ 53"
  shows "perform H tid (Feedback b i refs) = memory_apply_feedback (svc H) (if b then 1 else 0) [i]"
proof -
  have "i64_of_dbl (plat H) (dbl_of_int (plat H) i) = i"
    using assms(2,3) by (intro i64_of_dbl_of_int [OF assms(1)]) simp
  then show ?thesis
    using assms(2) by (simp add: cited_ids_def)
qed

text \<open>
  C7. What is stored is what is asked for, as long as its numbers are exact as doubles: for each of the four
  requests the router can make, with the memory ids to supersede or cite integers of at most 2^53 in size (the code
  passes ids through doubles, which hold these exactly and may round larger ones) and a JSON library that keeps its
  documented laws, its allocations succeeding, the buffer of any size but 0 holds the JSON text as far as it fits. If the whole text fits,
  applying a proposal of that sink with the stored text makes exactly the call the request stands for, with
  its arguments (a feedback on a memory, for that memory); if it does not fit, the stored text does not parse
  and applying it returns -1 in every world without calling anything.
\<close>

theorem stored_action_is_performed:
  assumes "json_laws (json H)" "exact_request (plat H) (json H) req" "0 < cap"
  shows "\<exists>t. build_request (plat H) (json H) req cap = Some (snprintf cap t) \<and>
    (\<forall>p. p_sink p = request_sink req \<longrightarrow> p_action_json p = snprintf cap t \<longrightarrow>
       learning_apply_sink H p =
         (if length t < cap then perform H (p_target_memory_id p) req else ret (-1)) \<and>
       (\<forall>b i refs. req = Feedback b i refs \<longrightarrow> exact_ints (plat H) \<longrightarrow> 0 < i \<longrightarrow> i \<le> 2 ^ 53 \<longrightarrow> length t < cap \<longrightarrow>
          learning_apply_sink H p = memory_apply_feedback (svc H) (if b then 1 else 0) [i]))"
  using request_performed [OF assms] feedback_arguments by metis

lemma stored_action_is_performed_witness:
  "\<exists>t. build_request exact_platform ref_json (Propose_Rule ''prefer tabs'' ''said so'') 2048 = Some (snprintf 2048 t) \<and>
    learning_apply_sink (ref_host 5 False) (zero_proposal\<lparr>p_sink := ''rule'', p_action_json := snprintf 2048 t\<rparr>) =
      (if length t < 2048 then perform (ref_host 5 False) 0 (Propose_Rule ''prefer tabs'' ''said so'') else ret (-1))"
  using stored_action_is_performed [of "ref_host 5 False" "Propose_Rule ''prefer tabs'' ''said so''" 2048]
  by (auto simp: ref_json_laws zero_proposal_def)

text \<open>
  C36. A long workflow rule is lost: a signal with a workflow project, a workflow signal type and a
  description of 1022 characters or more, which \<open>learning_signal_input_t\<close> can hold, is queued by the workflow
  block of the dispatch whenever the mask has the workflow sink, with an action for which
  \<open>learning_apply_sink\<close> returns -1 without calling anything, whatever the other fields of the proposal
  are: its JSON text does not fit the 1024 bytes the block renders it into. So every row of the table after the block either was
  there before or can never be applied. (In a deployment that keeps the contracts of the tables, with a JSON
  library that keeps its documented laws, its allocations succeeding.)
\<close>

theorem long_workflow_action_is_lost:
  assumes "deployment H view cap" "json_laws (json H)" "m AND AIMEE_LEARNING_SINK_WORKFLOW \<noteq> 0"
    and "in_workflow_project i \<noteq> []" "in_workflow_signal_type i \<noteq> []" "1022 \<le> length (in_description i)"
  shows "\<exists>act.
    signal_workflow H m sid i out =
      learning_queue_sink H sid ''workflow'' (in_workflow_project i) 0 act (in_evidence_refs_json i) False out \<bind>
        (\<lambda>r. ret (snd r)) \<and>
    (\<forall>p. p_sink p = ''workflow'' \<longrightarrow> p_action_json p = act \<longrightarrow> learning_apply_sink H p = ret (-1)) \<and>
    (\<forall>w j q. rows (view (final (signal_workflow H m sid i out) w)) j = Some q \<longrightarrow>
       (\<exists>p. rows (view w) j = Some p \<and> same_origin p q) \<or> learning_apply_sink H q = ret (-1))"
proof -
  let ?r = "Upsert_Workflow (in_workflow_project i) (in_workflow_signal_type i) (in_description i)"
  obtain act where act: "build_request (plat H) (json H) ?r 1024 = Some act"
      "\<And>p. p_sink p = ''workflow'' \<Longrightarrow> p_action_json p = act \<Longrightarrow> learning_apply_sink H p = ret (-1)"
    using long_workflow_unusable [OF assms(2,6)] by blast
  let ?q = "learning_queue_sink H sid ''workflow'' (in_workflow_project i) 0 act (in_evidence_refs_json i) False out \<bind>
    (\<lambda>r. ret (snd r))"
  have "in_description i \<noteq> []"
    using assms(6) by auto
  then have run: "signal_workflow H m sid i out = ?q"
    using assms(3-5) act(1) by (simp add: signal_workflow_def queue_action_def)
  have "origin_of view {(''workflow'', in_workflow_project i, 0, act)} ?q"
    by (intro origins.eff_rules queue_origins [OF assms(1)]) simp
  then have "rows_from {(''workflow'', in_workflow_project i, 0, act)} (view w) (view (final ?q w))" for w
    by (simp add: state_io_rel_final)
  then have "(\<exists>p. rows (view w) j = Some p \<and> same_origin p q) \<or> learning_apply_sink H q = ret (-1)"
    if "rows (view (final ?q w)) j = Some q" for w j q
    using that act(2) [of q] unfolding rows_from_def content_def by fastforce
  then show ?thesis
    using run act(2) by auto
qed

definition long_workflow_input :: signal_input where
  "long_workflow_input = zero_input\<lparr>in_signal_type := ''workflow_repetition'', in_workflow_project := ''p'',
     in_workflow_signal_type := ''build'', in_description := replicate 1023 (CHR ''x'')\<rparr>"

lemma long_workflow_action_is_lost_witness:
  "fits 1024 (in_description long_workflow_input) \<and>
   (\<exists>act. signal_workflow (ref_host 5 False) AIMEE_LEARNING_SINK_WORKFLOW 1 long_workflow_input None =
      learning_queue_sink (ref_host 5 False) 1 ''workflow'' ''p'' 0 act None False None \<bind> (\<lambda>r. ret (snd r)) \<and>
     learning_apply_sink (ref_host 5 False) (zero_proposal\<lparr>p_sink := ''workflow'', p_action_json := act\<rparr>) = ret (-1))"
proof
  show "fits 1024 (in_description long_workflow_input)"
    by (simp add: long_workflow_input_def fits_def)
  have i: "in_workflow_project long_workflow_input = ''p''" "in_workflow_signal_type long_workflow_input = ''build''"
    "length (in_description long_workflow_input) = 1023" "in_evidence_refs_json long_workflow_input = None"
    by (simp_all add: long_workflow_input_def zero_input_def)
  show "\<exists>act. signal_workflow (ref_host 5 False) AIMEE_LEARNING_SINK_WORKFLOW 1 long_workflow_input None =
      learning_queue_sink (ref_host 5 False) 1 ''workflow'' ''p'' 0 act None False None \<bind> (\<lambda>r. ret (snd r)) \<and>
     learning_apply_sink (ref_host 5 False) (zero_proposal\<lparr>p_sink := ''workflow'', p_action_json := act\<rparr>) = ret (-1)"
    using long_workflow_action_is_lost [OF ref_deployment [of 5 False], of AIMEE_LEARNING_SINK_WORKFLOW
        long_workflow_input 1 None]
    by (auto simp: i ref_json_laws AIMEE_LEARNING_SINK_WORKFLOW_def zero_proposal_def)
qed



text \<open>
  C23. The expiry of a proposal is the time it says: the broken-down time that is printed lies in the ranges
  of its fields, denotes exactly the instant \<open>days\<close> days after the clock's reading, and for the years 1000
  to 9999 its text has nineteen characters, so that it fits the 32 bytes it is printed into.
\<close>

theorem expiry_is_exact:
  assumes "outcome (time_now (svc H)) w = now"
    and "x = gmtime (now + days * 86400)" "1000 \<le> tm_year x" "tm_year x \<le> 9999"
  shows "outcome (learning_expiry_after_days H days 32) w = stamp x \<and> length (stamp x) = 19 \<and>
    valid_tm x \<and> timegm x = now + days * 86400"
  using assms gmtime_correct [of "now + days * 86400"] stamp_length [of x]
  by (simp add: learning_expiry_after_days_def outcome_bind strftime_stamp_def)

lemma expiry_is_exact_witness:
  "outcome (learning_expiry_after_days (ref_host 5 False) 7 32) empty_world = ''2023-11-21 22:13:20''"
proof -
  have g: "gmtime 1700604800 = \<lparr>tm_year = 2023, tm_mon = 10, tm_mday = 21, tm_hour = 22,
      tm_min = 13, tm_sec = 20\<rparr>"
    by code_simp
  have "stamp \<lparr>tm_year = 2023, tm_mon = 10, tm_mday = 21, tm_hour = 22, tm_min = 13, tm_sec = 20\<rparr> =
      ''2023-11-21 22:13:20''"
    by code_simp
  then show ?thesis
    using expiry_is_exact [of "ref_host 5 False" empty_world 1700000000 "gmtime 1700604800" 7]
    by (simp add: g ref_svc_def)
qed

end
