(* ===== verification/Router_Progress.thy ===== *)
theory Router_Progress
  imports Router_Properties
begin

text \<open>
  Progress: what the proposal gate does commit. The contracts of \<open>Proposal_Store\<close> let every write fail;
  here the tables work, nothing is due to expire, and the sink takes the action.
\<close>

section \<open>Tables that work\<close>

definition working_tables :: "'w db2_learning \<Rightarrow> ('w \<Rightarrow> pstore) \<Rightarrow> bool" where
  "working_tables D view \<longleftrightarrow> reads view (db2_learning_proposals_archive_expired D) \<and>
     (\<forall>i b w p. rows (view w) i = Some p \<longrightarrow> outcome (db2_learning_proposal_get D i b) w = (0, p)) \<and>
     (\<forall>i w p. rows (view w) i = Some p \<longrightarrow> pending p \<longrightarrow>
        (\<exists>q. bumped_from p q \<and> rows (view (final (db2_learning_proposal_bump_corroboration D i) w)) i = Some q)) \<and>
     (\<forall>i w p. rows (view w) i = Some p \<longrightarrow> pending p \<longrightarrow>
        (\<exists>q. committed_from p q \<and> rows (view (final (db2_learning_proposal_mark_committed D i) w)) i = Some q))"

text \<open>There is room for another commit of this sink, and the sink takes the action, in any world in which
  the row is what it is.\<close>

definition takes_action :: "('w, 'j) host \<Rightarrow> ('w \<Rightarrow> pstore) \<Rightarrow> int \<Rightarrow> proposal \<Rightarrow> 'w \<Rightarrow> bool" where
  "takes_action H view i p w \<longleftrightarrow> (\<forall>w' q. rows (view w') i = Some q \<longrightarrow> same_origin p q \<longrightarrow>
     no_new_commits (view w) (view w') \<longrightarrow>
     week_commits (view w') (p_sink q) < learning_max_commits_per_week H w' \<and>
     outcome (learning_apply_sink H q) w' = 0)"

lemma takes_action_later:
  assumes "takes_action H view i p w" "same_origin p q" "no_new_commits (view w) (view w')"
  shows "takes_action H view i q w'"
  unfolding takes_action_def
proof (intro allI impI)
  fix w'' r
  assume "rows (view w'') i = Some r" "same_origin q r" "no_new_commits (view w') (view w'')"
  moreover from this(3) assms(3) have "no_new_commits (view w) (view w'')"
    unfolding no_new_commits_def by (blast intro: order_trans)
  ultimately show "week_commits (view w'') (p_sink r) < learning_max_commits_per_week H w'' \<and>
      outcome (learning_apply_sink H r) w'' = 0"
    using assms(1) same_origin_trans [OF assms(2)] unfolding takes_action_def by blast
qed

lemma working_get:
  assumes "proposal_tables (db H) view" "working_tables (db H) view"
  shows "rows (view w) i = Some p \<Longrightarrow> outcome (learning_get_proposal H i b) w = (0, p)"
    and "view (final (learning_get_proposal H i b) w) = view w"
  using assms tables_reads(2) [OF assms(1)]
  by (auto simp: working_tables_def learning_get_proposal_def outcome_bind final_bind reads_def)

lemma commit_progress:
  assumes "deployment H view cap" "working_tables (db H) view" "rows (view w) i = Some p" "pending p"
    and "takes_action H view i p w"
  shows "\<exists>q. committed_from p q \<and>
    outcome (learning_commit_proposal H i out) w = (0, map_option (\<lambda>_. q) out) \<and>
    rows (view (final (learning_commit_proposal H i out) w)) i = Some q"
proof -
  note D = deployment_tables [OF assms(1)] and A = deployment_apart [OF assms(1)]
  note get = working_get [OF D assms(2)]
  let ?w1 = "final (learning_get_proposal H i zero_proposal) w"
  let ?w2 = "final (db2_learning_commits_in_last_7_days (db H) (p_sink p)) ?w1"
  let ?w3 = "final (learning_apply_sink H p) ?w2"
  let ?w4 = "final (db2_learning_proposal_mark_committed (db H) i) ?w3"
  have v: "view ?w1 = view w" "view ?w2 = view w" "view ?w3 = view w"
    using get(2) readsD [OF tables_reads(4) [OF D]] readsD [OF apply_sink_reads [OF A]] by simp_all
  have now: "week_commits (view w) (p_sink p) < learning_max_commits_per_week H ?w2"
    "outcome (learning_apply_sink H p) ?w2 = 0"
    using assms(5) [unfolded takes_action_def, rule_format, of ?w2 p] assms(3) v
    by (simp_all add: same_origin_refl no_new_commits_def)
  obtain q where q: "committed_from p q" "rows (view ?w4) i = Some q"
    using assms(2,3,4) v(3) unfolding working_tables_def by metis
  have "outcome (learning_get_proposal H i b) ?w4 = (0, q)"
      "rows (view (final (learning_get_proposal H i b) ?w4)) i = Some q" for b
    using get(1) [OF q(2)] get(2) q(2) by simp_all
  moreover have "p_state p = ''pending''"
    using assms(4) by (simp add: pending_def)
  ultimately show ?thesis
    using q(1) get(1) [OF assms(3)] now v
    by (intro exI [of _ q])
       (simp add: learning_commit_proposal_def get_into_def outcome_bind final_bind Let_def tables_commits [OF D])
qed

text \<open>
  C4. What can be learnt is learnt: while the tables work, nothing expires, the week has room for
  another commit of the sink and the sink takes the action, accepting a pending proposal returns 0 and
  commits it, with nothing else of it changed; and queueing a proposal whose sink, key and memory id are those of a pending
  one that has been seen before commits that one, and reports it if the report has room.
\<close>

theorem learnable_is_learnt:
  assumes "deployment H view cap" "working_tables (db H) view" "rows (view w) i = Some p" "pending p"
    and "takes_action H view i p w" "0 < i"
  shows "(\<exists>q. committed_from p q \<and>
      outcome (learning_accept_proposal H i out) w = (0, map_option (\<lambda>_. q) out) \<and>
      rows (view (final (learning_accept_proposal H i out) w)) i = Some q) \<and>
    (outcome (db2_learning_proposal_find_pending (db H) sink key mid) w = i \<longrightarrow> 1 \<le> p_corroboration_count p \<longrightarrow>
      (\<exists>q. p_state q = ''committed'' \<and> same_origin p q \<and>
        rows (view (final (learning_queue_sink H sid sink key mid act refs hc d) w)) i = Some q) \<and>
      outcome (learning_queue_sink H sid sink key mid act refs hc d) w = (i, add_committed_id i (add_proposal_id i d)))"
proof (intro conjI impI)
  note D = deployment_tables [OF assms(1)]
  let ?e = "final (db2_learning_proposals_archive_expired (db H)) w"
  have e: "view ?e = view w"
    using assms(2) by (simp add: working_tables_def readsD)
  have "takes_action H view i p ?e"
    using assms(5) unfolding takes_action_def e .
  then show "\<exists>q. committed_from p q \<and>
      outcome (learning_accept_proposal H i out) w = (0, map_option (\<lambda>_. q) out) \<and>
      rows (view (final (learning_accept_proposal H i out) w)) i = Some q"
    using commit_progress [OF assms(1,2), of ?e i p out] assms(3,4,6) e
    by (simp add: learning_accept_proposal_def outcome_bind final_bind)
next
  note D = deployment_tables [OF assms(1)]
  assume found: "outcome (db2_learning_proposal_find_pending (db H) sink key mid) w = i"
    and seen: "1 \<le> p_corroboration_count p"
  let ?w1 = "final (db2_learning_proposal_find_pending (db H) sink key mid) w"
  let ?w2 = "final (db2_learning_proposal_bump_corroboration (db H) i) ?w1"
  let ?w3 = "final (learning_get_proposal H i zero_proposal) ?w2"
  have v1: "view ?w1 = view w"
    by (rule readsD [OF tables_reads(1) [OF D]])
  obtain q where q: "bumped_from p q" "rows (view ?w2) i = Some q"
    using assms(2,3,4) v1 unfolding working_tables_def by metis
  have b: "same_origin p q" "pending q" "2 \<le> p_corroboration_count q"
    using q(1) bumped_fields [OF q(1)] assms(4) seen by (auto simp: same_origin_def pending_def)
  have "no_new_commits (view ?w1) (view ?w2)"
    using tables_bump [OF D, of i, unfolded row_write_def, rule_format, of ?w1] by (auto simp: no_new_commits_def)
  then have "takes_action H view i q ?w3"
    using v1 working_get(2) [OF D assms(2)] by (intro takes_action_later [OF assms(5) b(1)]) simp
  then obtain r where r: "committed_from q r"
      "outcome (learning_commit_proposal H i (Some q)) ?w3 = (0, Some r)"
      "rows (view (final (learning_commit_proposal H i (Some q)) ?w3)) i = Some r"
    using commit_progress [OF assms(1,2), of ?w3 i q "Some q"] q(2) b(2) working_get(2) [OF D assms(2)] by auto
  then have r': "p_state r = ''committed''" "same_origin p r"
    using committed_fields [OF r(1)] same_origin_trans [OF b(1)] by (auto simp: same_origin_def)
  have g: "outcome (learning_get_proposal H i zero_proposal) ?w2 = (0, q)"
    by (rule working_get(1) [OF D assms(2) q(2)])
  show "(\<exists>q. p_state q = ''committed'' \<and> same_origin p q \<and>
        rows (view (final (learning_queue_sink H sid sink key mid act refs hc d) w)) i = Some q)"
    "outcome (learning_queue_sink H sid sink key mid act refs hc d) w = (i, add_committed_id i (add_proposal_id i d))"
    using r r' g b(3) assms(6)
    by (simp_all add: learning_queue_sink_def commit_and_report_def outcome_bind final_bind Let_def found)
qed

section \<open>In the reference world\<close>

definition calm_host :: "(ref_world, ref_node) host" where
  "calm_host = (ref_host 5 False)\<lparr>db := ref_db\<lparr>db2_learning_proposals_archive_expired := ret ()\<rparr>\<rparr>"

lemma calm_fields:
  "db calm_host = ref_db\<lparr>db2_learning_proposals_archive_expired := ret ()\<rparr>" "svc calm_host = ref_svc"
  "json calm_host = ref_json" "plat calm_host = exact_platform" "cfg calm_host = ref_cfg 5 False"
  by (simp_all add: calm_host_def ref_host_def)

lemma calm_deployment: "deployment calm_host ref_view 5"
proof -
  have "expire_law (db calm_host) ref_view"
    by (simp add: calm_fields expire_law_def no_new_commits_def)
  moreover have "find_law (db calm_host) ref_view" "write_laws (db calm_host) ref_view" "insert_law (db calm_host) ref_view"
      "read_laws (db calm_host) ref_view" "answer_laws (db calm_host) ref_view"
    using ref_find_law ref_write_laws ref_insert_law ref_read_laws
    by (simp_all add: calm_fields find_law_def write_laws_def insert_law_def read_laws_def answer_laws_def)
  ultimately show ?thesis
    by (simp add: deployment_def proposal_tables_def calm_fields ref_apart learning_max_commits_per_week_def ref_cfg_def)
qed

lemma calm_works: "working_tables (db calm_host) ref_view"
  by (auto simp: working_tables_def calm_fields ref_fields_db reads_def ref_view_def update_row_def bumped_from_def
      bumped_row_def committed_from_def committed_now_def row_at_update)

lemma calm_takes_action: "takes_action calm_host ref_view 1 open_row (empty_world\<lparr>rw_rows := [open_row]\<rparr>)"
  unfolding takes_action_def
proof (intro allI impI conjI)
  fix w q
  assume o: "same_origin open_row q" and n: "no_new_commits (ref_view (empty_world\<lparr>rw_rows := [open_row]\<rparr>)) (ref_view w)"
  have "week_commits (ref_view w) k \<le> 0" for k
    using n [unfolded no_new_commits_def, rule_format, of k] by (simp add: ref_view_def open_row_def)
  from this [of "p_sink q"] show "week_commits (ref_view w) (p_sink q) < learning_max_commits_per_week calm_host w"
    by (simp add: learning_max_commits_per_week_def calm_fields ref_cfg_def)
  show "outcome (learning_apply_sink calm_host q) w = 0"
    using o by (simp add: same_origin_def learning_apply_sink_def open_row_def empty_action_def calm_fields ref_parse_print)
qed

lemma learnable_is_learnt_witness:
  "\<exists>q. committed_from open_row q \<and>
     outcome (learning_accept_proposal calm_host 1 None) (empty_world\<lparr>rw_rows := [open_row]\<rparr>) = (0, None) \<and>
     rows (ref_view (final (learning_accept_proposal calm_host 1 None) (empty_world\<lparr>rw_rows := [open_row]\<rparr>))) 1 = Some q"
proof -
  have "rows (ref_view (empty_world\<lparr>rw_rows := [open_row]\<rparr>)) 1 = Some open_row"
    by (simp add: ref_view_def row_at_def)
  moreover have "pending open_row"
    by (simp add: open_row_def pending_def)
  ultimately show ?thesis
    using learnable_is_learnt [OF calm_deployment calm_works _ _ calm_takes_action, of None] by simp
qed

end
