(* ===== verification/Proposal_Json.thy ===== *)
theory Proposal_Json
  imports Router_Actions Reference_Json
begin

text \<open>
  Proposals and dispatch results as JSON, in \<open>learning_router.c\<close>: \<open>learning_proposal_to_json\<close> and
  \<open>learning_proposal_from_json\<close>, which the server and its clients exchange proposals with, and
  \<open>learning_dispatch_result_to_json\<close>. The printed form of a proposal reads back as the same proposal,
  and whatever is read fits the arrays of the struct.
\<close>

section \<open>Writing\<close>

definition learning_proposal_to_json ::
    "platform \<Rightarrow> 'j cjson \<Rightarrow> proposal option \<Rightarrow> 'j option" where
  "learning_proposal_to_json P J proposal =
     (case proposal of
        None \<Rightarrow> None
      | Some p \<Rightarrow>
          (case cJSON_CreateObject J of
             None \<Rightarrow> None
           | Some obj \<Rightarrow>
               (let obj = cJSON_AddNumberToObject J obj ''id'' (dbl_of_int P (p_id p));
                    obj = cJSON_AddNumberToObject J obj ''signal_id'' (dbl_of_int P (p_signal_id p));
                    obj = cJSON_AddStringToObject J obj ''sink'' (p_sink p);
                    obj = cJSON_AddStringToObject J obj ''state'' (p_state p);
                    obj = cJSON_AddStringToObject J obj ''target_key'' (p_target_key p);
                    obj = cJSON_AddNumberToObject J obj ''target_memory_id''
                            (dbl_of_int P (p_target_memory_id p));
                    obj = cJSON_AddStringToObject J obj ''action_json'' (p_action_json p);
                    obj = cJSON_AddStringToObject J obj ''evidence_refs'' (p_evidence_refs p);
                    obj = cJSON_AddNumberToObject J obj ''corroboration_count''
                            (dbl_of_int P (p_corroboration_count p));
                    obj = cJSON_AddStringToObject J obj ''expires_at'' (p_expires_at p);
                    obj = cJSON_AddStringToObject J obj ''committed_at'' (p_committed_at p);
                    obj = cJSON_AddStringToObject J obj ''archive_reason'' (p_archive_reason p);
                    obj = cJSON_AddStringToObject J obj ''created_at'' (p_created_at p);
                    obj = cJSON_AddStringToObject J obj ''updated_at'' (p_updated_at p)
                in Some obj)))"

definition learning_dispatch_result_to_json ::
    "platform \<Rightarrow> 'j cjson \<Rightarrow> dispatch_result option \<Rightarrow> 'j option" where
  "learning_dispatch_result_to_json P J result =
     (case result of
        None \<Rightarrow> None
      | Some d \<Rightarrow>
          (case cJSON_CreateObject J of
             None \<Rightarrow> None
           | Some obj \<Rightarrow>
               (let obj = cJSON_AddNumberToObject J obj ''signal_id'' (dbl_of_int P (d_signal_id d));
                    obj = cj_add_array J obj ''proposal_ids''
                            (create_numbers J (map (dbl_of_int P)
                               (map ((!) (d_proposal_ids d)) [0..<d_proposal_count d])));
                    obj = cj_add_array J obj ''committed_ids''
                            (create_numbers J (map (dbl_of_int P)
                               (map ((!) (d_committed_ids d)) [0..<d_committed_count d])))
                in Some obj)))"

section \<open>Reading\<close>

definition ljson_copy_str :: "'j cjson \<Rightarrow> 'j \<Rightarrow> string \<Rightarrow> nat \<Rightarrow> string" where
  "ljson_copy_str J obj key cap =
     (let item = cJSON_GetObjectItemCaseSensitive J obj key in
      if json_is (cJSON_IsString J) item then snprintf cap (valuestring J (the item)) else [])"

text \<open>The result and the new contents of \<open>out\<close>.\<close>

definition learning_proposal_from_json ::
    "platform \<Rightarrow> 'j cjson \<Rightarrow> 'j option \<Rightarrow> proposal option \<Rightarrow> int \<times> proposal option" where
  "learning_proposal_from_json P J obj out =
     (if obj = None \<or> out = None then (-1, out)
      else
        (let src = the obj;
             id_j = cJSON_GetObjectItemCaseSensitive J src ''id'';
             sig_j = cJSON_GetObjectItemCaseSensitive J src ''signal_id'';
             mem_j = cJSON_GetObjectItemCaseSensitive J src ''target_memory_id'';
             cor_j = cJSON_GetObjectItemCaseSensitive J src ''corroboration_count''
         in if \<not> json_is (cJSON_IsNumber J) id_j then (-1, Some zero_proposal)
            else (0, Some \<lparr>
              p_id = i32_of_dbl P (valuedouble J (the id_j)),
              p_signal_id = (if json_is (cJSON_IsNumber J) sig_j
                             then i32_of_dbl P (valuedouble J (the sig_j)) else 0),
              p_sink = ljson_copy_str J src ''sink'' 32,
              p_state = ljson_copy_str J src ''state'' 16,
              p_target_key = ljson_copy_str J src ''target_key'' 256,
              p_target_memory_id = (if json_is (cJSON_IsNumber J) mem_j
                                    then i64_of_dbl P (valuedouble J (the mem_j)) else 0),
              p_action_json = ljson_copy_str J src ''action_json'' 2048,
              p_evidence_refs = ljson_copy_str J src ''evidence_refs'' 1024,
              p_corroboration_count = (if json_is (cJSON_IsNumber J) cor_j
                                       then i32_of_dbl P (valuedouble J (the cor_j)) else 0),
              p_expires_at = ljson_copy_str J src ''expires_at'' 32,
              p_committed_at = ljson_copy_str J src ''committed_at'' 32,
              p_archive_reason = ljson_copy_str J src ''archive_reason'' 64,
              p_created_at = ljson_copy_str J src ''created_at'' 32,
              p_updated_at = ljson_copy_str J src ''updated_at'' 32\<rparr>)))"

section \<open>Fields\<close>

definition proposal_fields :: "platform \<Rightarrow> proposal \<Rightarrow> (string \<times> jval) list" where
  "proposal_fields P p =
     [(''id'', JNum (dbl_of_int P (p_id p))), (''signal_id'', JNum (dbl_of_int P (p_signal_id p))),
      (''sink'', JStr (p_sink p)), (''state'', JStr (p_state p)), (''target_key'', JStr (p_target_key p)),
      (''target_memory_id'', JNum (dbl_of_int P (p_target_memory_id p))),
      (''action_json'', JStr (p_action_json p)), (''evidence_refs'', JStr (p_evidence_refs p)),
      (''corroboration_count'', JNum (dbl_of_int P (p_corroboration_count p))),
      (''expires_at'', JStr (p_expires_at p)), (''committed_at'', JStr (p_committed_at p)),
      (''archive_reason'', JStr (p_archive_reason p)), (''created_at'', JStr (p_created_at p)),
      (''updated_at'', JStr (p_updated_at p))]"

text \<open>An object under construction: its fields so far.\<close>

definition holds :: "'j cjson \<Rightarrow> 'j \<Rightarrow> (string \<times> jval) list \<Rightarrow> bool" where
  "holds J obj fs \<longleftrightarrow> built J obj \<and> (\<forall>k. jfield J obj k = map_of fs k)"

lemma holds_created:
  assumes "json_laws J"
  obtains obj where "cJSON_CreateObject J = Some obj" "holds J obj []"
  by (rule created [OF assms]) (simp add: holds_def)

lemma holds_string:
  "json_laws J \<Longrightarrow> holds J obj fs \<Longrightarrow> map_of fs k = None \<Longrightarrow>
   holds J (cJSON_AddStringToObject J obj k s) (fs @ [(k, JStr s)])"
  by (auto simp: holds_def added(1) map_add_def intro: built.intros split: option.split)

lemma holds_number:
  "json_laws J \<Longrightarrow> holds J obj fs \<Longrightarrow> map_of fs k = None \<Longrightarrow> portable d \<Longrightarrow>
   holds J (cJSON_AddNumberToObject J obj k d) (fs @ [(k, JNum d)])"
  by (auto simp: holds_def added(3) map_add_def intro: built.intros split: option.split)

lemma holds_numbers:
  "json_laws J \<Longrightarrow> holds J obj fs \<Longrightarrow> map_of fs k = None \<Longrightarrow> list_all portable ds \<Longrightarrow>
   holds J (cj_add_array J obj k (create_numbers J ds)) (fs @ [(k, JArr ds)])"
  by (auto simp: holds_def added(4) create_numbers_items create_numbers_numbers map_add_def
      intro: built.intros split: option.split)

lemma to_json_holds:
  assumes "json_laws J" "exact_ints P" "wf_proposal p" "\<bar>p_target_memory_id p\<bar> \<le> 2 ^ 53"
  obtains obj where "learning_proposal_to_json P J (Some p) = Some obj" "holds J obj (proposal_fields P p)"
proof -
  have n: "portable (dbl_of_int P i)" if "in_i32 i \<or> \<bar>i\<bar> \<le> 2 ^ 53" for i
    by (rule portable_id [OF assms(2)]) (use that in \<open>auto simp: in_i32_def\<close>)
  have w: "in_i32 (p_id p)" "in_i32 (p_signal_id p)" "in_i32 (p_corroboration_count p)"
    using assms(3) by (simp_all add: wf_proposal_def)
  obtain obj where o: "cJSON_CreateObject J = Some obj" "holds J obj []"
    by (rule holds_created [OF assms(1)]) blast
  note step = holds_number [OF assms(1)] holds_string [OF assms(1)]
  show thesis
  proof (rule that)
    show "learning_proposal_to_json P J (Some p) = Some (the (learning_proposal_to_json P J (Some p)))"
      by (simp add: learning_proposal_to_json_def o(1) Let_def)
    have "holds J (the (learning_proposal_to_json P J (Some p))) ([] @
       [(''id'', JNum (dbl_of_int P (p_id p)))] @ [(''signal_id'', JNum (dbl_of_int P (p_signal_id p)))] @
       [(''sink'', JStr (p_sink p))] @ [(''state'', JStr (p_state p))] @
       [(''target_key'', JStr (p_target_key p))] @
       [(''target_memory_id'', JNum (dbl_of_int P (p_target_memory_id p)))] @
       [(''action_json'', JStr (p_action_json p))] @ [(''evidence_refs'', JStr (p_evidence_refs p))] @
       [(''corroboration_count'', JNum (dbl_of_int P (p_corroboration_count p)))] @
       [(''expires_at'', JStr (p_expires_at p))] @ [(''committed_at'', JStr (p_committed_at p))] @
       [(''archive_reason'', JStr (p_archive_reason p))] @ [(''created_at'', JStr (p_created_at p))] @
       [(''updated_at'', JStr (p_updated_at p))])"
      unfolding learning_proposal_to_json_def o(1) option.case Let_def option.sel append_assoc [symmetric]
      by (intro step o(2) n) (use w assms(4) in simp_all)
    then show "holds J (the (learning_proposal_to_json P J (Some p))) (proposal_fields P p)"
      by (simp add: proposal_fields_def)
  qed
qed

section \<open>The round trip\<close>

lemma copy_str_field:
  assumes "json_exclusive J" "jfield J obj k = Some (JStr s)"
  shows "ljson_copy_str J obj k cap = snprintf cap s"
proof -
  obtain v where "cJSON_GetObjectItemCaseSensitive J obj k = Some v" "cJSON_IsString J v" "valuestring J v = s"
    by (rule string_of_field [OF assms])
  then show ?thesis by (simp add: ljson_copy_str_def)
qed

lemma number_field_read:
  assumes "json_exclusive J" "jfield J obj k = Some (JNum d)"
  shows "json_is (cJSON_IsNumber J) (cJSON_GetObjectItemCaseSensitive J obj k)"
    "valuedouble J (the (cJSON_GetObjectItemCaseSensitive J obj k)) = d"
proof -
  obtain v where "cJSON_GetObjectItemCaseSensitive J obj k = Some v" "cJSON_IsNumber J v" "valuedouble J v = d"
    by (rule number_of_field [OF assms])
  then show "json_is (cJSON_IsNumber J) (cJSON_GetObjectItemCaseSensitive J obj k)"
    "valuedouble J (the (cJSON_GetObjectItemCaseSensitive J obj k)) = d"
    by simp_all
qed

lemma from_json_reads:
  assumes ex: "json_exclusive J" and "exact_ints P" "wf_proposal p" "\<bar>p_target_memory_id p\<bar> \<le> 2 ^ 53"
    and f: "\<And>k. jfield J obj k = map_of (proposal_fields P p) k"
  shows "learning_proposal_from_json P J (Some obj) (Some b) = (0, Some p)"
proof -
  have s: "ljson_copy_str J obj k cap = s"
    if "jfield J obj k = Some (JStr s)" "length s < cap" for k s cap
    using copy_str_field [OF ex that(1)] that(2) by (simp add: snprintf_id)
  have texts: "ljson_copy_str J obj ''sink'' 32 = p_sink p" "ljson_copy_str J obj ''state'' 16 = p_state p"
    "ljson_copy_str J obj ''target_key'' 256 = p_target_key p"
    "ljson_copy_str J obj ''action_json'' 2048 = p_action_json p"
    "ljson_copy_str J obj ''evidence_refs'' 1024 = p_evidence_refs p"
    "ljson_copy_str J obj ''expires_at'' 32 = p_expires_at p"
    "ljson_copy_str J obj ''committed_at'' 32 = p_committed_at p"
    "ljson_copy_str J obj ''archive_reason'' 64 = p_archive_reason p"
    "ljson_copy_str J obj ''created_at'' 32 = p_created_at p"
    "ljson_copy_str J obj ''updated_at'' 32 = p_updated_at p"
    using assms(3) by (intro s; simp add: f proposal_fields_def wf_proposal_def fits_def)+
  have numbers: "jfield J obj ''id'' = Some (JNum (dbl_of_int P (p_id p)))"
    "jfield J obj ''signal_id'' = Some (JNum (dbl_of_int P (p_signal_id p)))"
    "jfield J obj ''target_memory_id'' = Some (JNum (dbl_of_int P (p_target_memory_id p)))"
    "jfield J obj ''corroboration_count'' = Some (JNum (dbl_of_int P (p_corroboration_count p)))"
    by (simp_all add: f proposal_fields_def)
  have ints: "i32_of_dbl P (dbl_of_int P (p_id p)) = p_id p"
    "i32_of_dbl P (dbl_of_int P (p_signal_id p)) = p_signal_id p"
    "i32_of_dbl P (dbl_of_int P (p_corroboration_count p)) = p_corroboration_count p"
    "i64_of_dbl P (dbl_of_int P (p_target_memory_id p)) = p_target_memory_id p"
    using assms(2-4) by (simp_all add: i32_of_dbl_of_int i64_of_dbl_of_int wf_proposal_def)
  show ?thesis
    by (simp add: learning_proposal_from_json_def Let_def texts number_field_read [OF ex numbers(1)]
        number_field_read [OF ex numbers(2)] number_field_read [OF ex numbers(3)]
        number_field_read [OF ex numbers(4)] ints)
qed

lemma proposal_fields_portable:
  assumes "exact_ints P" "wf_proposal p" "\<bar>p_target_memory_id p\<bar> \<le> 2 ^ 53"
    "map_of (proposal_fields P p) k = Some v"
  shows "portable_val v"
proof -
  have n: "portable (dbl_of_int P i)" if "in_i32 i \<or> \<bar>i\<bar> \<le> 2 ^ 53" for i
    by (rule portable_id [OF assms(1)]) (use that in \<open>auto simp: in_i32_def\<close>)
  have "(k, v) \<in> set (proposal_fields P p)"
    using assms(4) by (rule map_of_SomeD)
  then show ?thesis
    using assms(2,3) n unfolding proposal_fields_def wf_proposal_def by auto
qed

text \<open>
  C19. A proposal survives its JSON form: whatever \<open>learning_proposal_to_json\<close> builds prints to a text
  that parses, and \<open>learning_proposal_from_json\<close> reads the same proposal from it, for every proposal that
  fits its struct and whose memory id a double represents.
\<close>

theorem proposal_json_roundtrip:
  assumes "json_laws J" "exact_ints P" "wf_proposal p" "\<bar>p_target_memory_id p\<bar> \<le> 2 ^ 53"
  shows "\<exists>obj t obj'. learning_proposal_to_json P J (Some p) = Some obj \<and>
    cJSON_PrintUnformatted J obj = Some t \<and> cJSON_Parse J t = Some obj' \<and>
    learning_proposal_from_json P J (Some obj') (Some b) = (0, Some p)"
proof -
  obtain obj where o: "learning_proposal_to_json P J (Some p) = Some obj" "holds J obj (proposal_fields P p)"
    by (rule to_json_holds [OF assms])
  obtain t where t: "cJSON_PrintUnformatted J obj = Some t"
    by (rule printed [OF assms(1), of obj])
  have b: "built J obj" and f: "\<And>k. jfield J obj k = map_of (proposal_fields P p) k"
    using o(2) by (simp_all add: holds_def)
  obtain obj' where p: "cJSON_Parse J t = Some obj'"
      "\<forall>k. (\<forall>v. jfield J obj k = Some v \<longrightarrow> portable_val v) \<longrightarrow> jfield J obj' k = jfield J obj k"
    using print_parse_fields [OF assms(1) b t, of "Suc (length t)"] by (auto simp: snprintf_def)
  have "jfield J obj' k = map_of (proposal_fields P p) k" for k
    using p(2) f proposal_fields_portable [OF assms(2-4)] by simp
  then have "learning_proposal_from_json P J (Some obj') (Some b) = (0, Some p)"
    by (rule from_json_reads [OF json_laws_exclusive [OF assms(1)] assms(2-4)])
  with o(1) t p(1) show ?thesis by blast
qed

definition example_proposal :: proposal where
  "example_proposal = zero_proposal\<lparr>p_id := 12, p_sink := ''rule'', p_state := ''pending'',
     p_target_memory_id := 7, p_action_json := ''{}'', p_corroboration_count := 1\<rparr>"

lemma proposal_json_roundtrip_witness:
  "\<exists>obj t obj'. learning_proposal_to_json exact_platform ref_json (Some example_proposal) = Some obj \<and>
    cJSON_PrintUnformatted ref_json obj = Some t \<and> cJSON_Parse ref_json t = Some obj' \<and>
    learning_proposal_from_json exact_platform ref_json (Some obj') (Some zero_proposal) =
      (0, Some example_proposal)"
  by (rule proposal_json_roundtrip [OF ref_json_laws])
     (simp_all add: example_proposal_def zero_proposal_def wf_proposal_def fits_def in_i32_def in_i64_def)

text \<open>
  C34. No JSON can overflow the struct: every text field that \<open>learning_proposal_from_json\<close> writes is
  shorter than its array, whatever the object holds, and an object without a numeric id is refused.
\<close>

theorem from_json_bounds:
  "(case learning_proposal_from_json P J (Some obj) (Some b) of
      (rc, None) \<Rightarrow> False
    | (rc, Some p) \<Rightarrow>
        (rc = 0 \<or> rc = -1) \<and>
        (rc = 0) = json_is (cJSON_IsNumber J) (cJSON_GetObjectItemCaseSensitive J obj ''id'') \<and>
        length (p_sink p) < 32 \<and> length (p_state p) < 16 \<and> length (p_target_key p) < 256 \<and>
        length (p_action_json p) < 2048 \<and> length (p_evidence_refs p) < 1024 \<and>
        length (p_expires_at p) < 32 \<and> length (p_committed_at p) < 32 \<and>
        length (p_archive_reason p) < 64 \<and> length (p_created_at p) < 32 \<and> length (p_updated_at p) < 32)"
proof -
  have "length (ljson_copy_str J obj k cap) < cap" if "0 < cap" for k cap
    using that by (simp add: ljson_copy_str_def Let_def snprintf_below)
  then show ?thesis
    by (simp add: learning_proposal_from_json_def Let_def zero_proposal_def)
qed

text \<open>
  What a dispatch result shows its caller: the signal id and exactly the ids in use of the two
  arrays, in order.
\<close>

theorem dispatch_json_fields:
  assumes "json_laws J" "exact_ints P" "wf_dispatch d" "in_i32 (d_signal_id d)"
    and "list_all in_i32 (d_proposal_ids d @ d_committed_ids d)"
  shows "\<exists>obj. learning_dispatch_result_to_json P J (Some d) = Some obj \<and>
    (\<forall>k. jfield J obj k =
       [''signal_id'' \<mapsto> JNum (Fin (of_int (d_signal_id d))),
        ''proposal_ids'' \<mapsto> JArr (map (\<lambda>i. Fin (of_int i)) (reported d)),
        ''committed_ids'' \<mapsto> JArr (map (\<lambda>i. Fin (of_int i)) (reported_committed d))] k)"
proof -
  have n: "dbl_of_int P i = Fin (of_int i)" "portable (dbl_of_int P i)" if "in_i32 i" for i
    using assms(2) that portable_id [OF assms(2), of i]
    by (auto simp: in_i32_def exact_ints_def dbl_of_int_def)
  have takes: "map ((!) (d_proposal_ids d)) [0..<d_proposal_count d] = reported d"
    "map ((!) (d_committed_ids d)) [0..<d_committed_count d] = reported_committed d"
    using assms(3) by (auto simp: wf_dispatch_def reported_def reported_committed_def
        intro!: nth_equalityI)
  have ids: "list_all in_i32 (reported d)" "list_all in_i32 (reported_committed d)"
    using assms(5) by (auto simp: reported_def reported_committed_def list_all_iff dest: in_set_takeD)
  then have maps: "map (dbl_of_int P) (reported d) = map (\<lambda>i. Fin (of_int i)) (reported d)"
    "map (dbl_of_int P) (reported_committed d) = map (\<lambda>i. Fin (of_int i)) (reported_committed d)"
    "list_all portable (map (dbl_of_int P) (reported d))"
    "list_all portable (map (dbl_of_int P) (reported_committed d))"
    using n by (auto simp: list_all_iff)
  obtain obj where o: "cJSON_CreateObject J = Some obj" "holds J obj []"
    by (rule holds_created [OF assms(1)]) blast
  let ?r = "the (learning_dispatch_result_to_json P J (Some d))"
  have "holds J ?r ([] @ [(''signal_id'', JNum (dbl_of_int P (d_signal_id d)))] @
      [(''proposal_ids'', JArr (map (dbl_of_int P) (reported d)))] @
      [(''committed_ids'', JArr (map (dbl_of_int P) (reported_committed d)))])"
    unfolding learning_dispatch_result_to_json_def o(1) option.case Let_def option.sel takes
      append_assoc [symmetric]
    by (intro holds_number holds_numbers assms(1) o(2) maps n assms(4)) simp_all
  then show ?thesis
    by (intro exI [of _ ?r])
       (auto simp: holds_def maps n assms(4) learning_dispatch_result_to_json_def o(1) Let_def)
qed

lemma dispatch_json_fields_witness:
  "\<exists>obj. learning_dispatch_result_to_json exact_platform ref_json
      (Some (zero_dispatch\<lparr>d_signal_id := 4, d_proposal_ids := [9, 0, 0, 0, 0, 0, 0, 0],
         d_proposal_count := 1\<rparr>)) = Some obj \<and>
    jfield ref_json obj ''proposal_ids'' = Some (JArr [Fin 9])"
  using dispatch_json_fields [OF ref_json_laws exact_platform_ints,
      of "zero_dispatch\<lparr>d_signal_id := 4, d_proposal_ids := [9, 0, 0, 0, 0, 0, 0, 0], d_proposal_count := 1\<rparr>"]
  by (auto simp: wf_dispatch_def zero_dispatch_def LEARNING_MAX_PROPOSAL_IDS_def in_i32_def reported_def
      eval_nat_numeral)

end
