(* ===== verification/Implicit.thy ===== *)
theory Implicit
  imports Router_Properties
begin

text \<open>
  The implicit detectors of \<open>learning_implicit.c\<close>. Each is gated by its own configuration flag, builds a
  signal, records it through \<open>learning_router_record_signal\<close> and times itself on the detection meter.
  The gate and the timing are one contract, the locale \<open>timed_detector\<close>, which the four detectors
  interpret; what they can queue follows from the plan of the signals they emit.
\<close>

section \<open>The detectors\<close>

definition implicit_input ::
    "string \<Rightarrow> string \<Rightarrow> string option \<Rightarrow> string option \<Rightarrow> string option \<Rightarrow> int \<Rightarrow> string option \<Rightarrow>
     string option \<Rightarrow> signal_input" where
  "implicit_input signal_type polarity title description target_key target_memory_id
     workflow_project workflow_signal_type =
     (let i = zero_input\<lparr>in_signal_type := snprintf 32 signal_type, in_source := snprintf 16 ''implicit'',
                in_polarity := snprintf 16 polarity\<rparr>;
          i = (case title of None \<Rightarrow> i | Some s \<Rightarrow> i\<lparr>in_title := snprintf 256 s\<rparr>);
          i = (case description of None \<Rightarrow> i | Some s \<Rightarrow> i\<lparr>in_description := snprintf 1024 s\<rparr>);
          i = (case target_key of None \<Rightarrow> i | Some s \<Rightarrow> i\<lparr>in_target_key := snprintf 256 s\<rparr>);
          i = i\<lparr>in_target_memory_id := target_memory_id\<rparr>;
          i = (case workflow_project of None \<Rightarrow> i | Some s \<Rightarrow> i\<lparr>in_workflow_project := snprintf 128 s\<rparr>);
          i = (case workflow_signal_type of None \<Rightarrow> i
               | Some s \<Rightarrow> i\<lparr>in_workflow_signal_type := snprintf 64 s\<rparr>)
      in i\<lparr>in_evidence_refs_json := Some ''[]''\<rparr>)"

definition emit_implicit ::
    "('w, 'j) host \<Rightarrow> string \<Rightarrow> string \<Rightarrow> string option \<Rightarrow> string option \<Rightarrow> string option \<Rightarrow> int \<Rightarrow>
     string option \<Rightarrow> string option \<Rightarrow> ('w router, unit) state" where
  "emit_implicit H signal_type polarity title description target_key target_memory_id
     workflow_project workflow_signal_type = do {
     _ \<leftarrow> learning_router_record_signal H
          (Some (implicit_input signal_type polarity title description target_key target_memory_id
                   workflow_project workflow_signal_type)) None;
     ret ()
   }"

text \<open>The timing every detector ends with.\<close>

definition timed :: "('w, 'j) host \<Rightarrow> ('w router, unit) state \<Rightarrow> ('w router, unit) state" where
  "timed H body = do {
     t0 \<leftarrow> on_world (clock_gettime (svc H));
     _ \<leftarrow> body;
     t1 \<leftarrow> on_world (clock_gettime (svc H));
     modify (learning_router_record_detection_ms (plat H) (elapsed_ms (plat H) t0 t1))
   }"

text \<open>A configuration flag of the world.\<close>

definition flag :: "('w \<Rightarrow> bool) \<Rightarrow> ('w router, bool) state" where
  "flag f = gets (\<lambda>s. f (world s))"

definition learning_implicit_detect_turn ::
    "('w, 'j) host \<Rightarrow> string option \<Rightarrow> ('w router, unit) state" where
  "learning_implicit_detect_turn H user_text =
     (if user_text = None \<or> user_text = Some [] then ret ()
      else do {
        on \<leftarrow> flag (\<lambda>w. config_present (cfg H) w \<and>
               (config_learning_implicit_citation_repair (cfg H) w \<or>
                config_learning_implicit_citation_continuation (cfg H) w));
        if \<not> on then ret ()
        else timed H (do {
          kind \<leftarrow> on_world (dogfood_classify_next_turn (svc H) (the user_text));
          repair \<leftarrow> flag (config_learning_implicit_citation_repair (cfg H));
          continuation \<leftarrow> flag (config_learning_implicit_citation_continuation (cfg H));
          if kind = AUTOLABEL_REPAIR \<and> repair then
            emit_implicit H ''citation_then_repair'' ''negative''
              (Some ''Implicit citation_then_repair signal'')
              (Some ''User turn classified as repair/correction after memory retrieval.'') None 0 None None
          else if kind = AUTOLABEL_CONTINUATION \<and> continuation then
            emit_implicit H ''citation_then_continuation'' ''positive''
              (Some ''Implicit citation_then_continuation signal'')
              (Some ''User turn classified as continuation after memory retrieval.'') None 0 None None
          else ret ()
        })
      })"

definition learning_implicit_record_repeat_question ::
    "('w, 'j) host \<Rightarrow> string option \<Rightarrow> string option \<Rightarrow> string option \<Rightarrow> ('w router, unit) state" where
  "learning_implicit_record_repeat_question H sid tool query_hash =
     (if sid = None \<or> tool = None \<or> query_hash = None \<or> query_hash = Some [] then ret ()
      else do {
        on \<leftarrow> flag (\<lambda>w. config_present (cfg H) w \<and> config_learning_implicit_repeat_question (cfg H) w);
        if \<not> on then ret ()
        else timed H (do {
          again \<leftarrow> on_world (dogfood_query_is_repeat (svc H) (the sid) (the tool) (the query_hash));
          if again then
            emit_implicit H ''repeat_question'' ''negative'' (Some ''Implicit repeat_question signal'')
              (Some ''Same (session, tool, query_hash) already appeared this month.'') tool 0 None None
          else ret ()
        })
      })"

definition learning_implicit_record_correction ::
    "('w, 'j) host \<Rightarrow> string option \<Rightarrow> int \<Rightarrow> ('w router, unit) state" where
  "learning_implicit_record_correction H target_key target_memory_id = do {
     on \<leftarrow> flag (\<lambda>w. config_present (cfg H) w \<and> config_learning_implicit_repeated_correction (cfg H) w);
     if \<not> on then ret ()
     else timed H (emit_implicit H ''repeated_correction'' ''negative''
       (Some ''Implicit repeated_correction signal'')
       (Some ''Correction signal recorded; cross-source substrate tracks recurrence.'')
       target_key target_memory_id None None)
   }"

definition learning_implicit_record_workflow ::
    "('w, 'j) host \<Rightarrow> string option \<Rightarrow> string option \<Rightarrow> string option \<Rightarrow> ('w router, unit) state" where
  "learning_implicit_record_workflow H workspace signal_type description =
     (if workspace = None \<or> workspace = Some [] \<or> signal_type = None \<or> signal_type = Some [] then ret ()
      else do {
        on \<leftarrow> flag (\<lambda>w. config_present (cfg H) w \<and> config_learning_implicit_workflow_repetition (cfg H) w);
        if \<not> on then ret ()
        else timed H (emit_implicit H ''workflow_repetition'' ''positive''
          (Some ''Implicit workflow_repetition signal'') (Some (or_str description [])) workspace 0
          workspace signal_type)
      })"

section \<open>The contract of a detector\<close>

text \<open>The time a body takes by the clock, when it starts from \<open>s\<close>.\<close>

definition body_ms :: "('w, 'j) host \<Rightarrow> ('w router, unit) state \<Rightarrow> 'w router \<Rightarrow> dbl" where
  "body_ms H body s =
     (let clock = on_world (clock_gettime (svc H)) in
      elapsed_ms (plat H) (outcome clock s) (outcome clock (final body (final clock s))))"

text \<open>A meter with one more sample.\<close>

definition one_more :: "platform \<Rightarrow> dbl \<Rightarrow> latency \<Rightarrow> latency" where
  "one_more P ms g = \<lparr>calls = calls g + 1, ms_sum = fadd P (ms_sum g) ms,
     ms_max = (if flt (ms_max g) ms then ms else ms_max g)\<rparr>"

text \<open>The gate decides on the arguments and the world; an open detector is its body, timed. A body does
  not touch the detection meter.\<close>

locale timed_detector =
  fixes H :: "('w, 'j) host"
    and run :: "('w router, unit) state"
    and gate :: "'w \<Rightarrow> bool"
    and body :: "('w router, unit) state"
  assumes closed_run: "\<not> gate (world s) \<Longrightarrow> final run s = s"
    and open_run: "gate (world s) \<Longrightarrow> final run s = final (timed H body) s"
    and body_meter: "g_detection (final body s) = g_detection s"
begin

text \<open>The meter counts one detection for every open run with a clock that did not go back, and none
  for a closed one.\<close>

lemma meter_counts:
  "g_detection (final run s) =
     (if gate (world s) \<and> \<not> flt (body_ms H body s) (Fin 0)
      then one_more (plat H) (body_ms H body s) (g_detection s) else g_detection s)"
proof (cases "gate (world s)")
  case False
  then show ?thesis by (simp add: closed_run)
next
  case True
  let ?c = "on_world (clock_gettime (svc H))"
  let ?s2 = "final ?c (final body (final ?c s))"
  have "final run s = learning_router_record_detection_ms (plat H) (body_ms H body s) ?s2"
    using True by (simp add: open_run timed_def final_bind outcome_bind body_ms_def Let_def)
  moreover have "g_detection ?s2 = g_detection s"
    by (simp add: final_on_world body_meter)
  ultimately show ?thesis
    using True by (auto simp: learning_router_record_detection_ms_def one_more_def Let_def)
qed

text \<open>What the body does to the proposals, the run does.\<close>

lemma run_tracks:
  assumes "effects (tracks R view)" "services_apart (svc H) view" "\<And>x. R x x"
    and "state_io_rel (tracks R view) body"
  shows "state_io_rel (tracks R view) run"
proof -
  have clk: "state_io_rel (tracks R view) (on_world (clock_gettime (svc H)))"
    by (rule track_on_world) (simp add: state_io_rel_final readsD [OF apart_reads(12) [OF assms(2)]] assms(3))
  have meter: "state_io_rel (tracks R view) (modify (learning_router_record_detection_ms P ms))" for P ms
    by (simp add: state_io_rel_final tracks_def good_router_def learning_router_record_detection_ms_def
        Let_def assms(3))
  have "state_io_rel (tracks R view) (timed H body)"
    unfolding timed_def
    by (intro effects.eff_bind [OF assms(1)] clk meter assms(4))
  then show ?thesis
    using effects.eff_refl [OF assms(1)] closed_run open_run
    unfolding state_io_rel_final by metis
qed

end

section \<open>The four detectors keep it\<close>

lemmas detection_frame = frame.eff_rules [where view = g_detection]

lemma meter_on_world: "state_io_rel (\<lambda>s s'. g_detection s' = g_detection s) (on_world m)"
  by (simp add: state_io_rel_final final_on_world)

lemma meter_classify: "state_io_rel (\<lambda>s s'. g_detection s' = g_detection s) (learning_classify_signal x)"
  by (simp add: state_io_rel_final final_classify split: option.split)

lemma meter_ingest: "state_io_rel (\<lambda>s s'. g_detection s' = g_detection s) (modify (learning_ingest_record_ms P ms))"
  by (simp add: state_io_rel_final learning_ingest_record_ms_def Let_def)

lemma meter_signal: "state_io_rel (\<lambda>s s'. g_detection s' = g_detection s) (learning_router_record_signal H raw out)"
  unfolding learning_router_record_signal_def Let_def
  by (intro detection_frame meter_on_world meter_classify meter_ingest)

lemma meter_emit: "state_io_rel (\<lambda>s s'. g_detection s' = g_detection s) (emit_implicit H a b c d e f g h)"
  unfolding emit_implicit_def by (intro detection_frame meter_signal)

lemma meter_flag: "state_io_rel (\<lambda>s s'. g_detection s' = g_detection s) (flag f)"
  unfolding flag_def by (rule frame.eff_gets)

lemmas meter_rules = detection_frame meter_on_world meter_emit meter_flag

lemma meter_final: "state_io_rel (\<lambda>s s'. g_detection s' = g_detection s) m \<Longrightarrow> g_detection (final m s) = g_detection s"
  by (simp add: state_io_rel_final)

lemma outcome_flag [simp]: "outcome (flag f) s = f (world s)"
  by (simp add: flag_def)

lemma final_flag [simp]: "final (flag f) s = s"
  by (simp add: flag_def)

definition turn_body :: "('w, 'j) host \<Rightarrow> string \<Rightarrow> ('w router, unit) state" where
  "turn_body H user_text = do {
     kind \<leftarrow> on_world (dogfood_classify_next_turn (svc H) user_text);
     repair \<leftarrow> flag (config_learning_implicit_citation_repair (cfg H));
     continuation \<leftarrow> flag (config_learning_implicit_citation_continuation (cfg H));
     if kind = AUTOLABEL_REPAIR \<and> repair then
       emit_implicit H ''citation_then_repair'' ''negative''
         (Some ''Implicit citation_then_repair signal'')
         (Some ''User turn classified as repair/correction after memory retrieval.'') None 0 None None
     else if kind = AUTOLABEL_CONTINUATION \<and> continuation then
       emit_implicit H ''citation_then_continuation'' ''positive''
         (Some ''Implicit citation_then_continuation signal'')
         (Some ''User turn classified as continuation after memory retrieval.'') None 0 None None
     else ret ()
   }"

interpretation turn: timed_detector H "learning_implicit_detect_turn H (Some (c # cs))"
  "\<lambda>w. config_present (cfg H) w \<and> (config_learning_implicit_citation_repair (cfg H) w \<or>
     config_learning_implicit_citation_continuation (cfg H) w)"
  "turn_body H (c # cs)" for H :: "('w, 'j) host" and c cs
proof (unfold_locales, goal_cases)
  case (3 s)
  show ?case
    unfolding turn_body_def by (intro meter_final meter_rules)
qed (simp_all add: learning_implicit_detect_turn_def turn_body_def final_bind)

definition repeat_body :: "('w, 'j) host \<Rightarrow> string \<Rightarrow> string \<Rightarrow> string \<Rightarrow> ('w router, unit) state" where
  "repeat_body H sid tool query_hash = do {
     again \<leftarrow> on_world (dogfood_query_is_repeat (svc H) sid tool query_hash);
     if again then
       emit_implicit H ''repeat_question'' ''negative'' (Some ''Implicit repeat_question signal'')
         (Some ''Same (session, tool, query_hash) already appeared this month.'') (Some tool) 0 None None
     else ret ()
   }"

interpretation repeat_question: timed_detector H
  "learning_implicit_record_repeat_question H (Some sid) (Some tool) (Some (c # cs))"
  "\<lambda>w. config_present (cfg H) w \<and> config_learning_implicit_repeat_question (cfg H) w"
  "repeat_body H sid tool (c # cs)" for H :: "('w, 'j) host" and sid tool c cs
proof (unfold_locales, goal_cases)
  case (3 s)
  show ?case
    unfolding repeat_body_def by (intro meter_final meter_rules)
qed (simp_all add: learning_implicit_record_repeat_question_def repeat_body_def final_bind)

interpretation correction: timed_detector H "learning_implicit_record_correction H key mid"
  "\<lambda>w. config_present (cfg H) w \<and> config_learning_implicit_repeated_correction (cfg H) w"
  "emit_implicit H ''repeated_correction'' ''negative'' (Some ''Implicit repeated_correction signal'')
     (Some ''Correction signal recorded; cross-source substrate tracks recurrence.'') key mid None None"
  for H :: "('w, 'j) host" and key mid
proof (unfold_locales, goal_cases)
  case (3 s)
  show ?case by (intro meter_final meter_rules)
qed (simp_all add: learning_implicit_record_correction_def final_bind)

interpretation workflow: timed_detector H
  "learning_implicit_record_workflow H (Some (c # cs)) (Some (d # ds)) description"
  "\<lambda>w. config_present (cfg H) w \<and> config_learning_implicit_workflow_repetition (cfg H) w"
  "emit_implicit H ''workflow_repetition'' ''positive'' (Some ''Implicit workflow_repetition signal'')
     (Some (or_str description [])) (Some (c # cs)) 0 (Some (c # cs)) (Some (d # ds))"
  for H :: "('w, 'j) host" and c cs d ds description
proof (unfold_locales, goal_cases)
  case (3 s)
  show ?case by (intro meter_final meter_rules)
qed (simp_all add: learning_implicit_record_workflow_def final_bind)

section \<open>What the detectors can queue\<close>

lemma implicit_fields [simp]:
  "in_signal_type (implicit_input a b c d e f g h) = snprintf 32 a"
  "in_target_memory_id (implicit_input a b c d e f g h) = f"
  "in_workflow_project (implicit_input a b c d e f g h) = (case g of None \<Rightarrow> [] | Some s \<Rightarrow> snprintf 128 s)"
  "in_workflow_signal_type (implicit_input a b c d e f g h) = (case h of None \<Rightarrow> [] | Some s \<Rightarrow> snprintf 64 s)"
  "in_description (implicit_input a b c d e f g h) = (case d of None \<Rightarrow> [] | Some s \<Rightarrow> snprintf 1024 s)"
  by (cases c; cases d; cases e; cases g; cases h; simp add: implicit_input_def Let_def zero_input_def)+

lemma implicit_wf:
  assumes "NUL \<notin> set a" "NUL \<notin> set b" "in_i64 f"
    and "\<forall>x \<in> {c, d, e, g, h}. \<forall>s. x = Some s \<longrightarrow> NUL \<notin> set s"
  shows "wf_input (implicit_input a b c d e f g h)"
  using assms
  by (cases c; cases d; cases e; cases g; cases h)
     (auto simp: implicit_input_def Let_def zero_input_def wf_input_def snprintf_fits fits_def [of _ "[]"])

lemma emit_origins:
  assumes "deployment H view cap" "wire_name a" "signal_sinks a = {}"
  shows "state_io_rel (tracks (rows_from {}) view) (emit_implicit H a b c d e f g h)"
proof -
  let ?i = "implicit_input a b c d e f g h"
  have "snprintf 32 a = a"
    using assms(2) by (simp add: wire_name_def fits_def AIMEE_LEARNING_SIGNAL_MAX_def snprintf_id)
  then have t: "in_signal_type ?i = a" by simp
  then have "signal_contents H ?i = {}"
    by (simp add: signal_contents_def assms(3) signal_plan_def plan_contents_def)
  then have "state_io_rel (tracks (rows_from {}) view) (learning_router_record_signal H (Some ?i) None)"
    using record_signal_origins [OF assms(1), of ?i None] assms(2) t by simp
  then show ?thesis
    unfolding emit_implicit_def by (intro tracked_origins.eff_rules)
qed

lemma implicit_names:
  "wire_name ''citation_then_repair'' \<and> signal_sinks ''citation_then_repair'' = {}"
  "wire_name ''citation_then_continuation'' \<and> signal_sinks ''citation_then_continuation'' = {}"
  "wire_name ''repeat_question'' \<and> signal_sinks ''repeat_question'' = {}"
  "wire_name ''repeated_correction'' \<and> signal_sinks ''repeated_correction'' = {}"
  by (simp_all add: wire_name_def fits_def AIMEE_LEARNING_SIGNAL_MAX_def signal_sinks_def)

lemma quiet_on_world:
  "reads view m \<Longrightarrow> state_io_rel (tracks (rows_from S) view) (on_world m)"
  by (intro track_on_world reads_origins)

lemma quiet_flag: "state_io_rel (tracks (rows_from S) view) (flag f)"
  unfolding flag_def by (rule tracked_origins.eff_gets)

section \<open>Properties\<close>

text \<open>
  A closed gate means no trace: with no configuration, or with its own flag off, a detector changes
  nothing at all, neither the tables nor the meters nor any other part of the world, whatever it is given.
\<close>

theorem closed_detectors_do_nothing:
  assumes "\<not> config_present (cfg H) (world s) \<or>
    (\<not> config_learning_implicit_citation_repair (cfg H) (world s) \<and>
     \<not> config_learning_implicit_citation_continuation (cfg H) (world s) \<and>
     \<not> config_learning_implicit_repeat_question (cfg H) (world s) \<and>
     \<not> config_learning_implicit_repeated_correction (cfg H) (world s) \<and>
     \<not> config_learning_implicit_workflow_repetition (cfg H) (world s))"
  shows "final (learning_implicit_detect_turn H turn_text) s = s \<and>
    final (learning_implicit_record_repeat_question H sid tool query) s = s \<and>
    final (learning_implicit_record_correction H key mid) s = s \<and>
    final (learning_implicit_record_workflow H workspace kind description) s = s"
proof (intro conjI)
  show "final (learning_implicit_detect_turn H turn_text) s = s"
  proof (cases "turn_text = None \<or> turn_text = Some []")
    case False
    then obtain c cs where "turn_text = Some (c # cs)"
      by (cases turn_text) (auto simp: neq_Nil_conv)
    then show ?thesis using assms turn.closed_run by blast
  qed (auto simp: learning_implicit_detect_turn_def)
  show "final (learning_implicit_record_repeat_question H sid tool query) s = s"
  proof (cases "sid = None \<or> tool = None \<or> query = None \<or> query = Some []")
    case False
    then obtain x y c cs where "sid = Some x" "tool = Some y" "query = Some (c # cs)"
      by (cases sid; cases tool; cases query) (auto simp: neq_Nil_conv)
    then show ?thesis using assms repeat_question.closed_run by blast
  qed (auto simp: learning_implicit_record_repeat_question_def)
  show "final (learning_implicit_record_correction H key mid) s = s"
    using assms correction.closed_run by blast
  show "final (learning_implicit_record_workflow H workspace kind description) s = s"
  proof (cases "workspace = None \<or> workspace = Some [] \<or> kind = None \<or> kind = Some []")
    case False
    then obtain c cs d ds where "workspace = Some (c # cs)" "kind = Some (d # ds)"
      by (cases workspace; cases kind) (auto simp: neq_Nil_conv)
    then show ?thesis using assms workflow.closed_run by blast
  qed (auto simp: learning_implicit_record_workflow_def)
qed

definition unconfigured :: "(ref_world, ref_node) host" where
  "unconfigured = (ref_host 5 False)\<lparr>cfg := (ref_cfg 5 False)\<lparr>config_present := (\<lambda>w. False)\<rparr>\<rparr>"

lemma closed_detectors_do_nothing_witness:
  "final (learning_implicit_record_workflow unconfigured (Some ''w'') (Some ''build'') None) (ref_router [open_row]) =
     ref_router [open_row]"
  using closed_detectors_do_nothing [of unconfigured "ref_router [open_row]" None None None None None 0
      "Some ''w''" "Some ''build''" None]
  by (simp add: unconfigured_def)

text \<open>
  C31. The turn, repeat-question and correction detectors queue no proposal: their signals stand for no sink,
  so every row in the table after one of them ran was there before, with the same content.
\<close>

theorem sinkless_detectors_queue_nothing:
  assumes "deployment H view cap" "good_router view s"
  shows "rows_from {} (view (world s)) (view (world (final (learning_implicit_detect_turn H turn_text) s))) \<and>
    rows_from {} (view (world s)) (view (world (final (learning_implicit_record_repeat_question H sid tool query) s))) \<and>
    rows_from {} (view (world s)) (view (world (final (learning_implicit_record_correction H key mid) s)))"
proof (intro conjI)
  note eff = tracked_origins.effects_axioms [of "{}" view] and A = deployment_apart [OF assms(1)]
  note emit = emit_origins [OF assms(1)] implicit_names
  have tracks: "rows_from {} (view (world s)) (view (world (final m s)))"
    if "state_io_rel (tracks (rows_from {}) view) m" for m :: "('a router, unit) state"
    using that assms(2) by (simp add: state_io_rel_final tracks_def)
  show "rows_from {} (view (world s)) (view (world (final (learning_implicit_detect_turn H turn_text) s)))"
  proof (cases "turn_text = None \<or> turn_text = Some []")
    case False
    then obtain c cs where t: "turn_text = Some (c # cs)"
      by (cases turn_text) (auto simp: neq_Nil_conv)
    show ?thesis
      unfolding t
      by (rule tracks, rule turn.run_tracks [OF eff A rows_from_refl], unfold turn_body_def)
         (intro tracked_origins.eff_rules quiet_on_world apart_reads A quiet_flag emit_origins [OF assms(1)]
            conjunct1 [OF implicit_names(1)] conjunct2 [OF implicit_names(1)]
            conjunct1 [OF implicit_names(2)] conjunct2 [OF implicit_names(2)])
  qed (auto simp: learning_implicit_detect_turn_def rows_from_refl)
  show "rows_from {} (view (world s)) (view (world (final (learning_implicit_record_repeat_question H sid tool query) s)))"
  proof (cases "sid = None \<or> tool = None \<or> query = None \<or> query = Some []")
    case False
    then obtain x y c cs where t: "sid = Some x" "tool = Some y" "query = Some (c # cs)"
      by (cases sid; cases tool; cases query) (auto simp: neq_Nil_conv)
    show ?thesis
      unfolding t
      by (rule tracks, rule repeat_question.run_tracks [OF eff A rows_from_refl], unfold repeat_body_def)
         (intro tracked_origins.eff_rules quiet_on_world apart_reads A emit_origins [OF assms(1)]
            conjunct1 [OF implicit_names(3)] conjunct2 [OF implicit_names(3)])
  qed (auto simp: learning_implicit_record_repeat_question_def rows_from_refl)
  show "rows_from {} (view (world s)) (view (world (final (learning_implicit_record_correction H key mid) s)))"
    by (rule tracks, rule correction.run_tracks [OF eff A rows_from_refl])
       (intro emit_origins [OF assms(1)] conjunct1 [OF implicit_names(4)] conjunct2 [OF implicit_names(4)])
qed

lemma sinkless_detectors_queue_nothing_witness:
  "rows_from {} (ref_view (world (ref_router [open_row])))
     (ref_view (world (final (learning_implicit_record_correction (ref_host 5 False) (Some ''key'') 3)
        (ref_router [open_row]))))"
  using sinkless_detectors_queue_nothing [OF ref_deployment [of 5 False] ref_router_good] by simp

text \<open>
  C18. The workflow detector queues workflow proposals only: a row that is in the table after it ran was
  there before, or its sink is \<open>workflow\<close>, its key the workspace (as far as the 128 bytes of the struct
  hold it) and its action the request to upsert that workflow.
\<close>

theorem workflow_detector_queues_workflows:
  assumes "deployment H view cap" "good_router view s"
    and "rows (view (world (final (learning_implicit_record_workflow H (Some ws) (Some kind) description) s))) i = Some q"
  shows "(\<exists>p. rows (view (world s)) i = Some p \<and> same_origin p q) \<or>
    (\<exists>act. build_request (plat H) (json H) (Upsert_Workflow (snprintf 128 ws) (snprintf 64 kind)
        (snprintf 1024 (or_str description []))) 1024 = Some act \<and>
       content q = (''workflow'', snprintf 128 ws, 0, act))"
proof (cases "ws = [] \<or> kind = []")
  case True
  then show ?thesis
    using assms(3) same_origin_refl by (auto simp: learning_implicit_record_workflow_def)
next
  case False
  then obtain c cs d ds where t: "ws = c # cs" "kind = d # ds"
    by (auto simp: neq_Nil_conv)
  let ?i = "implicit_input ''workflow_repetition'' ''positive'' (Some ''Implicit workflow_repetition signal'')
    (Some (or_str description [])) (Some (c # cs)) 0 (Some (c # cs)) (Some (d # ds))"
  note A = deployment_apart [OF assms(1)]
  have w: "in_signal_type ?i = ''workflow_repetition''"
    by (simp add: snprintf_def)
  then have n: "wire_name (in_signal_type ?i)"
    by (simp add: wire_name_def fits_def AIMEE_LEARNING_SIGNAL_MAX_def)
  have "state_io_rel (tracks (rows_from (signal_contents H ?i)) view)
      (learning_implicit_record_workflow H (Some (c # cs)) (Some (d # ds)) description)"
    by (rule workflow.run_tracks [OF tracked_origins.effects_axioms A rows_from_refl], unfold emit_implicit_def)
       (intro tracked_origins.eff_rules record_signal_origins [OF assms(1) n])
  then have "rows_from (signal_contents H ?i) (view (world s))
      (view (world (final (learning_implicit_record_workflow H (Some ws) (Some kind) description) s)))"
    using assms(2) unfolding t by (simp add: state_io_rel_final tracks_def)
  then have "(\<exists>p. rows (view (world s)) i = Some p \<and> same_origin p q) \<or> content q \<in> signal_contents H ?i"
    using assms(3) unfolding rows_from_def by blast
  moreover have "\<exists>act. build_request (plat H) (json H) (Upsert_Workflow (snprintf 128 ws) (snprintf 64 kind)
        (snprintf 1024 (or_str description []))) 1024 = Some act \<and>
       content q = (''workflow'', snprintf 128 ws, 0, act)" if "content q \<in> signal_contents H ?i"
    using that w
    by (auto simp: signal_contents_def signal_sinks_def signal_plan_def plan_workflow_def plan_contents_def t
        split: if_splits)
  ultimately show ?thesis by blast
qed

lemma workflow_detector_queues_workflows_witness:
  "\<exists>q. rows (ref_view (world (final (learning_implicit_record_workflow (ref_host 5 False) (Some ''w'') (Some ''build'')
      (Some ''run the tests'')) (ref_router [open_row])))) 1 = Some q \<and>
    (same_origin open_row q \<or> p_sink q = ''workflow'')"
proof -
  let ?s = "ref_router [open_row]"
  let ?m = "learning_implicit_record_workflow (ref_host 5 False) (Some ''w'') (Some ''build'') (Some ''run the tests'')"
  have apart: "services_apart (svc (ref_host 5 False)) ref_view"
    by (simp add: ref_apart)
  have "state_io_rel (tracks (life 5) ref_view) ?m"
    by (rule workflow.run_tracks [OF tracked_lives.effects_axioms apart rtranclp.rtrancl_refl],
        unfold emit_implicit_def)
       (intro tracked_lives.eff_rules record_signal_lives ref_deployment zero_less_numeral)
  then have "life 5 (ref_view (world ?s)) (ref_view (world (final ?m ?s)))"
    using ref_router_good by (simp add: state_io_rel_final tracks_def)
  then obtain q where q: "rows (ref_view (world (final ?m ?s))) 1 = Some q"
    using life_keeps_rows [of 5 "ref_view (world ?s)" "ref_view (world (final ?m ?s))" 1]
    by (auto simp: row_kept_def row_at_def split: option.splits)
  have "(\<exists>p. row_at [open_row] 1 = Some p \<and> same_origin p q) \<or> p_sink q = ''workflow''"
    using workflow_detector_queues_workflows [OF ref_deployment [of 5 False] ref_router_good q]
    by (auto simp: content_def)
  with q show ?thesis
    by (auto simp: row_at_def)
qed

text \<open>What C32 says of a run: \<open>on\<close> is whether the detector is on and has its arguments, \<open>body\<close> the work that is timed.\<close>

definition counts_detection ::
    "('w, 'j) host \<Rightarrow> bool \<Rightarrow> ('w router, unit) state \<Rightarrow> ('w router, unit) state \<Rightarrow> 'w router \<Rightarrow> bool" where
  "counts_detection H on body run s \<longleftrightarrow>
     g_detection (final run s) =
       (if on \<and> \<not> flt (body_ms H body s) (Fin 0) then one_more (plat H) (body_ms H body s) (g_detection s)
        else g_detection s)"

definition given :: "string option \<Rightarrow> bool" where
  "given x \<longleftrightarrow> x \<noteq> None \<and> x \<noteq> Some []"

lemma given_cases:
  obtains (missing) "\<not> given x" | (present) c cs where "given x" "x = Some (c # cs)"
  by (cases x; cases "the x") (auto simp: given_def)

lemma idle_detection: "final run s = s \<Longrightarrow> \<not> on \<Longrightarrow> counts_detection H on body run s"
  by (simp add: counts_detection_def)

text \<open>
  C32. Detection time is counted, by all four detectors: when its configuration is present and turns it on and the
  arguments it needs are given (not NULL and, but for the session and the tool of a repeated question, not
  empty), a detector adds exactly one sample to the detection meter, the time its body took by the clock, unless
  that time is negative because the clock went backwards; otherwise it leaves the meter alone.
\<close>

theorem detections_are_counted:
  "counts_detection H
     (given user_text \<and> config_present (cfg H) (world s) \<and> (config_learning_implicit_citation_repair (cfg H) (world s) \<or>
        config_learning_implicit_citation_continuation (cfg H) (world s)))
     (turn_body H (the user_text)) (learning_implicit_detect_turn H user_text) s \<and>
   counts_detection H
     (sid \<noteq> None \<and> tool \<noteq> None \<and> given query \<and> config_present (cfg H) (world s) \<and>
        config_learning_implicit_repeat_question (cfg H) (world s))
     (repeat_body H (the sid) (the tool) (the query)) (learning_implicit_record_repeat_question H sid tool query) s \<and>
   counts_detection H
     (config_present (cfg H) (world s) \<and> config_learning_implicit_repeated_correction (cfg H) (world s))
     (emit_implicit H ''repeated_correction'' ''negative'' (Some ''Implicit repeated_correction signal'')
        (Some ''Correction signal recorded; cross-source substrate tracks recurrence.'') key mid None None)
     (learning_implicit_record_correction H key mid) s \<and>
   counts_detection H
     (given workspace \<and> given kind \<and> config_present (cfg H) (world s) \<and>
        config_learning_implicit_workflow_repetition (cfg H) (world s))
     (emit_implicit H ''workflow_repetition'' ''positive'' (Some ''Implicit workflow_repetition signal'')
        (Some (or_str description [])) workspace 0 workspace kind)
     (learning_implicit_record_workflow H workspace kind description) s"
  (is "?turn \<and> ?repeat \<and> ?correction \<and> ?workflow")
proof (intro conjI)
  show ?turn
  proof (cases user_text rule: given_cases)
    case (present c cs)
    then show ?thesis using turn.meter_counts [of H c cs s] by (simp add: counts_detection_def)
  qed (auto simp: given_def learning_implicit_detect_turn_def intro!: idle_detection)
  show ?repeat
  proof (cases "sid = None \<or> tool = None \<or> \<not> given query")
    case False
    then obtain x y c cs where "sid = Some x" "tool = Some y" "query = Some (c # cs)" "given query"
      by (cases query rule: given_cases) auto
    then show ?thesis using repeat_question.meter_counts [of H x y c cs s] by (simp add: counts_detection_def)
  qed (auto simp: given_def learning_implicit_record_repeat_question_def intro!: idle_detection)
  show ?correction
    using correction.meter_counts [of H key mid s] by (simp add: counts_detection_def)
  show ?workflow
  proof (cases "given workspace \<and> given kind")
    case True
    then obtain c cs d ds where "workspace = Some (c # cs)" "kind = Some (d # ds)"
      by (cases workspace rule: given_cases; cases kind rule: given_cases) auto
    with True show ?thesis
      using workflow.meter_counts [of H c cs d ds description s] by (simp add: counts_detection_def)
  qed (auto simp: given_def learning_implicit_record_workflow_def intro!: idle_detection)
qed

end
