(* ===== verification/Strtof.thy ===== *)
theory Strtof
  imports C_Runtime
begin

text \<open>
  \<open>strtof\<close> of the C library, in the C locale: leading white space, an optional sign, then a decimal or
  hexadecimal number with an optional exponent, an infinity or a NaN. The value is the exact real number
  rounded to \<open>float\<close>, so the rounding is again a platform; the rest of the text is what \<open>end\<close> points at, and
  a text without a number is \<open>None\<close> (\<open>end == p\<close>).
\<close>

section \<open>Characters\<close>

definition char_code :: "char \<Rightarrow> nat" where
  "char_code c = of_char c"

definition is_space :: "char \<Rightarrow> bool" where
  "is_space c \<longleftrightarrow> char_code c = 32 \<or> (9 \<le> char_code c \<and> char_code c \<le> 13)"

definition is_dec :: "char \<Rightarrow> bool" where
  "is_dec c \<longleftrightarrow> 48 \<le> char_code c \<and> char_code c \<le> 57"

definition lower :: "char \<Rightarrow> char" where
  "lower c = (if 65 \<le> char_code c \<and> char_code c \<le> 90 then char_of (char_code c + 32) else c)"

definition is_hex :: "char \<Rightarrow> bool" where
  "is_hex c \<longleftrightarrow> is_dec c \<or> (97 \<le> char_code (lower c) \<and> char_code (lower c) \<le> 102)"

definition digit_value :: "char \<Rightarrow> nat" where
  "digit_value c = (if is_dec c then char_code c - 48 else char_code (lower c) - 87)"

definition digits_value :: "nat \<Rightarrow> string \<Rightarrow> nat" where
  "digits_value base ds = foldl (\<lambda>n c. n * base + digit_value c) 0 ds"

section \<open>The number\<close>

text \<open>Digits with an optional point: the integer part, the fraction, and the rest.\<close>

definition mantissa :: "(char \<Rightarrow> bool) \<Rightarrow> string \<Rightarrow> (string \<times> string \<times> string) option" where
  "mantissa dig s =
     (let ip = takeWhile dig s; r = dropWhile dig s in
      case r of
        [] \<Rightarrow> if ip = [] then None else Some (ip, [], r)
      | c # r' \<Rightarrow>
          if c = CHR ''.'' then
            (let fp = takeWhile dig r' in if ip = [] \<and> fp = [] then None else Some (ip, fp, dropWhile dig r'))
          else if ip = [] then None else Some (ip, [], r))"

definition split_sign :: "string \<Rightarrow> bool \<times> string" where
  "split_sign s = (case s of [] \<Rightarrow> (False, s)
     | c # r \<Rightarrow> if c = CHR ''-'' then (True, r) else if c = CHR ''+'' then (False, r) else (False, s))"

text \<open>An exponent is only one if it has a digit.\<close>

definition exponent :: "char \<Rightarrow> string \<Rightarrow> int \<times> string" where
  "exponent mark s =
     (case s of [] \<Rightarrow> (0, s)
      | c # r \<Rightarrow>
          if lower c \<noteq> mark then (0, s)
          else (let (neg, r') = split_sign r; ds = takeWhile is_dec r'; v = int (digits_value 10 ds)
                in if ds = [] then (0, s) else (if neg then - v else v, dropWhile is_dec r')))"

definition dec_number :: "string \<Rightarrow> (real \<times> string) option" where
  "dec_number s =
     (case mantissa is_dec s of None \<Rightarrow> None
      | Some (ip, fp, r) \<Rightarrow>
          (let (e, r') = exponent (CHR ''e'') r
           in Some (of_nat (digits_value 10 (ip @ fp)) * 10 powi (e - int (length fp)), r')))"

definition hex_number :: "string \<Rightarrow> (real \<times> string) option" where
  "hex_number s =
     (case mantissa is_hex s of None \<Rightarrow> None
      | Some (ip, fp, r) \<Rightarrow>
          (let (e, r') = exponent (CHR ''p'') r
           in Some (of_nat (digits_value 16 (ip @ fp)) * 2 powi (e - 4 * int (length fp)), r')))"

definition starts_with :: "string \<Rightarrow> string \<Rightarrow> bool" where
  "starts_with w s \<longleftrightarrow> take (length w) (map lower s) = w"

definition nan_tail :: "string \<Rightarrow> string" where
  "nan_tail s =
     (case s of [] \<Rightarrow> s
      | c # r \<Rightarrow>
          if c = CHR ''('' then
            (let tail = dropWhile (\<lambda>c. is_dec c \<or> c = CHR ''_'' \<or> (97 \<le> char_code (lower c) \<and> char_code (lower c) \<le> 122)) r
             in case tail of [] \<Rightarrow> s | d # r' \<Rightarrow> if d = CHR '')'' then r' else s)
          else s)"

definition unsigned_number :: "string \<Rightarrow> (dbl option \<times> real \<times> string) option" where
  "unsigned_number s =
     (if starts_with ''infinity'' s then Some (Some PInf, 0, drop 8 s)
      else if starts_with ''inf'' s then Some (Some PInf, 0, drop 3 s)
      else if starts_with ''nan'' s then Some (Some NaN, 0, nan_tail (drop 3 s))
      else (case (if starts_with ''0x'' s then hex_number (drop 2 s) else None) of
              Some (v, r) \<Rightarrow> Some (None, v, r)
            | None \<Rightarrow> map_option (\<lambda>(v, r). (None, v, r)) (dec_number s)))"

definition strtof :: "platform \<Rightarrow> string \<Rightarrow> (dbl \<times> string) option" where
  "strtof F p =
     (let (neg, s) = split_sign (dropWhile is_space p) in
      case unsigned_number s of
        None \<Rightarrow> None
      | Some (special, v, r) \<Rightarrow>
          Some (case special of
                  Some d \<Rightarrow> if neg then fneg d else d
                | None \<Rightarrow> round_dbl F (if neg then - v else v), r))"

section \<open>Progress\<close>

lemma mantissa_shorter:
  assumes "mantissa dig s = Some (ip, fp, r)"
  shows "length r < length s"
proof -
  have s: "length s = length (takeWhile dig s) + length (dropWhile dig s)"
    by (metis length_append takeWhile_dropWhile_id)
  show ?thesis
  proof (cases "dropWhile dig s")
    case Nil
    with assms s show ?thesis
      by (auto simp: mantissa_def Let_def split: if_splits)
  next
    case (Cons c r')
    have t: "length r' = length (takeWhile dig r') + length (dropWhile dig r')"
      by (metis length_append takeWhile_dropWhile_id)
    show ?thesis
    proof (cases "c = CHR ''.''")
      case True
      with assms Cons have "takeWhile dig s \<noteq> [] \<or> takeWhile dig r' \<noteq> []" "r = dropWhile dig r'"
        by (auto simp: mantissa_def Let_def split: if_splits)
      with s t Cons show ?thesis by auto
    next
      case False
      with assms Cons have "takeWhile dig s \<noteq> []" "r = c # r'"
        by (auto simp: mantissa_def Let_def split: if_splits)
      with s Cons show ?thesis by simp
    qed
  qed
qed

lemma split_sign_shorter: "length (snd (split_sign s)) \<le> length s"
  by (simp add: split_sign_def split: list.split)

lemma exponent_shorter: "length (snd (exponent m s)) \<le> length s"
proof (cases s)
  case (Cons c r)
  have "length (dropWhile is_dec (snd (split_sign r))) \<le> length r"
    using length_dropWhile_le [of is_dec "snd (split_sign r)"] split_sign_shorter [of r] by linarith
  then show ?thesis
    by (auto simp: exponent_def Cons Let_def case_prod_beta)
qed (simp add: exponent_def)

lemma dec_number_shorter: "dec_number s = Some (v, r) \<Longrightarrow> length r < length s"
  using exponent_shorter mantissa_shorter
  by (auto simp: dec_number_def case_prod_beta split: option.splits prod.splits)
     (metis le_less_trans)

lemma hex_number_shorter: "hex_number s = Some (v, r) \<Longrightarrow> length r < length s"
  using exponent_shorter mantissa_shorter
  by (auto simp: hex_number_def case_prod_beta split: option.splits prod.splits)
     (metis le_less_trans)

lemma starts_with_length: "starts_with w s \<Longrightarrow> length w \<le> length s"
  by (metis length_map length_take min.cobounded1 min.commute starts_with_def)

lemma nan_tail_shorter: "length (nan_tail s) \<le> length s"
proof (cases s)
  case (Cons c r)
  define P where "P = (\<lambda>c. is_dec c \<or> c = CHR ''_'' \<or> (97 \<le> char_code (lower c) \<and> char_code (lower c) \<le> 122))"
  have "length (dropWhile P r) \<le> length r"
    by (rule length_dropWhile_le)
  then show ?thesis
    unfolding nan_tail_def Cons list.case P_def [symmetric]
    by (cases "dropWhile P r") (simp_all add: Let_def del: dropWhile_eq_Nil_conv)
qed (simp add: nan_tail_def)

lemma unsigned_shorter:
  assumes "unsigned_number s = Some (x, v, r)"
  shows "length r < length s"
proof (cases "starts_with ''infinity'' s \<or> starts_with ''inf'' s \<or> starts_with ''nan'' s")
  case True
  then have "length s > length r"
    using assms starts_with_length [of "''infinity''" s] starts_with_length [of "''inf''" s]
      starts_with_length [of "''nan''" s] nan_tail_shorter [of "drop 3 s"]
    by (auto simp: unsigned_number_def split: if_splits)
  then show ?thesis .
next
  case False
  show ?thesis
  proof (cases "if starts_with ''0x'' s then hex_number (drop 2 s) else None")
    case None
    with False assms have "map_option (\<lambda>(v, r). (None, v, r)) (dec_number s) = Some (x, v, r)"
      by (auto simp: unsigned_number_def)
    then show ?thesis
      by (auto dest: dec_number_shorter)
  next
    case (Some y)
    with False assms have "starts_with ''0x'' s" "hex_number (drop 2 s) = Some (v, r)"
      by (auto simp: unsigned_number_def split: if_splits prod.splits)
    then show ?thesis
      using hex_number_shorter by fastforce
  qed
qed

lemma strtof_shorter:
  assumes "strtof F p = Some (v, r)"
  shows "length r < length p"
proof -
  obtain neg s where s: "split_sign (dropWhile is_space p) = (neg, s)"
    by (metis surj_pair)
  have "length s \<le> length p"
    using split_sign_shorter [of "dropWhile is_space p"] length_dropWhile_le [of is_space p] s by simp
  moreover obtain x y where "unsigned_number s = Some (x, y, r)"
    using assms s by (auto simp: strtof_def split: option.splits prod.splits)
  ultimately show ?thesis
    using unsigned_shorter by fastforce
qed

end
