(* ===== verification/Bundle.thy ===== *)
theory Bundle
  imports Learning_Types Strtof "HOL-Library.Multiset"
begin

text \<open>
  \<open>learning_bundle.c\<close>: the neighbourhood of a query among the stored evidence vectors. The embedder, the
  table of vectors and \<open>qsort\<close> are parameters (\<open>qsort\<close> may order equal elements as it likes); parsing a
  vector, the cosine, the ranking and the selection are modelled as they are written, in double
  arithmetic with the platform's rounding.
\<close>

section \<open>Parsing a vector\<close>

definition vec_separator :: "char \<Rightarrow> bool" where
  "vec_separator c \<longleftrightarrow> c = CHR ''['' \<or> c = CHR '']'' \<or> c = CHR '','' \<or> c = CHR '' ''"

text \<open>The loop, with the numbers read so far; \<open>F\<close> rounds to \<open>float\<close>.\<close>

function parse_loop :: "platform \<Rightarrow> nat \<Rightarrow> dbl list \<Rightarrow> string \<Rightarrow> dbl list" where
  "parse_loop F maxdim out p =
     (if p = [] \<or> \<not> length out < maxdim then out
      else
        (let p = dropWhile vec_separator p in
         if p = [] then out
         else (case strtof F p of
                 None \<Rightarrow> out
               | Some (v, rest) \<Rightarrow> parse_loop F maxdim (out @ [v]) rest)))"
  by auto
termination
proof (relation "measure (\<lambda>(F, maxdim, out, p). length p)", goal_cases)
  case (2 F maxdim out p p' x v rest)
  then have "length rest < length (dropWhile vec_separator p)"
    by (auto dest: strtof_shorter)
  also have "\<dots> \<le> length p"
    by (rule length_dropWhile_le)
  finally show ?case by simp
qed simp

declare parse_loop.simps [simp del]

definition bundle_parse_vec :: "platform \<Rightarrow> string option \<Rightarrow> nat \<Rightarrow> dbl list" where
  "bundle_parse_vec F text maxdim = (case text of None \<Rightarrow> [] | Some p \<Rightarrow> parse_loop F maxdim [] p)"

section \<open>Similarity\<close>

text \<open>The three sums of the loop: \<open>dot\<close>, \<open>na\<close> and \<open>nb\<close>.\<close>

definition cosine_step :: "platform \<Rightarrow> dbl list \<Rightarrow> dbl list \<Rightarrow> nat \<Rightarrow> dbl \<times> dbl \<times> dbl \<Rightarrow> dbl \<times> dbl \<times> dbl" where
  "cosine_step P a b i s =
     (case s of (dot, na, nb) \<Rightarrow>
        (fadd P dot (fmul P (a ! i) (b ! i)), fadd P na (fmul P (a ! i) (a ! i)),
         fadd P nb (fmul P (b ! i) (b ! i))))"

definition bundle_cosine :: "platform \<Rightarrow> dbl list \<Rightarrow> dbl list \<Rightarrow> nat \<Rightarrow> dbl" where
  "bundle_cosine P a b n =
     (let (dot, na, nb) = fold (cosine_step P a b) [0..<n] (Fin 0, Fin 0, Fin 0);
          denom = fmul P (fsqrt P na) (fsqrt P nb)
      in if flt (round_dbl P (1 / 10 ^ 9)) denom then fdiv P dot denom else Fin 0)"

section \<open>Ranking\<close>

record bundle_scored =
  bs_row :: nat
  bs_score :: dbl

definition bundle_cmp_desc :: "bundle_scored \<Rightarrow> bundle_scored \<Rightarrow> int" where
  "bundle_cmp_desc a b =
     (let sa = bs_score a; sb = bs_score b in
      if flt sa sb then 1 else if flt sb sa then -1 else 0)"

section \<open>The bundle\<close>

definition LEARNING_BUNDLE_MAX :: nat where
  "LEARNING_BUNDLE_MAX = 32"

definition BUNDLE_SCAN_MAX :: nat where
  "BUNDLE_SCAN_MAX = 512"

record bundle_item =
  it_artifact_id :: string
  it_kind :: string
  it_collection :: string
  it_score :: dbl

record evidence_bundle =
  b_items :: "bundle_item list"
  b_count :: nat
  b_distinct_kinds :: nat
  b_scanned :: int

definition zero_bundle :: evidence_bundle where
  "zero_bundle = \<lparr>b_items = replicate LEARNING_BUNDLE_MAX
       \<lparr>it_artifact_id = [], it_kind = [], it_collection = [], it_score = Fin 0\<rparr>,
     b_count = 0, b_distinct_kinds = 0, b_scanned = 0\<rparr>"

text \<open>A row of the vector table.\<close>

record vector_row =
  r_artifact_id :: string
  r_kind :: string
  r_collection :: string
  r_embedding :: "string option"

text \<open>What the file calls: the embedder and its command, the vector table, the allocator (whether the
  call returned memory), and \<open>qsort\<close>.\<close>

record 'w bundle_host =
  bplat :: platform
  fplat :: platform
  EMBED_MAX_DIM :: nat
  config_embedder_command_current :: "string option \<Rightarrow> 'w \<Rightarrow> string"
  memory_embed_text :: "string \<Rightarrow> string \<Rightarrow> nat \<Rightarrow> ('w, int \<times> dbl list) state"
  calloc_succeeds :: "nat \<Rightarrow> ('w, bool) state"
  db2_evidence_vectors_list :: "nat \<Rightarrow> ('w, int \<times> vector_row list) state"
  qsort :: "(bundle_scored \<Rightarrow> bundle_scored \<Rightarrow> int) \<Rightarrow> bundle_scored list \<Rightarrow> bundle_scored list"

text \<open>The scoring loop over the rows: those of the query's dimension, with their indices.\<close>

fun score_rows ::
    "'w bundle_host \<Rightarrow> dbl list \<Rightarrow> nat \<Rightarrow> nat \<Rightarrow> vector_row list \<Rightarrow> bundle_scored list" where
  "score_rows B qvec qdim i [] = []"
| "score_rows B qvec qdim i (r # rs) =
     (let vec = bundle_parse_vec (fplat B) (r_embedding r) (EMBED_MAX_DIM B) in
      if length vec \<noteq> qdim then score_rows B qvec qdim (i + 1) rs
      else \<lparr>bs_row = i, bs_score = bundle_cosine (bplat B) qvec vec qdim\<rparr> #
           score_rows B qvec qdim (i + 1) rs)"

definition bundle_item_of :: "vector_row list \<Rightarrow> bundle_scored \<Rightarrow> bundle_item" where
  "bundle_item_of rows s =
     (let r = rows ! bs_row s in
      \<lparr>it_artifact_id = snprintf 37 (r_artifact_id r), it_kind = snprintf 64 (r_kind r),
       it_collection = snprintf 64 (r_collection r), it_score = bs_score s\<rparr>)"

text \<open>The nested loop that counts the kinds seen for the first time.\<close>

definition count_kinds :: "bundle_item list \<Rightarrow> nat" where
  "count_kinds its =
     length (filter (\<lambda>i. \<not> (\<exists>j < i. it_kind (its ! i) = it_kind (its ! j))) [0..<length its])"

definition select_items :: "'w bundle_host \<Rightarrow> vector_row list \<Rightarrow> nat \<Rightarrow> bundle_scored list \<Rightarrow> evidence_bundle \<Rightarrow> evidence_bundle" where
  "select_items B rows k scored out =
     (let sorted = qsort B bundle_cmp_desc scored;
          n = (if length scored < k then length scored else k);
          its = map (bundle_item_of rows) (take n sorted)
      in out\<lparr>b_items := its @ drop n (b_items out), b_count := n, b_distinct_kinds := count_kinds its\<rparr>)"

definition learning_bundle_build ::
    "'w bundle_host \<Rightarrow> string option \<Rightarrow> string option \<Rightarrow> int \<Rightarrow> evidence_bundle option \<Rightarrow>
     ('w, int \<times> evidence_bundle option) state" where
  "learning_bundle_build B query embed_cmd k out =
     (if out = None \<or> query = None \<or> query = Some [] then ret (-1, out)
      else
        (let out = zero_bundle;
             k = (if k < 1 then 1 else if k > int LEARNING_BUNDLE_MAX then LEARNING_BUNDLE_MAX else nat k)
         in do {
           model \<leftarrow> gets (config_embedder_command_current B embed_cmd);
           q \<leftarrow> memory_embed_text B (the query) model (EMBED_MAX_DIM B);
           let (qdim, qvec) = q;
           if qdim \<le> 0 then ret (-1, Some out)
           else do {
             rows_ok \<leftarrow> calloc_succeeds B BUNDLE_SCAN_MAX;
             if \<not> rows_ok then ret (-1, Some out)
             else do {
               l \<leftarrow> db2_evidence_vectors_list B BUNDLE_SCAN_MAX;
               let (got, rows) = l;
               if got < 0 then ret (-1, Some out)
               else do {
                 let out = out\<lparr>b_scanned := got\<rparr>;
                 if got = 0 then ret (0, Some out)
                 else do {
                   scored_ok \<leftarrow> calloc_succeeds B (nat got);
                   if \<not> scored_ok then ret (-1, Some out)
                   else ret (0, Some (select_items B rows k
                          (score_rows B qvec (nat qdim) 0 (take (nat got) rows)) out))
                 }
               }
             }
           }
         }))"

end
