(* ===== verification/Bundle_Parse.thy ===== *)
theory Bundle_Parse
  imports Bundle
begin

text \<open>
  What \<open>bundle_parse_vec\<close> reads: decimal literals, their values, and the text of a vector of them.
\<close>

section \<open>Reading a printed vector\<close>

text \<open>A decimal literal: a sign, the digits before the point, and those behind it, if any.\<close>

type_synonym literal = "bool \<times> string \<times> string"

definition is_literal :: "literal \<Rightarrow> bool" where
  "is_literal l = (case l of (neg, ip, fp) \<Rightarrow> ip \<noteq> [] \<and> list_all is_dec ip \<and> list_all is_dec fp)"

definition literal_text :: "literal \<Rightarrow> string" where
  "literal_text l = (case l of (neg, ip, fp) \<Rightarrow>
     (if neg then ''-'' else []) @ ip @ (if fp = [] then [] else CHR ''.'' # fp))"

definition literal_value :: "literal \<Rightarrow> real" where
  "literal_value l = (case l of (neg, ip, fp) \<Rightarrow>
     (if neg then -1 else 1) * (of_nat (digits_value 10 (ip @ fp)) / 10 ^ length fp))"

definition ends_number :: "string \<Rightarrow> bool" where
  "ends_number r \<longleftrightarrow> r = [] \<or> vec_separator (hd r)"

lemma separator_codes:
  "vec_separator c \<longleftrightarrow> char_code c = 91 \<or> char_code c = 93 \<or> char_code c = 44 \<or> char_code c = 32"
proof -
  have "c = d \<longleftrightarrow> char_code c = char_code d" for d
    by (simp add: char_code_def)
  then show ?thesis by (simp add: vec_separator_def) (simp add: char_code_def)
qed

lemma separator_not_digit: "vec_separator c \<Longrightarrow> \<not> is_dec c"
  by (auto simp: separator_codes is_dec_def)

lemma ends_takeWhile:
  assumes "list_all is_dec ds" "ends_number r"
  shows "takeWhile is_dec (ds @ r) = ds" "dropWhile is_dec (ds @ r) = r"
  using assms by (cases r; auto simp: list_all_iff takeWhile_append dropWhile_append ends_number_def
      separator_not_digit)+

lemma mantissa_literal:
  assumes "ip \<noteq> []" "list_all is_dec ip" "list_all is_dec fp" "ends_number r"
  shows "mantissa is_dec (ip @ (if fp = [] then [] else CHR ''.'' # fp) @ r) = Some (ip, fp, r)"
proof (cases "fp = []")
  case True
  then show ?thesis
    using assms ends_takeWhile [OF assms(2,4)]
    by (auto simp: mantissa_def Let_def ends_number_def vec_separator_def split: list.split)
next
  case False
  have "\<not> is_dec (CHR ''.'')" by (simp add: is_dec_def char_code_def)
  then have "takeWhile is_dec (ip @ CHR ''.'' # fp @ r) = ip" "dropWhile is_dec (ip @ CHR ''.'' # fp @ r) = CHR ''.'' # fp @ r"
    using assms(2) by (auto simp: list_all_iff takeWhile_append dropWhile_append)
  with False show ?thesis
    using assms ends_takeWhile [OF assms(3,4)] by (simp add: mantissa_def Let_def)
qed

lemma exponent_none: "ends_number r \<Longrightarrow> exponent (CHR ''e'') r = (0, r)"
proof (cases r)
  case (Cons c r')
  assume "ends_number r"
  with Cons have "lower c = c" "c \<noteq> CHR ''e''"
    by (auto simp: ends_number_def lower_def separator_codes) (auto simp: char_code_def)
  with Cons show ?thesis by (simp add: exponent_def)
qed (simp add: exponent_def)

lemma dec_number_literal:
  assumes "is_literal (neg, ip, fp)" "ends_number r"
  shows "dec_number (ip @ (if fp = [] then [] else CHR ''.'' # fp) @ r) =
     Some (of_nat (digits_value 10 (ip @ fp)) / 10 ^ length fp, r)"
proof -
  have "mantissa is_dec (ip @ (if fp = [] then [] else CHR ''.'' # fp) @ r) = Some (ip, fp, r)"
    using assms by (intro mantissa_literal) (auto simp: is_literal_def)
  then show ?thesis
    unfolding dec_number_def
    by (simp add: exponent_none [OF assms(2)] power_int_minus divide_inverse)
qed

lemma dec_no_name:
  assumes "is_dec c"
  shows "\<not> starts_with ''infinity'' (c # s)" "\<not> starts_with ''inf'' (c # s)" "\<not> starts_with ''nan'' (c # s)"
    "c \<noteq> CHR ''-''" "c \<noteq> CHR ''+''" "\<not> is_space c"
proof -
  have "lower c = c" using assms by (auto simp: lower_def is_dec_def)
  moreover have "c \<noteq> CHR ''i''" "c \<noteq> CHR ''n''" and *: "c \<noteq> CHR ''-''" "c \<noteq> CHR ''+''"
    using assms by (auto simp: is_dec_def char_code_def)
  ultimately show "\<not> starts_with ''infinity'' (c # s)" "\<not> starts_with ''inf'' (c # s)" "\<not> starts_with ''nan'' (c # s)"
    "c \<noteq> CHR ''-''" "c \<noteq> CHR ''+''" "\<not> is_space c"
    using assms by (auto simp: starts_with_def is_space_def is_dec_def)
qed

lemma no_hex_prefix:
  assumes "is_literal (neg, ip, fp)" "ends_number r"
  shows "\<not> starts_with ''0x'' (ip @ (if fp = [] then [] else CHR ''.'' # fp) @ r)"
proof -
  have "lower c \<noteq> CHR ''x''" if "is_dec c \<or> c = CHR ''.'' \<or> vec_separator c" for c
    using that by (auto simp: is_dec_def separator_codes lower_def) (auto simp: char_code_def)
  then show ?thesis
    using assms
    by (cases ip; cases "tl ip"; cases r) (auto simp: is_literal_def starts_with_def ends_number_def)
qed

lemma unsigned_literal:
  assumes "is_literal (neg, ip, fp)" "ends_number r"
  shows "unsigned_number (ip @ (if fp = [] then [] else CHR ''.'' # fp) @ r) =
     Some (None, of_nat (digits_value 10 (ip @ fp)) / 10 ^ length fp, r)"
proof -
  obtain c t where c: "ip = c # t" "is_dec c"
    using assms(1) by (cases ip) (auto simp: is_literal_def)
  note d = dec_no_name(1-3) [OF c(2), of "t @ (if fp = [] then [] else CHR ''.'' # fp) @ r"]
  show ?thesis
    unfolding unsigned_number_def
    using d no_hex_prefix [OF assms] dec_number_literal [OF assms] by (simp add: c(1))
qed

lemma strtof_literal:
  assumes "is_literal l" "ends_number r"
  shows "strtof F (literal_text l @ r) = Some (round_dbl F (literal_value l), r)"
proof -
  obtain neg ip fp where l: "l = (neg, ip, fp)" by (cases l)
  let ?s = "ip @ (if fp = [] then [] else CHR ''.'' # fp) @ r"
  obtain c t where c: "ip = c # t" "is_dec c"
    using assms(1) by (cases ip) (auto simp: is_literal_def l)
  note d = dec_no_name [OF c(2)]
  have "\<not> is_space (CHR ''-'')" by (simp add: is_space_def char_code_def)
  then have "split_sign (dropWhile is_space (literal_text l @ r)) = (neg, ?s)"
    using d(4-6) by (simp add: literal_text_def l c(1) split_sign_def)
  then show ?thesis
    using unsigned_literal [of neg ip fp r] assms
    by (simp add: strtof_def l literal_value_def)
qed

text \<open>A vector as text: separators, then literals each followed by at least one separator.\<close>

fun vector_text :: "(literal \<times> string) list \<Rightarrow> string" where
  "vector_text [] = []"
| "vector_text ((l, sep) # xs) = literal_text l @ sep @ vector_text xs"

definition is_vector :: "string \<Rightarrow> (literal \<times> string) list \<Rightarrow> bool" where
  "is_vector pre xs \<longleftrightarrow> list_all vec_separator pre \<and>
     (\<forall>(l, sep) \<in> set xs. is_literal l \<and> sep \<noteq> [] \<and> list_all vec_separator sep)"

lemma literal_start:
  assumes "is_literal l"
  shows "\<exists>c t. literal_text l = c # t \<and> \<not> vec_separator c"
proof -
  obtain neg ip fp where l: "l = (neg, ip, fp)" by (cases l)
  obtain c t where c: "ip = c # t" "is_dec c"
    using assms by (cases ip) (auto simp: is_literal_def l)
  then show ?thesis
    using separator_not_digit by (auto simp: literal_text_def l vec_separator_def)
qed

lemma parse_vector:
  assumes "is_vector pre xs"
  shows "parse_loop F n out (pre @ vector_text xs) =
    (if length out < n then out @ map (round_dbl F \<circ> literal_value \<circ> fst) (take (n - length out) xs) else out)"
  using assms
proof (induction xs arbitrary: pre out)
  case Nil
  then have "dropWhile vec_separator pre = []"
    by (simp add: is_vector_def list_all_iff)
  then show ?case
    by (subst parse_loop.simps) (simp add: Let_def)
next
  case (Cons x xs)
  obtain l sep where x: "x = (l, sep)" by (cases x)
  have l: "is_literal l" "sep \<noteq> []" "list_all vec_separator sep" and v: "is_vector sep xs" and
    o: "list_all vec_separator pre"
    using Cons.prems by (auto simp: is_vector_def x)
  obtain c t where c: "literal_text l = c # t" "\<not> vec_separator c"
    using literal_start [OF l(1)] by blast
  have "dropWhile vec_separator (pre @ vector_text (x # xs)) = literal_text l @ sep @ vector_text xs"
    using o c by (simp add: x list_all_iff dropWhile_append)
  moreover have "ends_number (sep @ vector_text xs)"
    using l(2,3) by (cases sep) (auto simp: ends_number_def)
  ultimately show ?case
    using strtof_literal [OF l(1)] Cons.IH [OF v, of "out @ [round_dbl F (literal_value l)]"] c
    by (subst parse_loop.simps) (auto simp: Let_def x take_Cons' Suc_diff_Suc)
qed

text \<open>
  C25. The parser reads what a vector says: of a text with any brackets, commas and spaces around and between
  decimal numbers, at least one behind each, \<open>bundle_parse_vec\<close> returns the first \<open>maxdim\<close> numbers, each
  rounded to \<open>float\<close>, in their order.
\<close>

theorem parse_reads_vector:
  assumes "is_vector pre xs"
  shows "bundle_parse_vec F (Some (pre @ vector_text xs)) maxdim =
    take maxdim (map (\<lambda>(l, sep). round_dbl F (literal_value l)) xs)"
  using parse_vector [OF assms, of F maxdim "[]"]
  by (simp add: bundle_parse_vec_def take_map comp_def case_prod_beta)

lemma parse_reads_vector_witness:
  "bundle_parse_vec exact_platform (Some ''[0.5, -2]'') 3 = [Fin (1 / 2), Fin (- 2)]"
  using parse_reads_vector [of "''[''" "[((False, ''0'', ''5''), '', ''), ((True, ''2'', []), '']'')]" exact_platform 3]
  by (simp add: is_vector_def is_literal_def is_dec_def char_code_def vec_separator_def literal_text_def
      literal_value_def digits_value_def digit_value_def)

end
