(* ===== verification/Bundle_Ranking.thy ===== *)
theory Bundle_Ranking
  imports Bundle_Parse
begin

text \<open>
  The properties of the similarity, of the comparison and of the bundle that \<open>learning_bundle_build\<close> returns.
\<close>

section \<open>The cosine\<close>

lemma exact_sums:
  assumes "length xs = n" "length ys = n"
  shows "fold (cosine_step exact_platform (map Fin xs) (map Fin ys)) [0..<n] (Fin 0, Fin 0, Fin 0) =
    (Fin (\<Sum>i<n. xs ! i * ys ! i), Fin (\<Sum>i<n. (xs ! i)\<^sup>2), Fin (\<Sum>i<n. (ys ! i)\<^sup>2))"
proof -
  have "m \<le> n \<Longrightarrow> fold (cosine_step exact_platform (map Fin xs) (map Fin ys)) [0..<m] (Fin 0, Fin 0, Fin 0) =
    (Fin (\<Sum>i<m. xs ! i * ys ! i), Fin (\<Sum>i<m. (xs ! i)\<^sup>2), Fin (\<Sum>i<m. (ys ! i)\<^sup>2))" for m
    by (induction m) (use assms in \<open>auto simp: cosine_step_def power2_eq_square\<close>)
  then show ?thesis by simp
qed

lemma cauchy_schwarz:
  fixes f g :: "nat \<Rightarrow> real"
  shows "(\<Sum>i<n. f i * g i)\<^sup>2 \<le> (\<Sum>i<n. (f i)\<^sup>2) * (\<Sum>i<n. (g i)\<^sup>2)"
proof -
  let ?A = "\<Sum>i<n. (f i)\<^sup>2" and ?B = "\<Sum>i<n. (g i)\<^sup>2" and ?D = "\<Sum>i<n. f i * g i"
  have "0 \<le> (\<Sum>i<n. \<Sum>j<n. (f i * g j - f j * g i)\<^sup>2)"
    by (intro sum_nonneg) simp
  also have "\<dots> = (\<Sum>i<n. \<Sum>j<n. (f i)\<^sup>2 * (g j)\<^sup>2 + (g i)\<^sup>2 * (f j)\<^sup>2 - 2 * ((f i * g i) * (f j * g j)))"
    by (intro sum.cong refl) (simp add: power2_eq_square algebra_simps)
  also have "\<dots> = ?A * ?B + ?B * ?A - 2 * (?D * ?D)"
    by (simp add: sum.distrib sum_subtractf sum_distrib_left [symmetric] sum_distrib_right [symmetric]
        sum_product [symmetric])
  finally show ?thesis
    by (simp add: power2_eq_square)
qed

text \<open>
  C26. The score is the cosine: in exact arithmetic, for two vectors of the same dimension whose norms
  are not negligible, \<open>bundle_cosine\<close> is the number that, times the two norms, is their inner product; it
  lies between -1 and 1, as the header says, and it is 0 when the norms multiply to at most 1e-9.
\<close>

theorem cosine_is_normalised_product:
  assumes "length xs = n" "length ys = n"
  defines "nx \<equiv> sqrt (\<Sum>i<n. (xs ! i)\<^sup>2)" and "ny \<equiv> sqrt (\<Sum>i<n. (ys ! i)\<^sup>2)"
  shows "\<exists>r. bundle_cosine exact_platform (map Fin xs) (map Fin ys) n = Fin r \<and> \<bar>r\<bar> \<le> 1 \<and>
    (if 1 / 10 ^ 9 < nx * ny then r * (nx * ny) = (\<Sum>i<n. xs ! i * ys ! i) else r = 0)"
proof -
  let ?A = "\<Sum>i<n. (xs ! i)\<^sup>2" and ?B = "\<Sum>i<n. (ys ! i)\<^sup>2" and ?D = "\<Sum>i<n. xs ! i * ys ! i"
  have nn: "0 \<le> ?A" "0 \<le> ?B"
    by (intro sum_nonneg; simp)+
  then have c: "bundle_cosine exact_platform (map Fin xs) (map Fin ys) n =
      (if 1 / 10 ^ 9 < nx * ny then fdiv exact_platform (Fin ?D) (Fin (nx * ny)) else Fin 0)"
    unfolding bundle_cosine_def exact_sums [OF assms(1,2)] nx_def ny_def by (simp add: not_less [symmetric])
  show ?thesis
  proof (cases "1 / 10 ^ 9 < nx * ny")
    case True
    then have pos: "0 < nx * ny"
      by (rule less_trans [rotated]) simp
    have "\<bar>?D\<bar> = sqrt (?D\<^sup>2)" by simp
    also have "\<dots> \<le> sqrt (?A * ?B)"
      by (rule real_sqrt_le_mono [OF cauchy_schwarz])
    also have "\<dots> = nx * ny"
      by (simp add: nx_def ny_def real_sqrt_mult)
    finally have "\<bar>?D\<bar> / (nx * ny) \<le> 1"
      using pos by (simp add: divide_le_eq_1)
    then have "\<bar>?D / (nx * ny)\<bar> \<le> 1"
      using pos by simp
    with True pos c show ?thesis
      by (intro exI [of _ "?D / (nx * ny)"]) auto
  next
    case False
    with c show ?thesis by (intro exI [of _ 0]) simp
  qed
qed

lemma cosine_is_normalised_product_witness:
  "\<exists>r. bundle_cosine exact_platform (map Fin [3, 4]) (map Fin [4, 3]) 2 = Fin r \<and> \<bar>r\<bar> \<le> 1 \<and> r * 25 = 24"
proof -
  have s: "(\<Sum>i<2. ([3, 4 :: real] ! i)\<^sup>2) = 25" "(\<Sum>i<2. ([4, 3 :: real] ! i)\<^sup>2) = 25"
    "(\<Sum>i<2. [3, 4 :: real] ! i * [4, 3] ! i) = 24"
    by (simp_all add: eval_nat_numeral)
  have "sqrt 25 = (5 :: real)"
    by (rule real_sqrt_unique) simp_all
  then show ?thesis
    using cosine_is_normalised_product [of "[3, 4]" 2 "[4, 3]"] unfolding s by simp
qed

section \<open>The ranking\<close>

text \<open>What C promises of \<open>qsort\<close>: for a comparison that is consistent on the elements, the result is a
  permutation of them in its order.\<close>

definition consistent :: "('a \<Rightarrow> 'a \<Rightarrow> int) \<Rightarrow> 'a set \<Rightarrow> bool" where
  "consistent cmp S \<longleftrightarrow> (\<forall>x \<in> S. \<forall>y \<in> S. (cmp x y < 0 \<longleftrightarrow> 0 < cmp y x)) \<and>
     (\<forall>x \<in> S. \<forall>y \<in> S. \<forall>z \<in> S. cmp x y \<le> 0 \<longrightarrow> cmp y z \<le> 0 \<longrightarrow> cmp x z \<le> 0)"

definition qsort_law :: "(('a \<Rightarrow> 'a \<Rightarrow> int) \<Rightarrow> 'a list \<Rightarrow> 'a list) \<Rightarrow> bool" where
  "qsort_law q \<longleftrightarrow> (\<forall>cmp xs. consistent cmp (set xs) \<longrightarrow>
     mset (q cmp xs) = mset xs \<and> sorted_wrt (\<lambda>x y. cmp x y \<le> 0) (q cmp xs))"

lemma flt_trans_le: "x \<noteq> NaN \<Longrightarrow> y \<noteq> NaN \<Longrightarrow> z \<noteq> NaN \<Longrightarrow> \<not> flt x y \<Longrightarrow> \<not> flt y z \<Longrightarrow> \<not> flt x z"
  by (metis flt_total flt_trans)

lemma cmp_le_0: "bundle_cmp_desc a b \<le> 0 \<longleftrightarrow> \<not> flt (bs_score a) (bs_score b)"
  by (simp add: bundle_cmp_desc_def Let_def)

lemma cmp_consistent:
  assumes "\<forall>s \<in> S. bs_score s \<noteq> NaN"
  shows "consistent bundle_cmp_desc S"
  unfolding consistent_def
proof (intro conjI ballI impI)
  fix x y
  show "bundle_cmp_desc x y < 0 \<longleftrightarrow> 0 < bundle_cmp_desc y x"
    by (auto simp: bundle_cmp_desc_def Let_def dest: flt_asym)
next
  fix x y z
  assume "x \<in> S" "y \<in> S" "z \<in> S" "bundle_cmp_desc x y \<le> 0" "bundle_cmp_desc y z \<le> 0"
  with assms show "bundle_cmp_desc x z \<le> 0"
    using flt_trans_le [of "bs_score x" "bs_score y" "bs_score z"] by (simp add: cmp_le_0)
qed

text \<open>
  C39. The order needs numbers: the function given to \<open>qsort\<close> is a consistent order of any scores that are
  numbers, and with a single score that is not a number beside two different ones it is none (a NaN is
  equal to both), a call C leaves undefined.
\<close>

theorem comparison_needs_numbers:
  "(\<forall>S :: bundle_scored set. (\<forall>s \<in> S. bs_score s \<noteq> NaN) \<longrightarrow> consistent bundle_cmp_desc S) \<and>
   (\<forall>x y z :: bundle_scored. flt (bs_score x) (bs_score z) \<longrightarrow> bs_score y = NaN \<longrightarrow> \<not> consistent bundle_cmp_desc {x, y, z})"
proof (intro conjI allI impI)
  fix S :: "bundle_scored set"
  assume "\<forall>s \<in> S. bs_score s \<noteq> NaN"
  then show "consistent bundle_cmp_desc S" by (rule cmp_consistent)
next
  fix x y z :: bundle_scored
  assume lt: "flt (bs_score x) (bs_score z)" and nan: "bs_score y = NaN"
  show "\<not> consistent bundle_cmp_desc {x, y, z}"
  proof
    assume "consistent bundle_cmp_desc {x, y, z}"
    then have "bundle_cmp_desc x y \<le> 0 \<longrightarrow> bundle_cmp_desc y z \<le> 0 \<longrightarrow> bundle_cmp_desc x z \<le> 0"
      unfolding consistent_def by blast
    with lt nan show False by (simp add: cmp_le_0)
  qed
qed

lemma comparison_needs_numbers_witness:
  "consistent bundle_cmp_desc {\<lparr>bs_row = 0, bs_score = Fin 1\<rparr>, \<lparr>bs_row = 1, bs_score = PInf\<rparr>} \<and>
   \<not> consistent bundle_cmp_desc {\<lparr>bs_row = 0, bs_score = Fin 1\<rparr>, \<lparr>bs_row = 1, bs_score = NaN\<rparr>,
       \<lparr>bs_row = 2, bs_score = Fin 2\<rparr>}"
proof
  show "consistent bundle_cmp_desc {\<lparr>bs_row = 0, bs_score = Fin 1\<rparr>, \<lparr>bs_row = 1, bs_score = PInf\<rparr>}"
    by (rule comparison_needs_numbers [THEN conjunct1, rule_format]) auto
  show "\<not> consistent bundle_cmp_desc {\<lparr>bs_row = 0, bs_score = Fin 1\<rparr>, \<lparr>bs_row = 1, bs_score = NaN\<rparr>,
      \<lparr>bs_row = 2, bs_score = Fin 2\<rparr>}"
    by (rule comparison_needs_numbers [THEN conjunct2, rule_format]) simp_all
qed

section \<open>The bundle\<close>

lemma count_kinds_append:
  "count_kinds (its @ [x]) = count_kinds its + (if it_kind x \<in> it_kind ` set its then 0 else 1)"
proof -
  let ?P = "\<lambda>l i. \<not> (\<exists>j < i. it_kind (l ! i) = it_kind (l ! j))"
  have "filter (?P (its @ [x])) [0..<length its] = filter (?P its) [0..<length its]"
    by (rule filter_cong) (auto simp: nth_append)
  moreover have "(\<exists>j < length its. it_kind x = it_kind (its ! j)) \<longleftrightarrow> it_kind x \<in> it_kind ` set its"
    by (auto simp: in_set_conv_nth) (metis in_set_conv_nth imageI)
  then have "(\<forall>j < length its. it_kind x \<noteq> it_kind (its ! j)) \<longleftrightarrow> it_kind x \<notin> it_kind ` set its"
    by blast
  ultimately show ?thesis
    by (simp add: count_kinds_def nth_append)
qed

text \<open>The nested loop counts the different kinds.\<close>

lemma count_kinds_card: "count_kinds its = card (it_kind ` set its)"
proof (induction its rule: rev_induct)
  case (snoc x its)
  then show ?case by (simp add: count_kinds_append insert_absorb)
qed (simp add: count_kinds_def)

definition ranked :: "bundle_scored list \<Rightarrow> nat \<Rightarrow> bundle_scored list \<Rightarrow> bool" where
  "ranked scored k sel \<longleftrightarrow> (\<exists>rest. mset (sel @ rest) = mset scored \<and> length sel = min k (length scored) \<and>
     sorted_wrt (\<lambda>x y. \<not> flt (bs_score x) (bs_score y)) sel \<and>
     (\<forall>x \<in> set sel. \<forall>y \<in> set rest. \<not> flt (bs_score x) (bs_score y)))"

lemma select_ranked:
  assumes "qsort_law (qsort B)" "\<forall>s \<in> set scored. bs_score s \<noteq> NaN"
  shows "\<exists>sel. ranked scored k sel \<and> select_items B rows k scored out =
     out\<lparr>b_items := map (bundle_item_of rows) sel @ drop (length sel) (b_items out), b_count := length sel,
         b_distinct_kinds := card (it_kind ` set (map (bundle_item_of rows) sel))\<rparr>"
proof -
  let ?s = "qsort B bundle_cmp_desc scored"
  have "mset ?s = mset scored" and sorted: "sorted_wrt (\<lambda>x y. \<not> flt (bs_score x) (bs_score y)) ?s"
    using assms(1) cmp_consistent [OF assms(2)] by (simp_all add: qsort_law_def cmp_le_0 [symmetric])
  then have len: "length ?s = length scored" by (metis size_mset)
  let ?sel = "take k ?s" and ?rest = "drop k ?s"
  have "sorted_wrt (\<lambda>x y. \<not> flt (bs_score x) (bs_score y)) (?sel @ ?rest)"
    using sorted by simp
  then have "ranked scored k ?sel"
    using \<open>mset ?s = mset scored\<close> len
    unfolding ranked_def sorted_wrt_append by (intro exI [of _ ?rest]) auto
  moreover have "take (if length scored < k then length scored else k) ?s = ?sel"
      "length ?sel = (if length scored < k then length scored else k)"
    using len by auto
  ultimately show ?thesis
    by (intro exI [of _ ?sel]) (simp add: select_items_def Let_def count_kinds_card)
qed

text \<open>The vector a row holds, and the rows of the query's dimension with their scores, as a comprehension
  over the indices of the table: the scoring loop computes exactly these.\<close>

definition row_vector :: "'w bundle_host \<Rightarrow> vector_row \<Rightarrow> dbl list" where
  "row_vector B r = bundle_parse_vec (fplat B) (r_embedding r) (EMBED_MAX_DIM B)"

definition comparable_rows :: "'w bundle_host \<Rightarrow> dbl list \<Rightarrow> nat \<Rightarrow> vector_row list \<Rightarrow> bundle_scored list" where
  "comparable_rows B qvec d rows =
     [\<lparr>bs_row = j, bs_score = bundle_cosine (bplat B) qvec (row_vector B (rows ! j)) d\<rparr>.
        j \<leftarrow> [0..<length rows], length (row_vector B (rows ! j)) = d]"

lemma score_rows_from:
  "score_rows B qvec d i rows =
     map (\<lambda>s. s\<lparr>bs_row := i + bs_row s\<rparr>) (comparable_rows B qvec d rows)"
proof (induction rows arbitrary: i)
  case (Cons r rows)
  have "[0..<length (r # rows)] = 0 # map Suc [0..<length rows]"
    by (simp add: upt_conv_Cons map_Suc_upt del: upt_Suc)
  then have "comparable_rows B qvec d (r # rows) =
      (if length (row_vector B r) = d then [\<lparr>bs_row = 0, bs_score = bundle_cosine (bplat B) qvec (row_vector B r) d\<rparr>]
       else []) @ map (\<lambda>s. s\<lparr>bs_row := Suc (bs_row s)\<rparr>) (comparable_rows B qvec d rows)"
    by (simp add: comparable_rows_def map_concat comp_def if_distrib [of "map _"] cong: if_cong)
  then show ?case
    using Cons [of "i + 1"] by (simp add: row_vector_def Let_def comp_def)
qed (simp add: comparable_rows_def)

lemma score_rows_comparable: "score_rows B qvec d 0 rows = comparable_rows B qvec d rows"
  by (simp add: score_rows_from)

text \<open>
  C10. The bundle is the top of the ranking: when the query is not empty, the embedder answers with a dimension \<open>qdim\<close>, the memory is
  there and the table can be read, \<open>learning_bundle_build\<close> returns 0. It compares exactly the rows that were
  read and whose parsed embedding has \<open>qdim\<close> components (\<open>comparable_rows\<close>, a row of another dimension is left out), each
  by the cosine of its vector and the query's; it returns as many items as there are among \<open>k\<close> (clamped to 1
  to 32) and these rows; they are in descending order of their score, no comparable row that was left out
  has a higher score, and the count of kinds is that of the kinds among them. The table may be empty.
  Two things are assumed: no score is a NaN (which the code does not exclude: a NaN or infinite component can give one,
  and the order is then undefined), and \<open>qsort\<close> sorts by any consistent comparison, as C promises.
\<close>

theorem bundle_is_top_k:
  assumes "qsort_law (qsort B)" "q \<noteq> []"
    and "outcome (memory_embed_text B q (config_embedder_command_current B cmd w) (EMBED_MAX_DIM B)) w = (qdim, qvec)"
    and "w1 = final (memory_embed_text B q (config_embedder_command_current B cmd w) (EMBED_MAX_DIM B)) w"
    and "0 < qdim" "outcome (calloc_succeeds B BUNDLE_SCAN_MAX) w1"
    and "w2 = final (calloc_succeeds B BUNDLE_SCAN_MAX) w1"
    and "outcome (db2_evidence_vectors_list B BUNDLE_SCAN_MAX) w2 = (got, rows)" "0 \<le> got"
    and "outcome (calloc_succeeds B (nat got)) (final (db2_evidence_vectors_list B BUNDLE_SCAN_MAX) w2)"
    and "scored = comparable_rows B qvec (nat qdim) (take (nat got) rows)"
    and "\<forall>s \<in> set scored. bs_score s \<noteq> NaN"
  shows "\<exists>sel b. outcome (learning_bundle_build B (Some q) cmd k (Some out)) w = (0, Some b) \<and>
     ranked scored (nat (max 1 (min k 32))) sel \<and>
     take (b_count b) (b_items b) = map (bundle_item_of rows) sel \<and> b_count b = length sel \<and>
     b_distinct_kinds b = card (it_kind ` set (take (b_count b) (b_items b))) \<and>
     b_scanned b = got \<and> length (b_items b) = LEARNING_BUNDLE_MAX"
proof -
  let ?k = "nat (max 1 (min k 32))" and ?out = "zero_bundle\<lparr>b_scanned := got\<rparr>"
  have k: "(if k < 1 then 1 else if k > int LEARNING_BUNDLE_MAX then LEARNING_BUNDLE_MAX else nat k) = ?k"
    by (auto simp: LEARNING_BUNDLE_MAX_def)
  obtain sel where sel: "ranked scored ?k sel" "select_items B rows ?k scored ?out =
     ?out\<lparr>b_items := map (bundle_item_of rows) sel @ drop (length sel) (b_items ?out), b_count := length sel,
         b_distinct_kinds := card (it_kind ` set (map (bundle_item_of rows) sel))\<rparr>"
    using select_ranked [OF assms(1,12)] by blast
  have "length sel \<le> LEARNING_BUNDLE_MAX"
    using sel(1) by (auto simp: ranked_def LEARNING_BUNDLE_MAX_def)
  moreover have "outcome (learning_bundle_build B (Some q) cmd k (Some out)) w =
      (0, Some (select_items B rows ?k scored ?out))"
  proof (cases "got = 0")
    case True
    then have "sel = []" "scored = []"
      using sel(1) assms(11) by (auto simp: ranked_def comparable_rows_def)
    with sel(2) True have "select_items B rows ?k scored ?out = ?out"
      by (simp add: zero_bundle_def)
    then show ?thesis
      using assms(2-10) True by (simp add: learning_bundle_build_def outcome_bind Let_def)
  next
    case False
    then show ?thesis
      using assms(2-11) unfolding learning_bundle_build_def Let_def k
      by (simp add: outcome_bind case_prod_beta score_rows_comparable)
  qed
  ultimately show ?thesis
    using sel by (intro exI [of _ sel] exI [of _ "select_items B rows ?k scored ?out"]) (simp add: zero_bundle_def)
qed

section \<open>A reference host\<close>

text \<open>Insertion sort keeps the law of \<open>qsort\<close>.\<close>

fun insert_by :: "('a \<Rightarrow> 'a \<Rightarrow> int) \<Rightarrow> 'a \<Rightarrow> 'a list \<Rightarrow> 'a list" where
  "insert_by cmp x [] = [x]"
| "insert_by cmp x (y # ys) = (if cmp x y \<le> 0 then x # y # ys else y # insert_by cmp x ys)"

definition insertion_sort :: "('a \<Rightarrow> 'a \<Rightarrow> int) \<Rightarrow> 'a list \<Rightarrow> 'a list" where
  "insertion_sort cmp xs = foldr (insert_by cmp) xs []"

lemma mset_insert_by: "mset (insert_by cmp x ys) = add_mset x (mset ys)"
  by (induction ys) simp_all

lemma set_insert_by: "set (insert_by cmp x ys) = insert x (set ys)"
  by (metis mset_insert_by set_mset_add_mset_insert set_mset_mset)

lemma consistent_trans:
  "consistent cmp S \<Longrightarrow> x \<in> S \<Longrightarrow> y \<in> S \<Longrightarrow> z \<in> S \<Longrightarrow> cmp x y \<le> 0 \<Longrightarrow> cmp y z \<le> 0 \<Longrightarrow> cmp x z \<le> 0"
  unfolding consistent_def by blast

lemma consistent_total: "consistent cmp S \<Longrightarrow> x \<in> S \<Longrightarrow> y \<in> S \<Longrightarrow> \<not> cmp x y \<le> 0 \<Longrightarrow> cmp y x \<le> 0"
  unfolding consistent_def by (meson leI less_imp_le)

lemma sorted_insert_by:
  assumes "consistent cmp S" "insert x (set ys) \<subseteq> S" "sorted_wrt (\<lambda>x y. cmp x y \<le> 0) ys"
  shows "sorted_wrt (\<lambda>x y. cmp x y \<le> 0) (insert_by cmp x ys)"
  using assms(2,3)
proof (induction ys)
  case (Cons y ys)
  show ?case
  proof (cases "cmp x y \<le> 0")
    case True
    then have "cmp x z \<le> 0" if "z \<in> set ys" for z
      using that Cons.prems by (intro consistent_trans [OF assms(1), of x y z]) auto
    with True Cons.prems show ?thesis by simp
  next
    case False
    then have "cmp y x \<le> 0"
      using Cons.prems by (intro consistent_total [OF assms(1), of x y]) auto
    with False Cons show ?thesis by (auto simp: set_insert_by)
  qed
qed simp

lemma insertion_sort_law: "qsort_law insertion_sort"
proof -
  have "mset (insertion_sort cmp xs) = mset xs" for cmp and xs :: "'a list"
    by (induction xs) (simp_all add: insertion_sort_def mset_insert_by)
  moreover have "sorted_wrt (\<lambda>x y. cmp x y \<le> 0) (insertion_sort cmp xs)"
    if "consistent cmp (set ys)" "set xs \<subseteq> set ys" for cmp and xs ys :: "'a list"
    using that(2)
  proof (induction xs)
    case (Cons x xs)
    have "set (insertion_sort cmp xs) = set xs"
      by (metis \<open>\<And>xs cmp. mset (insertion_sort cmp xs) = mset xs\<close> set_mset_mset)
    with Cons sorted_insert_by [OF that(1), of x "insertion_sort cmp xs"] show ?case
      by (simp add: insertion_sort_def)
  qed (simp add: insertion_sort_def)
  ultimately show ?thesis by (simp add: qsort_law_def)
qed

definition example_rows :: "vector_row list" where
  "example_rows =
     [\<lparr>r_artifact_id = ''a'', r_kind = ''rule'', r_collection = [], r_embedding = Some ''[0,1]''\<rparr>,
      \<lparr>r_artifact_id = ''b'', r_kind = ''memory'', r_collection = [], r_embedding = Some ''[2,0]''\<rparr>,
      \<lparr>r_artifact_id = ''c'', r_kind = ''memory'', r_collection = [], r_embedding = Some ''[2]''\<rparr>]"

definition example_bundle_host :: "unit bundle_host" where
  "example_bundle_host = \<lparr>bplat = exact_platform, fplat = exact_platform, EMBED_MAX_DIM = 4,
     config_embedder_command_current = (\<lambda>c w. or_str c ''builtin''),
     memory_embed_text = (\<lambda>q c n. ret (2, [Fin 1, Fin 0])),
     calloc_succeeds = (\<lambda>n. ret True),
     db2_evidence_vectors_list = (\<lambda>n. ret (3, example_rows)),
     qsort = insertion_sort\<rparr>"

lemma example_parse:
  "bundle_parse_vec exact_platform (Some ''[0,1]'') 4 = [Fin 0, Fin 1]"
  "bundle_parse_vec exact_platform (Some ''[2,0]'') 4 = [Fin 2, Fin 0]"
  "bundle_parse_vec exact_platform (Some ''[2]'') 4 = [Fin 2]"
  using parse_vector [of "''[''" "[((False, ''0'', []), '',''), ((False, ''1'', []), '']'')]" exact_platform 4 "[]"]
    parse_vector [of "''[''" "[((False, ''2'', []), '',''), ((False, ''0'', []), '']'')]" exact_platform 4 "[]"]
    parse_vector [of "''[''" "[((False, ''2'', []), '']'')]" exact_platform 4 "[]"]
  by (simp_all add: bundle_parse_vec_def is_vector_def is_literal_def is_dec_def char_code_def vec_separator_def
      literal_text_def literal_value_def digits_value_def digit_value_def)

definition example_scores :: "bundle_scored list" where
  "example_scores = [\<lparr>bs_row = 0, bs_score = Fin 0\<rparr>, \<lparr>bs_row = 1, bs_score = Fin 1\<rparr>]"

lemma example_scored: "comparable_rows example_bundle_host [Fin 1, Fin 0] 2 example_rows = example_scores"
  unfolding score_rows_comparable [symmetric]
  by (simp add: example_rows_def example_bundle_host_def example_parse example_scores_def bundle_cosine_def
      cosine_step_def numeral_2_eq_2 Let_def)

lemma bundle_is_top_k_witness:
  "\<exists>sel b. outcome (learning_bundle_build example_bundle_host (Some ''tabs'') None 1 (Some zero_bundle)) () = (0, Some b) \<and>
     ranked example_scores 1 sel \<and>
     take (b_count b) (b_items b) = map (bundle_item_of example_rows) sel \<and> b_count b = length sel \<and>
     b_distinct_kinds b = card (it_kind ` set (take (b_count b) (b_items b))) \<and>
     b_scanned b = 3 \<and> length (b_items b) = LEARNING_BUNDLE_MAX"
proof -
  have l: "outcome (db2_evidence_vectors_list example_bundle_host BUNDLE_SCAN_MAX) () = (3, example_rows)"
    "qsort example_bundle_host = insertion_sort" "outcome (calloc_succeeds example_bundle_host n) ()"
    "outcome (memory_embed_text example_bundle_host q c m) () = (2, [Fin 1, Fin 0])" for n q c m
    by (simp_all add: example_bundle_host_def)
  have "example_scores = comparable_rows example_bundle_host [Fin 1, Fin 0] (nat 2) (take (nat 3) example_rows)"
    using example_scored by (simp add: example_rows_def)
  moreover have "\<forall>s \<in> set example_scores. bs_score s \<noteq> NaN"
    by (simp add: example_scores_def)
  moreover have "x = ()" for x
    by simp
  ultimately have "\<exists>sel b. outcome (learning_bundle_build example_bundle_host (Some ''tabs'') None 1 (Some zero_bundle)) () =
      (0, Some b) \<and> ranked example_scores (nat (max 1 (min 1 32))) sel \<and>
     take (b_count b) (b_items b) = map (bundle_item_of example_rows) sel \<and> b_count b = length sel \<and>
     b_distinct_kinds b = card (it_kind ` set (take (b_count b) (b_items b))) \<and>
     b_scanned b = 3 \<and> length (b_items b) = LEARNING_BUNDLE_MAX"
    by (intro bundle_is_top_k [of example_bundle_host "''tabs''" None "()" 2 "[Fin 1, Fin 0]" "()" "()" 3 example_rows])
      (simp_all only: l insertion_sort_law, simp_all add: l)
  then show ?thesis by simp
qed

end
