(* ===== verification/Evidence_Text.thy ===== *)
theory Evidence_Text
  imports Strtof
begin

text \<open>
  The texts of \<open>learning_evidence.c\<close>: the content hash, the escaping of evidence for a JSON payload, the
  payloads themselves, and the reading of a state out of a snapshot. \<open>DQ\<close> is the double quote.
\<close>

abbreviation DQ :: char where
  "DQ \<equiv> CHR 0x22"

abbreviation BACKSLASH :: char where
  "BACKSLASH \<equiv> CHR 0x5C"

section \<open>JSON text\<close>

definition quoted :: "string \<Rightarrow> string" where
  "quoted s = DQ # s @ [DQ]"

definition json_member :: "string \<Rightarrow> string \<Rightarrow> string" where
  "json_member k v = quoted k @ '':'' @ quoted v"

text \<open>An object of string members, as the format strings of the code write it.\<close>

fun json_members :: "(string \<times> string) list \<Rightarrow> string" where
  "json_members [] = []"
| "json_members [(k, v)] = json_member k v"
| "json_members ((k, v) # ms) = json_member k v @ '','' @ json_members ms"

definition json_object :: "(string \<times> string) list \<Rightarrow> string" where
  "json_object ms = ''{'' @ json_members ms @ ''}''"

section \<open>The content hash\<close>

definition fnv_step :: "64 word \<Rightarrow> char \<Rightarrow> 64 word" where
  "fnv_step h c = (h XOR of_char c) * 1099511628211"

definition fnv_hash :: "string option \<Rightarrow> string option \<Rightarrow> 64 word" where
  "fnv_hash kind content =
     (let h = foldl fnv_step 1469598103934665603 (or_str kind []);
          h = (h XOR 0x1f) * 1099511628211
      in foldl fnv_step h (or_str content []))"

definition evidence_content_hash :: "string option \<Rightarrow> string option \<Rightarrow> string" where
  "evidence_content_hash kind content = snprintf 17 (hex_fixed 16 (unat (fnv_hash kind content)))"

section \<open>Kinds\<close>

definition evidence_kinds :: "string list" where
  "evidence_kinds =
     [''session_turn'', ''session_summary'', ''feedback_positive'', ''feedback_negative'',
      ''tool_outcome'', ''guardrail_event'', ''benchmark_trace'', ''workflow_pattern'']"

definition evidence_kind_allowed :: "string option \<Rightarrow> bool" where
  "evidence_kind_allowed kind =
     (case kind of None \<Rightarrow> False | Some k \<Rightarrow> list_ex (\<lambda>x. k = x) evidence_kinds)"

section \<open>Escaping\<close>

text \<open>The loop: \<open>pos\<close> is the write position \<open>o\<close>, and the result is what is written from there on.\<close>

fun escape_loop :: "nat \<Rightarrow> nat \<Rightarrow> string \<Rightarrow> string" where
  "escape_loop len pos [] = []"
| "escape_loop len pos (c # p) =
     (if \<not> pos + 7 < len then []
      else if c = DQ \<or> c = BACKSLASH then BACKSLASH # c # escape_loop len (pos + 2) p
      else if char_code c < 0x20 then
        (let t = BACKSLASH # CHR ''u'' # hex_fixed 4 (char_code c)
         in snprintf (len - pos) t @ escape_loop len (pos + length t) p)
      else c # escape_loop len (pos + 1) p)"

definition json_escape_into :: "string option \<Rightarrow> nat \<Rightarrow> string" where
  "json_escape_into src len = escape_loop len 0 (or_str src [])"

section \<open>Payloads\<close>

definition build_feedback_payload :: "string option \<Rightarrow> string option \<Rightarrow> string option \<Rightarrow> nat \<Rightarrow> string" where
  "build_feedback_payload polarity title description len =
     snprintf len (json_object [(''polarity'', or_str polarity []), (''title'', or_str title []),
       (''description'', or_str description [])])"

definition event_payload :: "string \<Rightarrow> string option \<Rightarrow> string option \<Rightarrow> string \<Rightarrow> string \<Rightarrow> string" where
  "event_payload source_kind scope_kind scope_id content_hash esc =
     snprintf 1280 (json_object [(''source_kind'', source_kind), (''scope_kind'', or_str scope_kind ''user''),
       (''scope_id'', or_str scope_id []), (''content_hash'', content_hash), (''content'', esc)])"

section \<open>Snapshots\<close>

text \<open>\<open>strchr\<close> and \<open>strstr\<close>: the rest of the text from the first match on.\<close>

fun strchr :: "string \<Rightarrow> char \<Rightarrow> string option" where
  "strchr [] c = None"
| "strchr (d # s) c = (if d = c then Some (d # s) else strchr s c)"

fun strstr :: "string \<Rightarrow> string \<Rightarrow> string option" where
  "strstr [] w = (if w = [] then Some [] else None)"
| "strstr (d # s) w = (if take (length w) (d # s) = w then Some (d # s) else strstr s w)"

text \<open>The result, and the new contents of \<open>out\<close>, a buffer of \<open>len\<close> bytes.\<close>

definition snapshot_state :: "string option \<Rightarrow> nat \<Rightarrow> int \<times> string" where
  "snapshot_state json len =
     (case json of None \<Rightarrow> (0, [])
      | Some j \<Rightarrow>
        (case strstr j (quoted ''state'') of None \<Rightarrow> (0, [])
         | Some p \<Rightarrow>
           (case strchr (drop 7 p) (CHR '':'') of None \<Rightarrow> (0, [])
            | Some p \<Rightarrow>
              (case strchr p DQ of None \<Rightarrow> (0, [])
               | Some p \<Rightarrow>
                   (let s = take (len - 1) (takeWhile (\<lambda>c. c \<noteq> DQ) (tl p))
                    in (if s = [] then 0 else 1, s))))))"

section \<open>Lemmas on the hash\<close>

text \<open>A step can be undone: the multiplier is odd.\<close>

lemma fnv_prime_inverse: "(1099511628211 :: 64 word) * 14886173955864302971 = 1"
  by simp

lemma fnv_mult_inject:
  fixes x y :: "64 word"
  assumes "x * 1099511628211 = y * 1099511628211"
  shows "x = y"
proof -
  have "x * (1099511628211 * 14886173955864302971) = y * (1099511628211 * 14886173955864302971)"
    using assms unfolding mult.assoc [symmetric] by (rule arg_cong)
  then show ?thesis unfolding fnv_prime_inverse by simp
qed

lemma fnv_mult_eq: "(x :: 64 word) * 1099511628211 = y * 1099511628211 \<longleftrightarrow> x = y"
  using fnv_mult_inject by blast

lemma xor_cancel: "(x :: 64 word) XOR z = y XOR z \<longleftrightarrow> x = y" "z XOR x = z XOR y \<longleftrightarrow> x = y"
  by (metis bit.xor_left_self xor.commute)+

lemma fnv_step_state: "fnv_step h c = fnv_step h' c \<longleftrightarrow> h = h'"
  by (simp only: fnv_step_def fnv_mult_eq xor_cancel)

lemma of_char_word_inject: "(of_char c :: 64 word) = of_char d \<longleftrightarrow> c = d"
proof
  have u: "unat (of_char x :: 64 word) = of_char x" for x
  proof -
    have "unat (of_nat (of_char x) :: 64 word) = of_char x"
      by (rule of_nat_inverse [OF refl]) (rule less_trans [OF nat_of_char_less_256], simp)
    then show ?thesis by (simp only: of_nat_of_char)
  qed
  assume "(of_char c :: 64 word) = of_char d"
  then have "(of_char c :: nat) = of_char d"
    by (metis u)
  then show "c = d" by simp
qed simp

lemma fnv_step_char: "fnv_step h c = fnv_step h d \<longleftrightarrow> c = d"
  by (simp only: fnv_step_def fnv_mult_eq xor_cancel of_char_word_inject)

lemma fnv_fold_state: "foldl fnv_step h s = foldl fnv_step h' s \<longleftrightarrow> h = h'"
  by (induction s arbitrary: h h') (simp_all add: fnv_step_state)

lemma hex_fixed_Suc: "hex_fixed (Suc n) v = hex_digit (v div 16 ^ n mod 16) # hex_fixed n v"
  unfolding hex_fixed_def by (simp add: upt_conv_Cons map_Suc_upt [symmetric] comp_def del: upt_Suc)

lemma hex_digit_inject: "a < 16 \<Longrightarrow> b < 16 \<Longrightarrow> hex_digit a = hex_digit b \<Longrightarrow> a = b"
  unfolding hex_digit_def by (subst (asm) nth_eq_iff_index_eq) simp_all

lemma hex_fixed_inject: "hex_fixed n v = hex_fixed n w \<Longrightarrow> v mod 16 ^ n = w mod 16 ^ n"
proof (induction n)
  case (Suc n)
  then have "v div 16 ^ n mod 16 = w div 16 ^ n mod 16" "v mod 16 ^ n = w mod 16 ^ n"
    by (auto simp: hex_fixed_Suc intro: hex_digit_inject)
  moreover have "x mod 16 ^ Suc n = 16 ^ n * (x div 16 ^ n mod 16) + x mod 16 ^ n" for x :: nat
    by (simp add: mod_mult2_eq [symmetric] mult.commute)
  ultimately show ?case by presburger
qed simp

lemma content_hash_eq:
  "evidence_content_hash k c = evidence_content_hash k' c' \<longleftrightarrow> fnv_hash k c = fnv_hash k' c'"
proof
  assume "evidence_content_hash k c = evidence_content_hash k' c'"
  then have "unat (fnv_hash k c) mod 16 ^ 16 = unat (fnv_hash k' c') mod 16 ^ 16"
    by (intro hex_fixed_inject) (simp add: evidence_content_hash_def snprintf_def)
  moreover have "unat x mod 16 ^ 16 = unat x" for x :: "64 word"
    by (rule mod_less [OF order_less_le_trans [OF unsigned_less]]) simp
  ultimately show "fnv_hash k c = fnv_hash k' c'"
    by (simp add: unsigned_word_eqI)
qed (simp add: evidence_content_hash_def)

end
