(* ===== verification/Json_Reader.thy ===== *)
theory Json_Reader
  imports Evidence_Text
begin

text \<open>
  What a JSON reader makes of the texts of \<open>Evidence_Text\<close>: a reader for objects of string members, with the
  escapes the code writes (a quote, a backslash, a code of four hexadecimal digits). It is the
  specification the payloads are held against.
\<close>

section \<open>The reader\<close>

definition add_char :: "char \<Rightarrow> (string \<times> string) option \<Rightarrow> (string \<times> string) option" where
  "add_char c x = map_option (\<lambda>(s, r). (c # s, r)) x"

text \<open>The value of a string up to its closing quote, and what follows it.\<close>

function json_body :: "string \<Rightarrow> (string \<times> string) option" where
  "json_body [] = None"
| "json_body (c # s) =
     (if c = DQ then Some ([], s)
      else if c = BACKSLASH then
        (if s = [] then None
         else if hd s = DQ \<or> hd s = BACKSLASH then add_char (hd s) (json_body (tl s))
         else if hd s = CHR ''u'' \<and> list_all is_hex (take 4 (tl s)) \<and> 4 \<le> length (tl s)
         then add_char (char_of (digits_value 16 (take 4 (tl s)))) (json_body (drop 4 (tl s)))
         else None)
      else if char_code c < 0x20 then None
      else add_char c (json_body s))"
  by pat_completeness auto
termination
  by (relation "measure length") (auto simp: less_Suc_eq_le intro: le_trans [OF diff_le_self])

declare json_body.simps(2) [simp del]

lemma json_body_shorter: "json_body s = Some (v, r) \<Longrightarrow> length r < length s"
proof (induction s arbitrary: v r rule: json_body.induct)
  case (2 c s)
  then show ?case
    by (fastforce simp: json_body.simps(2) [of c s] add_char_def split: if_splits)
qed simp

function read_members :: "string \<Rightarrow> (string \<times> string) list option" where
  "read_members s =
     (if s = [] \<or> hd s \<noteq> DQ then None
      else (case json_body (tl s) of None \<Rightarrow> None
      | Some (k, r) \<Rightarrow>
          if take 2 r \<noteq> [CHR '':'', DQ] then None
          else (case json_body (drop 2 r) of None \<Rightarrow> None
          | Some (v, t) \<Rightarrow>
              if t = ''}'' then Some [(k, v)]
              else if t \<noteq> [] \<and> hd t = CHR '','' then map_option (\<lambda>ms. (k, v) # ms) (read_members (tl t))
              else None)))"
  by auto
termination
proof (relation "measure length", goal_cases)
  case (2 s kr k r vt v t)
  then have "length r < length (tl s)" "length t < length (drop 2 r)"
    by (auto dest: json_body_shorter)
  then show ?case by simp
qed simp

declare read_members.simps [simp del]

definition json_read :: "string \<Rightarrow> (string \<times> string) list option" where
  "json_read s = (if s \<noteq> [] \<and> hd s = CHR ''{'' then read_members (tl s) else None)"

section \<open>Reading what was written\<close>

text \<open>A text that stands for a value inside a string, whatever follows its closing quote.\<close>

definition reads_as :: "string \<Rightarrow> string \<Rightarrow> bool" where
  "reads_as t v \<longleftrightarrow> (\<forall>r. json_body (t @ DQ # r) = Some (v, r))"

text \<open>A text without quotes, backslashes and control characters stands for itself.\<close>

definition plain :: "string \<Rightarrow> bool" where
  "plain s \<longleftrightarrow> (\<forall>c \<in> set s. c \<noteq> DQ \<and> c \<noteq> BACKSLASH \<and> \<not> char_code c < 0x20)"

lemma plain_body: "plain a \<Longrightarrow> json_body (a @ r) = map_option (\<lambda>(s, t). (a @ s, t)) (json_body r)"
proof (induction a)
  case (Cons c a)
  then have "json_body (a @ r) = map_option (\<lambda>(s, t). (a @ s, t)) (json_body r)"
    by (simp add: plain_def)
  with Cons.prems show ?case
    by (auto simp: plain_def json_body.simps(2) add_char_def option.map_comp comp_def case_prod_beta)
next
  case Nil
  show ?case by (cases "json_body r") simp_all
qed

lemma plain_reads: "plain s \<Longrightarrow> reads_as s s"
  by (simp add: reads_as_def plain_body json_body.simps(2))

lemma digit_of_hex: "d < 16 \<Longrightarrow> digit_value (hex_digit d) = d" "d < 16 \<Longrightarrow> is_hex (hex_digit d)"
proof -
  have "list_all (\<lambda>d. digit_value (hex_digit d) = d \<and> is_hex (hex_digit d)) [0..<16]"
    by code_simp
  then have "\<forall>d < 16. digit_value (hex_digit d) = d \<and> is_hex (hex_digit d)"
    by (simp add: list_all_iff)
  then show "d < 16 \<Longrightarrow> digit_value (hex_digit d) = d" "d < 16 \<Longrightarrow> is_hex (hex_digit d)"
    by blast+
qed

lemma digits_foldl:
  "foldl (\<lambda>n c. n * b + digit_value c) m ds = m * b ^ length ds + digits_value b ds"
proof (induction ds arbitrary: m)
  case (Cons c ds)
  have "digits_value b (c # ds) = digit_value c * b ^ length ds + digits_value b ds"
    using Cons [of "digit_value c"] by (simp add: digits_value_def [of b "c # ds"])
  with Cons [of "m * b + digit_value c"] show ?case
    by (simp add: algebra_simps)
qed (simp add: digits_value_def)

lemma digits_value_Cons: "digits_value b (c # ds) = digit_value c * b ^ length ds + digits_value b ds"
  using digits_foldl [of b "digit_value c" ds] by (simp add: digits_value_def [of b "c # ds"])

lemma hex_fixed_value: "v < 16 ^ n \<Longrightarrow> digits_value 16 (hex_fixed n v) = v"
proof -
  have "digits_value 16 (hex_fixed n v) = v mod 16 ^ n"
  proof (induction n)
    case 0
    show ?case by (simp add: hex_fixed_def digits_value_def)
  next
    case (Suc n)
    have "v mod 16 ^ Suc n = v div 16 ^ n mod 16 * 16 ^ n + v mod 16 ^ n"
      by (simp add: mod_mult2_eq [symmetric] mult.commute)
    with Suc show ?case
      by (simp add: hex_fixed_Suc digits_value_Cons digit_of_hex)
  qed
  then show "v < 16 ^ n \<Longrightarrow> ?thesis" by simp
qed

lemma hex_fixed_is_hex: "list_all is_hex (hex_fixed n v)"
  by (auto simp: hex_fixed_def list_all_iff intro: digit_of_hex)

lemma code_body:
  assumes "char_code c < 0x20"
  shows "json_body (BACKSLASH # CHR ''u'' # hex_fixed 4 (char_code c) @ r) = add_char c (json_body r)"
proof -
  have "digits_value 16 (hex_fixed 4 (char_code c)) = char_code c"
    by (rule hex_fixed_value) (use assms in simp)
  then show ?thesis
    using hex_fixed_is_hex [of 4 "char_code c"]
    by (simp add: json_body.simps(2) char_code_def)
qed

lemma code_text: "length (BACKSLASH # CHR ''u'' # hex_fixed 4 n) = 6"
  by simp

lemma escape_code:
  "\<lbrakk>pos + 7 < len; c \<noteq> DQ; c \<noteq> BACKSLASH; char_code c < 0x20\<rbrakk> \<Longrightarrow>
   escape_loop len pos (c # p) =
     BACKSLASH # CHR ''u'' # hex_fixed 4 (char_code c) @ escape_loop len (pos + 6) p"
  by (simp add: Let_def snprintf_def)

declare escape_loop.simps(2) [simp del]

text \<open>What the loop writes stands for a prefix of its input, all of it if there is room.\<close>

lemma escape_reads:
  "\<exists>n \<le> length s. reads_as (escape_loop len pos s) (take n s) \<and> (pos + 6 * length s + 1 < len \<longrightarrow> n = length s)"
proof (induction s arbitrary: pos)
  case Nil
  show ?case by (simp add: reads_as_def json_body.simps(2))
next
  case (Cons c s)
  note IH = Cons.IH
  show ?case
  proof (cases "pos + 7 < len")
    case False
    then show ?thesis
      by (intro exI [of _ 0]) (simp add: escape_loop.simps(2) reads_as_def json_body.simps(2))
  next
    case True
    have step: "\<exists>n \<le> length (c # s). reads_as (escape_loop len pos (c # s)) (take n (c # s)) \<and>
        (pos + 6 * length (c # s) + 1 < len \<longrightarrow> n = length (c # s))"
      if "escape_loop len pos (c # s) = t @ escape_loop len (pos + k) s" "k \<le> 6"
        "\<And>r. json_body (t @ r) = add_char c (json_body r)" for t k
    proof -
      obtain n where n: "n \<le> length s" "reads_as (escape_loop len (pos + k) s) (take n s)"
          "pos + k + 6 * length s + 1 < len \<longrightarrow> n = length s"
        using IH by blast
      then show ?thesis
        using that by (intro exI [of _ "Suc n"]) (simp add: reads_as_def add_char_def)
    qed
    consider "c = DQ \<or> c = BACKSLASH" | "c \<noteq> DQ" "c \<noteq> BACKSLASH" "char_code c < 0x20"
      | "c \<noteq> DQ" "c \<noteq> BACKSLASH" "\<not> char_code c < 0x20" by blast
    then show ?thesis
    proof cases
      case 1
      then show ?thesis
        using True by (intro step [of "[BACKSLASH, c]" 2]) (auto simp: escape_loop.simps(2) json_body.simps(2))
    next
      case 2
      then show ?thesis
        using True code_body [OF 2(3)] escape_code [OF True 2]
        by (intro step [of "BACKSLASH # CHR ''u'' # hex_fixed 4 (char_code c)" 6]) simp_all
    next
      case 3
      then show ?thesis
        using True by (intro step [of "[c]" 1]) (auto simp: escape_loop.simps(2) json_body.simps(2))
    qed
  qed
qed

lemma escape_bound: "pos < len \<Longrightarrow> pos + length (escape_loop len pos s) < len"
proof (induction s arbitrary: pos)
  case (Cons c s)
  show ?case
  proof (cases "pos + 7 < len")
    case True
    have "pos + k + length (escape_loop len (pos + k) s) < len" if "k \<le> 6" for k
      by (rule Cons.IH) (use True that in simp)
    from this [of 1] this [of 2] this [of 6] show ?thesis
      using True by (simp add: escape_loop.simps(2) Let_def snprintf_def)
  qed (use Cons.prems in \<open>simp add: escape_loop.simps(2)\<close>)
qed simp

lemma members_read:
  assumes "list_all (\<lambda>(k, t, v). plain k \<and> reads_as t v) ms" "ms \<noteq> []"
  shows "read_members (json_members (map (\<lambda>(k, t, v). (k, t)) ms) @ ''}'') = Some (map (\<lambda>(k, t, v). (k, v)) ms)"
  using assms
proof (induction ms rule: induct_list012)
  case (2 m)
  then show ?case
    by (cases m) (simp add: read_members.simps json_member_def quoted_def plain_body json_body.simps(2) reads_as_def)
next
  case (3 m m' ms)
  then show ?case
    by (cases m; cases m')
      (simp add: read_members.simps [of "DQ # x" for x] json_member_def quoted_def plain_body json_body.simps(2)
        reads_as_def)
qed simp

lemma object_read:
  assumes "list_all (\<lambda>(k, t, v). plain k \<and> reads_as t v) ms" "ms \<noteq> []"
  shows "json_read (json_object (map (\<lambda>(k, t, v). (k, t)) ms)) = Some (map (\<lambda>(k, t, v). (k, v)) ms)"
  using members_read [OF assms] by (simp add: json_read_def json_object_def)

end
