(* ===== verification/Evidence_Capture.thy ===== *)
theory Evidence_Capture
  imports Json_Contract Json_Reader
begin

text \<open>
  The interface of \<open>learning_evidence.c\<close> to DB2, DB1 and the knowledge base, and the capture of evidence:
  events, feedback and retrieval records. Log lines are left out.
\<close>

section \<open>Interface\<close>

text \<open>A row of the artifacts table and a row of the audit log.\<close>

record artifact_row =
  a_id :: string
  a_kind :: string
  a_state :: string
  a_scope_kind :: string
  a_scope_id :: string
  a_confidence :: dbl
  a_payload_json :: string

record audit_event =
  e_id :: string
  e_artifact :: string
  e_surface :: string
  e_target :: string
  e_actor :: string
  e_scope_kind :: string
  e_scope_id :: string
  e_confidence :: dbl
  e_flagged :: bool
  e_before :: string
  e_after :: string

text \<open>
  A call that fills a buffer takes its size and returns its contents. A weak symbol that may be missing is
  an option. \<open>artifact_write\<close> is \<open>db2_artifact_write\<close> and \<open>memory_insert_json\<close> is
  \<open>db2_kb_service_memory_insert_json\<close>; \<open>TIER_L1\<close> is a macro of \<open>aimee.h\<close>.
\<close>

record ('w, 'j) evidence_host =
  eplat :: platform
  ejson :: "'j cjson"
  artifact_write :: "string \<Rightarrow> string \<Rightarrow> string \<Rightarrow> string \<Rightarrow> string \<Rightarrow> string \<Rightarrow> dbl \<Rightarrow> string \<Rightarrow> ('w, int) state"
  db2_artifact_write_evidence :: "string \<Rightarrow> string option \<Rightarrow> string option \<Rightarrow> string option \<Rightarrow> string \<Rightarrow> string \<Rightarrow>
    nat \<Rightarrow> ('w, int \<times> string) state"
  db2_evidence_enqueue :: "string \<Rightarrow> string \<Rightarrow> ('w, unit) state"
  db2_synth_enqueue :: "string \<Rightarrow> ('w, unit) state"
  db2_artifact_gen_id :: "nat \<Rightarrow> ('w, string) state"
  db2_demotion_retrieval_event_write ::
    "string option \<Rightarrow> string option \<Rightarrow> int list option \<Rightarrow> int \<Rightarrow> string option \<Rightarrow> int \<Rightarrow> ('w, int \<times> string option) state"
  db2_demotion_retrieval_attribution_write :: "string \<Rightarrow> int \<Rightarrow> string option \<Rightarrow> dbl \<Rightarrow> ('w, int) state"
  db2_artifact_read :: "string \<Rightarrow> ('w, int \<times> artifact_row) state"
  db2_artifact_target_surface :: "string \<Rightarrow> nat \<Rightarrow> ('w, string) state"
  db2_artifact_citation_count :: "string \<Rightarrow> ('w, int) state"
  db2_artifact_set_state :: "string \<Rightarrow> string \<Rightarrow> ('w, int) state"
  db2_artifact_register_exemplar :: "string \<Rightarrow> string \<Rightarrow> ('w, int) state"
  db2_artifact_review_rollback ::
    "string \<Rightarrow> string \<Rightarrow> string option \<Rightarrow> string option \<Rightarrow> string option \<Rightarrow> ('w, int) state"
  db2_audit_event_write :: "audit_event \<Rightarrow> ('w, int) state"
  db2_audit_read_latest_before :: "string \<Rightarrow> nat \<Rightarrow> ('w, string) state"
  db2_anti_pattern_insert :: "string \<Rightarrow> string \<Rightarrow> string \<Rightarrow> string \<Rightarrow> dbl \<Rightarrow> ('w, int \<times> int) state"
  db2_workflow_pattern_insert :: "string \<Rightarrow> string \<Rightarrow> string \<Rightarrow> string \<Rightarrow> dbl \<Rightarrow> ('w, int \<times> int) state"
  memory_insert_json :: "string \<Rightarrow> string \<Rightarrow> string \<Rightarrow> string \<Rightarrow> dbl \<Rightarrow> string \<Rightarrow> ('w, 'j option) state"
  TIER_L1 :: string
  db2_rules_insert :: "string \<Rightarrow> string \<Rightarrow> string \<Rightarrow> int \<Rightarrow> ('w, int) state"
  db2_directive_insert_ignore :: "string \<Rightarrow> string \<Rightarrow> string \<Rightarrow> string \<Rightarrow> string \<Rightarrow> int \<Rightarrow> int \<Rightarrow> int \<Rightarrow> string \<Rightarrow>
    string \<Rightarrow> string \<Rightarrow> ('w, int \<times> int \<times> int) state"
  db2_entity_node_upsert :: "string \<Rightarrow> int \<Rightarrow> string \<Rightarrow> string \<Rightarrow> string \<Rightarrow> string \<Rightarrow> string \<Rightarrow> string \<Rightarrow> int \<Rightarrow> ('w, int) state"
  db2_entity_node_alias_upsert :: "string \<Rightarrow> string \<Rightarrow> string \<Rightarrow> string \<Rightarrow> int \<Rightarrow> ('w, int) state"
  db1_working_profile_local_observe :: "(string \<Rightarrow> string \<Rightarrow> dbl \<Rightarrow> string \<Rightarrow> int \<Rightarrow> ('w, int) state) option"

section \<open>Events\<close>

text \<open>An id written to the caller's buffer of \<open>n\<close> bytes, if there is one.\<close>

definition id_buffer :: "string option \<Rightarrow> int \<Rightarrow> string \<Rightarrow> string option" where
  "id_buffer out n s = (if out \<noteq> None \<and> n > 0 then Some (snprintf (nat n) s) else out)"

definition learning_evidence_write_event ::
    "('w, 'j) evidence_host \<Rightarrow> string option \<Rightarrow> string option \<Rightarrow> string option \<Rightarrow> string option \<Rightarrow>
     string option \<Rightarrow> string option \<Rightarrow> int \<Rightarrow> ('w, int \<times> string option) state" where
  "learning_evidence_write_event E source_kind scope_kind scope_id content operator_id
     artifact_id_out artifact_id_out_len =
     (let out = id_buffer artifact_id_out artifact_id_out_len [] in
      if \<not> evidence_kind_allowed source_kind \<or> content = None then ret (-1, out)
      else
        (let content_hash = evidence_content_hash source_kind content;
             esc = json_escape_into content 1024;
             payload = event_payload (the source_kind) scope_kind scope_id content_hash esc
         in do {
           r \<leftarrow> db2_artifact_write_evidence E (the source_kind) scope_kind scope_id operator_id
                  content_hash payload 37;
           if fst r \<noteq> 0 then ret (-1, out)
           else do {
             _ \<leftarrow> (if snd r \<noteq> [] then do {
                     _ \<leftarrow> db2_evidence_enqueue E (snd r) ''evidence'';
                     db2_synth_enqueue E (snd r)
                   } else ret ());
             ret (0, id_buffer out artifact_id_out_len (snd r))
           }
         }))"

section \<open>Feedback\<close>

definition learning_evidence_write_feedback ::
    "('w, 'j) evidence_host \<Rightarrow> string option \<Rightarrow> string option \<Rightarrow> string option \<Rightarrow> string option \<Rightarrow>
     string option \<Rightarrow> int \<Rightarrow> ('w, int \<times> string option) state" where
  "learning_evidence_write_feedback E polarity title description operator_id
     artifact_id_out artifact_id_out_len =
     (let out = id_buffer artifact_id_out artifact_id_out_len [] in
      if polarity = None \<or> title = None then ret (-1, out)
      else
        (let kind = (if polarity = Some ''positive'' then ''feedback_positive'' else ''feedback_negative'') in do {
           i \<leftarrow> db2_artifact_gen_id E 64;
           let payload = build_feedback_payload polarity title description 512;
           rc \<leftarrow> artifact_write E i kind ''proposed'' ''user'' (or_str operator_id [])
                  (or_str operator_id []) (Fin 1) payload;
           if rc \<noteq> 0 then ret (-1, out)
           else ret (0, id_buffer out artifact_id_out_len i)
         }))"

section \<open>Retrieval\<close>

definition learning_evidence_write_retrieval_event ::
    "('w, 'j) evidence_host \<Rightarrow> string option \<Rightarrow> string option \<Rightarrow> int list option \<Rightarrow> int \<Rightarrow> string option \<Rightarrow> int \<Rightarrow>
     ('w, int \<times> string option) state" where
  "learning_evidence_write_retrieval_event E query_fingerprint role surfaced_ids n_surfaced id_out id_out_len =
     (let out = id_buffer id_out id_out_len [] in do {
        r \<leftarrow> db2_demotion_retrieval_event_write E query_fingerprint role surfaced_ids n_surfaced out id_out_len;
        ret (if fst r \<noteq> 0 then -1 else 0, snd r)
      })"

definition learning_evidence_write_retrieval_attribution ::
    "('w, 'j) evidence_host \<Rightarrow> string option \<Rightarrow> int \<Rightarrow> string option \<Rightarrow> dbl \<Rightarrow> ('w, int) state" where
  "learning_evidence_write_retrieval_attribution E retrieval_event_id surfaced_row_id verdict weight =
     (if retrieval_event_id = None \<or> retrieval_event_id = Some [] then ret (-1)
      else do {
        rc \<leftarrow> db2_demotion_retrieval_attribution_write E (the retrieval_event_id) surfaced_row_id verdict weight;
        ret (if rc \<noteq> 0 then -1 else 0)
      })"

section \<open>What the payloads say\<close>

lemma plain_hex: "plain (hex_fixed n v)"
proof -
  have "set ''0123456789abcdef'' \<subseteq> {c. c \<noteq> DQ \<and> c \<noteq> BACKSLASH \<and> \<not> char_code c < 0x20}"
    by (simp add: char_code_def)
  then show ?thesis
    using hex_fixed_digits [of n v] unfolding plain_def by blast
qed

lemma allowed_kind:
  assumes "evidence_kind_allowed (Some k)"
  shows "plain k" "length k \<le> 17"
  using assms
  by (auto simp: evidence_kind_allowed_def evidence_kinds_def plain_def char_code_def)


lemma length_json_object:
  "length (json_object [(k1, v1), (k2, v2), (k3, v3), (k4, v4), (k5, v5)]) =
     length (k1 @ v1 @ k2 @ v2 @ k3 @ v3 @ k4 @ v4 @ k5 @ v5) + 31"
  "length (json_object [(k1, v1), (k2, v2), (k3, v3)]) = length (k1 @ v1 @ k2 @ v2 @ k3 @ v3) + 19"
  by (simp_all add: json_object_def json_member_def quoted_def)

text \<open>
  C14. Evidence cannot break its payload: for an admitted kind, and a scope without quotes, backslashes and
  control characters that leaves room, the payload of an event is not cut off and is a JSON object of five members,
  the kind, the scope, the content hash and the content: all of the content, or, if it is too long, a
  prefix of it. Every content can be written, whatever characters it has.
\<close>

theorem event_payload_reads_back:
  assumes "evidence_kind_allowed (Some k)" "plain (or_str sk ''user'')" "plain (or_str sid [])"
    and "length (or_str sk ''user'') + length (or_str sid []) \<le> 144"
  shows "\<exists>n. json_read (event_payload k sk sid (evidence_content_hash (Some k) (Some c)) (json_escape_into (Some c) 1024)) =
      Some [(''source_kind'', k), (''scope_kind'', or_str sk ''user''), (''scope_id'', or_str sid []),
        (''content_hash'', evidence_content_hash (Some k) (Some c)), (''content'', take n c)] \<and>
    (6 * length c + 1 < 1024 \<longrightarrow> n = length c)"
proof -
  let ?h = "evidence_content_hash (Some k) (Some c)" and ?e = "json_escape_into (Some c) 1024"
  let ?ms = "[(''source_kind'', k), (''scope_kind'', or_str sk ''user''), (''scope_id'', or_str sid []),
    (''content_hash'', ?h), (''content'', ?e)]"
  obtain n where n: "n \<le> length c" "reads_as ?e (take n c)" "6 * length c + 1 < 1024 \<longrightarrow> n = length c"
    using escape_reads [of c 1024 0] by (auto simp: json_escape_into_def)
  have h: "?h = hex_fixed 16 (unat (fnv_hash (Some k) (Some c)))"
    by (simp add: evidence_content_hash_def snprintf_def)
  then have "reads_as ?h ?h" "length ?h = 16"
    by (simp_all add: plain_reads plain_hex)
  moreover have "length ?e < 1024"
    using escape_bound [of 0 1024 c] by (simp add: json_escape_into_def)
  ultimately have "length (json_object ?ms) < 1280"
    unfolding length_json_object using allowed_kind(2) [OF assms(1)] assms(4) by simp
  then have p: "event_payload k sk sid ?h ?e = json_object ?ms"
    unfolding event_payload_def by (rule snprintf_id)
  have "json_read (json_object ?ms) = Some [(''source_kind'', k), (''scope_kind'', or_str sk ''user''),
      (''scope_id'', or_str sid []), (''content_hash'', ?h), (''content'', take n c)]"
    using object_read [of "[(''source_kind'', k, k), (''scope_kind'', or_str sk ''user'', or_str sk ''user''),
      (''scope_id'', or_str sid [], or_str sid []), (''content_hash'', ?h, ?h), (''content'', ?e, take n c)]"]
      n(2) plain_reads allowed_kind(1) [OF assms(1)] assms(2,3) \<open>reads_as ?h ?h\<close>
    by (simp add: plain_def [of "_ # _"] plain_def [of "[]"] char_code_def)
  with n(3) p show ?thesis by auto
qed

lemma event_payload_reads_back_witness:
  "json_read (event_payload ''tool_outcome'' None (Some ''alice'')
       (evidence_content_hash (Some ''tool_outcome'') (Some [DQ, BACKSLASH, CHR 0x0A, CHR ''x'']))
       (json_escape_into (Some [DQ, BACKSLASH, CHR 0x0A, CHR ''x'']) 1024)) =
     Some [(''source_kind'', ''tool_outcome''), (''scope_kind'', ''user''), (''scope_id'', ''alice''),
       (''content_hash'', evidence_content_hash (Some ''tool_outcome'') (Some [DQ, BACKSLASH, CHR 0x0A, CHR ''x''])),
       (''content'', [DQ, BACKSLASH, CHR 0x0A, CHR ''x''])]"
proof -
  have "evidence_kind_allowed (Some ''tool_outcome'')"
    by (simp add: evidence_kind_allowed_def evidence_kinds_def)
  moreover have "plain ''user''" "plain ''alice''"
    by (simp_all add: plain_def char_code_def)
  ultimately show ?thesis
    using event_payload_reads_back [of "''tool_outcome''" None "Some ''alice''" "[DQ, BACKSLASH, CHR 0x0A, CHR ''x'']"]
    by auto
qed

text \<open>
  C27. The content hash notices every single change: it has 16 hexadecimal digits, and of two contents of the same kind
  that differ in exactly one character, and of two kinds that differ in exactly one character with the same
  content, the hashes differ.
\<close>

theorem hash_notices_changes:
  assumes "c \<noteq> d"
  shows "evidence_content_hash k (Some (a @ c # b)) \<noteq> evidence_content_hash k (Some (a @ d # b)) \<and>
    evidence_content_hash (Some (a @ c # b)) x \<noteq> evidence_content_hash (Some (a @ d # b)) x \<and>
    length (evidence_content_hash k x) = 16"
  using assms
  by (simp add: content_hash_eq fnv_hash_def Let_def fnv_fold_state fnv_step_char fnv_mult_eq xor_cancel)
     (simp add: evidence_content_hash_def snprintf_def)

lemma hash_notices_changes_witness:
  "evidence_content_hash (Some ''tool_outcome'') (Some ''exit 0'') \<noteq> evidence_content_hash (Some ''tool_outcome'') (Some ''exit 1'')"
  using hash_notices_changes [of "CHR ''0''" "CHR ''1''" "Some ''tool_outcome''" "''exit ''" "[]" None] by simp



end
