(* ===== verification/Evidence_Promote.thy ===== *)
theory Evidence_Promote
  imports Evidence_Capture
begin

text \<open>
  Promotion, judgement and rollback of candidates (\<open>learning_evidence.c\<close>): eight promoters, one for each
  target surface, the function that chooses among them, the judge that commits a candidate, and the
  review that takes it back.
\<close>

section \<open>Reading a payload\<close>

fun payload_first_string :: "'j cjson \<Rightarrow> 'j \<Rightarrow> string list \<Rightarrow> nat \<Rightarrow> string" where
  "payload_first_string J payload [] len = []"
| "payload_first_string J payload (k # ks) len =
     (case json_text J (cJSON_GetObjectItemCaseSensitive J payload k) of
        Some s \<Rightarrow> snprintf len s
      | None \<Rightarrow> payload_first_string J payload ks len)"

text \<open>The two fields a promoter reads, empty if the payload does not parse.\<close>

definition payload_fields ::
    "('w, 'j) evidence_host \<Rightarrow> artifact_row \<Rightarrow> string list \<Rightarrow> nat \<Rightarrow> string list \<Rightarrow> nat \<Rightarrow> string \<times> string" where
  "payload_fields E art keys1 len1 keys2 len2 =
     (case cJSON_Parse (ejson E) (a_payload_json art) of
        None \<Rightarrow> ([], [])
      | Some pl \<Rightarrow> (payload_first_string (ejson E) pl keys1 len1, payload_first_string (ejson E) pl keys2 len2))"

definition or_text :: "string \<Rightarrow> nat \<Rightarrow> string \<Rightarrow> string" where
  "or_text s len d = (if s = [] then snprintf len d else s)"

section \<open>The audit row\<close>

definition surface_null :: string where
  "surface_null = ''{'' @ quoted ''surface'' @ '':null}''"

definition row_json :: "string \<Rightarrow> string \<Rightarrow> int \<Rightarrow> string" where
  "row_json surface k i = ''{'' @ json_member ''surface'' surface @ '','' @ quoted k @ '':'' @ dec_int i @ ''}''"

definition promotion_event ::
    "string \<Rightarrow> artifact_row \<Rightarrow> string \<Rightarrow> string \<Rightarrow> bool \<Rightarrow> string \<Rightarrow> audit_event" where
  "promotion_event audit_id art surface target_id flagged after_json =
     \<lparr>e_id = audit_id, e_artifact = a_id art, e_surface = surface, e_target = target_id,
      e_actor = ''kb.learning.promote'', e_scope_kind = a_scope_kind art, e_scope_id = a_scope_id art,
      e_confidence = a_confidence art, e_flagged = flagged, e_before = surface_null, e_after = after_json\<rparr>"

definition promote_emit_audit ::
    "('w, 'j) evidence_host \<Rightarrow> artifact_row \<Rightarrow> string \<Rightarrow> string \<Rightarrow> bool \<Rightarrow> ('w, int) state" where
  "promote_emit_audit E art surface target_id flagged = do {
     audit_id \<leftarrow> db2_artifact_gen_id E 37;
     let after_json = snprintf 256 (json_object [(''surface'', surface), (''target_id'', target_id)]);
     db2_audit_event_write E (promotion_event audit_id art surface target_id flagged after_json)
   }"

text \<open>The audit row three promoters write themselves, and their return value.\<close>

definition audit_row ::
    "('w, 'j) evidence_host \<Rightarrow> artifact_row \<Rightarrow> string \<Rightarrow> string \<Rightarrow> int \<Rightarrow> bool \<Rightarrow> ('w, int) state" where
  "audit_row E art surface k row_id flagged = do {
     audit_id \<leftarrow> db2_artifact_gen_id E 37;
     let target_id = snprintf 32 (dec_int row_id);
     let after_json = snprintf 160 (row_json surface k row_id);
     rc \<leftarrow> db2_audit_event_write E (promotion_event audit_id art surface target_id flagged after_json);
     ret (if rc \<noteq> 0 then -1 else 1)
   }"

definition audited_as :: "('w, int) state \<Rightarrow> ('w, int) state" where
  "audited_as m = do { rc \<leftarrow> m; ret (if rc = 0 then 1 else -1) }"

section \<open>The promoters\<close>

definition promote_anti_pattern ::
    "('w, 'j) evidence_host \<Rightarrow> artifact_row \<Rightarrow> dbl \<Rightarrow> bool \<Rightarrow> ('w, int) state" where
  "promote_anti_pattern E art threshold flagged =
     (let (pattern, description) = payload_fields E art [''pattern'', ''tag'', ''title'', ''content''] 512
            [''description'', ''content''] 1024;
          pattern = or_text pattern 512 (a_kind art)
      in do {
        ap \<leftarrow> db2_anti_pattern_insert E pattern description ''kb.learning.promote'' (a_id art) (a_confidence art);
        if fst ap \<noteq> 0 then ret (-1)
        else audit_row E art ''anti_pattern'' ''row_id'' (snd ap) flagged
      })"

definition promote_memory :: "('w, 'j) evidence_host \<Rightarrow> artifact_row \<Rightarrow> bool \<Rightarrow> ('w, int) state" where
  "promote_memory E art flagged =
     (let (key, content) = payload_fields E art [''key'', ''tag'', ''title''] 256
            [''content'', ''description'', ''narrative''] 1024;
          key = or_text key 256 (a_id art);
          content = or_text content 1024 key
      in do {
        resp \<leftarrow> memory_insert_json E (TIER_L1 E) ''preference'' key content (a_confidence art) [];
        (case resp of
           None \<Rightarrow> ret (-1)
         | Some resp \<Rightarrow>
             (let status = cJSON_GetObjectItemCaseSensitive (ejson E) resp ''status'';
                  idj = cJSON_GetObjectItemCaseSensitive (ejson E) resp ''id'';
                  ok = (json_is (cJSON_IsString (ejson E)) status \<and> valuestring (ejson E) (the status) = ''ok'');
                  mem_id = (if json_is (cJSON_IsNumber (ejson E)) idj
                            then i64_of_dbl (eplat E) (valuedouble (ejson E) (the idj)) else -1)
              in if \<not> ok then ret (-1)
                 else audit_row E art ''memory'' ''memory_id'' mem_id flagged))
      })"

definition promote_workflow_pattern :: "('w, 'j) evidence_host \<Rightarrow> artifact_row \<Rightarrow> bool \<Rightarrow> ('w, int) state" where
  "promote_workflow_pattern E art flagged =
     (let (pattern, description) = payload_fields E art [''pattern'', ''tag'', ''title'', ''content''] 512
            [''description'', ''content''] 1024;
          pattern = or_text pattern 512 (a_kind art)
      in do {
        wp \<leftarrow> db2_workflow_pattern_insert E pattern description ''kb.learning.promote'' (a_id art) (a_confidence art);
        if fst wp \<noteq> 0 then ret (-1)
        else audit_row E art ''workflow_pattern'' ''row_id'' (snd wp) flagged
      })"

definition promote_rule :: "('w, 'j) evidence_host \<Rightarrow> artifact_row \<Rightarrow> bool \<Rightarrow> ('w, int) state" where
  "promote_rule E art flagged =
     (let (title, description) = payload_fields E art [''title'', ''rule'', ''pattern'', ''key''] 256
            [''description'', ''content''] 1024;
          title = or_text title 256 (a_id art);
          weight = i32_of_dbl (eplat E) (fmul (eplat E) (a_confidence art) (Fin 100))
      in do {
        rc \<leftarrow> db2_rules_insert E ''positive'' title description weight;
        if rc \<noteq> 0 then ret (-1)
        else audited_as (promote_emit_audit E art ''rule'' title flagged)
      })"

definition promote_epistemic_directive :: "('w, 'j) evidence_host \<Rightarrow> artifact_row \<Rightarrow> bool \<Rightarrow> ('w, int) state" where
  "promote_epistemic_directive E art flagged =
     (let (question, topic) = payload_fields E art [''question'', ''content'', ''title''] 512 [''topic'', ''tag''] 256;
          question = or_text question 512 (a_id art);
          topic = or_text topic 256 (a_scope_id art)
      in do {
        d \<leftarrow> db2_directive_insert_ignore E question topic [] [] ''promoted_directive'' 50 0 0 [] [] [];
        if fst d \<noteq> 0 then ret (-1)
        else audited_as (promote_emit_audit E art ''epistemic_directive'' (snprintf 32 (dec_int (fst (snd d)))) flagged)
      })"

definition promote_entity :: "('w, 'j) evidence_host \<Rightarrow> artifact_row \<Rightarrow> bool \<Rightarrow> ('w, int) state" where
  "promote_entity E art flagged =
     (let (alias, node_key) = payload_fields E art [''alias'', ''mention'', ''title'', ''key''] 256
            [''node_key'', ''canonical'', ''entity''] 256;
          alias = or_text alias 256 (a_id art);
          node_key = or_text node_key 256 alias;
          project = a_scope_id art
      in do {
        rc \<leftarrow> db2_entity_node_upsert E node_key 0 project alias node_key [] [] ''learned'' 0;
        if rc \<noteq> 0 then ret (-1)
        else do {
          rc \<leftarrow> db2_entity_node_alias_upsert E alias node_key ''learned'' project 0;
          if rc \<noteq> 0 then ret (-1)
          else audited_as (promote_emit_audit E art ''entity'' node_key flagged)
        }
      })"

definition promote_guardrail_exemplar :: "('w, 'j) evidence_host \<Rightarrow> artifact_row \<Rightarrow> bool \<Rightarrow> ('w, int) state" where
  "promote_guardrail_exemplar E art flagged = do {
     rc \<leftarrow> db2_artifact_register_exemplar E (a_id art) ''case_exemplars'';
     if rc \<noteq> 0 then ret (-1)
     else audited_as (promote_emit_audit E art ''guardrail_exemplar'' (a_id art) flagged)
   }"

definition promote_working_profile :: "('w, 'j) evidence_host \<Rightarrow> artifact_row \<Rightarrow> bool \<Rightarrow> ('w, int) state" where
  "promote_working_profile E art flagged =
     (case db1_working_profile_local_observe E of
        None \<Rightarrow> ret (-2)
      | Some observe \<Rightarrow>
          (let (field, val) = payload_fields E art [''field'', ''key'', ''title''] 128
                 [''value'', ''content'', ''description''] 512
           in if field = [] then ret (-1)
              else do {
                rc \<leftarrow> observe field val (a_confidence art) [] 1;
                if rc \<noteq> 0 then ret (-1)
                else audited_as (promote_emit_audit E art ''working_profile'' field flagged)
              }))"

section \<open>Choosing a surface\<close>

definition learning_candidate_target_surface :: "string option \<Rightarrow> string option" where
  "learning_candidate_target_surface candidate_kind =
     (case candidate_kind of
        None \<Rightarrow> None
      | Some k \<Rightarrow>
          if k = ''preference'' then Some ''memory''
          else if k = ''workflow'' then Some ''workflow_pattern''
          else if k = ''anti_pattern'' then Some ''anti_pattern''
          else if k = ''mistake_pattern'' then Some ''anti_pattern''
          else None)"

text \<open>The chain of comparisons on the surface.\<close>

definition promote_to ::
    "('w, 'j) evidence_host \<Rightarrow> string \<Rightarrow> artifact_row \<Rightarrow> dbl \<Rightarrow> bool \<Rightarrow> ('w, int) state" where
  "promote_to E surface art threshold flagged =
     (if surface = ''anti_pattern'' then promote_anti_pattern E art threshold flagged
      else if surface = ''memory'' then promote_memory E art flagged
      else if surface = ''workflow_pattern'' then promote_workflow_pattern E art flagged
      else if surface = ''rule'' then promote_rule E art flagged
      else if surface = ''epistemic_directive'' then promote_epistemic_directive E art flagged
      else if surface = ''entity'' then promote_entity E art flagged
      else if surface = ''guardrail_exemplar'' then promote_guardrail_exemplar E art flagged
      else if surface = ''working_profile'' then promote_working_profile E art flagged
      else ret (-2))"

definition LEARNING_PROMOTE_BORDERLINE :: "platform \<Rightarrow> dbl" where
  "LEARNING_PROMOTE_BORDERLINE P = round_dbl P (1 / 10)"

definition learning_promote ::
    "('w, 'j) evidence_host \<Rightarrow> string option \<Rightarrow> dbl \<Rightarrow> ('w, int) state" where
  "learning_promote E candidate_id threshold =
     (if candidate_id = None \<or> candidate_id = Some [] then ret (-1)
      else do {
        r \<leftarrow> db2_artifact_read E (the candidate_id);
        let art = snd r;
        if fst r \<noteq> 0 then ret (-1)
        else if a_state art \<noteq> ''committed'' then ret (-1)
        else do {
          ts \<leftarrow> db2_artifact_target_surface E (the candidate_id) 64;
          let surface = (if ts \<noteq> [] then Some ts else learning_candidate_target_surface (Some (a_kind art)));
          if surface = None \<or> surface = Some [] then ret (-1)
          else if flt (a_confidence art) (fsub (eplat E) threshold (LEARNING_PROMOTE_BORDERLINE (eplat E)))
          then ret 0
          else promote_to E (the surface) art threshold (flt (a_confidence art) threshold)
        }
      })"

section \<open>Judging\<close>

definition proposed_snapshot :: string where
  "proposed_snapshot = json_object [(''state'', ''proposed'')]"

definition learning_judge_commit ::
    "('w, 'j) evidence_host \<Rightarrow> string option \<Rightarrow> string option \<Rightarrow> int \<Rightarrow> ('w, int) state" where
  "learning_judge_commit E candidate_id candidate_kind min_corroboration =
     (if candidate_id = None \<or> candidate_id = Some [] then ret (-1)
      else (case learning_candidate_target_surface candidate_kind of
        None \<Rightarrow> ret (-1)
      | Some surface \<Rightarrow> do {
          corroboration \<leftarrow> db2_artifact_citation_count E (the candidate_id);
          if corroboration < 0 then ret (-1)
          else if corroboration < (if min_corroboration > 0 then min_corroboration else 1) then ret 0
          else do {
            rc \<leftarrow> db2_artifact_set_state E (the candidate_id) ''committed'';
            if rc \<noteq> 0 then ret (-1)
            else do {
              audit_id \<leftarrow> db2_artifact_gen_id E 37;
              let after_json = snprintf 160 (''{'' @ json_member ''state'' ''committed'' @ '','' @
                    quoted ''corroboration'' @ '':'' @ dec_int corroboration @ ''}'');
              rc \<leftarrow> db2_audit_event_write E
                     \<lparr>e_id = audit_id, e_artifact = the candidate_id, e_surface = surface, e_target = [],
                      e_actor = ''kb.learning.judge'', e_scope_kind = [], e_scope_id = [],
                      e_confidence = Fin 1, e_flagged = False, e_before = proposed_snapshot,
                      e_after = after_json\<rparr>;
              ret (if rc \<noteq> 0 then -1 else 1)
            }
          }
        }))"

section \<open>Rolling back\<close>

definition learning_review_rollback ::
    "('w, 'j) evidence_host \<Rightarrow> string option \<Rightarrow> string option \<Rightarrow> string option \<Rightarrow> string option \<Rightarrow> ('w, int) state" where
  "learning_review_rollback E candidate_id verdict_tag verdict_scope counter_example =
     (if candidate_id = None \<or> candidate_id = Some [] then ret (-1)
      else do {
        before_json \<leftarrow> db2_audit_read_latest_before E (the candidate_id) 128;
        let (found, state) = snapshot_state (Some before_json) 32;
        let restore_state = (if found = 0 \<or> state = [] then snprintf 32 ''proposed'' else state);
        rc \<leftarrow> db2_artifact_review_rollback E (the candidate_id) restore_state verdict_tag verdict_scope counter_example;
        ret (if rc \<noteq> 0 then -1 else 0)
      })"

end
