(* ===== verification/Evidence_Audit.thy ===== *)
theory Evidence_Audit
  imports Evidence_Promote
begin

text \<open>
  What promotion promises: the audit log grows by exactly one row, about the promoted candidate, when a
  promotion returns 1, and not at all otherwise. The locale \<open>surface_promoter\<close> is that contract for one
  surface; the eight promoters are its interpretations.
\<close>

section \<open>The audit log\<close>

text \<open>The contract of the database: a write that returns 0 appends its row, any other call of the
  interface leaves the trail alone.\<close>

definition audit_write_law :: "('w, 'j) evidence_host \<Rightarrow> ('w \<Rightarrow> audit_event list) \<Rightarrow> bool" where
  "audit_write_law E trail \<longleftrightarrow> (\<forall>e w. trail (final (db2_audit_event_write E e) w) =
     (if outcome (db2_audit_event_write E e) w = 0 then trail w @ [e] else trail w))"

definition audit_silent_laws :: "('w, 'j) evidence_host \<Rightarrow> ('w \<Rightarrow> audit_event list) \<Rightarrow> bool" where
  "audit_silent_laws E trail \<longleftrightarrow>
     (\<forall>n. reads trail (db2_artifact_gen_id E n)) \<and>
     (\<forall>i. reads trail (db2_artifact_read E i)) \<and>
     (\<forall>i n. reads trail (db2_artifact_target_surface E i n)) \<and>
     (\<forall>i. reads trail (db2_artifact_citation_count E i)) \<and>
     (\<forall>i s. reads trail (db2_artifact_set_state E i s)) \<and>
     (\<forall>i s. reads trail (db2_artifact_register_exemplar E i s)) \<and>
     (\<forall>p d s i c. reads trail (db2_anti_pattern_insert E p d s i c)) \<and>
     (\<forall>p d s i c. reads trail (db2_workflow_pattern_insert E p d s i c)) \<and>
     (\<forall>t k key x c s. reads trail (memory_insert_json E t k key x c s)) \<and>
     (\<forall>p t d n. reads trail (db2_rules_insert E p t d n)) \<and>
     (\<forall>a b c d e f g h i j k. reads trail (db2_directive_insert_ignore E a b c d e f g h i j k)) \<and>
     (\<forall>a b c d e f g h i. reads trail (db2_entity_node_upsert E a b c d e f g h i)) \<and>
     (\<forall>a b c d e. reads trail (db2_entity_node_alias_upsert E a b c d e)) \<and>
     (\<forall>obs f v c s n. db1_working_profile_local_observe E = Some obs \<longrightarrow> reads trail (obs f v c s n))"

definition audit_laws :: "('w, 'j) evidence_host \<Rightarrow> ('w \<Rightarrow> audit_event list) \<Rightarrow> bool" where
  "audit_laws E trail \<longleftrightarrow> audit_write_law E trail \<and> audit_silent_laws E trail"

lemma audit_write: "audit_laws E trail \<Longrightarrow> trail (final (db2_audit_event_write E e) w) =
    (if outcome (db2_audit_event_write E e) w = 0 then trail w @ [e] else trail w)"
  by (simp add: audit_laws_def audit_write_law_def)

lemma audit_silent:
  assumes "audit_laws E trail"
  shows "reads trail (db2_artifact_gen_id E n)" "reads trail (db2_artifact_read E i)"
    "reads trail (db2_artifact_target_surface E i n)" "reads trail (db2_artifact_citation_count E i)"
    "reads trail (db2_artifact_set_state E i st)" "reads trail (db2_artifact_register_exemplar E i st)"
    "reads trail (db2_anti_pattern_insert E p d x i c)" "reads trail (db2_workflow_pattern_insert E p d x i c)"
    "reads trail (memory_insert_json E t k key y c x)" "reads trail (db2_rules_insert E p t d m)"
    "reads trail (db2_directive_insert_ignore E q1 q2 q3 q4 q5 n1 n2 n3 q6 q7 q8)"
    "reads trail (db2_entity_node_upsert E u1 n4 u2 u3 u4 u5 u6 u7 n5)"
    "reads trail (db2_entity_node_alias_upsert E v1 v2 v3 v4 n6)"
    "db1_working_profile_local_observe E = Some obs \<Longrightarrow> reads trail (obs f v c x n7)"
  using assms by (simp_all add: audit_laws_def audit_silent_laws_def)

section \<open>Audited computations\<close>

text \<open>Returning 1 is having written one row, which is \<open>about\<close> something; anything else, one of
  \<open>codes\<close>, is having written none.\<close>

definition audited :: "('w \<Rightarrow> audit_event list) \<Rightarrow> (audit_event \<Rightarrow> bool) \<Rightarrow> int set \<Rightarrow> ('w, int) state \<Rightarrow> bool" where
  "audited trail about codes m \<longleftrightarrow> (\<forall>w.
     if outcome m w = 1 then \<exists>e. about e \<and> trail (final m w) = trail w @ [e]
     else outcome m w \<in> codes \<and> trail (final m w) = trail w)"

lemma audited_ret: "k \<in> codes \<Longrightarrow> k \<noteq> 1 \<Longrightarrow> audited trail about codes (ret k)"
  by (simp add: audited_def)

lemma audited_after:
  assumes "reads trail m" "\<And>x. audited trail about codes (f x)"
  shows "audited trail about codes (m \<bind> f)"
  unfolding audited_def outcome_bind final_bind
proof
  fix w
  show "if outcome (f (outcome m w)) (final m w) = 1
      then \<exists>e. about e \<and> trail (final (f (outcome m w)) (final m w)) = trail w @ [e]
      else outcome (f (outcome m w)) (final m w) \<in> codes \<and> trail (final (f (outcome m w)) (final m w)) = trail w"
    using assms(2) [of "outcome m w", unfolded audited_def, rule_format, of "final m w"]
    unfolding readsD [OF assms(1)] .
qed

lemma audited_if: "audited trail about codes m \<Longrightarrow> audited trail about codes n \<Longrightarrow>
    audited trail about codes (if b then m else n)"
  by simp

lemma audited_mono: "audited trail about codes m \<Longrightarrow> codes \<subseteq> codes' \<Longrightarrow> audited trail about codes' m"
  by (auto simp: audited_def)

lemmas audited_rules = audited_after audited_if audited_ret

lemma audited_write:
  assumes "audit_laws E trail" "about e" "-1 \<in> codes"
  shows "audited trail about codes (do { rc \<leftarrow> db2_audit_event_write E e; ret (if rc \<noteq> 0 then -1 else 1) })"
    "audited trail about codes (do { rc \<leftarrow> db2_audit_event_write E e; ret (if rc = 0 then 1 else -1) })"
  using assms by (auto simp: audited_def outcome_bind final_bind audit_write)

text \<open>A row about the promotion of \<open>art\<close> to a surface.\<close>

definition records_promotion :: "artifact_row \<Rightarrow> string \<Rightarrow> bool \<Rightarrow> audit_event \<Rightarrow> bool" where
  "records_promotion art surface flagged e \<longleftrightarrow> e_artifact e = a_id art \<and> e_surface e = surface \<and>
     e_actor e = ''kb.learning.promote'' \<and> e_scope_kind e = a_scope_kind art \<and> e_scope_id e = a_scope_id art \<and>
     e_confidence e = a_confidence art \<and> e_flagged e = flagged \<and> e_before e = surface_null"

lemma records_promotion_event [simp]: "records_promotion art surface flagged (promotion_event i art surface t flagged a)"
  by (simp add: records_promotion_def promotion_event_def)

lemma audit_row_audited:
  "audit_laws E trail \<Longrightarrow> -1 \<in> codes \<Longrightarrow> audited trail (records_promotion art surface flagged) codes (audit_row E art surface k i flagged)"
  unfolding audit_row_def Let_def by (intro audited_after audit_silent audited_write(1)) simp_all

lemma emit_audit_audited:
  assumes "audit_laws E trail" "-1 \<in> codes"
  shows "audited trail (records_promotion art surface flagged) codes
    (audited_as (promote_emit_audit E art surface t flagged))"
  unfolding audited_def audited_as_def promote_emit_audit_def Let_def outcome_bind final_bind
  using assms(2) by (auto simp: audit_write [OF assms(1)] readsD [OF audit_silent(1) [OF assms(1)]])

section \<open>The contract of a surface\<close>

locale surface_promoter =
  fixes promote :: "('w, 'j) evidence_host \<Rightarrow> artifact_row \<Rightarrow> bool \<Rightarrow> ('w, int) state"
    and surface :: string
    and codes :: "('w, 'j) evidence_host \<Rightarrow> int set"
  assumes audits: "audit_laws E trail \<Longrightarrow>
      audited trail (records_promotion art surface flagged) (codes E) (promote E art flagged)"
    and failure_codes: "codes E \<subseteq> {-1, -2}"
begin

lemma one_row:
  "audit_laws E trail \<Longrightarrow> outcome (promote E art flagged) w = 1 \<Longrightarrow>
   \<exists>e. records_promotion art surface flagged e \<and> trail (final (promote E art flagged) w) = trail w @ [e]"
  using audits [of E trail art flagged] by (auto simp: audited_def split: if_splits)

lemma no_row:
  "audit_laws E trail \<Longrightarrow> outcome (promote E art flagged) w \<noteq> 1 \<Longrightarrow> trail (final (promote E art flagged) w) = trail w"
  using audits [of E trail art flagged] by (auto simp: audited_def split: if_splits)

lemma code: "audit_laws E trail \<Longrightarrow> outcome (promote E art flagged) w = 1 \<or> outcome (promote E art flagged) w \<in> codes E"
  using audits [of E trail art flagged] by (auto simp: audited_def split: if_splits)

lemma never_held: "audit_laws E trail \<Longrightarrow> outcome (promote E art flagged) w \<in> {1, -1, -2}"
  using code [of E trail art flagged w] failure_codes [of E] by auto

lemmas contract = one_row no_row never_held code

end

definition failed :: "('w, 'j) evidence_host \<Rightarrow> int set" where
  "failed E = {-1}"

text \<open>The working profile may not be there at all.\<close>

definition failed_or_absent :: "('w, 'j) evidence_host \<Rightarrow> int set" where
  "failed_or_absent E = (if db1_working_profile_local_observe E = None then {-2} else {-1})"

interpretation anti_pattern: surface_promoter
  "\<lambda>E art flagged. promote_anti_pattern E art threshold flagged" "''anti_pattern''" failed for threshold
  by unfold_locales (auto simp: promote_anti_pattern_def failed_def case_prod_beta Let_def
      intro!: audited_rules audit_silent audit_row_audited)

interpretation memory: surface_promoter
  promote_memory "''memory''" failed
  by unfold_locales (auto simp: promote_memory_def failed_def case_prod_beta Let_def
      intro!: audited_rules audit_silent audit_row_audited split: option.split)

interpretation workflow_pattern: surface_promoter
  promote_workflow_pattern "''workflow_pattern''" failed
  by unfold_locales (auto simp: promote_workflow_pattern_def failed_def case_prod_beta Let_def
      intro!: audited_rules audit_silent audit_row_audited)

interpretation rule_surface: surface_promoter
  promote_rule "''rule''" failed
  by unfold_locales (auto simp: promote_rule_def failed_def case_prod_beta Let_def
      intro!: audited_rules audit_silent emit_audit_audited)

interpretation epistemic_directive: surface_promoter
  promote_epistemic_directive "''epistemic_directive''" failed
  by unfold_locales (auto simp: promote_epistemic_directive_def failed_def case_prod_beta Let_def
      intro!: audited_rules audit_silent emit_audit_audited)

interpretation entity: surface_promoter
  promote_entity "''entity''" failed
  by unfold_locales (auto simp: promote_entity_def failed_def case_prod_beta Let_def
      intro!: audited_rules audit_silent emit_audit_audited)

interpretation guardrail_exemplar: surface_promoter
  promote_guardrail_exemplar "''guardrail_exemplar''" failed
  by unfold_locales (auto simp: promote_guardrail_exemplar_def failed_def case_prod_beta Let_def
      intro!: audited_rules audit_silent emit_audit_audited)

interpretation working_profile: surface_promoter
  promote_working_profile "''working_profile''" failed_or_absent
  by unfold_locales (auto simp: promote_working_profile_def failed_or_absent_def case_prod_beta Let_def
      intro!: audited_rules audit_silent emit_audit_audited split: option.split)

end
