(* ===== verification/Evidence_Properties.thy ===== *)
theory Evidence_Properties
  imports Evidence_Audit Reference_Json
begin

text \<open>
  The properties of promotion, judgement and rollback, and a deployment they are applied in.
\<close>

section \<open>Promotion\<close>

definition wired_surfaces :: "string list" where
  "wired_surfaces = [''anti_pattern'', ''memory'', ''workflow_pattern'', ''rule'', ''epistemic_directive'',
     ''entity'', ''guardrail_exemplar'', ''working_profile'']"

text \<open>The candidate as it is read, and the surface it is for.\<close>

definition candidate :: "('w, 'j) evidence_host \<Rightarrow> string \<Rightarrow> 'w \<Rightarrow> artifact_row" where
  "candidate E c w = snd (outcome (db2_artifact_read E c) w)"

definition surface_of :: "('w, 'j) evidence_host \<Rightarrow> string \<Rightarrow> 'w \<Rightarrow> string option" where
  "surface_of E c w =
     (let ts = outcome (db2_artifact_target_surface E c 64) (final (db2_artifact_read E c) w)
      in if ts \<noteq> [] then Some ts else learning_candidate_target_surface (Some (a_kind (candidate E c w))))"

definition promotable :: "('w, 'j) evidence_host \<Rightarrow> string \<Rightarrow> 'w \<Rightarrow> bool" where
  "promotable E c w \<longleftrightarrow> c \<noteq> [] \<and> fst (outcome (db2_artifact_read E c) w) = 0 \<and>
     a_state (candidate E c w) = ''committed'' \<and> surface_of E c w \<noteq> None \<and> surface_of E c w \<noteq> Some []"

definition held :: "('w, 'j) evidence_host \<Rightarrow> string \<Rightarrow> dbl \<Rightarrow> 'w \<Rightarrow> bool" where
  "held E c threshold w \<longleftrightarrow>
     flt (a_confidence (candidate E c w)) (fsub (eplat E) threshold (LEARNING_PROMOTE_BORDERLINE (eplat E)))"

lemma promote_cases:
  "outcome (learning_promote E (Some c) threshold) w =
     (if \<not> promotable E c w then -1
      else if held E c threshold w then 0
      else outcome (promote_to E (the (surface_of E c w)) (candidate E c w) threshold
                     (flt (a_confidence (candidate E c w)) threshold))
             (final (db2_artifact_target_surface E c 64) (final (db2_artifact_read E c) w)))"
  by (simp add: learning_promote_def promotable_def held_def candidate_def surface_of_def outcome_bind Let_def)

lemma promote_final:
  assumes "reads view (db2_artifact_read E c)" "reads view (db2_artifact_target_surface E c 64)"
    and "\<not> promotable E c w \<or> held E c threshold w"
  shows "view (final (learning_promote E (Some c) threshold) w) = view w"
  using assms(3) readsD [OF assms(1)] readsD [OF assms(2)]
  by (auto simp: learning_promote_def promotable_def held_def candidate_def surface_of_def final_bind Let_def)

lemma promote_runs:
  "promotable E c w \<Longrightarrow> \<not> held E c threshold w \<Longrightarrow>
   final (learning_promote E (Some c) threshold) w =
     final (promote_to E (the (surface_of E c w)) (candidate E c w) threshold
              (flt (a_confidence (candidate E c w)) threshold))
       (final (db2_artifact_target_surface E c 64) (final (db2_artifact_read E c) w))"
  by (auto simp: learning_promote_def promotable_def held_def candidate_def surface_of_def final_bind Let_def
      split: if_splits)

lemmas surface_contracts = anti_pattern.audits memory.audits workflow_pattern.audits rule_surface.audits
  epistemic_directive.audits entity.audits guardrail_exemplar.audits working_profile.audits

lemma promote_to_audited:
  assumes "audit_laws E trail"
  shows "audited trail (\<lambda>e. surface \<in> set wired_surfaces \<and> records_promotion art surface flagged e)
     (if surface \<notin> set wired_surfaces \<or> surface = ''working_profile'' \<and> db1_working_profile_local_observe E = None
      then {-2} else {-1})
     (promote_to E surface art threshold flagged)"
proof (cases "surface \<in> set wired_surfaces")
  case True
  then show ?thesis
    using surface_contracts [OF assms, of art flagged]
    by (auto simp: wired_surfaces_def promote_to_def failed_def failed_or_absent_def)
next
  case False
  then show ?thesis
    by (simp add: wired_surfaces_def promote_to_def audited_ret)
qed

text \<open>
  C9. Every promotion is audited, and only promotions are: when \<open>learning_promote\<close> returns 1, the candidate
  was committed, its confidence was not below the window under the threshold, its surface is one of the
  eight, and the audit log has grown by exactly one row, which names the candidate, the surface, its
  scope and confidence, and is flagged exactly when the confidence is below the threshold. When it
  returns anything else the audit log has not changed.
\<close>

theorem promotions_are_audited:
  assumes "audit_laws E trail"
  shows "if outcome (learning_promote E (Some c) threshold) w = 1
    then a_state (candidate E c w) = ''committed'' \<and> \<not> held E c threshold w \<and>
      (\<exists>s e. surface_of E c w = Some s \<and> s \<in> set wired_surfaces \<and>
         records_promotion (candidate E c w) s (flt (a_confidence (candidate E c w)) threshold) e \<and>
         trail (final (learning_promote E (Some c) threshold) w) = trail w @ [e])
    else trail (final (learning_promote E (Some c) threshold) w) = trail w"
proof (cases "promotable E c w \<and> \<not> held E c threshold w")
  case True
  then obtain s where s: "surface_of E c w = Some s"
    by (auto simp: promotable_def)
  let ?w = "final (db2_artifact_target_surface E c 64) (final (db2_artifact_read E c) w)"
  have "trail ?w = trail w"
    by (simp add: readsD [OF audit_silent(2) [OF assms]] readsD [OF audit_silent(3) [OF assms]])
  then show ?thesis
    using True s promote_to_audited [OF assms, of s "candidate E c w" "flt (a_confidence (candidate E c w)) threshold" threshold,
        unfolded audited_def, rule_format, of ?w] promote_runs [of E c w threshold]
    by (auto simp: promote_cases promotable_def split: if_splits)
next
  case False
  then have "trail (final (learning_promote E (Some c) threshold) w) = trail w"
    by (intro promote_final audit_silent [OF assms]) blast
  with False show ?thesis
    by (auto simp: promote_cases)
qed

text \<open>
  C17. What \<open>learning_promote\<close> returns: 0 exactly when a promotable candidate is below the window; -2 exactly
  when the surface is not one of the eight or is the working profile in a process without DB1; -1 for
  whatever is not promotable (no such candidate, not committed, no surface). In the first and the
  last case nothing has changed, and there are no codes but these and 1.
\<close>

theorem promote_return_codes:
  assumes "audit_laws E trail" "reads view (db2_artifact_read E c)" "reads view (db2_artifact_target_surface E c 64)"
  shows "outcome (learning_promote E (Some c) threshold) w \<in> {1, 0, -1, -2} \<and>
    (outcome (learning_promote E (Some c) threshold) w = 0 \<longleftrightarrow> promotable E c w \<and> held E c threshold w) \<and>
    (outcome (learning_promote E (Some c) threshold) w = -2 \<longleftrightarrow> promotable E c w \<and> \<not> held E c threshold w \<and>
       (the (surface_of E c w) \<notin> set wired_surfaces \<or>
        the (surface_of E c w) = ''working_profile'' \<and> db1_working_profile_local_observe E = None)) \<and>
    (\<not> promotable E c w \<longrightarrow> outcome (learning_promote E (Some c) threshold) w = -1) \<and>
    (\<not> promotable E c w \<or> held E c threshold w \<longrightarrow>
       view (final (learning_promote E (Some c) threshold) w) = view w)"
proof -
  let ?s = "the (surface_of E c w)" and ?f = "flt (a_confidence (candidate E c w)) threshold"
  let ?o = "outcome (promote_to E ?s (candidate E c w) threshold ?f)
     (final (db2_artifact_target_surface E c 64) (final (db2_artifact_read E c) w))"
  let ?out = "?s \<notin> set wired_surfaces \<or> ?s = ''working_profile'' \<and> db1_working_profile_local_observe E = None"
  have to: "?o = 1 \<or> ?o \<in> (if ?out then {-2} else {-1})"
    using promote_to_audited [OF assms(1), of ?s "candidate E c w" ?f threshold]
    by (auto simp only: audited_def split: if_splits)
  have absent: "?o = -2" if ?out
    using that by (auto simp: promote_to_def wired_surfaces_def promote_working_profile_def)
  show ?thesis
    using to absent promote_final [OF assms(2,3), of w threshold]
    unfolding promote_cases by (auto split: if_splits)
qed

section \<open>Judging\<close>

text \<open>The states of the artifacts, as a view: a state that is set is the one that is there, and only that
  call and the rollback change any.\<close>

definition state_laws :: "('w, 'j) evidence_host \<Rightarrow> ('w \<Rightarrow> string \<Rightarrow> string option) \<Rightarrow> bool" where
  "state_laws E states \<longleftrightarrow>
     (\<forall>c s w. states (final (db2_artifact_set_state E c s) w) =
        (if outcome (db2_artifact_set_state E c s) w = 0 then (states w)(c \<mapsto> s) else states w)) \<and>
     (\<forall>c s t v x w. states (final (db2_artifact_review_rollback E c s t v x) w) =
        (if outcome (db2_artifact_review_rollback E c s t v x) w = 0 then (states w)(c \<mapsto> s) else states w)) \<and>
     (\<forall>n. reads states (db2_artifact_gen_id E n)) \<and> (\<forall>c. reads states (db2_artifact_citation_count E c)) \<and>
     (\<forall>e. reads states (db2_audit_event_write E e)) \<and> (\<forall>c n. reads states (db2_audit_read_latest_before E c n))"

lemma state_simps:
  assumes "state_laws E states"
  shows "states (final (db2_artifact_set_state E c s) w) =
      (if outcome (db2_artifact_set_state E c s) w = 0 then (states w)(c \<mapsto> s) else states w)"
    "states (final (db2_artifact_review_rollback E c s t v x) w) =
      (if outcome (db2_artifact_review_rollback E c s t v x) w = 0 then (states w)(c \<mapsto> s) else states w)"
    "states (final (db2_artifact_gen_id E n) w) = states w"
    "states (final (db2_artifact_citation_count E c) w) = states w"
    "states (final (db2_audit_event_write E e) w) = states w"
    "states (final (db2_audit_read_latest_before E c n) w) = states w"
  using assms by (simp_all add: state_laws_def reads_def)



section \<open>Rolling back\<close>

text \<open>The before-snapshot of the latest audit row of an artifact, as far as it fits the buffer.\<close>

definition latest_before :: "string \<Rightarrow> audit_event list \<Rightarrow> string" where
  "latest_before c es = (case find (\<lambda>e. e_artifact e = c) (rev es) of None \<Rightarrow> [] | Some e \<Rightarrow> e_before e)"

definition latest_law :: "('w, 'j) evidence_host \<Rightarrow> ('w \<Rightarrow> audit_event list) \<Rightarrow> bool" where
  "latest_law E trail \<longleftrightarrow>
     (\<forall>c n w. outcome (db2_audit_read_latest_before E c n) w = snprintf n (latest_before c (trail w)))"

lemma snapshot_proposed: "snapshot_state (Some (snprintf 128 proposed_snapshot)) 32 = (1, ''proposed'')"
  by code_simp

lemma snapshot_surface: "snapshot_state (Some (snprintf 128 surface_null)) 32 = (0, [])"
  by code_simp

lemma rollback_restores:
  assumes "latest_law E trail" "state_laws E states" "c \<noteq> []"
    and "latest_before c (trail w) = proposed_snapshot \<or> latest_before c (trail w) = surface_null"
    and "outcome (learning_review_rollback E (Some c) tag scope ex) w = 0"
  shows "states (final (learning_review_rollback E (Some c) tag scope ex) w) = (states w)(c \<mapsto> ''proposed'')"
proof -
  have "outcome (db2_audit_read_latest_before E c 128) w = snprintf 128 (latest_before c (trail w))"
    using assms(1) by (simp add: latest_law_def)
  then have "(case snapshot_state (Some (outcome (db2_audit_read_latest_before E c 128) w)) 32 of (found, state) \<Rightarrow>
      if found = 0 \<or> state = [] then snprintf 32 ''proposed'' else state) = ''proposed''"
    using assms(4) snapshot_proposed snapshot_surface by (auto simp: snprintf_def)
  then show ?thesis
    using assms(3,5)
    by (auto simp: learning_review_rollback_def outcome_bind final_bind Let_def case_prod_beta
        state_simps [OF assms(2)] split: if_splits)
qed

text \<open>
  C16. A review takes back what was done: rolling back a candidate right after it was judged or promoted,
  when the database does its part, leaves it proposed, and no other artifact has changed its state.
\<close>

theorem rollback_takes_back:
  assumes "audit_laws E trail" "state_laws E states" "latest_law E trail"
    and "outcome (learning_judge_commit E (Some c) kind k) w = 1 \<and> w' = final (learning_judge_commit E (Some c) kind k) w \<or>
      outcome (learning_promote E (Some c) threshold) w = 1 \<and> w' = final (learning_promote E (Some c) threshold) w \<and>
        a_id (candidate E c w) = c"
    and "outcome (learning_review_rollback E (Some c) tag scope ex) w' = 0"
  shows "states (final (learning_review_rollback E (Some c) tag scope ex) w') = (states w')(c \<mapsto> ''proposed'')"
proof -
  have c: "c \<noteq> []"
    using assms(5) by (auto simp: learning_review_rollback_def)
  have "\<exists>e. trail w' = trail w @ [e] \<and> e_artifact e = c \<and> (e_before e = proposed_snapshot \<or> e_before e = surface_null)"
    using assms(4)
  proof (elim disjE conjE)
    assume 1: "outcome (learning_judge_commit E (Some c) kind k) w = 1" "w' = final (learning_judge_commit E (Some c) kind k) w"
    then obtain s where "learning_candidate_target_surface kind = Some s"
      by (auto simp: learning_judge_commit_def split: option.splits if_splits)
    note t = readsD [OF audit_silent(1) [OF assms(1)]] readsD [OF audit_silent(4) [OF assms(1)]]
      readsD [OF audit_silent(5) [OF assms(1)]] audit_write [OF assms(1)]
    show ?thesis
      using 1 c \<open>learning_candidate_target_surface kind = Some s\<close>
      by (auto simp: learning_judge_commit_def outcome_bind final_bind Let_def t split: if_splits)
  next
    assume 2: "outcome (learning_promote E (Some c) threshold) w = 1"
      "w' = final (learning_promote E (Some c) threshold) w" "a_id (candidate E c w) = c"
    then have p: "promotable E c w" "\<not> held E c threshold w"
      by (auto simp: promote_cases split: if_splits)
    let ?w = "final (db2_artifact_target_surface E c 64) (final (db2_artifact_read E c) w)"
    have "trail ?w = trail w"
      by (simp add: readsD [OF audit_silent(2) [OF assms(1)]] readsD [OF audit_silent(3) [OF assms(1)]])
    then show ?thesis
      using 2 p promote_runs [OF p] promote_to_audited [OF assms(1), of "the (surface_of E c w)" "candidate E c w"
          "flt (a_confidence (candidate E c w)) threshold" threshold, unfolded audited_def, rule_format, of ?w]
      by (auto simp: promote_cases records_promotion_def)
  qed
  then have "latest_before c (trail w') = proposed_snapshot \<or> latest_before c (trail w') = surface_null"
    by (auto simp: latest_before_def)
  then show ?thesis
    by (rule rollback_restores [OF assms(3,2) c _ assms(5)])
qed

section \<open>A deployment\<close>

text \<open>One candidate, the audit log, the states of the artifacts and how often the candidate is cited; every
  call succeeds.\<close>

record evidence_world =
  w_row :: artifact_row
  w_trail :: "audit_event list"
  w_states :: "string \<Rightarrow> string option"
  w_citations :: int

definition set_artifact :: "string \<Rightarrow> string \<Rightarrow> (evidence_world, int) state" where
  "set_artifact c s = do { _ \<leftarrow> modify (\<lambda>w. w\<lparr>w_states := (w_states w)(c \<mapsto> s)\<rparr>); ret 0 }"

definition ref_evidence :: "(evidence_world, ref_node) evidence_host" where
  "ref_evidence = \<lparr>eplat = exact_platform, ejson = ref_json, artifact_write = (\<lambda>_ _ _ _ _ _ _ _. ret 0),
     db2_artifact_write_evidence = (\<lambda>_ _ _ _ _ _ _. ret (0, ''artifact'')),
     db2_evidence_enqueue = (\<lambda>_ _. ret ()), db2_synth_enqueue = (\<lambda>_. ret ()),
     db2_artifact_gen_id = (\<lambda>_. ret ''id''),
     db2_demotion_retrieval_event_write = (\<lambda>_ _ _ _ out _. ret (0, out)),
     db2_demotion_retrieval_attribution_write = (\<lambda>_ _ _ _. ret 0),
     db2_artifact_read = (\<lambda>c. gets (\<lambda>w. (if a_id (w_row w) = c then 0 else -1, w_row w))),
     db2_artifact_target_surface = (\<lambda>_ _. ret []),
     db2_artifact_citation_count = (\<lambda>_. gets w_citations),
     db2_artifact_set_state = set_artifact,
     db2_artifact_register_exemplar = (\<lambda>_ _. ret 0),
     db2_artifact_review_rollback = (\<lambda>c s _ _ _. set_artifact c s),
     db2_audit_event_write = (\<lambda>e. do { _ \<leftarrow> modify (\<lambda>w. w\<lparr>w_trail := w_trail w @ [e]\<rparr>); ret 0 }),
     db2_audit_read_latest_before = (\<lambda>c n. gets (\<lambda>w. snprintf n (latest_before c (w_trail w)))),
     db2_anti_pattern_insert = (\<lambda>_ _ _ _ _. ret (0, 1)),
     db2_workflow_pattern_insert = (\<lambda>_ _ _ _ _. ret (0, 1)),
     memory_insert_json = (\<lambda>_ _ _ _ _ _. ret (Some (Obj [(''status'', LStr ''ok''), (''id'', LNum 7)]))),
     TIER_L1 = ''L1'',
     db2_rules_insert = (\<lambda>_ _ _ _. ret 0),
     db2_directive_insert_ignore = (\<lambda>_ _ _ _ _ _ _ _ _ _ _. ret (0, 1, 0)),
     db2_entity_node_upsert = (\<lambda>_ _ _ _ _ _ _ _ _. ret 0),
     db2_entity_node_alias_upsert = (\<lambda>_ _ _ _ _. ret 0),
     db1_working_profile_local_observe = None\<rparr>"

lemma ref_audit_laws: "audit_laws ref_evidence w_trail"
  by (simp add: audit_laws_def audit_write_law_def audit_silent_laws_def ref_evidence_def reads_def set_artifact_def
      run_simps)

lemma ref_state_laws: "state_laws ref_evidence w_states"
  by (simp add: state_laws_def ref_evidence_def reads_def set_artifact_def run_simps)

lemma ref_latest_law: "latest_law ref_evidence w_trail"
  by (simp add: latest_law_def ref_evidence_def)

text \<open>A mistake a session has seen three times.\<close>

definition mistake :: artifact_row where
  "mistake = \<lparr>a_id = ''m1'', a_kind = ''mistake_pattern'', a_state = ''committed'', a_scope_kind = ''user'',
     a_scope_id = ''alice'', a_confidence = Fin 0.85, a_payload_json = []\<rparr>"

definition mistake_world :: evidence_world where
  "mistake_world = \<lparr>w_row = mistake, w_trail = [], w_states = [''m1'' \<mapsto> ''committed''], w_citations = 3\<rparr>"

lemma mistake_read: "candidate ref_evidence ''m1'' mistake_world = mistake"
  "surface_of ref_evidence ''m1'' mistake_world = Some ''anti_pattern''"
  by (simp_all add: candidate_def surface_of_def ref_evidence_def mistake_world_def mistake_def
      learning_candidate_target_surface_def)

lemma mistake_promotable: "promotable ref_evidence ''m1'' mistake_world"
  by (simp add: promotable_def mistake_read)
     (simp add: ref_evidence_def mistake_world_def mistake_def)

lemma mistake_held: "held ref_evidence ''m1'' (Fin t) mistake_world \<longleftrightarrow> 0.95 < t"
  by (simp add: held_def mistake_read LEARNING_PROMOTE_BORDERLINE_def fsub_def)
     (auto simp: mistake_def ref_evidence_def)

lemma mistake_promoted: "outcome (learning_promote ref_evidence (Some ''m1'') (Fin 0.9)) mistake_world = 1"
  by (simp add: promote_cases mistake_promotable mistake_held mistake_read promote_to_def)
     (simp add: promote_anti_pattern_def audit_row_def ref_evidence_def outcome_bind Let_def case_prod_beta)


section \<open>The properties, applied\<close>

lemma promotions_are_audited_witness:
  "\<exists>e. records_promotion mistake ''anti_pattern'' True e \<and>
     w_trail (final (learning_promote ref_evidence (Some ''m1'') (Fin 0.9)) mistake_world) = [e]"
  using promotions_are_audited [OF ref_audit_laws, of "''m1''" "Fin 0.9" mistake_world]
  by (simp add: mistake_promoted mistake_read) (simp add: mistake_def mistake_world_def)

lemma promote_return_codes_witness:
  "outcome (learning_promote ref_evidence (Some ''m1'') (Fin 0.99)) mistake_world = 0 \<and>
   final (learning_promote ref_evidence (Some ''m1'') (Fin 0.99)) mistake_world = mistake_world \<and>
   outcome (learning_promote ref_evidence (Some ''m2'') (Fin 0.99)) mistake_world = -1"
proof -
  have "reads id (db2_artifact_read ref_evidence c)" "reads id (db2_artifact_target_surface ref_evidence c n)" for c n
    by (simp_all add: reads_def ref_evidence_def)
  moreover have "\<not> promotable ref_evidence ''m2'' mistake_world"
    by (simp add: promotable_def ref_evidence_def mistake_world_def mistake_def)
  ultimately show ?thesis
    using promote_return_codes [OF ref_audit_laws, of id "''m1''" "Fin 0.99" mistake_world]
      promote_return_codes [OF ref_audit_laws, of id "''m2''" "Fin 0.99" mistake_world]
    by (simp add: mistake_promotable mistake_held)
qed


lemma rollback_takes_back_witness:
  "w_states (final (learning_review_rollback ref_evidence (Some ''m1'') (Some ''wrong'') None None)
      (final (learning_promote ref_evidence (Some ''m1'') (Fin 0.9)) mistake_world)) ''m1'' = Some ''proposed''"
proof -
  let ?w = "final (learning_promote ref_evidence (Some ''m1'') (Fin 0.9)) mistake_world"
  have "outcome (learning_review_rollback ref_evidence (Some ''m1'') (Some ''wrong'') None None) ?w = 0"
    by (simp add: learning_review_rollback_def outcome_bind Let_def case_prod_beta) (simp add: ref_evidence_def set_artifact_def outcome_bind)
  moreover have "a_id (candidate ref_evidence ''m1'' mistake_world) = ''m1''"
    by (simp add: mistake_read) (simp add: mistake_def)
  ultimately show ?thesis
    using rollback_takes_back [OF ref_audit_laws ref_state_laws ref_latest_law, of "''m1''" None 0 mistake_world ?w "Fin 0.9"]
      mistake_promoted by simp
qed

end
