(* ===== verification/Spec2Isabelle.thy ===== *)
theory Spec2Isabelle
  imports Router_Progress Router_Metrics Proposal_Json Implicit Bundle_Ranking Evidence_Properties
begin

text \<open>
  A verification library for the learning module of aimee (the C code under
  \<open>src/src/modules/learning\<close>, and the Go handler of the same wire contract in
  \<open>src/server-go/modules/learning/learning.go\<close>).

  The program. A signal (a thumb up, a correction, a repeated workflow) is classified into the sinks it
  is for; the classifier runs in its own process behind a small wire protocol. The router turns a signal
  into proposals, one for each sink it is for, and keeps them in a table: a proposal is pending until it
  is corroborated, accepted, rejected or expired, it is committed at most as often as the weekly maximum
  of its sink allows, and committing it calls the sink. The implicit detectors feed the router from
  observed behaviour, the meters count what it does. Beside the router stands the evidence pipeline:
  events and feedback are captured as artifacts, a bundle of the artifacts nearest to a query is what a
  candidate is judged over, and a candidate that is cited often enough is committed, promoted into one
  of eight surfaces, each time with a row in the audit log, and may be rolled back by a review.

  The theories, in the order they build on each other.

  \<^item> \<open>Prelude\<close>: state passing (\<open>state\<close> of \<open>State_Monad\<close>), the value and the state a computation ends
    with (\<open>outcome\<close>, \<open>final\<close>), and the locale \<open>effects\<close>: a reflexive and transitive relation on states
    is respected by a computation if it is by its parts.
  \<^item> \<open>C_Runtime\<close>: strings as C has them, \<open>snprintf\<close>, decimal and hexadecimal digits, and doubles whose
    rounding is a parameter (\<open>platform\<close>).
  \<^item> \<open>Wire_Protocol\<close>, \<open>Observation\<close>: \<open>module_api.h\<close>, \<open>learning_signal_policy.c\<close>, \<open>module_adapter.c\<close> and
    the Go \<open>Handle\<close>. Bytes and masks are words of 8 and 32 bits. The locale \<open>signal_classifier\<close> is what
    the router relies on; the policy called directly, the C process and the Go process are its
    interpretations.
  \<^item> \<open>Learning_Types\<close>: the structs of \<open>learning.h\<close>, and the records of parameters for everything that is not
    under \<open>src/\<close>: cJSON, DB2, the configuration, the other services.
  \<^item> \<open>Router_Telemetry\<close>: the static variables of \<open>learning_router.c\<close> and the latency meters (locale
    \<open>latency_meter\<close>, interpreted for the ingest and the detection meter).
  \<^item> \<open>Json_Contract\<close>, \<open>Reference_Json\<close>: what the code relies on of cJSON, and a small library that keeps it.
  \<^item> \<open>Router_Actions\<close>: the four action builders and \<open>learning_apply_sink\<close>; the locale \<open>action_builder\<close> is
    the contract of a builder, interpreted for the four of them.
  \<^item> \<open>Proposal_Store\<close>: the abstract specification of the table of proposals (\<open>life_step\<close>: insert,
    corroborate, commit, archive), and what the code relies on of DB2 (\<open>proposal_tables\<close>): every call
    is one of those steps or reads.
  \<^item> \<open>Calendar\<close>, \<open>Router_Proposals\<close>: the proposal gate, and that every operation is a sequence of steps of
    the specification.
  \<^item> \<open>Router_Signal\<close>, \<open>Router_Plan\<close>: \<open>learning_router_record_signal\<close>, and the plan of a signal, a pure
    function that says which proposals it asks for and that the four sink blocks refine.
  \<^item> \<open>Proposal_Json\<close>, \<open>Router_Metrics\<close>: the JSON forms and the reports.
  \<^item> \<open>Reference_World\<close>: tables and services that keep the contracts, in which the properties are applied
    to concrete inputs.
  \<^item> \<open>Router_Runs\<close>, \<open>Router_Properties\<close>: sequences of calls of the router and the properties that hold of
    all of them. \<open>Router_Progress\<close>: that what can be committed is.
  \<^item> \<open>Implicit\<close>: \<open>learning_implicit.c\<close>; the locale \<open>timed_detector\<close> is what the four detectors share.

  \<^item> \<open>Strtof\<close>, \<open>Bundle\<close>, \<open>Bundle_Parse\<close>, \<open>Bundle_Ranking\<close>: \<open>learning_bundle.c\<close>. \<open>strtof\<close> is written out (decimal and
    hexadecimal numbers, infinities, NaNs), \<open>qsort\<close> is a parameter with the law of the C standard. The
    lemmas: the parser reads what a vector says, the score is the cosine, exactly the rows of the dimension
    of the query are compared (\<open>comparable_rows\<close>), and the bundle is the top of their
    ranking (for scores that are no NaN).
  \<^item> \<open>Evidence_Text\<close>, \<open>Json_Reader\<close>: the hash, the escaping and the payloads of \<open>learning_evidence.c\<close>, and a reader
    of JSON objects they are held against.
  \<^item> \<open>Evidence_Capture\<close>: the interface of \<open>learning_evidence.c\<close> and the functions that write evidence.
  \<^item> \<open>Evidence_Promote\<close>, \<open>Evidence_Audit\<close>: the eight promoters, \<open>learning_promote\<close>, \<open>learning_judge_commit\<close>,
    \<open>learning_review_rollback\<close>; the locale \<open>surface_promoter\<close> (one audit row exactly when 1 is returned),
    interpreted for the eight.
  \<^item> \<open>Evidence_Properties\<close>: the properties of promotion, judgement and rollback, with a deployment.

  How the model reads. A C function that changes the world is a computation \<open>('w, 'a) state\<close> over a world
  of any type, which only the parameters look into; a NULL pointer is \<open>None\<close>, an out-parameter is part of
  the result, an \<open>int\<close> status stays an \<open>int\<close>. A string is the list of characters before its NUL, and a
  fixed buffer is written by \<open>snprintf\<close> with its capacity. Integers that only carry values of the tables
  are mathematical integers with the conversions of the source written out; the wire is in words.

  Bounds. Nothing of the model is bounded by fuel: the loops are structural recursions, but for the
  search for the year, whose measure is the number of days left, and the vector parser, whose measure
  is the text that is left (\<open>strtof\<close> consumes some of it whenever it succeeds).

  Not modelled. Logging; the build without DB2 (\<open>AIMEE_DB2_DISABLED\<close>), whose functions return their error
  at once; data races (the code says its meters are not thread-safe); the Go event bus; DB2, memory,
  DB1, dogfood, integrity, the embedder, \<open>qsort\<close> and cJSON, which are parameters.
\<close>

end
